(* ===== verification/Prelude.thy ===== *)
theory Prelude
  imports Main "HOL-Library.Word" "HOL-Library.AList"
begin

text \<open>
  The vocabulary the components share. Go's conventions are made explicit here once:

  \<^item> an \<open>error\<close> result is a value of type \<open>error option\<close> (\<open>None\<close> is Go's \<open>nil\<close>) and a
    function that returns a value and an error has a result of type \<open>error + 'a\<close>;
  \<^item> a run-time panic (a failed type assertion, a nil dereference) is \<open>Panic\<close> of
    \<open>outcome\<close>, so that it is a branch of the model and never an unspecified value;
  \<^item> a Go map with string keys is an association list read with \<open>map_of\<close> and written with
    \<open>AList.update\<close> and \<open>AList.delete\<close>;
  \<^item> the API machinery reports failures as status errors, of which the program
    distinguishes the three reasons \<open>NotFound\<close>, \<open>AlreadyExists\<close> and \<open>Conflict\<close>.
\<close>

named_theorems panic_free \<open>operations that return on the inputs their callers give them\<close>
named_theorems accessor_laws \<open>read-after-write laws of the object accessors\<close>
named_theorems queue_laws \<open>what the queue operations do to pending and processing keys\<close>

section \<open>Errors\<close>

datatype reason = NotFound | AlreadyExists | Conflict | OtherReason string

datatype error = StatusError reason | Errorf string

definition IsNotFound :: "error \<Rightarrow> bool" where
  "IsNotFound e \<longleftrightarrow> e = StatusError NotFound"

definition IsAlreadyExists :: "error \<Rightarrow> bool" where
  "IsAlreadyExists e \<longleftrightarrow> e = StatusError AlreadyExists"

definition IsConflict :: "error \<Rightarrow> bool" where
  "IsConflict e \<longleftrightarrow> e = StatusError Conflict"

lemmas error_kinds = IsNotFound_def IsAlreadyExists_def IsConflict_def

section \<open>Panics\<close>

datatype 'a outcome = Panic string | Return 'a

fun bind_outcome :: "'a outcome \<Rightarrow> ('a \<Rightarrow> 'b outcome) \<Rightarrow> 'b outcome" where
  "bind_outcome (Panic m) f = Panic m"
| "bind_outcome (Return x) f = f x"

fun returns :: "'a outcome \<Rightarrow> bool" where
  "returns (Panic m) = False"
| "returns (Return x) = True"

lemma bind_outcome_Return_iff:
  "bind_outcome m f = Return y \<longleftrightarrow> (\<exists>x. m = Return x \<and> f x = Return y)"
  by (cases m) auto

lemma bind_outcome_Panic_iff:
  "bind_outcome m f = Panic e \<longleftrightarrow> m = Panic e \<or> (\<exists>x. m = Return x \<and> f x = Panic e)"
  by (cases m) auto

lemma returns_iff: "returns m \<longleftrightarrow> (\<exists>x. m = Return x)"
  by (cases m) auto

section \<open>Association lists as Go maps\<close>

lemma map_of_update [simp]: "map_of (AList.update k v m) = (map_of m)(k \<mapsto> v)"
  by (simp add: update_conv')

lemma map_of_delete [simp]: "map_of (AList.delete k m) = (map_of m)(k := None)"
  by (simp add: delete_conv')

lemma keys_update: "fst ` set (AList.update k v m) = insert k (fst ` set m)"
  by (simp add: dom_update)

lemma map_of_eq_keys: "map_of m = map_of n \<Longrightarrow> fst ` set m = fst ` set n"
  by (metis dom_map_of_conv_image_fst)

section \<open>Lists\<close>

lemma sum_list_map_update:
  fixes f :: "'a \<Rightarrow> 'b::ab_group_add"
  assumes "i < length xs"
  shows "sum_list (map f (xs[i := y])) = sum_list (map f xs) + (f y - f (xs ! i))"
  using assms
proof (induction xs arbitrary: i)
  case Nil
  then show ?case by simp
next
  case (Cons x xs)
  then show ?case by (cases i) (simp_all add: algebra_simps)
qed

lemma filter_partition_length:
  assumes "\<And>x. x \<in> set xs \<Longrightarrow> P x \<noteq> Q x"
  shows "length (filter P xs) + length (filter Q xs) = length xs"
  using assms by (induction xs) auto

end
