(* ===== verification/Unstructured.thy ===== *)
theory Unstructured
  imports Prelude "HOL-Library.List_Lexorder" "HOL-Library.Char_ord"
begin

text \<open>
  The data every component passes around: JSON trees, the \<open>Unstructured\<close> object that
  wraps one, group-version-resources, and the values of Go type \<open>interface{}\<close> that
  informers hand to their handlers.

  The accessors of \<open>Unstructured\<close> (\<open>GetName\<close>, \<open>SetLabels\<close>, \<open>MarshalJSON\<close>, \<dots>) and
  \<open>equality.Semantic.DeepEqual\<close> belong to \<open>k8s.io/apimachinery\<close>, which is not part of
  the repository. They are the fields of the record \<open>meta_ops\<close>, an argument of every
  definition that calls them; what the program relies on is stated as the laws of the
  locales \<open>unstructured_accessors\<close> and \<open>semantic_equality\<close>. The last section gives one
  implementation of the whole interface on JSON trees, interprets the locales on it and
  serves the witnesses.
\<close>

section \<open>JSON trees and objects\<close>

text \<open>
  \<open>JInt\<close> holds the numbers with an integral value, \<open>JFloat\<close> the literal of any other
  number. \<open>JNull\<close> is also the nil \<open>interface{}\<close> that Go returns for an absent map key.
\<close>

datatype json =
    JNull
  | JBool bool
  | JInt int
  | JFloat string
  | JStr string
  | JArr "json list"
  | JObj "(string \<times> json) list"

type_synonym content = "(string \<times> json) list"
type_synonym strmap = "(string \<times> string) list"

definition key_value :: "content \<Rightarrow> string \<Rightarrow> json" where
  "key_value m k = (case map_of m k of None \<Rightarrow> JNull | Some v \<Rightarrow> v)"

record unstructured =
  Object :: content

record GroupVersionResource =
  Group :: string
  Version :: string
  Resource :: string

type_synonym gvr = GroupVersionResource

text \<open>A value of type \<open>interface{}\<close> as the informer machinery delivers it.\<close>

datatype iface =
    Unstr unstructured
  | Tombstone string iface \<comment> \<open>\<open>cache.DeletedFinalStateUnknown{Key, Obj}\<close>\<close>
  | NilIface
  | OtherIface string \<comment> \<open>any other dynamic type, by its name\<close>

section \<open>The accessors of the API machinery\<close>

datatype strfield = FAPIVersion | FKind | FName | FNamespace | FUID | FResourceVersion

datatype ptrfield =
  FManagedFields | FDeletionTimestamp | FDeletionGracePeriodSeconds | FOwnerReferences | FFinalizers

record meta_ops =
  GetStr :: "strfield \<Rightarrow> unstructured \<Rightarrow> string"
  SetStr :: "strfield \<Rightarrow> string \<Rightarrow> unstructured \<Rightarrow> unstructured"
  Has :: "ptrfield \<Rightarrow> unstructured \<Rightarrow> bool"
  SetNil :: "ptrfield \<Rightarrow> unstructured \<Rightarrow> unstructured"
  GetLabels :: "unstructured \<Rightarrow> strmap option"
  SetLabels :: "strmap \<Rightarrow> unstructured \<Rightarrow> unstructured"
  GetAnnotations :: "unstructured \<Rightarrow> strmap option"
  DeepEqual :: "json \<Rightarrow> json \<Rightarrow> bool"
  DeepEqualMap :: "strmap option \<Rightarrow> strmap option \<Rightarrow> bool"
  MarshalJSON :: "unstructured \<Rightarrow> error + json"
  ParseResourceArg :: "string \<Rightarrow> gvr option"

abbreviation GetName :: "meta_ops \<Rightarrow> unstructured \<Rightarrow> string" where
  "GetName U \<equiv> GetStr U FName"

abbreviation GetNamespace :: "meta_ops \<Rightarrow> unstructured \<Rightarrow> string" where
  "GetNamespace U \<equiv> GetStr U FNamespace"

abbreviation GetResourceVersion :: "meta_ops \<Rightarrow> unstructured \<Rightarrow> string" where
  "GetResourceVersion U \<equiv> GetStr U FResourceVersion"

text \<open>\<open>v, ok := labels[k]\<close>: reading a nil map finds nothing.\<close>

definition label_of :: "meta_ops \<Rightarrow> unstructured \<Rightarrow> string \<Rightarrow> string option" where
  "label_of U ob k = (case GetLabels U ob of None \<Rightarrow> None | Some m \<Rightarrow> map_of m k)"

text \<open>
  The setters can only write below \<open>metadata\<close> when it is absent or a map, which holds of
  every object an API server returns.
\<close>

definition meta_wf :: "unstructured \<Rightarrow> bool" where
  "meta_wf ob \<longleftrightarrow>
     (case map_of (Object ob) ''metadata'' of
        None \<Rightarrow> True
      | Some v \<Rightarrow> (case v of JObj _ \<Rightarrow> True | _ \<Rightarrow> False))"

definition top_field :: "strfield \<Rightarrow> bool" where
  "top_field f \<longleftrightarrow> f = FAPIVersion \<or> f = FKind"

text \<open>\<open>ob.Object[k] = v\<close>, past the accessors.\<close>

definition set_top :: "string \<Rightarrow> json \<Rightarrow> unstructured \<Rightarrow> unstructured" where
  "set_top k v ob = ob\<lparr>Object := AList.update k v (Object ob)\<rparr>"

locale unstructured_accessors =
  fixes U :: meta_ops
  assumes GetStr_SetStr:
      "meta_wf ob \<Longrightarrow> GetStr U g (SetStr U f v ob) = (if g = f then v else GetStr U g ob)"
    and GetStr_SetNil: "GetStr U g (SetNil U p ob) = GetStr U g ob"
    and GetStr_SetLabels: "GetStr U g (SetLabels U l ob) = GetStr U g ob"
    and Has_SetNil: "meta_wf ob \<Longrightarrow> Has U q (SetNil U p ob) \<longleftrightarrow> q \<noteq> p \<and> Has U q ob"
    and Has_SetStr: "Has U q (SetStr U f v ob) = Has U q ob"
    and label_SetStr: "label_of U (SetStr U f v ob) = label_of U ob"
    and label_SetNil: "label_of U (SetNil U p ob) = label_of U ob"
    and label_SetLabels: "meta_wf ob \<Longrightarrow> label_of U (SetLabels U l ob) = map_of l"
    and wf_SetStr: "meta_wf ob \<Longrightarrow> meta_wf (SetStr U f v ob)"
    and wf_SetNil: "meta_wf ob \<Longrightarrow> meta_wf (SetNil U p ob)"
    and wf_SetLabels: "meta_wf ob \<Longrightarrow> meta_wf (SetLabels U l ob)"
    and content_SetStr: "k \<noteq> ''metadata'' \<Longrightarrow> \<not> top_field f \<Longrightarrow>
      key_value (Object (SetStr U f v ob)) k = key_value (Object ob) k"
    and content_SetNil: "k \<noteq> ''metadata'' \<Longrightarrow>
      key_value (Object (SetNil U p ob)) k = key_value (Object ob) k"
    and content_SetLabels: "k \<noteq> ''metadata'' \<Longrightarrow>
      key_value (Object (SetLabels U l ob)) k = key_value (Object ob) k"
    and GetStr_frame: "k \<noteq> ''metadata'' \<Longrightarrow> k \<noteq> ''apiVersion'' \<Longrightarrow> k \<noteq> ''kind'' \<Longrightarrow>
      GetStr U g (set_top k val ob) = GetStr U g ob"
    and MarshalJSON_content: "MarshalJSON U ob = Inr d \<Longrightarrow> d = JObj (Object ob)"
begin

lemmas accessors =
  GetStr_SetStr GetStr_SetNil GetStr_SetLabels Has_SetNil Has_SetStr label_SetStr label_SetNil
  label_SetLabels wf_SetStr wf_SetNil wf_SetLabels content_SetStr content_SetNil content_SetLabels

end

text \<open>
  What the change filters of the syncer rely on: \<open>DeepEqual\<close> is an equivalence, and label
  maps it identifies have the same entries.
\<close>

locale semantic_equality =
  fixes U :: meta_ops
  assumes DeepEqual_refl: "DeepEqual U a a"
    and DeepEqual_sym: "DeepEqual U a b \<Longrightarrow> DeepEqual U b a"
    and DeepEqual_trans: "DeepEqual U a b \<Longrightarrow> DeepEqual U b c \<Longrightarrow> DeepEqual U a c"
    and DeepEqualMap_refl: "DeepEqualMap U l l"
    and DeepEqualMap_sym: "DeepEqualMap U l m \<Longrightarrow> DeepEqualMap U m l"
    and DeepEqualMap_trans: "DeepEqualMap U l m \<Longrightarrow> DeepEqualMap U m n \<Longrightarrow> DeepEqualMap U l n"
    and DeepEqualMap_entries: "DeepEqualMap U l m \<Longrightarrow>
      (case l of None \<Rightarrow> Map.empty | Some x \<Rightarrow> map_of x) =
      (case m of None \<Rightarrow> Map.empty | Some x \<Rightarrow> map_of x)"
begin

lemma label_of_DeepEqualMap:
  "DeepEqualMap U (GetLabels U a) (GetLabels U b) \<Longrightarrow> label_of U a k = label_of U b k"
  using DeepEqualMap_entries [of "GetLabels U a" "GetLabels U b"]
  by (auto simp: label_of_def fun_eq_iff split: option.splits)

end

section \<open>An implementation of the accessors on JSON trees\<close>

definition meta_of :: "unstructured \<Rightarrow> content" where
  "meta_of ob = (case map_of (Object ob) ''metadata'' of Some (JObj m) \<Rightarrow> m | _ \<Rightarrow> [])"

fun json_str :: "json option \<Rightarrow> string" where
  "json_str (Some (JStr s)) = s"
| "json_str _ = []"

fun strfield_key :: "strfield \<Rightarrow> string" where
  "strfield_key FAPIVersion = ''apiVersion''"
| "strfield_key FKind = ''kind''"
| "strfield_key FName = ''name''"
| "strfield_key FNamespace = ''namespace''"
| "strfield_key FUID = ''uid''"
| "strfield_key FResourceVersion = ''resourceVersion''"

fun ptrfield_key :: "ptrfield \<Rightarrow> string" where
  "ptrfield_key FManagedFields = ''managedFields''"
| "ptrfield_key FDeletionTimestamp = ''deletionTimestamp''"
| "ptrfield_key FDeletionGracePeriodSeconds = ''deletionGracePeriodSeconds''"
| "ptrfield_key FOwnerReferences = ''ownerReferences''"
| "ptrfield_key FFinalizers = ''finalizers''"

definition set_meta :: "string \<Rightarrow> json \<Rightarrow> unstructured \<Rightarrow> unstructured" where
  "set_meta k v ob =
     (if meta_wf ob then set_top ''metadata'' (JObj (AList.update k v (meta_of ob))) ob else ob)"

definition del_meta :: "string \<Rightarrow> unstructured \<Rightarrow> unstructured" where
  "del_meta k ob =
     (case map_of (Object ob) ''metadata'' of
        Some (JObj m) \<Rightarrow> set_top ''metadata'' (JObj (AList.delete k m)) ob
      | _ \<Rightarrow> ob)"

fun str_entries :: "content \<Rightarrow> strmap option" where
  "str_entries [] = Some []"
| "str_entries ((k, JStr v) # m) = map_option ((#) (k, v)) (str_entries m)"
| "str_entries _ = None"

definition json_strmap :: "string \<Rightarrow> unstructured \<Rightarrow> strmap option" where
  "json_strmap k ob = (case map_of (meta_of ob) k of Some (JObj m) \<Rightarrow> str_entries m | _ \<Rightarrow> None)"

text \<open>Two objects are equal when they have the same entries, in whatever order.\<close>

definition norm_entries :: "content \<Rightarrow> content" where
  "norm_entries m = map (\<lambda>k. (k, key_value m k)) (sort (remdups (map fst m)))"

fun canon :: "json \<Rightarrow> json" where
  "canon (JArr xs) = JArr (map canon xs)"
| "canon (JObj m) = JObj (norm_entries (map (\<lambda>(k, v). (k, canon v)) m))"
| "canon v = v"

definition strmap_eq :: "strmap \<Rightarrow> strmap \<Rightarrow> bool" where
  "strmap_eq l m \<longleftrightarrow> list_all (\<lambda>k. map_of l k = map_of m k) (map fst l @ map fst m)"

fun entries_of :: "strmap option \<Rightarrow> strmap" where
  "entries_of None = []"
| "entries_of (Some m) = m"

fun cut_dot :: "string \<Rightarrow> (string \<times> string) option" where
  "cut_dot [] = None"
| "cut_dot (c # s) =
     (if c = CHR ''.'' then Some ([], s) else map_option (\<lambda>(a, b). (c # a, b)) (cut_dot s))"

definition json_ops :: meta_ops where
  "json_ops = \<lparr>
     GetStr = (\<lambda>f ob. json_str (map_of (if top_field f then Object ob else meta_of ob) (strfield_key f))),
     SetStr = (\<lambda>f v ob.
        if top_field f then set_top (strfield_key f) (JStr v) ob
        else if v = [] then del_meta (strfield_key f) ob
        else set_meta (strfield_key f) (JStr v) ob),
     Has = (\<lambda>p ob. map_of (meta_of ob) (ptrfield_key p) \<noteq> None),
     SetNil = (\<lambda>p. del_meta (ptrfield_key p)),
     GetLabels = json_strmap ''labels'',
     SetLabels = (\<lambda>l. set_meta ''labels'' (JObj (map (\<lambda>(k, v). (k, JStr v)) l))),
     GetAnnotations = json_strmap ''annotations'',
     DeepEqual = (\<lambda>a b. canon a = canon b),
     DeepEqualMap = (\<lambda>l m. strmap_eq (entries_of l) (entries_of m)),
     MarshalJSON = (\<lambda>ob. Inr (JObj (Object ob))),
     ParseResourceArg = (\<lambda>s.
        case cut_dot s of None \<Rightarrow> None
        | Some (r, s') \<Rightarrow>
           (case cut_dot s' of None \<Rightarrow> None
            | Some (v, g) \<Rightarrow> Some \<lparr>Group = g, Version = v, Resource = r\<rparr>))\<rparr>"

subsection \<open>Read-after-write laws on JSON trees\<close>

lemma meta_wf_cases:
  assumes "meta_wf ob"
  obtains "map_of (Object ob) ''metadata'' = None"
    | m where "map_of (Object ob) ''metadata'' = Some (JObj m)"
  using assms by (auto simp: meta_wf_def split: option.splits json.splits)

lemma key_value_set_top: "key_value (Object (set_top k v ob)) k' =
    (if k' = k then v else key_value (Object ob) k')"
  by (simp add: key_value_def set_top_def)

lemma map_of_set_top [simp]: "map_of (Object (set_top k v ob)) = (map_of (Object ob))(k \<mapsto> v)"
  by (simp add: set_top_def)

lemma meta_of_set_top [simp]:
  "k \<noteq> ''metadata'' \<Longrightarrow> meta_of (set_top k v ob) = meta_of ob"
  "meta_of (set_top ''metadata'' (JObj m) ob) = m"
  by (simp_all add: meta_of_def)

lemma meta_wf_set_top [simp]:
  "k \<noteq> ''metadata'' \<Longrightarrow> meta_wf (set_top k v ob) = meta_wf ob"
  "meta_wf (set_top ''metadata'' (JObj m) ob)"
  by (simp_all add: meta_wf_def)

lemma map_of_meta_of_set_meta:
  "map_of (meta_of (set_meta k v ob)) =
     (if meta_wf ob then (map_of (meta_of ob))(k \<mapsto> v) else map_of (meta_of ob))"
  by (simp add: set_meta_def)

lemma map_of_meta_of_del_meta: "map_of (meta_of (del_meta k ob)) = (map_of (meta_of ob))(k := None)"
  by (auto simp: del_meta_def meta_of_def fun_eq_iff split: option.splits json.splits)

lemma content_meta_writes [simp]:
  "k' \<noteq> ''metadata'' \<Longrightarrow> map_of (Object (set_meta k v ob)) k' = map_of (Object ob) k'"
  "k' \<noteq> ''metadata'' \<Longrightarrow> map_of (Object (del_meta k ob)) k' = map_of (Object ob) k'"
  by (auto simp: set_meta_def del_meta_def split: option.splits json.splits)

lemma meta_wf_meta_writes [simp]:
  "meta_wf (set_meta k v ob) = meta_wf ob" "meta_wf (del_meta k ob) = meta_wf ob"
  by (auto simp: set_meta_def del_meta_def meta_wf_def split: option.splits json.splits)

lemma json_strmap_cong:
  "map_of (meta_of a) k = map_of (meta_of b) k \<Longrightarrow> json_strmap k a = json_strmap k b"
  by (simp add: json_strmap_def)

lemma str_entries_JStr: "str_entries (map (\<lambda>(k, v). (k, JStr v)) l) = Some l"
  by (induction l) auto

lemma strfield_key_inj: "strfield_key f = strfield_key g \<longleftrightarrow> f = g"
  by (cases f; cases g) simp_all

lemma ptrfield_key_inj: "ptrfield_key p = ptrfield_key q \<longleftrightarrow> p = q"
  by (cases p; cases q) simp_all

lemma field_keys_disjoint [simp]:
  "strfield_key f \<noteq> ptrfield_key p" "ptrfield_key p \<noteq> strfield_key f"
  "strfield_key f \<noteq> ''labels''" "ptrfield_key p \<noteq> ''labels''"
  "''labels'' \<noteq> strfield_key f" "''labels'' \<noteq> ptrfield_key p"
  "strfield_key f \<noteq> ''metadata''"
  by (cases f; cases p; simp)+

lemma strmap_eq_iff: "strmap_eq l m \<longleftrightarrow> map_of l = map_of m"
proof
  assume eq: "strmap_eq l m"
  show "map_of l = map_of m"
  proof
    fix k
    show "map_of l k = map_of m k"
    proof (cases "k \<in> fst ` set l \<union> fst ` set m")
      case True
      with eq show ?thesis by (auto simp: strmap_eq_def list_all_iff)
    next
      case False
      then have "map_of l k = None" and "map_of m k = None"
        by (auto simp: map_of_eq_None_iff)
      then show ?thesis by simp
    qed
  qed
qed (simp add: strmap_eq_def list_all_iff)

lemma entries_of_case: "(case l of None \<Rightarrow> Map.empty | Some x \<Rightarrow> map_of x) = map_of (entries_of l)"
  by (cases l) simp_all

lemmas meta_maps = map_of_meta_of_set_meta map_of_meta_of_del_meta

interpretation json_acc: unstructured_accessors json_ops
proof
  fix ob g f v
  assume wf: "meta_wf ob"
  show "GetStr json_ops g (SetStr json_ops f v ob) = (if g = f then v else GetStr json_ops g ob)"
    using wf by (auto simp: json_ops_def meta_maps strfield_key_inj top_field_def)
next
  fix ob q p
  assume "meta_wf ob"
  then show "Has json_ops q (SetNil json_ops p ob) \<longleftrightarrow> q \<noteq> p \<and> Has json_ops q ob"
    by (simp add: json_ops_def meta_maps ptrfield_key_inj)
next
  fix ob l
  assume "meta_wf ob"
  then show "label_of json_ops (SetLabels json_ops l ob) = map_of l"
    by (simp add: json_ops_def label_of_def json_strmap_def meta_maps str_entries_JStr fun_eq_iff)
next
  fix ob f v
  show "label_of json_ops (SetStr json_ops f v ob) = label_of json_ops ob"
    by (auto simp: json_ops_def label_of_def json_strmap_def meta_maps fun_eq_iff)
next
  fix ob p
  show "label_of json_ops (SetNil json_ops p ob) = label_of json_ops ob"
    by (auto simp: json_ops_def label_of_def json_strmap_def meta_maps fun_eq_iff)
next
  fix ob :: unstructured and k val g
  assume "k \<noteq> ''metadata''" and "k \<noteq> ''apiVersion''" and "k \<noteq> ''kind''"
  then show "GetStr json_ops g (set_top k val ob) = GetStr json_ops g ob"
    by (cases g) (simp_all add: json_ops_def top_field_def)
qed (auto simp: json_ops_def meta_maps key_value_def top_field_def set_top_def [symmetric])

interpretation json_eq: semantic_equality json_ops
  by unfold_locales (auto simp: json_ops_def strmap_eq_iff entries_of_case)

end
