(* ===== verification/ApiClient.thy ===== *)
theory ApiClient
  imports Unstructured
begin

text \<open>
  The dynamic client of \<open>k8s.io/client-go/dynamic\<close>: the only way the controllers reach an
  API server. The client and the server behind it are not part of the repository, so a
  client is a record of functions over a world \<open>'w\<close> (the servers, the network and whatever
  other writers do), an argument of every definition that talks to a server. A call may
  fail and may change the world in any case. The namespace argument is \<open>None\<close> where the
  code calls \<open>Resource(gvr)\<close> without \<open>Namespace(ns)\<close>.

  \<open>mem_client\<close> is an in-memory server that records the requests it gets and can be told to
  fail the next requests. The witnesses run on it.
\<close>

record patch =
  PatchType :: string
  Data :: json
  FieldManager :: string
  Force :: bool
  Subresources :: "string list"

definition ApplyPatchType :: string where
  "ApplyPatchType = ''application/apply-patch+yaml''"

record 'w dynamic_client =
  cGet :: "gvr \<Rightarrow> string option \<Rightarrow> string \<Rightarrow> 'w \<Rightarrow> (error + unstructured) \<times> 'w"
  cCreate :: "gvr \<Rightarrow> string option \<Rightarrow> unstructured \<Rightarrow> 'w \<Rightarrow> (error + unstructured) \<times> 'w"
  cUpdate :: "gvr \<Rightarrow> string option \<Rightarrow> unstructured \<Rightarrow> 'w \<Rightarrow> (error + unstructured) \<times> 'w"
  cUpdateStatus :: "gvr \<Rightarrow> string option \<Rightarrow> unstructured \<Rightarrow> 'w \<Rightarrow> (error + unstructured) \<times> 'w"
  cPatch :: "gvr \<Rightarrow> string option \<Rightarrow> string \<Rightarrow> patch \<Rightarrow> 'w \<Rightarrow> (error + unstructured) \<times> 'w"
  cDelete :: "gvr \<Rightarrow> string option \<Rightarrow> string \<Rightarrow> 'w \<Rightarrow> error option \<times> 'w"

text \<open>\<open>if _, err := call(...); err != nil\<close>: only the error of a call is looked at.\<close>

fun err_of :: "error + 'a \<Rightarrow> error option" where
  "err_of (Inl e) = Some e"
| "err_of (Inr v) = None"

lemma err_of_None_iff: "err_of r = None \<longleftrightarrow> (\<exists>v. r = Inr v)"
  by (cases r) auto

section \<open>An in-memory server\<close>

datatype request =
    ReqGet gvr "string option" string
  | ReqCreate gvr "string option" unstructured
  | ReqUpdate gvr "string option" unstructured
  | ReqUpdateStatus gvr "string option" unstructured
  | ReqPatch gvr "string option" string patch
  | ReqDelete gvr "string option" string

type_synonym objkey = "gvr \<times> string option \<times> string"

record mem_world =
  objects :: "(objkey \<times> unstructured) list"
  requests :: "request list" \<comment> \<open>newest first\<close>
  faults :: "error option list" \<comment> \<open>the verdicts on the next requests; none left: no fault\<close>

definition mem_empty :: mem_world where
  "mem_empty = \<lparr>objects = [], requests = [], faults = []\<rparr>"

definition mem_call :: "request \<Rightarrow> (mem_world \<Rightarrow> (error + 'a) \<times> mem_world) \<Rightarrow>
    mem_world \<Rightarrow> (error + 'a) \<times> mem_world" where
  "mem_call r act w =
     (let w1 = w\<lparr>requests := r # requests w, faults := tl (faults w)\<rparr>
      in case faults w of Some e # _ \<Rightarrow> (Inl e, w1) | _ \<Rightarrow> act w1)"

definition mem_store :: "objkey \<Rightarrow> unstructured \<Rightarrow> mem_world \<Rightarrow> (error + unstructured) \<times> mem_world" where
  "mem_store k ob w = (Inr ob, w\<lparr>objects := AList.update k ob (objects w)\<rparr>)"

definition mem_lookup :: "objkey \<Rightarrow> mem_world \<Rightarrow> (error + unstructured)" where
  "mem_lookup k w =
     (case map_of (objects w) k of None \<Rightarrow> Inl (StatusError NotFound) | Some ob \<Rightarrow> Inr ob)"

definition mem_create :: "gvr \<Rightarrow> string option \<Rightarrow> unstructured \<Rightarrow> mem_world \<Rightarrow>
    (error + unstructured) \<times> mem_world" where
  "mem_create g ns ob = mem_call (ReqCreate g ns ob) (\<lambda>w.
     (case map_of (objects w) (g, ns, GetName json_ops ob) of
        None \<Rightarrow> mem_store (g, ns, GetName json_ops ob) ob w
      | Some _ \<Rightarrow> (Inl (StatusError AlreadyExists), w)))"

definition mem_update :: "gvr \<Rightarrow> string option \<Rightarrow> unstructured \<Rightarrow> mem_world \<Rightarrow>
    (error + unstructured) \<times> mem_world" where
  "mem_update g ns ob = mem_call (ReqUpdate g ns ob) (\<lambda>w.
     (case mem_lookup (g, ns, GetName json_ops ob) w of
        Inl e \<Rightarrow> (Inl e, w)
      | Inr _ \<Rightarrow> mem_store (g, ns, GetName json_ops ob) ob w))"

definition mem_update_status :: "gvr \<Rightarrow> string option \<Rightarrow> unstructured \<Rightarrow> mem_world \<Rightarrow>
    (error + unstructured) \<times> mem_world" where
  "mem_update_status g ns ob = mem_call (ReqUpdateStatus g ns ob) (\<lambda>w.
     (case mem_lookup (g, ns, GetName json_ops ob) w of
        Inl e \<Rightarrow> (Inl e, w)
      | Inr old \<Rightarrow> mem_store (g, ns, GetName json_ops ob)
          (set_top ''status'' (key_value (Object ob) ''status'') old) w))"

definition mem_patch :: "gvr \<Rightarrow> string option \<Rightarrow> string \<Rightarrow> patch \<Rightarrow> mem_world \<Rightarrow>
    (error + unstructured) \<times> mem_world" where
  "mem_patch g ns n p = mem_call (ReqPatch g ns n p) (\<lambda>w.
     (case Data p of
        JObj m \<Rightarrow> mem_store (g, ns, n) \<lparr>Object = m\<rparr> w
      | _ \<Rightarrow> (Inl (StatusError (OtherReason ''BadRequest'')), w)))"

definition mem_delete :: "gvr \<Rightarrow> string option \<Rightarrow> string \<Rightarrow> mem_world \<Rightarrow> error option \<times> mem_world" where
  "mem_delete g ns n w =
     (case mem_call (ReqDelete g ns n) (\<lambda>w.
        (case map_of (objects w) (g, ns, n) of
           None \<Rightarrow> (Inl (StatusError NotFound), w)
         | Some _ \<Rightarrow> (Inr (), w\<lparr>objects := AList.delete (g, ns, n) (objects w)\<rparr>))) w
      of (r, w') \<Rightarrow> (err_of r, w'))"

definition mem_client :: "mem_world dynamic_client" where
  "mem_client = \<lparr>
     cGet = (\<lambda>g ns n. mem_call (ReqGet g ns n) (\<lambda>w. (mem_lookup (g, ns, n) w, w))),
     cCreate = mem_create, cUpdate = mem_update, cUpdateStatus = mem_update_status,
     cPatch = mem_patch, cDelete = mem_delete\<rparr>"

lemmas mem_defs = mem_empty_def mem_call_def mem_store_def mem_lookup_def mem_create_def
  mem_update_def mem_update_status_def mem_patch_def mem_delete_def mem_client_def

section \<open>A sample object\<close>

definition sample_object :: "string \<Rightarrow> string \<Rightarrow> strmap \<Rightarrow> json \<Rightarrow> unstructured" where
  "sample_object ns n labels st = \<lparr>Object =
     [(''kind'', JStr ''Policy''),
      (''metadata'', JObj [(''name'', JStr n), (''namespace'', JStr ns), (''uid'', JStr ''u-1''),
         (''resourceVersion'', JStr ''7''), (''finalizers'', JArr []),
         (''labels'', JObj (map (\<lambda>(k, v). (k, JStr v)) labels))]),
      (''spec'', JObj [(''disabled'', JBool False)]),
      (''status'', st)]\<rparr>"

end
