(* ===== verification/SyncerTypes.thy ===== *)
theory SyncerTypes
  imports ApiClient
begin

text \<open>
  The types of \<^verbatim>\<open>src/syncer/syncer.go\<close>: the two directions, the work item \<open>holder\<close>, the
  \<open>Controller\<close> and what it reads from its informers. The functions \<open>upsertFn\<close> and
  \<open>deleteFn\<close> of a controller are its two outlets to the target cluster; they read the
  informers' indexers, change the world and may panic. The informer factory of a controller is
  what it was made from: the client it lists and watches with, how often it delivers everything
  again, the namespace and the label selector of its requests, and the resources handlers are
  registered for.
\<close>

datatype SyncDirection = SyncDown | SyncUp

fun direction_string :: "SyncDirection \<Rightarrow> string" where
  "direction_string SyncDown = ''down''"
| "direction_string SyncUp = ''up''"

definition syncerApplyManager :: string where
  "syncerApplyManager = ''syncer''"

definition GlobalHubPolicyNamespaceLabel :: string where
  "GlobalHubPolicyNamespaceLabel = ''global-hub.open-cluster-management.io/original-namespace''"

record holder =
  gvr :: gvr
  namespace :: string
  name :: string

text \<open>
  The indexers of the informer factory (\<open>c.fromInformers.ForResource(gvr).Informer().GetIndexer()\<close>).
\<close>

record indexers =
  GetByKey :: "gvr \<Rightarrow> string \<Rightarrow> error + iface option"
  ListItems :: "gvr \<Rightarrow> iface list"

type_synonym 'w UpsertFunc =
  "gvr \<Rightarrow> string \<Rightarrow> unstructured \<Rightarrow> indexers \<Rightarrow> 'w \<Rightarrow> (error option \<times> 'w) outcome"
type_synonym 'w DeleteFunc = "gvr \<Rightarrow> string \<Rightarrow> string \<Rightarrow> 'w \<Rightarrow> error option \<times> 'w"

record 'w informer_factory =
  fi_client :: "'w dynamic_client"
  fi_resync :: int \<comment> \<open>seconds\<close>
  fi_namespace :: string \<comment> \<open>empty: all namespaces\<close>
  fi_selector :: string
  fi_watched :: "gvr list"

record 'w Controller =
  cname :: string
  syncerName :: string
  fromInformers :: "'w informer_factory option" \<comment> \<open>nil until \<open>New\<close> sets it last\<close>
  fromHost :: string \<comment> \<open>\<open>c.fromConfig.Host\<close>\<close>
  upsertFn :: "'w UpsertFunc option"
  deleteFn :: "'w DeleteFunc option"
  direction :: SyncDirection
  gvrs :: "string list"

end
