(* ===== verification/SpecSyncer.thy ===== *)
theory SpecSyncer
  imports SyncerTypes
begin

text \<open>
  The spec syncer's half of \<^verbatim>\<open>src/syncer/specsyncer.go\<close>: the change filter
  \<open>deepEqualApartFromStatus\<close>, the creation of the namespace on the leaf hub, the manifest
  that is applied there, and the deletion.
\<close>

section \<open>Definitions\<close>

definition spec_keys_equal :: "meta_ops \<Rightarrow> content \<Rightarrow> content \<Rightarrow> bool" where
  "spec_keys_equal U m n \<longleftrightarrow>
     list_all (\<lambda>key. key = ''metadata'' \<or> key = ''status'' \<or>
         DeepEqual U (key_value m key) (key_value n key))
       (remdups (map fst m @ map fst n))"

definition deepEqualApartFromStatus :: "meta_ops \<Rightarrow> iface \<Rightarrow> iface \<Rightarrow> bool" where
  "deepEqualApartFromStatus U oldObj newObj =
     (case (oldObj, newObj) of
        (Unstr oldUnstrob, Unstr newUnstrob) \<Rightarrow>
          (if \<not> DeepEqualMap U (GetAnnotations U oldUnstrob) (GetAnnotations U newUnstrob) then False
           else if \<not> DeepEqualMap U (GetLabels U oldUnstrob) (GetLabels U newUnstrob) then False
           else spec_keys_equal U (Object oldUnstrob) (Object newUnstrob))
      | _ \<Rightarrow> False)"

definition deleteFromDownstream :: "'w dynamic_client \<Rightarrow> 'w DeleteFunc" where
  "deleteFromDownstream toClient g ns nm w = cDelete toClient g (Some ns) nm w"

definition namespacesGVR :: gvr where
  "namespacesGVR = \<lparr>Group = [], Version = ''v1'', Resource = ''namespaces''\<rparr>"

definition newNamespace :: "meta_ops \<Rightarrow> string \<Rightarrow> unstructured" where
  "newNamespace U ns =
     SetStr U FName ns (SetStr U FKind ''Namespace'' (SetStr U FAPIVersion ''v1'' \<lparr>Object = []\<rparr>))"

definition ensureDownstreamNamespaceExists ::
  "meta_ops \<Rightarrow> 'w dynamic_client \<Rightarrow> string \<Rightarrow> 'w \<Rightarrow> error option \<times> 'w" where
  "ensureDownstreamNamespaceExists U toClient downstreamNamespace w =
     (case cCreate toClient namespacesGVR None (newNamespace U downstreamNamespace) w of
        (Inl err, w') \<Rightarrow> if \<not> IsAlreadyExists err then (Some err, w') else (None, w')
      | (Inr _, w') \<Rightarrow> (None, w'))"

text \<open>The object the leaf hub is given, lines 99 to 111 of the source in their order.\<close>

definition downstreamManifest :: "meta_ops \<Rightarrow> string \<Rightarrow> unstructured \<Rightarrow> unstructured" where
  "downstreamManifest U downstreamNamespace upstreamObj =
     (let o1 = SetStr U FUID [] upstreamObj;
          o2 = SetStr U FResourceVersion [] o1;
          o3 = SetStr U FNamespace downstreamNamespace o2;
          o4 = SetNil U FManagedFields o3;
          o5 = SetNil U FDeletionTimestamp o4;
          o6 = SetNil U FDeletionGracePeriodSeconds o5;
          o7 = SetNil U FOwnerReferences o6
      in SetNil U FFinalizers o7)"

definition apply_patch :: "json \<Rightarrow> string list \<Rightarrow> patch" where
  "apply_patch d subs = \<lparr>PatchType = ApplyPatchType, Data = d, FieldManager = syncerApplyManager,
     Force = True, Subresources = subs\<rparr>"

definition applyToDownstream ::
  "meta_ops \<Rightarrow> 'w dynamic_client \<Rightarrow> gvr \<Rightarrow> string \<Rightarrow> unstructured \<Rightarrow> 'w \<Rightarrow> error option \<times> 'w" where
  "applyToDownstream U toClient g downstreamNamespace upstreamObj w =
     (case ensureDownstreamNamespaceExists U toClient downstreamNamespace w of
        (Some err, w1) \<Rightarrow> (Some err, w1)
      | (None, w1) \<Rightarrow>
          (let downstreamObj = downstreamManifest U downstreamNamespace upstreamObj
           in case MarshalJSON U downstreamObj of
                Inl err \<Rightarrow> (Some err, w1)
              | Inr data \<Rightarrow>
                  (case cPatch toClient g (Some downstreamNamespace) (GetName U downstreamObj)
                          (apply_patch data []) w1 of
                     (Inl err, w2) \<Rightarrow> (Some err, w2)
                   | (Inr _, w2) \<Rightarrow> (None, w2))))"

section \<open>The change filter\<close>

text \<open>
  What the filter compares, without the loop: annotations, labels, and every top-level key
  but \<open>metadata\<close> and \<open>status\<close>. A key absent on both sides is nil on both sides.
\<close>

context semantic_equality
begin

lemma spec_keys_equal_iff:
  "spec_keys_equal U m n \<longleftrightarrow>
     (\<forall>key. key \<noteq> ''metadata'' \<longrightarrow> key \<noteq> ''status'' \<longrightarrow>
        DeepEqual U (key_value m key) (key_value n key))"
proof
  assume eq: "spec_keys_equal U m n"
  show "\<forall>key. key \<noteq> ''metadata'' \<longrightarrow> key \<noteq> ''status'' \<longrightarrow>
      DeepEqual U (key_value m key) (key_value n key)"
  proof (intro allI impI)
    fix key :: string
    assume nm: "key \<noteq> ''metadata''" and ns: "key \<noteq> ''status''"
    show "DeepEqual U (key_value m key) (key_value n key)"
    proof (cases "key \<in> fst ` set m \<union> fst ` set n")
      case True
      with eq nm ns show ?thesis by (auto simp: spec_keys_equal_def list_all_iff)
    next
      case False
      then have "map_of m key = None" and "map_of n key = None"
        by (auto simp: map_of_eq_None_iff)
      then show ?thesis by (simp add: key_value_def DeepEqual_refl)
    qed
  qed
qed (auto simp: spec_keys_equal_def list_all_iff)

lemma deepEqualApartFromStatus_iff:
  "deepEqualApartFromStatus U (Unstr a) (Unstr b) \<longleftrightarrow>
     DeepEqualMap U (GetAnnotations U a) (GetAnnotations U b) \<and>
     DeepEqualMap U (GetLabels U a) (GetLabels U b) \<and>
     (\<forall>key. key \<noteq> ''metadata'' \<longrightarrow> key \<noteq> ''status'' \<longrightarrow>
        DeepEqual U (key_value (Object a) key) (key_value (Object b) key))"
  by (simp add: deepEqualApartFromStatus_def spec_keys_equal_iff)

lemma same_spec_refl: "deepEqualApartFromStatus U (Unstr a) (Unstr a)"
  by (simp add: deepEqualApartFromStatus_iff DeepEqual_refl DeepEqualMap_refl)

lemma same_spec_sym:
  "deepEqualApartFromStatus U (Unstr a) (Unstr b) \<Longrightarrow> deepEqualApartFromStatus U (Unstr b) (Unstr a)"
  by (simp add: deepEqualApartFromStatus_iff DeepEqual_sym DeepEqualMap_sym)

lemma same_spec_trans:
  "deepEqualApartFromStatus U (Unstr a) (Unstr b) \<Longrightarrow> deepEqualApartFromStatus U (Unstr b) (Unstr c) \<Longrightarrow>
   deepEqualApartFromStatus U (Unstr a) (Unstr c)"
  by (simp add: deepEqualApartFromStatus_iff) (meson DeepEqual_trans DeepEqualMap_trans)

lemma same_spec_label:
  "deepEqualApartFromStatus U (Unstr a) (Unstr b) \<Longrightarrow> label_of U a k = label_of U b k"
  by (simp add: deepEqualApartFromStatus_iff label_of_DeepEqualMap)

end

section \<open>The manifest\<close>

context unstructured_accessors
begin

lemma manifest_wf: "meta_wf ob \<Longrightarrow> meta_wf (downstreamManifest U ns ob)"
  by (simp add: downstreamManifest_def Let_def wf_SetStr wf_SetNil)

lemma manifest_fields:
  assumes "meta_wf ob"
  shows "GetStr U f (downstreamManifest U ns ob) =
    (if f = FNamespace then ns else if f = FUID \<or> f = FResourceVersion then [] else GetStr U f ob)"
  using assms
  by (simp add: downstreamManifest_def Let_def GetStr_SetStr GetStr_SetNil wf_SetStr wf_SetNil)

lemma manifest_stripped:
  assumes "meta_wf ob"
  shows "\<not> Has U p (downstreamManifest U ns ob)"
  using assms
  by (cases p) (simp_all add: downstreamManifest_def Let_def Has_SetNil Has_SetStr wf_SetStr wf_SetNil)

lemma manifest_labels: "label_of U (downstreamManifest U ns ob) = label_of U ob"
  by (simp add: downstreamManifest_def Let_def label_SetStr label_SetNil)

lemma manifest_content:
  assumes "k \<noteq> ''metadata''"
  shows "key_value (Object (downstreamManifest U ns ob)) k = key_value (Object ob) k"
  using assms
  by (simp add: downstreamManifest_def Let_def content_SetStr content_SetNil top_field_def)

end

lemmas spec_manifest_laws =
  unstructured_accessors.manifest_fields unstructured_accessors.manifest_stripped
  unstructured_accessors.manifest_labels unstructured_accessors.manifest_content

section \<open>Properties\<close>

text \<open>
  C8. A successful \<open>applyToDownstream\<close> has created the namespace or found it there, and then
  patched, under the object's own name, an object with the content of the upstream one outside
  \<open>metadata\<close>, its labels, the target namespace, no UID, no resource version and none of the
  five server-managed fields.
\<close>

theorem applyToDownstream_applies:
  assumes U: "unstructured_accessors U" and wf: "meta_wf ob"
    and run: "applyToDownstream U C g ns ob w = (None, w2)"
  shows "\<exists>r1 w1 M r2.
    cCreate C namespacesGVR None (newNamespace U ns) w = (r1, w1) \<and>
    (\<forall>e. r1 = Inl e \<longrightarrow> IsAlreadyExists e) \<and>
    cPatch C g (Some ns) (GetName U ob) (apply_patch (JObj (Object M)) []) w1 = (Inr r2, w2) \<and>
    (\<forall>k. k \<noteq> ''metadata'' \<longrightarrow> key_value (Object M) k = key_value (Object ob) k) \<and>
    label_of U M = label_of U ob \<and>
    GetName U M = GetName U ob \<and> GetNamespace U M = ns \<and>
    GetStr U FUID M = [] \<and> GetResourceVersion U M = [] \<and> (\<forall>p. \<not> Has U p M)"
proof -
  let ?M = "downstreamManifest U ns ob"
  obtain r1 w1 where create: "cCreate C namespacesGVR None (newNamespace U ns) w = (r1, w1)" by fastforce
  from run create have ok: "\<forall>e. r1 = Inl e \<longrightarrow> IsAlreadyExists e"
    by (auto simp: applyToDownstream_def ensureDownstreamNamespaceExists_def split: sum.splits if_splits)
  from run create obtain d r2 where d: "MarshalJSON U ?M = Inr d"
      and p: "cPatch C g (Some ns) (GetName U ?M) (apply_patch d []) w1 = (Inr r2, w2)"
    by (auto simp: applyToDownstream_def ensureDownstreamNamespaceExists_def Let_def
        split: sum.splits prod.splits if_splits)
  from unstructured_accessors.MarshalJSON_content [OF U d] have "d = JObj (Object ?M)" .
  with create ok p spec_manifest_laws [OF U] wf show ?thesis
    by (intro exI [of _ r1] exI [of _ w1] exI [of _ ?M] exI [of _ r2]) simp
qed

theorem applyToDownstream_applies_witness:
  "\<exists>r1 w1 M r2.
    cCreate mem_client namespacesGVR None (newNamespace json_ops ''hub1'') mem_empty = (r1, w1) \<and>
    cPatch mem_client namespacesGVR (Some ''hub1'') ''p'' (apply_patch (JObj (Object M)) []) w1 =
      (Inr r2, snd (applyToDownstream json_ops mem_client namespacesGVR ''hub1''
        (sample_object ''default'' ''p'' [(''a'', ''b'')] JNull) mem_empty)) \<and>
    GetNamespace json_ops M = ''hub1'' \<and> \<not> Has json_ops FFinalizers M"
proof -
  let ?ob = "sample_object ''default'' ''p'' [(''a'', ''b'')] JNull"
  let ?r = "applyToDownstream json_ops mem_client namespacesGVR ''hub1'' ?ob mem_empty"
  have "fst ?r = None" and "meta_wf ?ob" and "GetName json_ops ?ob = ''p''" by code_simp+
  from applyToDownstream_applies [OF json_acc.unstructured_accessors_axioms this(2),
      of mem_client namespacesGVR "''hub1''" mem_empty "snd ?r"] this
  show ?thesis by (metis prod.collapse)
qed

text \<open>
  \<open>applyToDownstream\<close> fails in three ways only: creating the namespace failed with another
  error than \<open>AlreadyExists\<close> and nothing was patched, the manifest cannot be marshalled, or the
  patch failed; the error is the one of that call.
\<close>

theorem applyToDownstream_error:
  assumes "applyToDownstream U C g ns ob w = (Some e, w')"
  shows "(cCreate C namespacesGVR None (newNamespace U ns) w = (Inl e, w') \<and> \<not> IsAlreadyExists e) \<or>
    (\<exists>r1. cCreate C namespacesGVR None (newNamespace U ns) w = (r1, w') \<and>
       MarshalJSON U (downstreamManifest U ns ob) = Inl e) \<or>
    (\<exists>r1 w1 d. cCreate C namespacesGVR None (newNamespace U ns) w = (r1, w1) \<and>
       MarshalJSON U (downstreamManifest U ns ob) = Inr d \<and>
       cPatch C g (Some ns) (GetName U (downstreamManifest U ns ob)) (apply_patch d []) w1 = (Inl e, w'))"
  using assms
  by (auto simp: applyToDownstream_def ensureDownstreamNamespaceExists_def Let_def
      split: sum.splits prod.splits if_splits)

theorem applyToDownstream_error_witness:
  "let w = mem_empty\<lparr>faults := [Some (StatusError AlreadyExists), Some (StatusError Conflict)]\<rparr>;
       ob = sample_object ''default'' ''p'' [] JNull;
       w1 = snd (cCreate mem_client namespacesGVR None (newNamespace json_ops ''hub1'') w)
   in fst (cPatch mem_client namespacesGVR (Some ''hub1'') ''p''
         (apply_patch (JObj (Object (downstreamManifest json_ops ''hub1'' ob))) []) w1) =
      Inl (StatusError Conflict)"
proof -
  let ?w = "mem_empty\<lparr>faults := [Some (StatusError AlreadyExists), Some (StatusError Conflict)]\<rparr>"
  let ?ob = "sample_object ''default'' ''p'' [] JNull"
  let ?r = "applyToDownstream json_ops mem_client namespacesGVR ''hub1'' ?ob ?w"
  have "?r = (Some (StatusError Conflict), snd ?r)" by code_simp
  note err = applyToDownstream_error [OF this]
  have "fst (cCreate mem_client namespacesGVR None (newNamespace json_ops ''hub1'') ?w) =
      Inl (StatusError AlreadyExists)"
    and "MarshalJSON json_ops (downstreamManifest json_ops ''hub1'' ?ob) =
      Inr (JObj (Object (downstreamManifest json_ops ''hub1'' ?ob)))"
    and "GetName json_ops (downstreamManifest json_ops ''hub1'' ?ob) = ''p''"
    by code_simp+
  with err show ?thesis by (auto simp: Let_def)
qed

text \<open>
  C18. The change filter is an equivalence on objects. It ignores \<open>metadata\<close> apart from labels
  and annotations and ignores \<open>status\<close>; two objects it identifies have the same labels and
  equal values under every other top-level key.
\<close>

theorem same_spec_equivalence:
  assumes U: "semantic_equality U"
  shows "deepEqualApartFromStatus U (Unstr a) (Unstr a) \<and>
    (deepEqualApartFromStatus U (Unstr a) (Unstr b) \<longrightarrow> deepEqualApartFromStatus U (Unstr b) (Unstr a)) \<and>
    (deepEqualApartFromStatus U (Unstr a) (Unstr b) \<longrightarrow> deepEqualApartFromStatus U (Unstr b) (Unstr c) \<longrightarrow>
      deepEqualApartFromStatus U (Unstr a) (Unstr c)) \<and>
    (deepEqualApartFromStatus U (Unstr a) (Unstr b) \<longleftrightarrow>
      DeepEqualMap U (GetAnnotations U a) (GetAnnotations U b) \<and>
      DeepEqualMap U (GetLabels U a) (GetLabels U b) \<and>
      (\<forall>key. key \<noteq> ''metadata'' \<longrightarrow> key \<noteq> ''status'' \<longrightarrow>
         DeepEqual U (key_value (Object a) key) (key_value (Object b) key)))"
  using semantic_equality.same_spec_refl [OF U] semantic_equality.same_spec_sym [OF U]
    semantic_equality.same_spec_trans [OF U] semantic_equality.deepEqualApartFromStatus_iff [OF U]
  by meson

theorem same_spec_equivalence_witness:
  "deepEqualApartFromStatus json_ops (Unstr (sample_object ''ns'' ''p'' [] JNull))
     (Unstr (sample_object ''ns2'' ''q'' [] (JObj []))) \<and>
   DeepEqual json_ops (JObj [(''disabled'', JBool False)]) (JObj [(''disabled'', JBool False)])"
proof -
  let ?a = "sample_object ''ns'' ''p'' [] JNull" and ?b = "sample_object ''ns2'' ''q'' [] (JObj [])"
  have eq: "deepEqualApartFromStatus json_ops (Unstr ?a) (Unstr ?b)" by code_simp
  from same_spec_equivalence [OF json_eq.semantic_equality_axioms, of ?a ?b] eq
  have "DeepEqual json_ops (key_value (Object ?a) ''spec'') (key_value (Object ?b) ''spec'')" by simp
  with eq show ?thesis by (simp add: sample_object_def key_value_def)
qed

end
