(* ===== verification/HubControlPlane.thy ===== *)
theory HubControlPlane
  imports Prelude
begin

text \<open>
  The API types of \<^verbatim>\<open>src/apis/hubcontrolplane/v1alpha1/hubcontrolplane_types.go\<close>. A
  hub control plane reports the endpoint of a leaf hub, its addons and its managed
  clusters by availability. Of the embedded \<open>TypeMeta\<close> and \<open>ObjectMeta\<close> the program
  writes the API version, the kind and the name.
\<close>

record HubControlPlaneSpec =
  Endpoint :: string

record ManagedClustersStatus =
  Available :: "string list"
  Unavailable :: "string list"
  Unknown :: "string list"

record HubControlPlaneStatus =
  Addons :: "string list"
  ManagedClusters :: ManagedClustersStatus

record HubControlPlane =
  APIVersion :: string
  Kind :: string
  MetaName :: string
  Spec :: HubControlPlaneSpec
  Status :: HubControlPlaneStatus

definition no_clusters :: ManagedClustersStatus where
  "no_clusters = \<lparr>Available = [], Unavailable = [], Unknown = []\<rparr>"

definition reported :: "ManagedClustersStatus \<Rightarrow> string list" where
  "reported s = Available s @ Unavailable s @ Unknown s"

end
