(* ===== verification/StatusSyncer.thy ===== *)
theory StatusSyncer
  imports SpecSyncer HubControlPlane
begin

text \<open>
  The status syncer of \<^verbatim>\<open>src/syncer/statussyncer.go\<close>: the change filter
  \<open>deepEqualStatus\<close>, the status update on the global hub, the server-side apply it falls
  back to, and the \<open>HubControlPlane\<close> object it derives from the informers' caches.

  \<open>runtime.DefaultUnstructuredConverter.ToUnstructured\<close> (apimachinery) is the argument \<open>T\<close>
  and \<open>os.LookupEnv\<close> reads the argument \<open>env\<close>. Type assertions without the \<open>ok\<close> form
  panic on another dynamic type.
\<close>

section \<open>Definitions\<close>

definition hubControlPlaneGVR :: gvr where
  "hubControlPlaneGVR = \<lparr>Group = ''cluster.open-cluster-management.io'', Version = ''v1alpha1'',
     Resource = ''hubcontrolplanes''\<rparr>"

definition managedClusterGVR :: gvr where
  "managedClusterGVR = \<lparr>Group = ''cluster.open-cluster-management.io'', Version = ''v1'',
     Resource = ''managedclusters''\<rparr>"

definition clusterManagementAddonGVR :: gvr where
  "clusterManagementAddonGVR = \<lparr>Group = ''addon.open-cluster-management.io'', Version = ''v1alpha1'',
     Resource = ''clustermanagementaddons''\<rparr>"

definition deepEqualStatus :: "meta_ops \<Rightarrow> iface \<Rightarrow> iface \<Rightarrow> bool" where
  "deepEqualStatus U oldObj newObj =
     (case (oldObj, newObj) of
        (Unstr oldUnstrob, Unstr newUnstrob) \<Rightarrow>
          DeepEqual U (key_value (Object oldUnstrob) ''status'') (key_value (Object newUnstrob) ''status'')
      | _ \<Rightarrow> False)"

text \<open>The object the global hub is given, lines 114 to 125 of the source in their order.\<close>

definition upstreamManifest :: "meta_ops \<Rightarrow> unstructured \<Rightarrow> unstructured" where
  "upstreamManifest U downstreamObj =
     (let o1 = SetStr U FUID [] downstreamObj;
          o2 = SetStr U FResourceVersion [] o1;
          o3 = SetNil U FManagedFields o2;
          o4 = SetNil U FDeletionTimestamp o3;
          o5 = SetNil U FDeletionGracePeriodSeconds o4;
          o6 = SetNil U FOwnerReferences o5
      in SetNil U FFinalizers o6)"

text \<open>Both branches of \<open>applyToUpstream\<close> patch the object and then its status.\<close>

definition patch_twice ::
  "'w dynamic_client \<Rightarrow> gvr \<Rightarrow> string option \<Rightarrow> string \<Rightarrow> json \<Rightarrow> 'w \<Rightarrow> error option \<times> 'w" where
  "patch_twice toClient g ns nm data w =
     (case cPatch toClient g ns nm (apply_patch data []) w of
        (Inl err, w1) \<Rightarrow> (Some err, w1)
      | (Inr _, w1) \<Rightarrow>
          (case cPatch toClient g ns nm (apply_patch data [''status'']) w1 of
             (Inl err, w2) \<Rightarrow> (Some err, w2)
           | (Inr _, w2) \<Rightarrow> (None, w2)))"

definition applyToUpstream ::
  "meta_ops \<Rightarrow> 'w dynamic_client \<Rightarrow> gvr \<Rightarrow> string \<Rightarrow> unstructured \<Rightarrow> 'w \<Rightarrow> error option \<times> 'w" where
  "applyToUpstream U toClient g upstreamNamespace downstreamObj w =
     (let upstreamObj = upstreamManifest U downstreamObj
      in if length (GetNamespace U upstreamObj) > 0 then
           (let upstreamObj' = SetStr U FNamespace upstreamNamespace upstreamObj
            in case MarshalJSON U upstreamObj' of
                 Inl err \<Rightarrow> (Some err, w)
               | Inr data \<Rightarrow>
                   patch_twice toClient g (Some upstreamNamespace) (GetName U upstreamObj') data w)
         else
           (case MarshalJSON U upstreamObj of
              Inl err \<Rightarrow> (Some err, w)
            | Inr data \<Rightarrow> patch_twice toClient g None (GetName U upstreamObj) data w))"

subsection \<open>The hub control plane\<close>

text \<open>
  The verdict of the first condition of type \<open>ManagedClusterConditionAvailable\<close>, \<open>None\<close>
  when there is none. The loop reads \<open>type\<close> of every condition before it and \<open>status\<close> of
  that one, each with a type assertion that panics.
\<close>

datatype availability = IsAvailable | IsUnavailable | IsUnknown

definition status_verdict :: "string \<Rightarrow> availability" where
  "status_verdict s =
     (if s = ''True'' then IsAvailable
      else if s = ''False'' then IsUnavailable
      else IsUnknown)"

fun first_available :: "json list \<Rightarrow> availability option outcome" where
  "first_available [] = Return None"
| "first_available (JObj cond # conds) =
     (case key_value cond ''type'' of
        JStr t \<Rightarrow>
          (if t = ''ManagedClusterConditionAvailable'' then
             (case key_value cond ''status'' of
                JStr s \<Rightarrow> Return (Some (status_verdict s))
              | _ \<Rightarrow> Panic ''interface conversion: cond[status] is not string'')
           else first_available conds)
      | _ \<Rightarrow> Panic ''interface conversion: cond[type] is not string'')"
| "first_available (_ # conds) = Panic ''interface conversion: condition is not map[string]interface {}''"

definition classify_cluster :: "unstructured \<Rightarrow> availability option outcome" where
  "classify_cluster ob =
     (case key_value (Object ob) ''status'' of
        JObj st \<Rightarrow>
          (case key_value st ''conditions'' of
             JArr conds \<Rightarrow> first_available conds
           | _ \<Rightarrow> Return (Some IsUnknown))
      | _ \<Rightarrow> Return (Some IsUnknown))"

fun add_cluster :: "string \<Rightarrow> availability option \<Rightarrow> ManagedClustersStatus \<Rightarrow> ManagedClustersStatus" where
  "add_cluster n None s = s"
| "add_cluster n (Some IsAvailable) s = s\<lparr>Available := Available s @ [n]\<rparr>"
| "add_cluster n (Some IsUnavailable) s = s\<lparr>Unavailable := Unavailable s @ [n]\<rparr>"
| "add_cluster n (Some IsUnknown) s = s\<lparr>Unknown := Unknown s @ [n]\<rparr>"

definition not_unstructured :: error where
  "not_unstructured = Errorf ''object is expected to be Unstructured''"

fun collect_clusters ::
  "meta_ops \<Rightarrow> iface list \<Rightarrow> ManagedClustersStatus \<Rightarrow> (error + ManagedClustersStatus) outcome" where
  "collect_clusters U [] s = Return (Inr s)"
| "collect_clusters U (Unstr ob # items) s =
     bind_outcome (classify_cluster ob)
       (\<lambda>v. collect_clusters U items (add_cluster (GetName U ob) v s))"
| "collect_clusters U (_ # items) s = Return (Inl not_unstructured)"

fun collect_addons :: "meta_ops \<Rightarrow> iface list \<Rightarrow> string list \<Rightarrow> error + string list" where
  "collect_addons U [] addons = Inr addons"
| "collect_addons U (Unstr ob # items) addons = collect_addons U items (addons @ [GetName U ob])"
| "collect_addons U (_ # items) addons = Inl not_unstructured"

definition hub_control_plane ::
  "string \<Rightarrow> string \<Rightarrow> ManagedClustersStatus \<Rightarrow> string list \<Rightarrow> HubControlPlane" where
  "hub_control_plane syncerNamespace host clusters addons =
     \<lparr>APIVersion = ''cluster.open-cluster-management.io/v1alpha1'', Kind = ''HubControlPlane'',
      MetaName = syncerNamespace, Spec = \<lparr>Endpoint = host\<rparr>,
      Status = \<lparr>Addons = addons, ManagedClusters = clusters\<rparr>\<rparr>"

definition applyHubControlPlaneInUpstream ::
  "meta_ops \<Rightarrow> (HubControlPlane \<Rightarrow> error + content) \<Rightarrow> (string \<Rightarrow> string option) \<Rightarrow> 'w dynamic_client \<Rightarrow>
   string \<Rightarrow> indexers \<Rightarrow> 'w \<Rightarrow> (error option \<times> 'w) outcome" where
  "applyHubControlPlaneInUpstream U T env toClient host ix w =
     (case env ''POD_NAMESPACE'' of
        None \<Rightarrow> Return (Some (Errorf ''empty environment variable: POD_NAMESPACE''), w)
      | Some syncerNamespace \<Rightarrow>
          if syncerNamespace = [] then
            Return (Some (Errorf ''empty environment variable: POD_NAMESPACE''), w)
          else
            bind_outcome (collect_clusters U (ListItems ix managedClusterGVR) no_clusters) (\<lambda>r.
              case r of
                Inl err \<Rightarrow> Return (Some err, w)
              | Inr clusters \<Rightarrow>
                  (case collect_addons U (ListItems ix clusterManagementAddonGVR) [] of
                     Inl err \<Rightarrow> Return (Some err, w)
                   | Inr addons \<Rightarrow>
                       (let hub = hub_control_plane syncerNamespace host clusters addons
                        in case T hub of
                             Inl err \<Rightarrow> Return (Some (Errorf ''failed to convert hubcontrolplane''), w)
                           | Inr content \<Rightarrow>
                               (let hubObj = SetStr U FKind (Kind hub)
                                      (SetStr U FAPIVersion (APIVersion hub) \<lparr>Object = content\<rparr>)
                                in Return (None,
                                     snd (applyToUpstream U toClient hubControlPlaneGVR [] hubObj w)))))))"

subsection \<open>The status update\<close>

definition updateStatusInUpstream ::
  "meta_ops \<Rightarrow> (HubControlPlane \<Rightarrow> error + content) \<Rightarrow> (string \<Rightarrow> string option) \<Rightarrow> 'w dynamic_client \<Rightarrow>
   string \<Rightarrow> string \<Rightarrow> 'w UpsertFunc" where
  "updateStatusInUpstream U T env toClient syncer host g upstreamNamespace downstreamObj ix w =
     (if Resource g = ''customresourcedefinitions'' \<or> Resource g = ''clustermanagementaddons'' then
        applyHubControlPlaneInUpstream U T env toClient host ix w
      else
        bind_outcome
          (if Resource g = ''managedclusters''
           then applyHubControlPlaneInUpstream U T env toClient host ix w
           else Return (None, w))
          (\<lambda>(_, w0).
            let upstreamObj = SetStr U FResourceVersion [] (SetStr U FUID [] downstreamObj)
            in case cGet toClient g (Some syncer) (GetName U upstreamObj) w0 of
                 (Inl err, w1) \<Rightarrow>
                   (if IsNotFound err
                    then Return (None, snd (applyToUpstream U toClient g syncer downstreamObj w1))
                    else Return (Some err, w1))
               | (Inr existing, w1) \<Rightarrow>
                   (let upstreamObj' = SetStr U FNamespace syncer
                          (SetStr U FResourceVersion (GetResourceVersion U existing) upstreamObj)
                    in case cUpdateStatus toClient g (Some syncer) upstreamObj' w1 of
                         (Inl err, w2) \<Rightarrow> Return (Some err, w2)
                       | (Inr _, w2) \<Rightarrow> Return (None, w2))))"

section \<open>The report on managed clusters\<close>

text \<open>What a cluster's entry in the report is, as a function of the cluster alone.\<close>

fun verdict_names :: "availability option \<Rightarrow> (string \<times> availability) list \<Rightarrow> string list" where
  "verdict_names v xs = map fst (filter (\<lambda>x. Some (snd x) = v) xs)"

fun classified :: "meta_ops \<Rightarrow> iface list \<Rightarrow> (string \<times> availability) list" where
  "classified U [] = []"
| "classified U (Unstr ob # items) =
     (case classify_cluster ob of
        Return (Some v) \<Rightarrow> (GetName U ob, v) # classified U items
      | _ \<Rightarrow> classified U items)"
| "classified U (_ # items) = classified U items"

lemma collect_clusters_classified:
  "collect_clusters U items s = Return (Inr r) \<Longrightarrow>
     Available r = Available s @ verdict_names (Some IsAvailable) (classified U items) \<and>
     Unavailable r = Unavailable s @ verdict_names (Some IsUnavailable) (classified U items) \<and>
     Unknown r = Unknown s @ verdict_names (Some IsUnknown) (classified U items)"
proof (induction U items s rule: collect_clusters.induct)
  case (2 U ob items s)
  then obtain v where v: "classify_cluster ob = Return v"
    by (auto simp: bind_outcome_Return_iff)
  with "2.prems" have rest: "collect_clusters U items (add_cluster (GetName U ob) v s) = Return (Inr r)"
    by simp
  note IH = "2.IH" [OF rest]
  show ?case
  proof (cases v)
    case None
    with IH v show ?thesis by simp
  next
    case (Some a)
    with IH v show ?thesis by (cases a) simp_all
  qed
qed auto

lemma verdict_names_length:
  "length (verdict_names (Some IsAvailable) xs) + length (verdict_names (Some IsUnavailable) xs) +
   length (verdict_names (Some IsUnknown) xs) = length xs"
proof (induction xs)
  case (Cons x xs)
  then show ?case by (cases "snd x") simp_all
qed simp

lemma reported_count:
  assumes "collect_clusters U items no_clusters = Return (Inr r)"
  shows "length (reported r) = length (classified U items)"
  using collect_clusters_classified [OF assms] verdict_names_length [of "classified U items"]
  by (simp add: reported_def no_clusters_def)

lemma collect_clusters_error:
  "collect_clusters U items s = Return (Inl e) \<Longrightarrow> \<exists>x \<in> set items. \<forall>ob. x \<noteq> Unstr ob"
  by (induction U items s rule: collect_clusters.induct) (auto simp: bind_outcome_Return_iff)

lemma collect_addons_names:
  "collect_addons U (map Unstr obs) acc = Inr (acc @ map (GetName U) obs)"
  by (induction obs arbitrary: acc) auto

section \<open>Properties\<close>

definition of_verdict :: "availability option \<Rightarrow> unstructured list \<Rightarrow> unstructured list" where
  "of_verdict v obs = filter (\<lambda>ob. classify_cluster ob = Return v) obs"

lemma classified_names:
  "verdict_names (Some a) (classified U (map Unstr obs)) = map (GetName U) (of_verdict (Some a) obs)"
  by (induction obs) (auto simp: of_verdict_def split: outcome.splits option.splits)

lemma of_verdict_total:
  assumes "\<And>ob. ob \<in> set obs \<Longrightarrow> returns (classify_cluster ob)"
  shows "length (of_verdict None obs) + length (of_verdict (Some IsAvailable) obs) +
    length (of_verdict (Some IsUnavailable) obs) + length (of_verdict (Some IsUnknown) obs) = length obs"
  using assms
proof (induction obs)
  case Nil
  then show ?case by (simp add: of_verdict_def)
next
  case (Cons ob obs)
  then obtain v where "classify_cluster ob = Return v" by (auto simp: returns_iff)
  moreover have "v = None \<or> v = Some IsAvailable \<or> v = Some IsUnavailable \<or> v = Some IsUnknown"
    by (metis availability.exhaust option.exhaust)
  ultimately show ?case using Cons by (auto simp: of_verdict_def)
qed

lemma collect_clusters_returns:
  "collect_clusters U (map Unstr obs) s = Return r \<Longrightarrow> ob \<in> set obs \<Longrightarrow> returns (classify_cluster ob)"
  by (induction obs arbitrary: s) (auto simp: bind_outcome_Return_iff returns_iff)

lemma collect_clusters_no_error: "collect_clusters U (map Unstr obs) s \<noteq> Return (Inl e)"
  using collect_clusters_error [of U "map Unstr obs" s e] by auto

text \<open>
  The specification of the report, over the JSON of a cluster: the conditions it has, if it has
  any, and the statuses of those that are about its availability, in their order.
\<close>

definition conditions_of :: "unstructured \<Rightarrow> json list option" where
  "conditions_of ob =
     (case key_value (Object ob) ''status'' of
        JObj st \<Rightarrow> (case key_value st ''conditions'' of JArr conds \<Rightarrow> Some conds | _ \<Rightarrow> None)
      | _ \<Rightarrow> None)"

definition availability_statuses :: "json list \<Rightarrow> string list" where
  "availability_statuses conds =
     [s. JObj cond \<leftarrow> conds, key_value cond ''type'' = JStr ''ManagedClusterConditionAvailable'',
         JStr s \<leftarrow> [key_value cond ''status'']]"

definition first_status :: "(string \<Rightarrow> bool) \<Rightarrow> unstructured \<Rightarrow> bool" where
  "first_status P ob \<longleftrightarrow>
     (case conditions_of ob of
        None \<Rightarrow> False
      | Some conds \<Rightarrow> (case availability_statuses conds of [] \<Rightarrow> False | s # _ \<Rightarrow> P s))"

lemma first_available_spec:
  "first_available conds = Return v \<Longrightarrow>
     v = (case availability_statuses conds of [] \<Rightarrow> None | s # _ \<Rightarrow> Some (status_verdict s))"
  by (induction conds rule: first_available.induct)
    (auto simp: availability_statuses_def split: json.splits if_splits)

lemma classify_cluster_spec:
  assumes "classify_cluster ob = Return v"
  shows "v = Some IsAvailable \<longleftrightarrow> first_status (\<lambda>s. s = ''True'') ob"
    and "v = Some IsUnavailable \<longleftrightarrow> first_status (\<lambda>s. s = ''False'') ob"
    and "v = Some IsUnknown \<longleftrightarrow>
      conditions_of ob = None \<or> first_status (\<lambda>s. s \<noteq> ''True'' \<and> s \<noteq> ''False'') ob"
    and "v = None \<longleftrightarrow> map_option availability_statuses (conditions_of ob) = Some []"
  using assms
  by (auto simp: classify_cluster_def conditions_of_def first_status_def status_verdict_def
      dest!: first_available_spec split: json.splits list.splits if_splits)

lemma of_verdict_spec:
  assumes "\<And>ob. ob \<in> set obs \<Longrightarrow> returns (classify_cluster ob)"
    and "\<And>ob v. classify_cluster ob = Return v \<Longrightarrow> v = a \<longleftrightarrow> P ob"
  shows "of_verdict a obs = filter P obs"
  unfolding of_verdict_def by (rule filter_cong) (use assms in \<open>fastforce simp: returns_iff\<close>)+

text \<open>
  C17. The hub control plane's report on the managed clusters, in the order of the cache: a
  cluster is available if the first of its conditions of type
  \<open>ManagedClusterConditionAvailable\<close> has status \<open>True\<close>, unavailable if that has status \<open>False\<close>,
  and unknown if it has any other status, or if the cluster has no list of conditions at all.
  Each cluster is listed at most once; those that have conditions but none of that type are the
  ones the report leaves out.
\<close>

theorem clusters_partition:
  assumes "collect_clusters U (map Unstr obs) no_clusters = Return r"
  shows "\<exists>rep. r = Inr rep \<and>
    Available rep = map (GetName U) (filter (first_status (\<lambda>s. s = ''True'')) obs) \<and>
    Unavailable rep = map (GetName U) (filter (first_status (\<lambda>s. s = ''False'')) obs) \<and>
    Unknown rep = map (GetName U) (filter (\<lambda>ob. conditions_of ob = None \<or>
      first_status (\<lambda>s. s \<noteq> ''True'' \<and> s \<noteq> ''False'') ob) obs) \<and>
    length (reported rep) +
      length (filter (\<lambda>ob. map_option availability_statuses (conditions_of ob) = Some []) obs) = length obs"
proof -
  obtain rep where rep: "r = Inr rep"
    using assms collect_clusters_no_error [of U obs no_clusters] by (cases r) auto
  note returns = collect_clusters_returns [OF assms]
  have verdicts: "of_verdict (Some IsAvailable) obs = filter (first_status (\<lambda>s. s = ''True'')) obs"
    "of_verdict (Some IsUnavailable) obs = filter (first_status (\<lambda>s. s = ''False'')) obs"
    "of_verdict (Some IsUnknown) obs =
      filter (\<lambda>ob. conditions_of ob = None \<or> first_status (\<lambda>s. s \<noteq> ''True'' \<and> s \<noteq> ''False'') ob) obs"
    "of_verdict None obs = filter (\<lambda>ob. map_option availability_statuses (conditions_of ob) = Some []) obs"
    by (rule of_verdict_spec; fact returns classify_cluster_spec)+
  have names: "Available rep = map (GetName U) (of_verdict (Some IsAvailable) obs)"
    "Unavailable rep = map (GetName U) (of_verdict (Some IsUnavailable) obs)"
    "Unknown rep = map (GetName U) (of_verdict (Some IsUnknown) obs)"
    using collect_clusters_classified [OF assms [unfolded rep]]
    by (simp_all only: no_clusters_def ManagedClustersStatus.simps append.simps classified_names)
  moreover have "length (reported rep) + length (of_verdict None obs) = length obs"
    using of_verdict_total [of obs] returns by (simp add: reported_def names)
  ultimately show ?thesis unfolding rep by (intro exI [of _ rep] conjI refl) (simp_all only: verdicts)
qed

definition sample_cluster :: "string \<Rightarrow> json list \<Rightarrow> unstructured" where
  "sample_cluster n conds = \<lparr>Object = [(''metadata'', JObj [(''name'', JStr n)]),
     (''status'', JObj [(''conditions'', JArr conds)])]\<rparr>"

definition sample_condition :: "string \<Rightarrow> string \<Rightarrow> json" where
  "sample_condition t s = JObj [(''type'', JStr t), (''status'', JStr s)]"

text \<open>
  Of five clusters one is available although a later condition contradicts it, one is unavailable,
  one has an odd status, one has no conditions and one has none about its availability.
\<close>

definition sample_clusters :: "unstructured list" where
  "sample_clusters =
     [sample_cluster ''c1'' [sample_condition ''HubAcceptedManagedCluster'' ''False'',
        sample_condition ''ManagedClusterConditionAvailable'' ''True'',
        sample_condition ''ManagedClusterConditionAvailable'' ''False''],
      sample_cluster ''c2'' [sample_condition ''ManagedClusterConditionAvailable'' ''False''],
      sample_cluster ''c3'' [sample_condition ''ManagedClusterConditionAvailable'' ''Maybe''],
      \<lparr>Object = [(''metadata'', JObj [(''name'', JStr ''c4'')])]\<rparr>,
      sample_cluster ''c5'' [sample_condition ''HubAcceptedManagedCluster'' ''True'']]"

theorem clusters_partition_witness:
  "\<exists>rep. collect_clusters json_ops (map Unstr sample_clusters) no_clusters = Return (Inr rep) \<and>
      Available rep = [''c1''] \<and> Unavailable rep = [''c2''] \<and> Unknown rep = [''c3'', ''c4''] \<and>
      length (reported rep) + 1 = length sample_clusters"
proof -
  obtain r where r: "collect_clusters json_ops (map Unstr sample_clusters) no_clusters = Return r"
  proof -
    have "returns (collect_clusters json_ops (map Unstr sample_clusters) no_clusters)" by code_simp
    then show thesis using that by (auto simp: returns_iff)
  qed
  have "map (GetName json_ops) (filter (first_status (\<lambda>s. s = ''True'')) sample_clusters) = [''c1'']"
    and "map (GetName json_ops) (filter (first_status (\<lambda>s. s = ''False'')) sample_clusters) = [''c2'']"
    and "map (GetName json_ops) (filter (\<lambda>ob. conditions_of ob = None \<or>
      first_status (\<lambda>s. s \<noteq> ''True'' \<and> s \<noteq> ''False'') ob) sample_clusters) = [''c3'', ''c4'']"
    and "length (filter (\<lambda>ob. map_option availability_statuses (conditions_of ob) = Some []) sample_clusters) = 1"
    by code_simp+
  with clusters_partition [OF r] r show ?thesis by metis
qed

text \<open>
  When the global hub does not know the object yet, the status syncer applies it and
  reports success whatever comes of that: an error of the server-side apply is dropped and
  the item will not be retried.
\<close>

theorem status_not_found_swallowed:
  assumes "Resource g \<notin> {''customresourcedefinitions'', ''clustermanagementaddons'', ''managedclusters''}"
    and "unstructured_accessors U" and "meta_wf ob"
    and "cGet C g (Some syncer) (GetName U ob) w = (Inl (StatusError NotFound), w1)"
  shows "updateStatusInUpstream U T env C syncer host g ns ob ix w =
    Return (None, snd (applyToUpstream U C g syncer ob w1))"
  using assms
  by (simp add: updateStatusInUpstream_def error_kinds Let_def unstructured_accessors.GetStr_SetStr
      unstructured_accessors.wf_SetStr)

definition policiesGVR :: gvr where
  "policiesGVR = \<lparr>Group = ''policy.open-cluster-management.io'', Version = ''v1'', Resource = ''policies''\<rparr>"

theorem status_not_found_swallowed_witness:
  "let w = mem_empty\<lparr>faults := [None, Some (StatusError Conflict)]\<rparr>;
       ob = sample_object ''ns'' ''p'' [] JNull;
       w' = snd (applyToUpstream json_ops mem_client policiesGVR ''hub1'' ob
          (snd (cGet mem_client policiesGVR (Some ''hub1'') ''p'' w)))
   in updateStatusInUpstream json_ops (\<lambda>_. Inr []) (\<lambda>_. None) mem_client ''hub1'' ''h'' policiesGVR ''ns'' ob
        \<lparr>GetByKey = (\<lambda>_ _. Inr None), ListItems = (\<lambda>_. [])\<rparr> w = Return (None, w') \<and> objects w' = []"
proof -
  let ?w = "mem_empty\<lparr>faults := [None, Some (StatusError Conflict)]\<rparr>"
  let ?ob = "sample_object ''ns'' ''p'' [] JNull"
  let ?w1 = "snd (cGet mem_client policiesGVR (Some ''hub1'') ''p'' ?w)"
  have g: "Resource policiesGVR \<notin> {''customresourcedefinitions'', ''clustermanagementaddons'', ''managedclusters''}"
    by code_simp
  have wf: "meta_wf ?ob" and n: "GetName json_ops ?ob = ''p''" by code_simp+
  have "cGet mem_client policiesGVR (Some ''hub1'') (GetName json_ops ?ob) ?w = (Inl (StatusError NotFound), ?w1)"
    by code_simp
  from status_not_found_swallowed [OF g json_acc.unstructured_accessors_axioms wf this]
  moreover have "objects (snd (applyToUpstream json_ops mem_client policiesGVR ''hub1'' ?ob ?w1)) = []"
    by code_simp
  ultimately show ?thesis by (simp add: Let_def)
qed

lemma upstream_apply_patches_only:
  "applyToUpstream U (C\<lparr>cGet := get, cUpdateStatus := upd\<rparr>) = applyToUpstream U C"
proof -
  have "patch_twice (C\<lparr>cGet := get, cUpdateStatus := upd\<rparr>) = patch_twice C"
    unfolding patch_twice_def fun_eq_iff by (simp split: prod.split sum.split)
  then show ?thesis unfolding applyToUpstream_def by (simp only:)
qed

lemma hub_report_patches_only:
  "applyHubControlPlaneInUpstream U T env (C\<lparr>cGet := get, cUpdateStatus := upd\<rparr>) host ix w =
   applyHubControlPlaneInUpstream U T env C host ix w"
  unfolding applyHubControlPlaneInUpstream_def upstream_apply_patches_only ..

lemma status_update_sent:
  assumes g: "Resource g \<notin> {''customresourcedefinitions'', ''clustermanagementaddons''}"
    and U: "unstructured_accessors U" and wf: "meta_wf ob"
    and report: "if Resource g = ''managedclusters''
      then applyHubControlPlaneInUpstream U T env C host ix w = Return (ignored, w0) else w0 = w"
    and get: "cGet C g (Some syncer) (GetName U ob) w0 = (Inr existing, w1)"
  shows "\<exists>M. updateStatusInUpstream U T env C syncer host g ns ob ix w =
      (case cUpdateStatus C g (Some syncer) M w1 of (r, w2) \<Rightarrow> Return (err_of r, w2)) \<and>
    GetResourceVersion U M = GetResourceVersion U existing \<and> GetNamespace U M = syncer \<and>
    GetName U M = GetName U ob \<and> GetStr U FUID M = [] \<and>
    (\<forall>k. k \<noteq> ''metadata'' \<longrightarrow> key_value (Object M) k = key_value (Object ob) k)"
proof -
  let ?M = "SetStr U FNamespace syncer (SetStr U FResourceVersion (GetResourceVersion U existing)
     (SetStr U FResourceVersion [] (SetStr U FUID [] ob)))"
  have "updateStatusInUpstream U T env C syncer host g ns ob ix w =
      (case cUpdateStatus C g (Some syncer) ?M w1 of (r, w2) \<Rightarrow> Return (err_of r, w2))"
    using g get wf report
    by (auto simp: updateStatusInUpstream_def Let_def unstructured_accessors.GetStr_SetStr [OF U]
        unstructured_accessors.wf_SetStr [OF U] split: prod.splits sum.splits if_splits)
  moreover have "GetResourceVersion U ?M = GetResourceVersion U existing" "GetNamespace U ?M = syncer"
    "GetName U ?M = GetName U ob" "GetStr U FUID ?M = []"
    using wf by (simp_all add: unstructured_accessors.GetStr_SetStr [OF U] unstructured_accessors.wf_SetStr [OF U])
  moreover have "\<forall>k. k \<noteq> ''metadata'' \<longrightarrow> key_value (Object ?M) k = key_value (Object ob) k"
    by (simp add: unstructured_accessors.content_SetStr [OF U] top_field_def)
  ultimately show ?thesis by blast
qed

text \<open>
  C12. What the status syncer sends, by resource. For a custom resource definition or an addon it
  sends the hub control plane report and nothing else: no object is read and no status updated,
  and the result is that of the report. For a managed cluster it sends the report first and goes
  on whatever its error was; any other object starts from the world as it is. Then, when the
  global hub has the object, it sends one status update: with the resource version of the object
  found there, the syncer's namespace, no UID, and everything outside \<open>metadata\<close> as the leaf hub
  has it. The result is the result of that call.
\<close>

theorem status_update_content:
  assumes U: "unstructured_accessors U" and wf: "meta_wf ob"
  shows "if Resource g \<in> {''customresourcedefinitions'', ''clustermanagementaddons''} then
      updateStatusInUpstream U T env C syncer host g ns ob ix w = applyHubControlPlaneInUpstream U T env C host ix w \<and>
      (\<forall>get upd. updateStatusInUpstream U T env (C\<lparr>cGet := get, cUpdateStatus := upd\<rparr>) syncer host g ns ob ix w =
         updateStatusInUpstream U T env C syncer host g ns ob ix w)
    else
      (\<forall>ignored w0 existing w1.
        (if Resource g = ''managedclusters''
         then applyHubControlPlaneInUpstream U T env C host ix w = Return (ignored, w0) else w0 = w) \<longrightarrow>
        cGet C g (Some syncer) (GetName U ob) w0 = (Inr existing, w1) \<longrightarrow>
        (\<exists>M. updateStatusInUpstream U T env C syncer host g ns ob ix w =
            (case cUpdateStatus C g (Some syncer) M w1 of (r, w2) \<Rightarrow> Return (err_of r, w2)) \<and>
          GetResourceVersion U M = GetResourceVersion U existing \<and> GetNamespace U M = syncer \<and>
          GetName U M = GetName U ob \<and> GetStr U FUID M = [] \<and>
          (\<forall>k. k \<noteq> ''metadata'' \<longrightarrow> key_value (Object M) k = key_value (Object ob) k)))"
proof (cases "Resource g \<in> {''customresourcedefinitions'', ''clustermanagementaddons''}")
  case True
  then have "updateStatusInUpstream U T env C' syncer host g ns ob ix w =
      applyHubControlPlaneInUpstream U T env C' host ix w" for C' :: "'a dynamic_client"
    by (auto simp: updateStatusInUpstream_def)
  with True show ?thesis by (simp add: hub_report_patches_only)
next
  case False
  show ?thesis unfolding if_not_P [OF False]
    by (intro allI impI) (rule status_update_sent [OF False U wf])
qed

definition no_objects :: indexers where
  "no_objects = \<lparr>GetByKey = (\<lambda>_ _. Inr None), ListItems = (\<lambda>_. [])\<rparr>"

text \<open>
  A policy; and a managed cluster on a pod without a namespace, whose report fails and is passed
  over.
\<close>

theorem status_update_content_witness:
  "let w = mem_empty\<lparr>objects := [((policiesGVR, Some ''hub1'', ''p''), sample_object ''hub1'' ''p'' [] JNull),
              ((managedClusterGVR, Some ''hub1'', ''p''), sample_object ''hub1'' ''p'' [] JNull)]\<rparr>;
       ob = sample_object ''ns'' ''p'' [] (JStr ''s'');
       sends = (\<lambda>g. \<exists>M w1.
         updateStatusInUpstream json_ops (\<lambda>_. Inr []) (\<lambda>_. None) mem_client ''hub1'' ''h'' g ''ns'' ob no_objects w =
         (case cUpdateStatus mem_client g (Some ''hub1'') M w1 of (r, w2) \<Rightarrow> Return (err_of r, w2)) \<and>
         GetResourceVersion json_ops M = ''7'' \<and> key_value (Object M) ''status'' = JStr ''s'')
   in sends policiesGVR \<and> sends managedClusterGVR"
proof -
  let ?w = "mem_empty\<lparr>objects := [((policiesGVR, Some ''hub1'', ''p''), sample_object ''hub1'' ''p'' [] JNull),
              ((managedClusterGVR, Some ''hub1'', ''p''), sample_object ''hub1'' ''p'' [] JNull)]\<rparr>"
  let ?ob = "sample_object ''ns'' ''p'' [] (JStr ''s'')"
  let ?ex = "sample_object ''hub1'' ''p'' [] JNull"
  have wf: "meta_wf ?ob" and rv: "GetResourceVersion json_ops ?ex = ''7''"
    and st: "key_value (Object ?ob) ''status'' = JStr ''s''" by code_simp+
  note content = status_update_content [OF json_acc.unstructured_accessors_axioms wf, of _ "\<lambda>_. Inr []" "\<lambda>_. None"
      mem_client "''hub1''" "''h''" "''ns''" no_objects ?w]
  have sent: "\<exists>M w1. updateStatusInUpstream json_ops (\<lambda>_. Inr []) (\<lambda>_. None) mem_client ''hub1'' ''h'' g ''ns'' ?ob no_objects ?w =
      (case cUpdateStatus mem_client g (Some ''hub1'') M w1 of (r, w2) \<Rightarrow> Return (err_of r, w2)) \<and>
      GetResourceVersion json_ops M = ''7'' \<and> key_value (Object M) ''status'' = JStr ''s''"
    if g: "Resource g \<notin> {''customresourcedefinitions'', ''clustermanagementaddons''}"
      and report: "Resource g = ''managedclusters'' \<longrightarrow>
        applyHubControlPlaneInUpstream json_ops (\<lambda>_. Inr []) (\<lambda>_. None) mem_client ''h'' no_objects ?w =
          Return (Some (Errorf ''empty environment variable: POD_NAMESPACE''), ?w)"
      and get: "fst (cGet mem_client g (Some ''hub1'') (GetName json_ops ?ob) ?w) = Inr ?ex" for g
  proof -
    from get obtain w1 where found: "cGet mem_client g (Some ''hub1'') (GetName json_ops ?ob) ?w = (Inr ?ex, w1)"
      by (metis prod.collapse)
    have "if Resource g = ''managedclusters''
        then applyHubControlPlaneInUpstream json_ops (\<lambda>_. Inr []) (\<lambda>_. None) mem_client ''h'' no_objects ?w =
          Return (Some (Errorf ''empty environment variable: POD_NAMESPACE''), ?w) else ?w = ?w"
      using report by presburger
    from content [of g, unfolded if_not_P [OF g], rule_format, OF this found]
    obtain M where M: "updateStatusInUpstream json_ops (\<lambda>_. Inr []) (\<lambda>_. None) mem_client ''hub1'' ''h'' g ''ns'' ?ob no_objects ?w =
        (case cUpdateStatus mem_client g (Some ''hub1'') M w1 of (r, w2) \<Rightarrow> Return (err_of r, w2))"
      and M_rv: "GetResourceVersion json_ops M = GetResourceVersion json_ops ?ex"
      and M_st: "\<forall>k. k \<noteq> ''metadata'' \<longrightarrow> key_value (Object M) k = key_value (Object ?ob) k"
      by (elim exE conjE) (rule that)
    have "''status'' \<noteq> (''metadata'' :: string)" by simp
    from M_st [rule_format, OF this] have "key_value (Object M) ''status'' = JStr ''s''" using st by (rule trans)
    moreover from M_rv rv have "GetResourceVersion json_ops M = ''7''" by (rule trans)
    ultimately show ?thesis using M by (intro exI [of _ M] exI [of _ w1] conjI)
  qed
  have "applyHubControlPlaneInUpstream json_ops (\<lambda>_. Inr []) (\<lambda>_. None) mem_client ''h'' no_objects ?w =
      Return (Some (Errorf ''empty environment variable: POD_NAMESPACE''), ?w)"
    by (simp add: applyHubControlPlaneInUpstream_def)
  moreover have "fst (cGet mem_client policiesGVR (Some ''hub1'') (GetName json_ops ?ob) ?w) = Inr ?ex"
    and "fst (cGet mem_client managedClusterGVR (Some ''hub1'') (GetName json_ops ?ob) ?w) = Inr ?ex"
    and "Resource policiesGVR \<notin> {''customresourcedefinitions'', ''clustermanagementaddons''}"
    and "Resource managedClusterGVR \<notin> {''customresourcedefinitions'', ''clustermanagementaddons''}"
    by code_simp+
  ultimately show ?thesis unfolding Let_def using sent by blast
qed

end
