(* ===== verification/Workqueue.thy ===== *)
theory Workqueue
  imports Prelude
begin

text \<open>
  The rate-limiting work queue of \<open>k8s.io/client-go/util/workqueue\<close> that both controllers
  drive. The package is not part of the repository, so its operations are the fields of
  the record \<open>rate_limiting_queue\<close>, an argument of the controllers. The locale \<open>work_queue\<close>
  states the documented contract for a queue that is not shut down: \<open>Get\<close> returns once a
  pending key is free (waiting out the delay of a rate-limited one), a key added several times before it is taken is taken
  once, a key is never handed to two workers at a time, and a key added again while it is
  being processed stays pending until it is taken again. \<open>list_queue\<close> implements the
  interface with the three collections of the package (queue, dirty set, processing set)
  and no delay before a rate-limited key is ready again.
\<close>

record ('q, 'k) rate_limiting_queue =
  qAdd :: "'k \<Rightarrow> 'q \<Rightarrow> 'q"
  qGet :: "'q \<Rightarrow> ('k option \<times> 'q) option"
    \<comment> \<open>\<open>None\<close>: the call blocks; \<open>Some (None, q)\<close>: the queue is shut down\<close>
  qDone :: "'k \<Rightarrow> 'q \<Rightarrow> 'q"
  qAddRateLimited :: "'k \<Rightarrow> 'q \<Rightarrow> 'q"
  qForget :: "'k \<Rightarrow> 'q \<Rightarrow> 'q"

section \<open>The worker loop\<close>

text \<open>
  Both controllers drive their queue with the same loop around their own \<open>process\<close>, an
  operation that may panic, fail and change the state \<open>'s\<close>. \<open>work_item\<close> is one round of it
  (\<open>None\<close>: \<open>queue.Get()\<close> blocks), \<open>work_loop\<close> the loop with fuel.
\<close>

definition work_item ::
  "('q, 'k) rate_limiting_queue \<Rightarrow> ('k \<Rightarrow> 's \<Rightarrow> (error option \<times> 's) outcome) \<Rightarrow> 'q \<Rightarrow> 's \<Rightarrow>
   (bool \<times> 'q \<times> 's) outcome option" where
  "work_item Q proc q w =
     (case qGet Q q of
        None \<Rightarrow> None
      | Some (None, q') \<Rightarrow> Some (Return (False, q', w))
      | Some (Some h, q') \<Rightarrow>
          Some (bind_outcome (proc h w) (\<lambda>(err, w').
            case err of
              Some _ \<Rightarrow> Return (True, qDone Q h (qAddRateLimited Q h q'), w')
            | None \<Rightarrow> Return (True, qDone Q h (qForget Q h q'), w'))))"

datatype stop = Blocked | Quit | OutOfFuel

fun work_loop ::
  "nat \<Rightarrow> ('q, 'k) rate_limiting_queue \<Rightarrow> ('k \<Rightarrow> 's \<Rightarrow> (error option \<times> 's) outcome) \<Rightarrow> 'q \<Rightarrow> 's \<Rightarrow>
   (stop \<times> 'q \<times> 's) outcome" where
  "work_loop 0 Q proc q w = Return (OutOfFuel, q, w)"
| "work_loop (Suc fuel) Q proc q w =
     (case work_item Q proc q w of
        None \<Rightarrow> Return (Blocked, q, w)
      | Some r \<Rightarrow> bind_outcome r (\<lambda>(cont, q', w').
          if cont then work_loop fuel Q proc q' w' else Return (Quit, q', w')))"

text \<open>
  What the goroutine that owns a controller does, in order: run the informers, start the
  workers, wait for the stop signal, shut the queue down (deferred).
\<close>

datatype run_action = RunInformer | StartWorker | WaitStop | ShutDownQueue

section \<open>The contract\<close>

locale work_queue =
  fixes Q :: "('q, 'k) rate_limiting_queue"
    and queue_ok :: "'q \<Rightarrow> bool"
    and pending :: "'q \<Rightarrow> 'k set"
    and processing :: "'q \<Rightarrow> 'k set"
  assumes pending_Add: "queue_ok q \<Longrightarrow> pending (qAdd Q k q) = insert k (pending q)"
    and processing_Add: "queue_ok q \<Longrightarrow> processing (qAdd Q k q) = processing q"
    and pending_AddRateLimited:
      "queue_ok q \<Longrightarrow> pending (qAddRateLimited Q k q) = insert k (pending q)"
    and processing_AddRateLimited:
      "queue_ok q \<Longrightarrow> processing (qAddRateLimited Q k q) = processing q"
    and pending_Done: "queue_ok q \<Longrightarrow> pending (qDone Q k q) = pending q"
    and processing_Done: "queue_ok q \<Longrightarrow> processing (qDone Q k q) = processing q - {k}"
    and pending_Forget: "queue_ok q \<Longrightarrow> pending (qForget Q k q) = pending q"
    and processing_Forget: "queue_ok q \<Longrightarrow> processing (qForget Q k q) = processing q"
    and Get_item: "queue_ok q \<Longrightarrow> qGet Q q = Some (Some k, q') \<Longrightarrow>
      k \<in> pending q \<and> k \<notin> processing q \<and>
      pending q' = pending q - {k} \<and> processing q' = insert k (processing q) \<and> queue_ok q'"
    and Get_open: "queue_ok q \<Longrightarrow> qGet Q q \<noteq> Some (None, q')"
    and Get_ready: "queue_ok q \<Longrightarrow> k \<in> pending q \<Longrightarrow> k \<notin> processing q \<Longrightarrow> qGet Q q \<noteq> None"
    and ok_Add: "queue_ok q \<Longrightarrow> queue_ok (qAdd Q k q)"
    and ok_AddRateLimited: "queue_ok q \<Longrightarrow> queue_ok (qAddRateLimited Q k q)"
    and ok_Done: "queue_ok q \<Longrightarrow> queue_ok (qDone Q k q)"
    and ok_Forget: "queue_ok q \<Longrightarrow> queue_ok (qForget Q k q)"
begin

lemmas queue_effects =
  pending_Add processing_Add pending_AddRateLimited processing_AddRateLimited pending_Done
  processing_Done pending_Forget processing_Forget ok_Add ok_AddRateLimited ok_Done ok_Forget

text \<open>A finished item is pending afterwards exactly if its processing failed.\<close>

lemma work_item_protocol:
  assumes ok: "queue_ok q" and run: "work_item Q proc q w = Some (Return (cont, q', w'))"
  obtains h err where "cont" and "h \<in> pending q" and "h \<notin> processing q"
    and "proc h w = Return (err, w')"
    and "pending q' = (if err = None then pending q - {h} else pending q)"
    and "processing q' = processing q" and "queue_ok q'"
proof -
  from run obtain item q1 where get: "qGet Q q = Some (item, q1)"
    by (auto simp: work_item_def split: option.splits prod.splits)
  with Get_open [OF ok] obtain h where h: "item = Some h" by (cases item) auto
  note g = Get_item [OF ok, of h q1]
  from run get h obtain err where pr: "proc h w = Return (err, w')" and cont: "cont"
      and q': "q' = (case err of Some _ \<Rightarrow> qDone Q h (qAddRateLimited Q h q1)
                     | None \<Rightarrow> qDone Q h (qForget Q h q1))"
    by (auto simp: work_item_def bind_outcome_Return_iff split: option.splits)
  show thesis
  proof (rule that [OF cont _ _ pr])
    show "h \<in> pending q" "h \<notin> processing q" using g get h by auto
    show "pending q' = (if err = None then pending q - {h} else pending q)"
      using g get h q' by (cases err) (auto simp: queue_effects)
    show "processing q' = processing q"
      using g get h q' by (cases err) (auto simp: queue_effects)
    show "queue_ok q'" using g get h q' by (cases err) (simp_all add: queue_effects)
  qed
qed

lemma work_item_taken:
  assumes "queue_ok q" and "pending q \<noteq> {}" and "processing q = {}"
  obtains h q1 where "qGet Q q = Some (Some h, q1)"
    and "work_item Q proc q w = Some (bind_outcome (proc h w) (\<lambda>(err, w').
            case err of
              Some _ \<Rightarrow> Return (True, qDone Q h (qAddRateLimited Q h q1), w')
            | None \<Rightarrow> Return (True, qDone Q h (qForget Q h q1), w')))"
proof -
  from assms have "qGet Q q \<noteq> None" by (metis Get_ready all_not_in_conv)
  then obtain item q1 where get: "qGet Q q = Some (item, q1)" by auto
  with Get_open [OF assms(1)] obtain h where h: "item = Some h" by (cases item) auto
  show thesis by (rule that [of h q1]) (simp_all add: get h work_item_def)
qed

lemma work_item_blocks:
  assumes "queue_ok q" and "pending q = {}"
  shows "work_item Q proc q w = None"
proof (cases "qGet Q q")
  case None
  then show ?thesis by (simp add: work_item_def)
next
  case (Some r)
  then obtain item q1 where get: "qGet Q q = Some (item, q1)" by (cases r) auto
  with Get_open [OF assms(1)] obtain h where "item = Some h" by (cases item) auto
  with get Get_item [OF assms(1), of h q1] assms(2) show ?thesis by simp
qed

text \<open>A worker whose items all succeed drains the queue, one round per pending key.\<close>

lemma worker_drains:
  assumes "queue_ok q" and "processing q = {}" and "finite (pending q)"
    and "\<And>h w. h \<in> pending q \<Longrightarrow> \<exists>w'. proc h w = Return (None, w')"
    and "card (pending q) < fuel"
  shows "\<exists>q' w'. work_loop fuel Q proc q w = Return (Blocked, q', w') \<and> pending q' = {} \<and> queue_ok q'"
  using assms
proof (induction fuel arbitrary: q w)
  case 0
  then show ?case by simp
next
  case (Suc fuel)
  show ?case
  proof (cases "pending q = {}")
    case True
    then show ?thesis using Suc.prems(1) by (auto simp: work_item_blocks)
  next
    case False
    obtain h q1 where get: "qGet Q q = Some (Some h, q1)"
      and run: "work_item Q proc q w = Some (bind_outcome (proc h w) (\<lambda>(err, w').
            case err of
              Some _ \<Rightarrow> Return (True, qDone Q h (qAddRateLimited Q h q1), w')
            | None \<Rightarrow> Return (True, qDone Q h (qForget Q h q1), w')))"
      by (rule work_item_taken [OF Suc.prems(1) False Suc.prems(2)])
    note g = Get_item [OF Suc.prems(1) get]
    then have "\<exists>w'. proc h w = Return (None, w')" using Suc.prems(4) by simp
    then obtain w' where pr: "proc h w = Return (None, w')" ..
    let ?q = "qDone Q h (qForget Q h q1)"
    have "pending ?q = pending q - {h}" "processing ?q = {}" "queue_ok ?q"
      using g Suc.prems(2) by (auto simp: queue_effects)
    moreover have "card (pending q - {h}) < fuel"
      using Suc.prems(3,5) g card_Diff1_less [of "pending q" h] by auto
    ultimately have "\<exists>q2 w2. work_loop fuel Q proc ?q w' = Return (Blocked, q2, w2) \<and>
        pending q2 = {} \<and> queue_ok q2"
      using Suc.prems(3,4) by (intro Suc.IH) simp_all
    with run pr show ?thesis by simp
  qed
qed

text \<open>Items that fail on every attempt keep the worker busy for ever.\<close>

lemma worker_spins:
  assumes "queue_ok q" and "processing q = {}" and "pending q \<noteq> {}"
    and "\<And>h. h \<in> pending q \<Longrightarrow> \<exists>e. proc h w = Return (Some e, w)"
  shows "\<exists>q'. work_loop fuel Q proc q w = Return (OutOfFuel, q', w) \<and> pending q' = pending q"
  using assms
proof (induction fuel arbitrary: q)
  case 0
  then show ?case by simp
next
  case (Suc fuel)
  obtain h q1 where get: "qGet Q q = Some (Some h, q1)"
    and run: "work_item Q proc q w = Some (bind_outcome (proc h w) (\<lambda>(err, w').
            case err of
              Some _ \<Rightarrow> Return (True, qDone Q h (qAddRateLimited Q h q1), w')
            | None \<Rightarrow> Return (True, qDone Q h (qForget Q h q1), w')))"
    by (rule work_item_taken [OF Suc.prems(1,3,2)])
  note g = Get_item [OF Suc.prems(1) get]
  then have "\<exists>e. proc h w = Return (Some e, w)" using Suc.prems(4) by simp
  then obtain e where pr: "proc h w = Return (Some e, w)" ..
  let ?q = "qDone Q h (qAddRateLimited Q h q1)"
  have "pending ?q = pending q" "processing ?q = {}" "queue_ok ?q"
    using g Suc.prems(2) by (auto simp: queue_effects)
  with Suc.IH [of ?q] Suc.prems(3,4) run pr show ?case by simp
qed

end

section \<open>A queue over lists\<close>

record 'k list_queue =
  ready :: "'k list"
  dirty :: "'k list"
  inproc :: "'k list"
  requeues :: "'k list"
  down :: bool

definition lq_empty :: "'k list_queue" where
  "lq_empty = \<lparr>ready = [], dirty = [], inproc = [], requeues = [], down = False\<rparr>"

definition lq_add :: "'k \<Rightarrow> 'k list_queue \<Rightarrow> 'k list_queue" where
  "lq_add k q =
     (if down q \<or> k \<in> set (dirty q) then q
      else if k \<in> set (inproc q) then q\<lparr>dirty := k # dirty q\<rparr>
      else q\<lparr>dirty := k # dirty q, ready := ready q @ [k]\<rparr>)"

definition lq_get :: "'k list_queue \<Rightarrow> ('k option \<times> 'k list_queue) option" where
  "lq_get q =
     (case ready q of
        [] \<Rightarrow> if down q then Some (None, q) else None
      | k # ks \<Rightarrow>
          Some (Some k, q\<lparr>ready := ks, dirty := removeAll k (dirty q), inproc := k # inproc q\<rparr>))"

definition lq_done :: "'k \<Rightarrow> 'k list_queue \<Rightarrow> 'k list_queue" where
  "lq_done k q =
     (let q' = q\<lparr>inproc := removeAll k (inproc q)\<rparr>
      in if k \<in> set (dirty q) \<and> k \<notin> set (ready q) then q'\<lparr>ready := ready q @ [k]\<rparr> else q')"

definition lq_add_rate_limited :: "'k \<Rightarrow> 'k list_queue \<Rightarrow> 'k list_queue" where
  "lq_add_rate_limited k q = lq_add k (q\<lparr>requeues := k # requeues q\<rparr>)"

definition lq_forget :: "'k \<Rightarrow> 'k list_queue \<Rightarrow> 'k list_queue" where
  "lq_forget k q = q\<lparr>requeues := removeAll k (requeues q)\<rparr>"

definition list_queue_ops :: "('k list_queue, 'k) rate_limiting_queue" where
  "list_queue_ops = \<lparr>qAdd = lq_add, qGet = lq_get, qDone = lq_done,
     qAddRateLimited = lq_add_rate_limited, qForget = lq_forget\<rparr>"

definition lq_ok :: "'k list_queue \<Rightarrow> bool" where
  "lq_ok q \<longleftrightarrow> \<not> down q \<and> distinct (ready q) \<and> set (ready q) \<subseteq> set (dirty q) \<and>
     set (ready q) \<inter> set (inproc q) = {} \<and> set (dirty q) \<subseteq> set (ready q) \<union> set (inproc q)"

lemmas lq_defs = lq_empty_def lq_add_def lq_get_def lq_done_def lq_add_rate_limited_def
  lq_forget_def list_queue_ops_def

lemma lq_ok_empty [simp]: "lq_ok lq_empty"
  by (simp add: lq_ok_def lq_empty_def)

lemma lq_ok_add: "lq_ok q \<Longrightarrow> lq_ok (lq_add k q)"
  by (auto simp: lq_ok_def lq_add_def)

interpretation lq: work_queue list_queue_ops lq_ok "\<lambda>q. set (dirty q)" "\<lambda>q. set (inproc q)"
proof
  fix q q' :: "'a list_queue" and k
  assume ok: "lq_ok q" and get: "qGet list_queue_ops q = Some (Some k, q')"
  from get obtain ks where r: "ready q = k # ks"
      and q': "q' = q\<lparr>ready := ks, dirty := removeAll k (dirty q), inproc := k # inproc q\<rparr>"
    by (auto simp: list_queue_ops_def lq_get_def split: list.splits if_splits)
  show "k \<in> set (dirty q) \<and> k \<notin> set (inproc q) \<and> set (dirty q') = set (dirty q) - {k} \<and>
      set (inproc q') = insert k (set (inproc q)) \<and> lq_ok q'"
    using ok by (auto simp: lq_ok_def r q')
next
  fix q :: "'a list_queue" and k
  assume ok: "lq_ok q"
  then show "lq_ok (qDone list_queue_ops k q)"
    by (auto simp: lq_ok_def list_queue_ops_def lq_done_def Let_def)
next
  fix q :: "'a list_queue" and k
  assume "lq_ok q" and "k \<in> set (dirty q)" and "k \<notin> set (inproc q)"
  then have "ready q \<noteq> []" by (auto simp: lq_ok_def)
  then show "qGet list_queue_ops q \<noteq> None"
    by (auto simp: list_queue_ops_def lq_get_def split: list.splits)
next
  fix q q' :: "'a list_queue"
  assume "lq_ok q"
  then show "qGet list_queue_ops q \<noteq> Some (None, q')"
    by (auto simp: list_queue_ops_def lq_get_def lq_ok_def split: list.splits if_splits)
qed (auto simp: list_queue_ops_def lq_add_def lq_done_def lq_add_rate_limited_def lq_forget_def
       lq_ok_def Let_def)

end
