(* ===== verification/Syncer.thy ===== *)
theory Syncer
  imports StatusSyncer Workqueue
begin

text \<open>
  The controller of \<^verbatim>\<open>src/syncer/syncer.go\<close> that both syncers instantiate: its
  construction \<open>New\<close>, the three informer handlers, the work queue protocol and the
  processing of one work item. The worker loop \<open>startWorker\<close> is given fuel, because it
  runs for as long as items come; how much fuel drains a queue is a theorem.

  Handlers run on the informer's goroutine, workers on their own. Each definition here is
  one such activity; \<open>SyncSystem\<close> interleaves them.
\<close>

section \<open>Handlers\<close>

definition managedClusterCRD :: string where
  "managedClusterCRD = ''managedclusters.cluster.open-cluster-management.io''"

text \<open>
  The guard the three handlers share (lines 135 to 155, 162 to 182 and 197 to 217). An
  object of another dynamic type leaves \<open>unstrob\<close> nil, and calling an accessor on it is a
  nil dereference.
\<close>

definition shouldEnqueue :: "meta_ops \<Rightarrow> SyncDirection \<Rightarrow> gvr \<Rightarrow> iface \<Rightarrow> bool outcome" where
  "shouldEnqueue U dir g obj =
     (if dir = SyncUp then
        (if Resource g = ''customresourcedefinitions'' then
           (case obj of
              Unstr unstrob \<Rightarrow> Return (GetName U unstrob = managedClusterCRD)
            | _ \<Rightarrow> Panic ''invalid memory address or nil pointer dereference'')
         else Return (case obj of Unstr _ \<Rightarrow> True | _ \<Rightarrow> False))
      else
        (case obj of
           Unstr unstrob \<Rightarrow>
             Return (if length (GetNamespace U unstrob) > 0 then
                       (case label_of U unstrob GlobalHubPolicyNamespaceLabel of
                          None \<Rightarrow> False
                        | Some originalNamespace \<Rightarrow> originalNamespace = GetNamespace U unstrob)
                     else True)
         | _ \<Rightarrow> Panic ''invalid memory address or nil pointer dereference''))"

definition objToCheck :: "iface \<Rightarrow> iface" where
  "objToCheck obj = (case obj of Tombstone _ ob \<Rightarrow> ob | _ \<Rightarrow> obj)"

definition holder_of :: "meta_ops \<Rightarrow> gvr \<Rightarrow> unstructured \<Rightarrow> holder" where
  "holder_of U g ob = \<lparr>gvr = g, namespace = GetNamespace U ob, name = GetName U ob\<rparr>"

definition AddToQueue ::
  "meta_ops \<Rightarrow> ('q, holder) rate_limiting_queue \<Rightarrow> gvr \<Rightarrow> iface \<Rightarrow> 'q \<Rightarrow> 'q" where
  "AddToQueue U Q g obj q =
     (case objToCheck obj of
        Unstr metaObj \<Rightarrow> qAdd Q (holder_of U g metaObj) q
      | _ \<Rightarrow> q)"

definition AddFunc ::
  "meta_ops \<Rightarrow> ('q, holder) rate_limiting_queue \<Rightarrow> SyncDirection \<Rightarrow> gvr \<Rightarrow> iface \<Rightarrow> 'q \<Rightarrow> 'q outcome" where
  "AddFunc U Q dir g obj q =
     bind_outcome (shouldEnqueue U dir g obj) (\<lambda>b.
       Return (if b then AddToQueue U Q g obj q else q))"

definition UpdateFunc ::
  "meta_ops \<Rightarrow> ('q, holder) rate_limiting_queue \<Rightarrow> SyncDirection \<Rightarrow> gvr \<Rightarrow> iface \<Rightarrow> iface \<Rightarrow> 'q \<Rightarrow> 'q outcome" where
  "UpdateFunc U Q dir g oldObj newObj q =
     bind_outcome (shouldEnqueue U dir g newObj) (\<lambda>b.
       Return
         (if b then
            (if dir = SyncDown then
               (if \<not> deepEqualApartFromStatus U oldObj newObj then AddToQueue U Q g newObj q else q)
             else
               (if \<not> deepEqualStatus U oldObj newObj then AddToQueue U Q g newObj q else q))
          else q))"

definition DeleteFunc ::
  "meta_ops \<Rightarrow> ('q, holder) rate_limiting_queue \<Rightarrow> SyncDirection \<Rightarrow> gvr \<Rightarrow> iface \<Rightarrow> 'q \<Rightarrow> 'q outcome" where
  "DeleteFunc U Q dir g obj q =
     bind_outcome (shouldEnqueue U dir g obj) (\<lambda>b.
       Return (if b then AddToQueue U Q g obj q else q))"

section \<open>Construction\<close>

definition down_gvrs :: "string list" where
  "down_gvrs = [''policies.v1.policy.open-cluster-management.io'',
     ''placementbindings.v1.policy.open-cluster-management.io'',
     ''placementrules.v1.apps.open-cluster-management.io'']"

definition up_gvrs :: "string list" where
  "up_gvrs = [''policies.v1.policy.open-cluster-management.io'',
     ''managedclusters.v1.cluster.open-cluster-management.io'',
     ''clustermanagementaddons.v1alpha1.addon.open-cluster-management.io'',
     ''customresourcedefinitions.v1.apiextensions.k8s.io'']"

definition resyncPeriod :: int where
  "resyncPeriod = 10 * 60 * 60"

text \<open>
  The label selector of every informer, \<open>fmt.Sprintf("!%s", ...)\<close>: objects that are not
  replicated policies.
\<close>

definition informer_selector :: string where
  "informer_selector = ''!'' @ ''policy.open-cluster-management.io/root-policy''"

text \<open>\<open>gvr, _ := ParseResourceArg(s)\<close> drops the error; \<open>*gvr\<close> of nil panics.\<close>

fun parse_gvrs :: "meta_ops \<Rightarrow> string list \<Rightarrow> gvr list outcome" where
  "parse_gvrs U [] = Return []"
| "parse_gvrs U (s # ss) =
     (case ParseResourceArg U s of
        None \<Rightarrow> Panic ''invalid memory address or nil pointer dereference''
      | Some g \<Rightarrow> bind_outcome (parse_gvrs U ss) (\<lambda>gs. Return (g # gs)))"

text \<open>
  \<open>New\<close>: the informer factory is made from the client of the source, for all namespaces
  (\<open>metav1.NamespaceAll\<close> is the empty string), with a handler for every resource of
  the direction; the two outlets write with the client of the target.
\<close>

definition New ::
  "meta_ops \<Rightarrow> (HubControlPlane \<Rightarrow> error + content) \<Rightarrow> (string \<Rightarrow> string option) \<Rightarrow> string \<Rightarrow>
   'w dynamic_client \<Rightarrow> 'w dynamic_client \<Rightarrow> string \<Rightarrow> SyncDirection \<Rightarrow> 'w Controller outcome" where
  "New U T env syncer fromClient toClient host dir =
     (let controllerName =
            (if dir = SyncDown then direction_string dir @ ''--global-hub-->regional-hub''
             else direction_string dir @ ''--regional-hub-->global-hub'');
          c = \<lparr>cname = controllerName, syncerName = syncer, fromInformers = None, fromHost = host,
               upsertFn = None, deleteFn = None, direction = dir, gvrs = []\<rparr>;
          c' = (if dir = SyncDown then
                  c\<lparr>upsertFn := Some (\<lambda>g ns ob ix w. Return (applyToDownstream U toClient g ns ob w)),
                    deleteFn := Some (deleteFromDownstream toClient),
                    gvrs := down_gvrs\<rparr>
                else
                  c\<lparr>upsertFn := Some (updateStatusInUpstream U T env toClient syncer host),
                    gvrs := up_gvrs\<rparr>);
          informers = \<lparr>fi_client = fromClient, fi_resync = resyncPeriod, fi_namespace = [],
            fi_selector = informer_selector, fi_watched = []\<rparr>
      in bind_outcome (parse_gvrs U (gvrs c')) (\<lambda>gs.
           Return (c'\<lparr>fromInformers := Some (informers\<lparr>fi_watched := gs\<rparr>)\<rparr>)))"

record rest_config =
  Host :: string
  UserAgent :: string

definition specSyncerAgent :: string where
  "specSyncerAgent = ''globalhub#spec-syncer/v0.0.0''"

definition statusSyncerAgent :: string where
  "statusSyncerAgent = ''globalhub#status-syncer/v0.0.0''"

text \<open>
  \<open>dynamic.NewForConfigOrDie\<close> is the argument \<open>D\<close>: \<open>None\<close> is its panic. The source is read
  through the informers its client makes, the target is written with the other client.
\<close>

definition NewSpecSyncer ::
  "meta_ops \<Rightarrow> (HubControlPlane \<Rightarrow> error + content) \<Rightarrow> (string \<Rightarrow> string option) \<Rightarrow>
   (rest_config \<Rightarrow> 'w dynamic_client option) \<Rightarrow> string \<Rightarrow> rest_config \<Rightarrow> rest_config \<Rightarrow>
   'w Controller outcome" where
  "NewSpecSyncer U T env D syncer from to =
     (let from' = from\<lparr>UserAgent := specSyncerAgent\<rparr>; to' = to\<lparr>UserAgent := specSyncerAgent\<rparr>
      in case D from' of None \<Rightarrow> Panic ''NewForConfigOrDie''
         | Some fromClient \<Rightarrow>
            (case D to' of None \<Rightarrow> Panic ''NewForConfigOrDie''
             | Some toClient \<Rightarrow> New U T env syncer fromClient toClient (Host from') SyncDown))"

definition NewStatusSyncer ::
  "meta_ops \<Rightarrow> (HubControlPlane \<Rightarrow> error + content) \<Rightarrow> (string \<Rightarrow> string option) \<Rightarrow>
   (rest_config \<Rightarrow> 'w dynamic_client option) \<Rightarrow> string \<Rightarrow> rest_config \<Rightarrow> rest_config \<Rightarrow>
   'w Controller outcome" where
  "NewStatusSyncer U T env D syncer from to =
     (let from' = from\<lparr>UserAgent := statusSyncerAgent\<rparr>; to' = to\<lparr>UserAgent := statusSyncerAgent\<rparr>
      in case D from' of None \<Rightarrow> Panic ''NewForConfigOrDie''
         | Some fromClient \<Rightarrow>
            (case D to' of None \<Rightarrow> Panic ''NewForConfigOrDie''
             | Some toClient \<Rightarrow> New U T env syncer fromClient toClient (Host from') SyncUp))"

record SyncerConfig =
  UpstreamConfig :: rest_config
  DownstreamConfig :: rest_config
  SyncerName :: string

text \<open>The two controllers \<open>StartSyncer\<close> starts, the spec syncer first.\<close>

definition StartSyncer ::
  "meta_ops \<Rightarrow> (HubControlPlane \<Rightarrow> error + content) \<Rightarrow> (string \<Rightarrow> string option) \<Rightarrow>
   (rest_config \<Rightarrow> 'w dynamic_client option) \<Rightarrow> SyncerConfig \<Rightarrow>
   ('w Controller \<times> 'w Controller) outcome" where
  "StartSyncer U T env D cfg =
     bind_outcome (NewSpecSyncer U T env D (SyncerName cfg) (UpstreamConfig cfg) (DownstreamConfig cfg))
       (\<lambda>specSyncer.
         bind_outcome (NewStatusSyncer U T env D (SyncerName cfg) (DownstreamConfig cfg) (UpstreamConfig cfg))
           (\<lambda>statusSyncer. Return (specSyncer, statusSyncer)))"

section \<open>Work items\<close>

definition index_key :: "holder \<Rightarrow> string" where
  "index_key h =
     (if length (namespace h) > 0 then namespace h @ ''/'' @ name h else name h)"

definition process :: "'w Controller \<Rightarrow> holder \<Rightarrow> indexers \<Rightarrow> 'w \<Rightarrow> (error option \<times> 'w) outcome" where
  "process c h ix w =
     (case GetByKey ix (gvr h) (index_key h) of
        Inl err \<Rightarrow> Return (Some err, w)
      | Inr obj \<Rightarrow>
          if direction c = SyncDown \<and> obj = None then
            (case deleteFn c of
               Some f \<Rightarrow> Return (f (gvr h) (namespace h) (name h) w)
             | None \<Rightarrow> Return (None, w))
          else
            (case obj of
               Some (Unstr unstrob) \<Rightarrow>
                 (case upsertFn c of
                    Some f \<Rightarrow> f (gvr h) (namespace h) unstrob ix w
                  | None \<Rightarrow> Return (None, w))
             | _ \<Rightarrow> Return (Some (Errorf ''object to synchronize is expected to be Unstructured''), w)))"

text \<open>
  One round of a worker. \<open>None\<close>: \<open>queue.Get()\<close> blocks. The deferred \<open>Done\<close> runs after the
  item was re-added or forgotten.
\<close>

definition processNextWorkItem ::
  "('q, holder) rate_limiting_queue \<Rightarrow> 'w Controller \<Rightarrow> indexers \<Rightarrow> 'q \<Rightarrow> 'w \<Rightarrow>
   (bool \<times> 'q \<times> 'w) outcome option" where
  "processNextWorkItem Q c ix q w =
     (case qGet Q q of
        None \<Rightarrow> None
      | Some (None, q') \<Rightarrow> Some (Return (False, q', w))
      | Some (Some h, q') \<Rightarrow>
          Some (bind_outcome (process c h ix w) (\<lambda>(err, w').
            case err of
              Some _ \<Rightarrow> Return (True, qDone Q h (qAddRateLimited Q h q'), w')
            | None \<Rightarrow> Return (True, qDone Q h (qForget Q h q'), w'))))"

fun startWorker ::
  "nat \<Rightarrow> ('q, holder) rate_limiting_queue \<Rightarrow> 'w Controller \<Rightarrow> indexers \<Rightarrow> 'q \<Rightarrow> 'w \<Rightarrow>
   (stop \<times> 'q \<times> 'w) outcome" where
  "startWorker 0 Q c ix q w = Return (OutOfFuel, q, w)"
| "startWorker (Suc fuel) Q c ix q w =
     (case processNextWorkItem Q c ix q w of
        None \<Rightarrow> Return (Blocked, q, w)
      | Some r \<Rightarrow> bind_outcome r (\<lambda>(cont, q', w').
          if cont then startWorker fuel Q c ix q' w' else Return (Quit, q', w')))"

text \<open>
  \<open>Start\<close> by what it does in order. The result of \<open>WaitForCacheSync\<close> is not looked at, so the
  workers start in any case.
\<close>

definition Start :: "nat \<Rightarrow> run_action list" where
  "Start numThreads = RunInformer # replicate numThreads StartWorker @ [WaitStop, ShutDownQueue]"

section \<open>When handlers enqueue\<close>

text \<open>The condition under which an object passes the guard of the handlers.\<close>

definition eligible :: "meta_ops \<Rightarrow> SyncDirection \<Rightarrow> gvr \<Rightarrow> unstructured \<Rightarrow> bool" where
  "eligible U dir g ob \<longleftrightarrow>
     (if dir = SyncUp
      then Resource g = ''customresourcedefinitions'' \<longrightarrow> GetName U ob = managedClusterCRD
      else GetNamespace U ob = [] \<or>
           label_of U ob GlobalHubPolicyNamespaceLabel = Some (GetNamespace U ob))"

lemma shouldEnqueue_Unstr [panic_free]:
  "shouldEnqueue U dir g (Unstr ob) = Return (eligible U dir g ob)"
  by (auto simp: shouldEnqueue_def eligible_def split: option.splits)

lemma AddToQueue_Unstr: "AddToQueue U Q g (Unstr ob) q = qAdd Q (holder_of U g ob) q"
  by (simp add: AddToQueue_def objToCheck_def)

lemma AddFunc_Unstr [panic_free]:
  "AddFunc U Q dir g (Unstr ob) q =
     Return (if eligible U dir g ob then qAdd Q (holder_of U g ob) q else q)"
  by (simp add: AddFunc_def shouldEnqueue_Unstr AddToQueue_Unstr)

lemma DeleteFunc_Unstr [panic_free]:
  "DeleteFunc U Q dir g (Unstr ob) q =
     Return (if eligible U dir g ob then qAdd Q (holder_of U g ob) q else q)"
  by (simp add: DeleteFunc_def shouldEnqueue_Unstr AddToQueue_Unstr)

definition changed :: "meta_ops \<Rightarrow> SyncDirection \<Rightarrow> unstructured \<Rightarrow> unstructured \<Rightarrow> bool" where
  "changed U dir a b \<longleftrightarrow>
     (if dir = SyncDown then \<not> deepEqualApartFromStatus U (Unstr a) (Unstr b)
      else \<not> deepEqualStatus U (Unstr a) (Unstr b))"

lemma UpdateFunc_Unstr [panic_free]:
  "UpdateFunc U Q dir g (Unstr a) (Unstr b) q =
     Return (if eligible U dir g b \<and> changed U dir a b then qAdd Q (holder_of U g b) q else q)"
  by (simp add: UpdateFunc_def shouldEnqueue_Unstr AddToQueue_Unstr changed_def)

section \<open>The worker loop\<close>

lemma processNextWorkItem_eq:
  "processNextWorkItem Q c ix q w = work_item Q (\<lambda>h. process c h ix) q w"
  by (simp add: processNextWorkItem_def work_item_def)

lemma startWorker_eq: "startWorker fuel Q c ix q w = work_loop fuel Q (\<lambda>h. process c h ix) q w"
proof (induction fuel arbitrary: q w)
  case 0
  then show ?case by simp
next
  case (Suc fuel)
  then have eq: "startWorker fuel Q c ix = work_loop fuel Q (\<lambda>h. process c h ix)" by blast
  show ?case unfolding startWorker.simps work_loop.simps processNextWorkItem_eq eq ..
qed

section \<open>Processing on each branch\<close>

lemma process_error:
  "GetByKey ix (gvr h) (index_key h) = Inl e \<Longrightarrow> process c h ix w = Return (Some e, w)"
  by (simp add: process_def)

lemma process_down_gone:
  assumes "direction c = SyncDown" and "deleteFn c = Some f"
    and "GetByKey ix (gvr h) (index_key h) = Inr None"
  shows "process c h ix w = Return (f (gvr h) (namespace h) (name h) w)"
  using assms by (simp add: process_def)

lemma process_up_gone:
  assumes "direction c = SyncUp" and "GetByKey ix (gvr h) (index_key h) = Inr None"
  shows "process c h ix w =
    Return (Some (Errorf ''object to synchronize is expected to be Unstructured''), w)"
  using assms by (simp add: process_def)

lemma process_present:
  assumes "GetByKey ix (gvr h) (index_key h) = Inr (Some (Unstr ob))" and "upsertFn c = Some f"
  shows "process c h ix w = f (gvr h) (namespace h) ob ix w"
  using assms by (simp add: process_def)

lemmas process_branches = process_error process_down_gone process_up_gone process_present

lemma parse_gvrs_Return: "parse_gvrs U ss = Return gs \<longleftrightarrow> map (ParseResourceArg U) ss = map Some gs"
  by (induction ss arbitrary: gs) (auto simp: bind_outcome_Return_iff Cons_eq_map_conv map_eq_Cons_conv
      split: option.splits)

lemma New_down:
  assumes "New U T env s F C host SyncDown = Return c"
  shows "direction c = SyncDown" "deleteFn c = Some (deleteFromDownstream C)"
    "upsertFn c = Some (\<lambda>g ns ob ix w. Return (applyToDownstream U C g ns ob w))"
  using assms by (auto simp: New_def Let_def bind_outcome_Return_iff)

lemma New_up:
  assumes "New U T env s F C host SyncUp = Return c"
  shows "direction c = SyncUp" "deleteFn c = None"
    "upsertFn c = Some (updateStatusInUpstream U T env C s host)"
  using assms by (auto simp: New_def Let_def bind_outcome_Return_iff)

lemma New_Return:
  assumes "New U T env s F C host dir = Return c"
  obtains gs where "parse_gvrs U (gvrs c) = Return gs"
    and "gvrs c = (if dir = SyncDown then down_gvrs else up_gvrs)"
    and "fromInformers c = Some \<lparr>fi_client = F, fi_resync = resyncPeriod, fi_namespace = [],
        fi_selector = informer_selector, fi_watched = gs\<rparr>"
  using assms by (cases dir) (auto simp: New_def Let_def bind_outcome_Return_iff)

lemma New_informers:
  assumes "New U T env s F C host dir = Return c"
  shows "\<exists>gs. map (ParseResourceArg U) (if dir = SyncDown then down_gvrs else up_gvrs) = map Some gs \<and>
      fromInformers c = Some \<lparr>fi_client = F, fi_resync = 36000, fi_namespace = [],
        fi_selector = ''!policy.open-cluster-management.io/root-policy'', fi_watched = gs\<rparr>"
proof -
  obtain gs where "parse_gvrs U (gvrs c) = Return gs"
    and "gvrs c = (if dir = SyncDown then down_gvrs else up_gvrs)"
    and "fromInformers c = Some \<lparr>fi_client = F, fi_resync = resyncPeriod, fi_namespace = [],
        fi_selector = informer_selector, fi_watched = gs\<rparr>"
    by (rule New_Return [OF assms])
  then show ?thesis
    by (intro exI [of _ gs]) (simp add: parse_gvrs_Return resyncPeriod_def informer_selector_def)
qed

section \<open>Wiring\<close>

lemma start_syncer_wiring:
  assumes "StartSyncer U T env D cfg = Return (spec, status)"
  obtains readGlobal writeLeaf readLeaf writeGlobal where
    "D ((UpstreamConfig cfg)\<lparr>UserAgent := specSyncerAgent\<rparr>) = Some readGlobal"
    and "D ((DownstreamConfig cfg)\<lparr>UserAgent := specSyncerAgent\<rparr>) = Some writeLeaf"
    and "D ((DownstreamConfig cfg)\<lparr>UserAgent := statusSyncerAgent\<rparr>) = Some readLeaf"
    and "D ((UpstreamConfig cfg)\<lparr>UserAgent := statusSyncerAgent\<rparr>) = Some writeGlobal"
    and "New U T env (SyncerName cfg) readGlobal writeLeaf (Host (UpstreamConfig cfg)) SyncDown = Return spec"
    and "New U T env (SyncerName cfg) readLeaf writeGlobal (Host (DownstreamConfig cfg)) SyncUp = Return status"
  using assms
  by (auto simp: StartSyncer_def NewSpecSyncer_def NewStatusSyncer_def Let_def
      bind_outcome_Return_iff split: option.splits)

section \<open>A sample controller and its cache\<close>

definition sample_controller :: "SyncDirection \<Rightarrow> mem_world Controller" where
  "sample_controller dir =
     (case New json_ops (\<lambda>_. Inr []) (\<lambda>_. None) ''hub1'' mem_client mem_client ''https://hub1'' dir of
        Return c \<Rightarrow> c
      | Panic _ \<Rightarrow> \<lparr>cname = [], syncerName = [], fromInformers = None, fromHost = [], upsertFn = None,
          deleteFn = None, direction = dir, gvrs = []\<rparr>)"

lemma sample_New: "New json_ops (\<lambda>_. Inr []) (\<lambda>_. None) ''hub1'' mem_client mem_client ''https://hub1'' dir =
    Return (sample_controller dir)"
proof -
  have "returns (parse_gvrs json_ops down_gvrs)" "returns (parse_gvrs json_ops up_gvrs)" by code_simp+
  then show ?thesis
    by (auto simp: sample_controller_def New_def Let_def returns_iff)
qed

definition sample_policy :: unstructured where
  "sample_policy = sample_object ''ns'' ''p'' [(GlobalHubPolicyNamespaceLabel, ''ns'')] (JStr ''s'')"

definition sample_key :: holder where
  "sample_key = \<lparr>gvr = policiesGVR, namespace = ''ns'', name = ''p''\<rparr>"

definition sample_cache :: "unstructured option \<Rightarrow> indexers" where
  "sample_cache r = \<lparr>GetByKey = (\<lambda>g k. Inr (if g = policiesGVR \<and> k = ''ns/p'' then map_option Unstr r else None)),
     ListItems = (\<lambda>_. [])\<rparr>"

definition sample_queue :: "holder list_queue" where
  "sample_queue = lq_add sample_key lq_empty"

lemma sample_queue_ok: "lq_ok sample_queue"
  by (simp add: sample_queue_def lq_ok_add)

lemma sample_queue_sets: "set (dirty sample_queue) = {sample_key}" "set (inproc sample_queue) = {}"
  by (simp_all add: sample_queue_def lq_add_def lq_empty_def)

lemma sample_policy_meta: "meta_wf sample_policy" "GetName json_ops sample_policy = ''p''"
    "GetNamespace json_ops sample_policy = ''ns''"
  by code_simp+

lemma sample_apply: "\<exists>w'. process (sample_controller SyncDown) sample_key (sample_cache (Some sample_policy)) mem_empty =
    Return (None, w')"
proof -
  have "case process (sample_controller SyncDown) sample_key (sample_cache (Some sample_policy)) mem_empty of
      Return (None, _) \<Rightarrow> True | _ \<Rightarrow> False" by code_simp
  then show ?thesis by (auto split: outcome.splits option.splits)
qed

section \<open>Properties\<close>

text \<open>
  C9. On objects the three handlers return, and the keys pending afterwards are the ones pending
  before plus, exactly if the object is eligible (and, for an update, differs in what the
  direction synchronises), the key of the object.
\<close>

theorem handlers_enqueue_iff:
  assumes "work_queue Q queue_ok pending processing" and "queue_ok q"
  shows "\<exists>q1 q2 q3.
    AddFunc U Q dir g (Unstr ob) q = Return q1 \<and>
    pending q1 = pending q \<union> (if eligible U dir g ob then {holder_of U g ob} else {}) \<and>
    UpdateFunc U Q dir g (Unstr old) (Unstr ob) q = Return q2 \<and>
    pending q2 = pending q \<union> (if eligible U dir g ob \<and> changed U dir old ob then {holder_of U g ob} else {}) \<and>
    DeleteFunc U Q dir g (Unstr ob) q = Return q3 \<and>
    pending q3 = pending q \<union> (if eligible U dir g ob then {holder_of U g ob} else {})"
  using assms by (simp add: panic_free work_queue.pending_Add)

theorem handlers_enqueue_iff_witness:
  "let ob = sample_object ''ns'' ''p'' [(GlobalHubPolicyNamespaceLabel, ''ns'')] JNull;
       old = sample_object ''ns'' ''p'' [(GlobalHubPolicyNamespaceLabel, ''ns'')] (JStr ''s'')
   in \<exists>q1 q2. AddFunc json_ops list_queue_ops SyncDown policiesGVR (Unstr ob) lq_empty = Return q1 \<and>
      set (dirty q1) = {holder_of json_ops policiesGVR ob} \<and>
      UpdateFunc json_ops list_queue_ops SyncDown policiesGVR (Unstr old) (Unstr ob) lq_empty = Return q2 \<and>
      set (dirty q2) = {}"
proof -
  let ?ob = "sample_object ''ns'' ''p'' [(GlobalHubPolicyNamespaceLabel, ''ns'')] JNull"
  let ?old = "sample_object ''ns'' ''p'' [(GlobalHubPolicyNamespaceLabel, ''ns'')] (JStr ''s'')"
  have "eligible json_ops SyncDown policiesGVR ?ob" and "\<not> changed json_ops SyncDown ?old ?ob"
    by code_simp+
  with handlers_enqueue_iff [OF lq.work_queue_axioms lq_ok_empty, of json_ops SyncDown policiesGVR ?ob ?old]
  show ?thesis by (auto simp: Let_def lq_empty_def)
qed

text \<open>
  C19. A deletion the informer missed is delivered as a tombstone. The handler of the spec syncer
  panics on every tombstone, the handler of the status syncer on one of a custom resource
  definition; any other tombstone is dropped, so \<open>AddToQueue\<close>, which could unwrap it, never
  sees one.
\<close>

theorem tombstones_not_queued:
  "DeleteFunc U Q dir g (Tombstone k obj) q =
     (if dir = SyncUp \<and> Resource g \<noteq> ''customresourcedefinitions'' then Return q
      else Panic ''invalid memory address or nil pointer dereference'')"
  by (cases dir) (auto simp: DeleteFunc_def shouldEnqueue_def)

text \<open>
  C10. One round of a worker takes a pending key no other worker holds and releases it; the key
  is pending afterwards exactly if its processing returned an error, and no other key is
  added, removed or taken.
\<close>

theorem work_item_requeued_iff_failed:
  assumes Q: "work_queue Q queue_ok pending processing" and ok: "queue_ok q"
    and run: "processNextWorkItem Q c ix q w = Some (Return (cont, q', w'))"
  shows "\<exists>h err. cont \<and> h \<in> pending q \<and> h \<notin> processing q \<and>
    process c h ix w = Return (err, w') \<and>
    pending q' = (if err = None then pending q - {h} else pending q) \<and>
    processing q' = processing q \<and> queue_ok q'"
  using work_queue.work_item_protocol [OF Q ok run [unfolded processNextWorkItem_eq]] by metis

theorem work_item_requeued_iff_failed_witness:
  "\<exists>q' w'. processNextWorkItem list_queue_ops (sample_controller SyncDown)
      (sample_cache (Some sample_policy)) sample_queue mem_empty = Some (Return (True, q', w')) \<and>
    set (dirty q') = {} \<and> set (inproc q') = {}"
proof -
  obtain w' where pr: "process (sample_controller SyncDown) sample_key (sample_cache (Some sample_policy)) mem_empty =
      Return (None, w')" using sample_apply by blast
  obtain cont q' w2 where run: "processNextWorkItem list_queue_ops (sample_controller SyncDown)
      (sample_cache (Some sample_policy)) sample_queue mem_empty = Some (Return (cont, q', w2))"
    using pr by (auto simp: processNextWorkItem_def sample_queue_def lq_defs)
  from work_item_requeued_iff_failed [OF lq.work_queue_axioms sample_queue_ok run] pr run
  show ?thesis by (auto simp: sample_queue_sets)
qed

text \<open>
  C11. A worker whose items all succeed empties the queue: with fuel for one round more than there
  are pending keys it ends up waiting on an empty queue.
\<close>

theorem worker_empties_queue:
  assumes Q: "work_queue Q queue_ok pending processing"
    and "queue_ok q" and "processing q = {}" and "finite (pending q)"
    and "\<And>h w. h \<in> pending q \<Longrightarrow> \<exists>w'. process c h ix w = Return (None, w')"
  shows "\<exists>q' w'. startWorker (Suc (card (pending q))) Q c ix q w = Return (Blocked, q', w') \<and>
    pending q' = {} \<and> queue_ok q'"
  unfolding startWorker_eq
  by (rule work_queue.worker_drains [OF Q]) (use assms in auto)

theorem worker_empties_queue_witness:
  "\<exists>q' w'. startWorker 2 list_queue_ops
      ((sample_controller SyncDown)\<lparr>deleteFn := None\<rparr>) (sample_cache None) sample_queue mem_empty =
      Return (Blocked, q', w') \<and> set (dirty q') = {} \<and> lq_ok q'"
proof -
  let ?c = "(sample_controller SyncDown)\<lparr>deleteFn := None\<rparr>"
  have "direction ?c = SyncDown" using New_down(1) [OF sample_New] by simp
  then have "process ?c h (sample_cache None) w = Return (None, w)" for h w
    by (simp add: process_def sample_cache_def)
  with worker_empties_queue [OF lq.work_queue_axioms sample_queue_ok, of ?c "sample_cache None" mem_empty]
  show ?thesis by (simp add: sample_queue_sets numeral_2_eq_2)
qed

text \<open>
  C20. The status syncer never gets rid of a key whose object is gone from its cache: if all
  pending objects are gone, the worker fails on every round, and after any number of rounds the
  same keys are pending and nothing was sent.
\<close>

theorem status_deletions_retried_forever:
  assumes Q: "work_queue Q queue_ok pending processing"
    and "queue_ok q" and "processing q = {}" and "pending q \<noteq> {}"
    and new: "New U T env s F C host SyncUp = Return c"
    and gone: "\<And>h. h \<in> pending q \<Longrightarrow> GetByKey ix (gvr h) (index_key h) = Inr None"
  shows "\<exists>q'. startWorker fuel Q c ix q w = Return (OutOfFuel, q', w) \<and> pending q' = pending q"
  unfolding startWorker_eq
  by (rule work_queue.worker_spins [OF Q])
    (use assms(2-4) process_up_gone [OF New_up(1) [OF new] gone] in auto)

theorem status_deletions_retried_forever_witness:
  "\<exists>q'. startWorker 1000 list_queue_ops (sample_controller SyncUp) (sample_cache None) sample_queue mem_empty =
      Return (OutOfFuel, q', mem_empty) \<and> set (dirty q') = {sample_key}"
  using status_deletions_retried_forever [OF lq.work_queue_axioms sample_queue_ok _ _ sample_New,
      of "sample_cache None" 1000 mem_empty]
  by (simp add: sample_queue_sets sample_cache_def)

text \<open>
  C21. For a key whose object is gone from its cache the spec syncer deletes the object on the
  leaf hub and reports the outcome of that call, so that an object the leaf hub does not have
  is an error too and the key is retried.
\<close>

theorem deletion_propagates:
  assumes "New U T env s F C host SyncDown = Return c"
    and "GetByKey ix (gvr h) (index_key h) = Inr None"
  shows "process c h ix w = Return (cDelete C (gvr h) (Some (namespace h)) (name h) w)"
  using process_down_gone [OF New_down(1,2) [OF assms(1)] assms(2)] by (simp add: deleteFromDownstream_def)

theorem deletion_propagates_witness:
  "fst (cDelete mem_client policiesGVR (Some ''ns'') ''p'' mem_empty) = Some (StatusError NotFound) \<and>
   process (sample_controller SyncDown) sample_key (sample_cache None) mem_empty =
     Return (cDelete mem_client policiesGVR (Some ''ns'') ''p'' mem_empty)"
proof -
  have "GetByKey (sample_cache None) (gvr sample_key) (index_key sample_key) = Inr None"
    by (simp add: sample_cache_def)
  from deletion_propagates [OF sample_New this, of mem_empty] show ?thesis
    by (simp add: sample_key_def mem_defs)
qed

end
