(* ===== verification/SyncSystem.thy ===== *)
theory SyncSystem
  imports Syncer
begin

text \<open>
  The spec syncer as a concurrent system. The informer's cache and its handlers, any number
  of workers and the rest of the world take steps in any order:

  \<^item> the informer sees an object appear, change or go, or notices when it lists anew that one
    has gone; it updates its cache first and queues a notification for the handlers. A deletion
    it saw is delivered as the object, one it missed as a tombstone
    (\<open>cache.DeletedFinalStateUnknown\<close>);
  \<^item> the handler goroutine takes the oldest notification and runs \<open>AddFunc\<close>, \<open>UpdateFunc\<close> or
    \<open>DeleteFunc\<close>;
  \<^item> a worker takes a key off the work queue (\<open>queue.Get\<close>), later reads the cache, later
    performs the API calls and finishes the item (\<open>AddRateLimited\<close> or \<open>Forget\<close>, then \<open>Done\<close>);
  \<^item> a handler or a worker that panics takes the whole process down: nothing but the world
    moves afterwards. Every tombstone does this, since \<open>DeleteFunc\<close> calls an accessor on the
    nil pointer its failed type assertion left;
  \<^item> the world changes in any way at any time.

  Two history fields record what cannot be read off the running program: \<open>seen\<close> is the last
  object the informer showed for a key, \<open>applied\<close> what the last successful round for a key
  had read from the cache (\<open>Some None\<close>: it deleted the object).

  The invariant is that no change of an eligible object is ever lost, except that a waiting
  tombstone will end the process instead of putting its key into the queue.
\<close>

section \<open>The system\<close>

datatype notification =
    NoteAdd unstructured
  | NoteUpdate unstructured unstructured
  | NoteDelete unstructured
  | NoteTombstone string iface

datatype phase = Taken | Fetched "unstructured option"

record ('q, 'w) sync_state =
  cache :: "holder \<Rightarrow> unstructured option"
  inbox :: "(gvr \<times> notification) list"
  squeue :: 'q
  inflight :: "holder \<Rightarrow> phase option"
  world :: 'w
  seen :: "holder \<Rightarrow> unstructured option"
  applied :: "holder \<Rightarrow> unstructured option option"
  crashed :: bool

fun run_note :: "meta_ops \<Rightarrow> ('q, holder) rate_limiting_queue \<Rightarrow> gvr \<Rightarrow> notification \<Rightarrow> 'q \<Rightarrow> 'q outcome" where
  "run_note U Q g (NoteAdd ob) q = AddFunc U Q SyncDown g (Unstr ob) q"
| "run_note U Q g (NoteUpdate a b) q = UpdateFunc U Q SyncDown g (Unstr a) (Unstr b) q"
| "run_note U Q g (NoteDelete ob) q = DeleteFunc U Q SyncDown g (Unstr ob) q"
| "run_note U Q g (NoteTombstone k x) q = DeleteFunc U Q SyncDown g (Tombstone k x) q"

text \<open>The only thing \<open>process\<close> reads from the indexer in this direction.\<close>

definition read_only :: "holder \<Rightarrow> unstructured option \<Rightarrow> indexers" where
  "read_only h r =
     \<lparr>GetByKey = (\<lambda>g k. Inr (if g = gvr h \<and> k = index_key h then map_option Unstr r else None)),
      ListItems = (\<lambda>_. [])\<rparr>"

inductive sync_step ::
  "meta_ops \<Rightarrow> ('q, holder) rate_limiting_queue \<Rightarrow> 'w Controller \<Rightarrow>
   ('q, 'w) sync_state \<Rightarrow> ('q, 'w) sync_state \<Rightarrow> bool" for U Q c where
  appear: "\<not> crashed s \<Longrightarrow> cache s h = None \<Longrightarrow> holder_of U (gvr h) ob = h \<Longrightarrow>
     sync_step U Q c s (s\<lparr>cache := (cache s)(h := Some ob), seen := (seen s)(h := Some ob),
       inbox := inbox s @ [(gvr h, NoteAdd ob)]\<rparr>)"
| change: "\<not> crashed s \<Longrightarrow> cache s h = Some old \<Longrightarrow> holder_of U (gvr h) ob = h \<Longrightarrow>
     sync_step U Q c s (s\<lparr>cache := (cache s)(h := Some ob), seen := (seen s)(h := Some ob),
       inbox := inbox s @ [(gvr h, NoteUpdate old ob)]\<rparr>)"
| go: "\<not> crashed s \<Longrightarrow> cache s h = Some old \<Longrightarrow>
     sync_step U Q c s (s\<lparr>cache := (cache s)(h := None), inbox := inbox s @ [(gvr h, NoteDelete old)]\<rparr>)"
| lose: "\<not> crashed s \<Longrightarrow> cache s h = Some old \<Longrightarrow>
     sync_step U Q c s (s\<lparr>cache := (cache s)(h := None),
       inbox := inbox s @ [(gvr h, NoteTombstone (index_key h) x)]\<rparr>)"
| handle: "\<not> crashed s \<Longrightarrow> inbox s = (g, n) # ns \<Longrightarrow> run_note U Q g n (squeue s) = Return q \<Longrightarrow>
     sync_step U Q c s (s\<lparr>inbox := ns, squeue := q\<rparr>)"
| handle_panics: "\<not> crashed s \<Longrightarrow> inbox s = (g, n) # ns \<Longrightarrow> run_note U Q g n (squeue s) = Panic m \<Longrightarrow>
     sync_step U Q c s (s\<lparr>crashed := True\<rparr>)"
| take_item: "\<not> crashed s \<Longrightarrow> qGet Q (squeue s) = Some (Some h, q) \<Longrightarrow>
     sync_step U Q c s (s\<lparr>squeue := q, inflight := (inflight s)(h := Some Taken)\<rparr>)"
| fetch: "\<not> crashed s \<Longrightarrow> inflight s h = Some Taken \<Longrightarrow>
     sync_step U Q c s (s\<lparr>inflight := (inflight s)(h := Some (Fetched (cache s h)))\<rparr>)"
| finish_ok: "\<not> crashed s \<Longrightarrow> inflight s h = Some (Fetched r) \<Longrightarrow>
     process c h (read_only h r) (world s) = Return (None, w) \<Longrightarrow>
     sync_step U Q c s (s\<lparr>world := w, inflight := (inflight s)(h := None),
       applied := (applied s)(h := Some r), squeue := qDone Q h (qForget Q h (squeue s))\<rparr>)"
| finish_error: "\<not> crashed s \<Longrightarrow> inflight s h = Some (Fetched r) \<Longrightarrow>
     process c h (read_only h r) (world s) = Return (Some e, w) \<Longrightarrow>
     sync_step U Q c s (s\<lparr>world := w, inflight := (inflight s)(h := None),
       squeue := qDone Q h (qAddRateLimited Q h (squeue s))\<rparr>)"
| finish_panics: "\<not> crashed s \<Longrightarrow> inflight s h = Some (Fetched r) \<Longrightarrow>
     process c h (read_only h r) (world s) = Panic m \<Longrightarrow>
     sync_step U Q c s (s\<lparr>crashed := True\<rparr>)"
| environment: "sync_step U Q c s (s\<lparr>world := w\<rparr>)"

inductive sync_reachable ::
  "meta_ops \<Rightarrow> ('q, holder) rate_limiting_queue \<Rightarrow> 'w Controller \<Rightarrow>
   ('q, 'w) sync_state \<Rightarrow> ('q, 'w) sync_state \<Rightarrow> bool" for U Q c s0 where
  start: "sync_reachable U Q c s0 s0"
| step: "sync_reachable U Q c s0 s \<Longrightarrow> sync_step U Q c s t \<Longrightarrow> sync_reachable U Q c s0 t"

definition initial_state :: "'q \<Rightarrow> 'w \<Rightarrow> ('q, 'w) sync_state" where
  "initial_state q w = \<lparr>cache = (\<lambda>_. None), inbox = [], squeue = q, inflight = (\<lambda>_. None),
     world = w, seen = (\<lambda>_. None), applied = (\<lambda>_. None), crashed = False\<rparr>"

section \<open>No lost update\<close>

text \<open>The object a round read still stands for what the cache holds now.\<close>

fun agrees :: "meta_ops \<Rightarrow> unstructured option \<Rightarrow> unstructured option \<Rightarrow> bool" where
  "agrees U None None = True"
| "agrees U (Some a) (Some b) = deepEqualApartFromStatus U (Unstr a) (Unstr b)"
| "agrees U _ _ = False"

text \<open>A notification that will put the key \<open>h\<close> into the work queue when it is handled.\<close>

fun announces :: "meta_ops \<Rightarrow> holder \<Rightarrow> gvr \<times> notification \<Rightarrow> bool" where
  "announces U h (g, NoteAdd ob) \<longleftrightarrow> eligible U SyncDown g ob \<and> holder_of U g ob = h"
| "announces U h (g, NoteUpdate a b) \<longleftrightarrow>
     eligible U SyncDown g b \<and> changed U SyncDown a b \<and> holder_of U g b = h"
| "announces U h (g, NoteDelete ob) \<longleftrightarrow> eligible U SyncDown g ob \<and> holder_of U g ob = h"
| "announces U h (g, NoteTombstone k x) \<longleftrightarrow> False"

text \<open>
  Nothing more has to happen for a key: a worker that took it has yet to read the cache, or
  what the running round read agrees with the cache, or no round is running and what the last
  successful one read agrees with it.
\<close>

fun settled :: "meta_ops \<Rightarrow> phase option \<Rightarrow> unstructured option option \<Rightarrow> unstructured option \<Rightarrow> bool" where
  "settled U (Some Taken) a r = True"
| "settled U (Some (Fetched r')) a r = agrees U r' r"
| "settled U None (Some r') r = agrees U r' r"
| "settled U None None r = False"

definition covered :: "meta_ops \<Rightarrow> ('q \<Rightarrow> holder set) \<Rightarrow> ('q, 'w) sync_state \<Rightarrow> holder \<Rightarrow> bool" where
  "covered U pending s h \<longleftrightarrow>
     h \<in> pending (squeue s) \<or>
     (\<exists>n \<in> set (inbox s). announces U h n) \<or>
     settled U (inflight s h) (applied s h) (cache s h)"

text \<open>A deletion of the key \<open>h\<close> waits that the informer missed.\<close>

definition tombstoned :: "('q, 'w) sync_state \<Rightarrow> holder \<Rightarrow> bool" where
  "tombstoned s h \<longleftrightarrow> (\<exists>x. (gvr h, NoteTombstone (index_key h) x) \<in> set (inbox s))"

definition sync_inv ::
  "meta_ops \<Rightarrow> ('q \<Rightarrow> bool) \<Rightarrow> ('q \<Rightarrow> holder set) \<Rightarrow> ('q \<Rightarrow> holder set) \<Rightarrow> ('q, 'w) sync_state \<Rightarrow> bool" where
  "sync_inv U queue_ok pending processing s \<longleftrightarrow>
     queue_ok (squeue s) \<and>
     (\<forall>h. inflight s h \<noteq> None \<longleftrightarrow> h \<in> processing (squeue s)) \<and>
     (\<forall>h ob. cache s h = Some ob \<longrightarrow> seen s h = Some ob) \<and>
     (\<forall>h ob. seen s h = Some ob \<longrightarrow> holder_of U (gvr h) ob = h) \<and>
     (\<forall>h ob. seen s h = Some ob \<longrightarrow> eligible U SyncDown (gvr h) ob \<longrightarrow>
        covered U pending s h \<or> tombstoned s h)"

lemma down_tombstone:
  "DeleteFunc U Q SyncDown g (Tombstone k x) q = Panic ''invalid memory address or nil pointer dereference''"
  by (simp add: DeleteFunc_def shouldEnqueue_def)

lemma tombstone_panics: "\<exists>m. run_note U Q g (NoteTombstone k x) q = Panic m"
  by (simp add: down_tombstone)

lemma run_note_effect:
  "run_note U Q g n q = Return q' \<Longrightarrow>
     (\<forall>h. \<not> announces U h (g, n)) \<and> q' = q \<or> (\<exists>h. announces U h (g, n) \<and> q' = qAdd Q h q)"
  by (cases n) (auto simp: panic_free down_tombstone split: if_splits)

lemma announces_unique: "announces U h n \<Longrightarrow> announces U h' n \<Longrightarrow> h = h'"
  by (cases n; cases "snd n") auto

lemma run_note_panics_iff: "(\<exists>m. run_note U Q g n q = Panic m) \<longleftrightarrow> (\<exists>k x. n = NoteTombstone k x)"
  using tombstone_panics by (cases n) (fastforce simp: panic_free)+

locale spec_sync = work_queue Q queue_ok pending processing + semantic_equality U
  for Q :: "('q, holder) rate_limiting_queue"
    and queue_ok :: "'q \<Rightarrow> bool" and pending :: "'q \<Rightarrow> holder set" and processing :: "'q \<Rightarrow> holder set"
    and U :: meta_ops
begin

abbreviation inv :: "('q, 'w) sync_state \<Rightarrow> bool" where
  "inv \<equiv> sync_inv U queue_ok pending processing"

lemma agrees_refl: "agrees U r r"
  by (cases r) (simp_all add: same_spec_refl)

lemma agrees_trans: "agrees U a b \<Longrightarrow> agrees U b c \<Longrightarrow> agrees U a c"
  by (cases a; cases b; cases c) (auto intro: same_spec_trans)

lemma same_spec_eligible:
  assumes "deepEqualApartFromStatus U (Unstr a) (Unstr b)" and "GetNamespace U a = GetNamespace U b"
  shows "eligible U SyncDown g a = eligible U SyncDown g b"
  using assms same_spec_label [OF assms(1)] by (simp add: eligible_def)

lemma inv_init: "queue_ok q \<Longrightarrow> processing q = {} \<Longrightarrow> inv (initial_state q w)"
  by (simp add: sync_inv_def initial_state_def)

lemma inv_appear:
  assumes inv: "inv s" and "cache s h = None" and "holder_of U (gvr h) ob = h"
  shows "inv (s\<lparr>cache := (cache s)(h := Some ob), seen := (seen s)(h := Some ob),
       inbox := inbox s @ [(gvr h, NoteAdd ob)]\<rparr>)"
  using assms by (auto simp: sync_inv_def covered_def tombstoned_def)

lemma inv_go:
  assumes inv: "inv s" and "cache s h = Some old"
  shows "inv (s\<lparr>cache := (cache s)(h := None), inbox := inbox s @ [(gvr h, NoteDelete old)]\<rparr>)"
  using assms by (auto simp: sync_inv_def covered_def tombstoned_def)

lemma inv_lose:
  assumes inv: "inv s" and "cache s h = Some old"
  shows "inv (s\<lparr>cache := (cache s)(h := None),
       inbox := inbox s @ [(gvr h, NoteTombstone (index_key h) x)]\<rparr>)" (is "inv ?t")
proof -
  have "covered U pending ?t h' \<or> tombstoned ?t h'" if "covered U pending s h' \<or> tombstoned s h'" for h'
    using that by (cases "h' = h") (auto simp: covered_def tombstoned_def)
  with inv show ?thesis by (auto simp: sync_inv_def)
qed

lemma settled_trans: "settled U p a r \<Longrightarrow> agrees U r r' \<Longrightarrow> settled U p a r'"
  by (cases "(U, p, a, r)" rule: settled.cases) (auto intro: agrees_trans)

lemma covered_change:
  assumes cov: "covered U pending s h" and "cache s h = Some old"
    and same: "deepEqualApartFromStatus U (Unstr old) (Unstr ob)"
  shows "covered U pending (s\<lparr>cache := (cache s)(h := Some ob), seen := sn, inbox := inbox s @ ns\<rparr>) h"
  using settled_trans [of "inflight s h" "applied s h" "Some old" "Some ob"] assms by (auto simp: covered_def)

lemma inv_change:
  assumes inv: "inv s" and old: "cache s h = Some old" and hold: "holder_of U (gvr h) ob = h"
  shows "inv (s\<lparr>cache := (cache s)(h := Some ob), seen := (seen s)(h := Some ob),
       inbox := inbox s @ [(gvr h, NoteUpdate old ob)]\<rparr>)" (is "inv ?t")
proof -
  from inv old have seen: "seen s h = Some old" and hold': "holder_of U (gvr h) old = h"
    by (auto simp: sync_inv_def)
  have ns: "GetNamespace U old = GetNamespace U ob"
    using hold hold' by (simp add: holder_of_def)
      (metis holder.select_convs(2))
  have kept: "tombstoned ?t h'" if "tombstoned s h'" for h'
    using that by (auto simp: tombstoned_def)
  have "covered U pending ?t h \<or> tombstoned ?t h" if el: "eligible U SyncDown (gvr h) ob"
  proof (cases "deepEqualApartFromStatus U (Unstr old) (Unstr ob)")
    case True
    with el ns have "eligible U SyncDown (gvr h) old" by (simp add: same_spec_eligible)
    with inv seen have "covered U pending s h \<or> tombstoned s h" by (auto simp: sync_inv_def)
    then show ?thesis using covered_change [OF _ old True] kept by blast
  next
    case False
    with el hold show ?thesis by (auto simp: covered_def changed_def)
  qed
  moreover have "covered U pending ?t h' \<or> tombstoned ?t h'"
    if "h' \<noteq> h" "seen s h' = Some o'" "eligible U SyncDown (gvr h') o'" for h' o'
  proof -
    from inv that have "covered U pending s h' \<or> tombstoned s h'" by (auto simp: sync_inv_def)
    with that(1) kept show ?thesis by (auto simp: covered_def)
  qed
  ultimately show ?thesis using inv hold by (auto simp: sync_inv_def)
qed

lemma inv_handle:
  assumes inv: "inv s" and ns: "inbox s = (g, n) # ns" and run: "run_note U Q g n (squeue s) = Return q"
  shows "inv (s\<lparr>inbox := ns, squeue := q\<rparr>)" (is "inv ?t")
proof -
  have "n \<noteq> NoteTombstone k x" for k x
    using tombstone_panics [of U Q g k x "squeue s"] run by auto
  with ns have kept: "tombstoned ?t h \<longleftrightarrow> tombstoned s h" for h by (auto simp: tombstoned_def)
  show ?thesis using run_note_effect [OF run]
  proof
    assume "(\<forall>h. \<not> announces U h (g, n)) \<and> q = squeue s"
    with inv ns kept show ?thesis by (auto simp: sync_inv_def covered_def)
  next
    assume "\<exists>h. announces U h (g, n) \<and> q = qAdd Q h (squeue s)"
    then obtain h where h: "announces U h (g, n)" "q = qAdd Q h (squeue s)" by blast
    have only: "announces U h' (g, n) \<longleftrightarrow> h' = h" for h'
      using announces_unique [OF h(1)] h(1) by blast
    from inv ns h(2) kept show ?thesis
      by (simp add: sync_inv_def covered_def queue_effects only) blast
  qed
qed

lemma inv_take:
  assumes inv: "inv s" and get: "qGet Q (squeue s) = Some (Some h, q)"
  shows "inv (s\<lparr>squeue := q, inflight := (inflight s)(h := Some Taken)\<rparr>)"
proof -
  from inv have "queue_ok (squeue s)" by (simp add: sync_inv_def)
  from Get_item [OF this get] inv show ?thesis by (auto simp: sync_inv_def covered_def tombstoned_def)
qed

lemma inv_fetch:
  assumes inv: "inv s" and taken: "inflight s h = Some Taken"
  shows "inv (s\<lparr>inflight := (inflight s)(h := Some (Fetched (cache s h)))\<rparr>)"
proof -
  from inv taken have "h \<in> processing (squeue s)" by (force simp: sync_inv_def)
  with inv show ?thesis by (auto simp: sync_inv_def covered_def tombstoned_def agrees_refl)
qed

lemma inv_finish_ok:
  assumes inv: "inv s" and run: "inflight s h = Some (Fetched r)"
  shows "inv (s\<lparr>world := w, inflight := (inflight s)(h := None),
       applied := (applied s)(h := Some r), squeue := qDone Q h (qForget Q h (squeue s))\<rparr>)"
  using assms by (auto simp: sync_inv_def covered_def tombstoned_def queue_effects) (metis settled.simps(2))

lemma inv_finish_error:
  assumes inv: "inv s" and run: "inflight s h = Some (Fetched r)"
  shows "inv (s\<lparr>world := w, inflight := (inflight s)(h := None),
       squeue := qDone Q h (qAddRateLimited Q h (squeue s))\<rparr>)"
  using assms by (auto simp: sync_inv_def covered_def tombstoned_def queue_effects)

lemma inv_step: "sync_step U Q c s t \<Longrightarrow> inv s \<Longrightarrow> inv t"
proof (induction rule: sync_step.induct)
  case (environment s w)
  then show ?case by (simp add: sync_inv_def covered_def tombstoned_def)
next
  case (handle_panics s g n ns m)
  then show ?case by (simp add: sync_inv_def covered_def tombstoned_def)
next
  case (finish_panics s h r m)
  then show ?case by (simp add: sync_inv_def covered_def tombstoned_def)
qed (blast intro: inv_appear inv_change inv_go inv_lose inv_handle inv_take inv_fetch inv_finish_ok
      inv_finish_error)+

lemma inv_reachable:
  assumes "sync_reachable U Q c (initial_state q w) s" and "queue_ok q" and "processing q = {}"
  shows "inv s"
  using assms by (induction rule: sync_reachable.induct) (blast intro: inv_init inv_step)+

text \<open>With nothing left to do, every eligible key has been synchronised with the cache.\<close>

lemma quiescent_synced:
  assumes "sync_reachable U Q c (initial_state q w) s" and "queue_ok q" and "processing q = {}"
    and "inbox s = []" and "pending (squeue s) = {}" and "processing (squeue s) = {}"
    and "seen s h = Some ob" and "eligible U SyncDown (gvr h) ob"
  shows "\<exists>r. applied s h = Some r \<and> agrees U r (cache s h)"
proof -
  from inv_reachable [OF assms(1-3)] have inv: "inv s" .
  with assms(6) have "inflight s h = None" by (auto simp: sync_inv_def)
  moreover from inv assms(7,8) have "covered U pending s h \<or> tombstoned s h" by (auto simp: sync_inv_def)
  ultimately show ?thesis using assms(4,5) by (cases "applied s h") (auto simp: covered_def tombstoned_def)
qed

end

interpretation json_sync: spec_sync list_queue_ops lq_ok "\<lambda>q. set (dirty q)" "\<lambda>q. set (inproc q)" json_ops
  by unfold_locales

inductive_simps sync_step_from: "sync_step U Q c s t"

section \<open>A run of the system\<close>

text \<open>One policy appears, is announced, taken, read from the cache and applied.\<close>

definition s0 :: "(holder list_queue, mem_world) sync_state" where
  "s0 = initial_state lq_empty mem_empty"

definition s1 :: "(holder list_queue, mem_world) sync_state" where
  "s1 = s0\<lparr>cache := (cache s0)(sample_key := Some sample_policy), seen := (seen s0)(sample_key := Some sample_policy),
     inbox := [(policiesGVR, NoteAdd sample_policy)]\<rparr>"

definition s2 :: "(holder list_queue, mem_world) sync_state" where
  "s2 = s1\<lparr>inbox := [], squeue := sample_queue\<rparr>"

definition taken_queue :: "holder list_queue" where
  "taken_queue = \<lparr>ready = [], dirty = [], inproc = [sample_key], requeues = [], down = False\<rparr>"

definition s3 :: "(holder list_queue, mem_world) sync_state" where
  "s3 = s2\<lparr>squeue := taken_queue, inflight := (inflight s2)(sample_key := Some Taken)\<rparr>"

definition s4 :: "(holder list_queue, mem_world) sync_state" where
  "s4 = s3\<lparr>inflight := (inflight s3)(sample_key := Some (Fetched (cache s3 sample_key)))\<rparr>"

definition s5 :: "mem_world \<Rightarrow> (holder list_queue, mem_world) sync_state" where
  "s5 w = s4\<lparr>world := w, inflight := (inflight s4)(sample_key := None),
     applied := (applied s4)(sample_key := Some (Some sample_policy)),
     squeue := qDone list_queue_ops sample_key (qForget list_queue_ops sample_key taken_queue)\<rparr>"

definition lost_state :: "mem_world \<Rightarrow> (holder list_queue, mem_world) sync_state" where
  "lost_state w = (s5 w)\<lparr>cache := (cache (s5 w))(sample_key := None),
     inbox := [(policiesGVR, NoteTombstone (index_key sample_key) (Unstr sample_policy))]\<rparr>"

lemmas run_defs = s0_def s1_def s2_def s3_def s4_def s5_def initial_state_def

lemma sample_holder: "holder_of json_ops policiesGVR sample_policy = sample_key"
  by (simp add: holder_of_def sample_key_def sample_policy_meta)

lemma sample_eligible: "eligible json_ops SyncDown policiesGVR sample_policy"
  by code_simp

lemma sample_key_gvr: "gvr sample_key = policiesGVR"
  by (simp add: sample_key_def)

abbreviation sample_reachable :: "(holder list_queue, mem_world) sync_state \<Rightarrow> bool" where
  "sample_reachable \<equiv> sync_reachable json_ops list_queue_ops (sample_controller SyncDown) s0"

lemma reach1: "sample_reachable s1"
  using sync_step.appear [of s0 sample_key json_ops sample_policy list_queue_ops "sample_controller SyncDown"]
  by (intro sync_reachable.step [OF sync_reachable.start])
    (simp add: run_defs sample_holder sample_key_gvr)

lemma reach2: "sample_reachable s2"
proof (rule sync_reachable.step [OF reach1])
  have "run_note json_ops list_queue_ops policiesGVR (NoteAdd sample_policy) (squeue s1) = Return sample_queue"
    by (simp add: run_defs AddFunc_Unstr sample_eligible sample_holder sample_queue_def list_queue_ops_def)
  from sync_step.handle [OF _ _ this, where ns = "[]"]
  show "sync_step json_ops list_queue_ops (sample_controller SyncDown) s1 s2"
    by (simp add: run_defs)
qed

lemma reach3: "sample_reachable s3"
proof (rule sync_reachable.step [OF reach2])
  have "qGet list_queue_ops (squeue s2) = Some (Some sample_key, taken_queue)"
    by (simp add: s2_def sample_queue_def taken_queue_def lq_defs)
  from sync_step.take_item [OF _ this, of json_ops "sample_controller SyncDown"]
  show "sync_step json_ops list_queue_ops (sample_controller SyncDown) s2 s3" by (simp add: run_defs)
qed

lemma reach4: "sample_reachable s4"
  using sync_step.fetch [of s3 sample_key json_ops list_queue_ops "sample_controller SyncDown"]
  by (intro sync_reachable.step [OF reach3]) (simp add: run_defs)

lemma reach5: "\<exists>w. sample_reachable (s5 w)"
proof -
  have "read_only sample_key (Some sample_policy) = sample_cache (Some sample_policy)"
    by (simp add: read_only_def sample_cache_def sample_key_def index_key_def)
  with sample_apply obtain w where
    "process (sample_controller SyncDown) sample_key (read_only sample_key (Some sample_policy)) (world s4) = Return (None, w)"
    by (auto simp: run_defs)
  from sync_step.finish_ok [OF _ _ this, of json_ops list_queue_ops]
  have "sync_step json_ops list_queue_ops (sample_controller SyncDown) s4 (s5 w)"
    by (simp add: run_defs)
  then show ?thesis by (blast intro: sync_reachable.step [OF reach4])
qed

section \<open>Properties\<close>

text \<open>
  C1. No update is lost, however informer, handlers, workers and the world interleave: at any time
  the key of an eligible object is pending, or about to be announced by a waiting
  notification, or taken by a worker that has still to read the cache, or what was read from
  the cache agrees with it. The one exception is a deletion the informer missed: its tombstone
  is never taken out of the inbox, and whatever the queue holds, handling it ends the process
  without a key being queued. This holds for every queue with the documented contract and every
  outcome of the API calls.
\<close>

theorem no_update_lost:
  assumes "work_queue Q queue_ok pending processing" and "semantic_equality U"
    and "sync_reachable U Q c (initial_state q w) s" and "queue_ok q" and "processing q = {}"
    and "seen s h = Some ob" and "eligible U SyncDown (gvr h) ob"
  shows "covered U pending s h \<or>
    (\<exists>x. (gvr h, NoteTombstone (index_key h) x) \<in> set (inbox s) \<and>
       (\<forall>q'. \<not> returns (run_note U Q (gvr h) (NoteTombstone (index_key h) x) q')))"
proof -
  from spec_sync.inv_reachable [OF spec_sync.intro [OF assms(1,2)] assms(3,4,5)] assms(6,7)
  have "covered U pending s h \<or> tombstoned s h" by (auto simp: sync_inv_def)
  moreover have "\<not> returns (run_note U Q (gvr h) (NoteTombstone (index_key h) x) q')" for x q'
    using tombstone_panics [of U Q "gvr h" "index_key h" x q'] by auto
  ultimately show ?thesis by (auto simp: tombstoned_def simp del: run_note.simps)
qed

text \<open>
  The run above at two points: the worker has taken the policy's key; and, after the policy was
  synchronised, the informer finds out that it is gone, the tombstone waits and ends the process.
\<close>

lemma reach_lost: "\<exists>w. sample_reachable (lost_state w)"
proof -
  obtain w where "sample_reachable (s5 w)" using reach5 by blast
  moreover have "sync_step json_ops list_queue_ops (sample_controller SyncDown) (s5 w) (lost_state w)"
    using sync_step.lose [of "s5 w" sample_key sample_policy json_ops list_queue_ops "sample_controller SyncDown"
        "Unstr sample_policy"]
    by (simp add: run_defs lost_state_def sample_key_gvr)
  ultimately show ?thesis by (blast intro: sync_reachable.step)
qed

theorem no_update_lost_witness:
  "covered json_ops (\<lambda>q. set (dirty q)) s3 sample_key \<and>
   (\<exists>w. sample_reachable (lost_state w) \<and> \<not> covered json_ops (\<lambda>q. set (dirty q)) (lost_state w) sample_key \<and>
      (\<forall>q'. \<not> returns (run_note json_ops list_queue_ops (gvr sample_key)
         (NoteTombstone (index_key sample_key) (Unstr sample_policy)) q')) \<and>
      sync_step json_ops list_queue_ops (sample_controller SyncDown) (lost_state w) ((lost_state w)\<lparr>crashed := True\<rparr>))"
    (is "?here \<and> ?lost")
proof
  note lost = no_update_lost [OF lq.work_queue_axioms json_eq.semantic_equality_axioms _ lq_ok_empty _ _
      sample_eligible [folded sample_key_gvr]]
  have idle: "set (inproc lq_empty) = {}" by (simp add: lq_empty_def)
  have "seen s3 sample_key = Some sample_policy" and "inbox s3 = []" by (simp_all add: run_defs)
  with lost [OF reach3 [unfolded s0_def] idle] show ?here by (simp del: run_note.simps)
  obtain w where reach: "sample_reachable (lost_state w)" using reach_lost by blast
  have seen: "seen (lost_state w) sample_key = Some sample_policy"
    and inbox: "inbox (lost_state w) = [(gvr sample_key, NoteTombstone (index_key sample_key) (Unstr sample_policy))]"
    and up: "\<not> crashed (lost_state w)"
    by (simp_all add: lost_state_def run_defs sample_key_gvr)
  have uncovered: "\<not> covered json_ops (\<lambda>q. set (dirty q)) (lost_state w) sample_key"
    by (simp add: lost_state_def run_defs covered_def taken_queue_def lq_defs)
  with lost [OF reach [unfolded s0_def] idle seen] inbox
  have panics: "\<forall>q'. \<not> returns (run_note json_ops list_queue_ops (gvr sample_key)
      (NoteTombstone (index_key sample_key) (Unstr sample_policy)) q')" by (auto simp del: run_note.simps)
  then obtain m where "run_note json_ops list_queue_ops (gvr sample_key)
      (NoteTombstone (index_key sample_key) (Unstr sample_policy)) (squeue (lost_state w)) = Panic m"
    by (metis returns.simps(2) outcome.exhaust)
  from sync_step.handle_panics [OF up inbox this] panics uncovered reach show ?lost by blast
qed

text \<open>
  C2. When the spec syncer has nothing left to do (no notification waits, no key is pending or
  being processed), every eligible object it ever saw has been synchronised: its last round
  succeeded and had read an object that agrees with the cache, or found it gone if it is gone.
\<close>

theorem quiescent_in_sync:
  assumes "work_queue Q queue_ok pending processing" and "semantic_equality U"
    and "sync_reachable U Q c (initial_state q w) s" and "queue_ok q" and "processing q = {}"
    and "inbox s = []" and "pending (squeue s) = {}" and "processing (squeue s) = {}"
    and "seen s h = Some ob" and "eligible U SyncDown (gvr h) ob"
  shows "\<exists>r. applied s h = Some r \<and> agrees U r (cache s h)"
  by (rule spec_sync.quiescent_synced [OF spec_sync.intro [OF assms(1,2)] assms(3-10)])

theorem quiescent_in_sync_witness:
  "\<exists>w r. sample_reachable (s5 w) \<and> applied (s5 w) sample_key = Some r \<and>
     agrees json_ops r (Some sample_policy)"
proof -
  obtain w where reach: "sample_reachable (s5 w)" using reach5 by blast
  have idle: "inbox (s5 w) = []" "set (dirty (squeue (s5 w))) = {}" "set (inproc (squeue (s5 w))) = {}"
    and seen: "seen (s5 w) sample_key = Some sample_policy" "cache (s5 w) sample_key = Some sample_policy"
    by (simp_all add: run_defs taken_queue_def lq_defs)
  have "eligible json_ops SyncDown (gvr sample_key) sample_policy"
    by (simp add: sample_eligible sample_key_gvr)
  from quiescent_in_sync [OF lq.work_queue_axioms json_eq.semantic_equality_axioms reach [unfolded s0_def]
      lq_ok_empty _ idle seen(1) this]
  show ?thesis using reach seen(2) by (auto simp: lq_empty_def)
qed

end
