(* ===== verification/SyncerCommand.thy ===== *)
theory SyncerCommand
  imports Syncer
begin

text \<open>
  The syncer's command, \<^verbatim>\<open>src/cmd/syncer/options/options.go\<close> and \<^verbatim>\<open>src/cmd/syncer/cmd/syncer.go\<close>:
  its options, their validation and the start of the two controllers. Loading a kubeconfig file
  and building the in-cluster configuration are library calls, arguments of the definitions; an
  empty \<open>--to-kubeconfig\<close> selects the latter.
\<close>

record Options =
  FromKubeconfig :: string
  ToKubeconfig :: string
  PodNamespace :: string

definition NewOptions :: Options where
  "NewOptions = \<lparr>FromKubeconfig = [], ToKubeconfig = [], PodNamespace = []\<rparr>"

text \<open>The flags: each option that is given replaces the default; \<open>--pod-namespace\<close> has one.\<close>

definition AddFlags :: "string option \<Rightarrow> string option \<Rightarrow> string option \<Rightarrow> Options \<Rightarrow> Options" where
  "AddFlags from_kubeconfig to_kubeconfig pod_namespace options =
     options\<lparr>FromKubeconfig := (case from_kubeconfig of None \<Rightarrow> FromKubeconfig options | Some f \<Rightarrow> f),
             ToKubeconfig := (case to_kubeconfig of None \<Rightarrow> ToKubeconfig options | Some f \<Rightarrow> f),
             PodNamespace := (case pod_namespace of None \<Rightarrow> ''default'' | Some n \<Rightarrow> n)\<rparr>"

definition Options_Complete :: "Options \<Rightarrow> error option" where
  "Options_Complete options = None"

definition Options_Validate :: "Options \<Rightarrow> error option" where
  "Options_Validate options =
     (if FromKubeconfig options = [] then Some (Errorf ''--from-kubeconfig is required'') else None)"

definition numThreads :: nat where
  "numThreads = 2"

text \<open>
  \<open>Run\<close>: the controllers it starts, each with what its goroutine does. \<open>load\<close> reads a kubeconfig
  file, \<open>inCluster\<close> is the outcome of \<open>BuildConfigFromFlags\<close> on empty arguments.
\<close>

type_synonym 'w started = "'w Controller \<times> run_action list"

definition Run ::
  "meta_ops \<Rightarrow> (HubControlPlane \<Rightarrow> error + content) \<Rightarrow> (string \<Rightarrow> string option) \<Rightarrow>
   (rest_config \<Rightarrow> 'w dynamic_client option) \<Rightarrow> (string \<Rightarrow> error + rest_config) \<Rightarrow> error + rest_config \<Rightarrow>
   Options \<Rightarrow> (error + 'w started \<times> 'w started) outcome" where
  "Run U T env D load inCluster options =
     (case load (FromKubeconfig options) of
        Inl err \<Rightarrow> Return (Inl err)
      | Inr globalhubConfig \<Rightarrow>
          (case (if length (ToKubeconfig options) > 0 then load (ToKubeconfig options) else inCluster) of
             Inl err \<Rightarrow> Return (Inl err)
           | Inr toConfig \<Rightarrow>
               bind_outcome
                 (StartSyncer U T env D \<lparr>UpstreamConfig = globalhubConfig, DownstreamConfig = toConfig,
                    SyncerName = PodNamespace options\<rparr>)
                 (\<lambda>(spec, status). Return (Inr ((spec, Start numThreads), (status, Start numThreads))))))"

definition RunE ::
  "meta_ops \<Rightarrow> (HubControlPlane \<Rightarrow> error + content) \<Rightarrow> (string \<Rightarrow> string option) \<Rightarrow>
   (rest_config \<Rightarrow> 'w dynamic_client option) \<Rightarrow> (string \<Rightarrow> error + rest_config) \<Rightarrow> error + rest_config \<Rightarrow>
   Options \<Rightarrow> (error + 'w started \<times> 'w started) outcome" where
  "RunE U T env D load inCluster options =
     (case Options_Complete options of
        Some err \<Rightarrow> Return (Inl err)
      | None \<Rightarrow>
          (case Options_Validate options of
             Some err \<Rightarrow> Return (Inl err)
           | None \<Rightarrow> Run U T env D load inCluster options))"

section \<open>Properties\<close>

lemma RunE_started:
  assumes "RunE U T env D load inCluster options = Return (Inr ((spec, acts), (status, acts')))"
  obtains global leaf where "FromKubeconfig options \<noteq> []" and "load (FromKubeconfig options) = Inr global"
    and "(if ToKubeconfig options = [] then inCluster else load (ToKubeconfig options)) = Inr leaf"
    and "StartSyncer U T env D \<lparr>UpstreamConfig = global, DownstreamConfig = leaf, SyncerName = PodNamespace options\<rparr> =
      Return (spec, status)"
    and "acts = Start numThreads" and "acts' = Start numThreads"
  using assms
  by (auto simp: RunE_def Run_def Options_Complete_def Options_Validate_def bind_outcome_Return_iff
      split: if_splits sum.splits)

text \<open>
  C22. A started syncer is wired the right way round: the configuration named by
  \<open>--from-kubeconfig\<close> is the global hub, the one named by \<open>--to-kubeconfig\<close>, or the cluster it
  runs in, is the leaf hub. The spec syncer's informers watch the global hub, in all namespaces
  but without the replicated policies, for policies, placement bindings and placement rules; it
  writes to the leaf hub and may delete there. The status syncer's informers watch the leaf hub
  with the same selector, for policies, managed clusters, addons and custom resource
  definitions; it writes to the global hub, in the namespace \<open>--pod-namespace\<close>, and never
  deletes. Each starts its informers and then two workers.
\<close>

theorem syncer_command_wiring:
  assumes "RunE U T env D load inCluster options = Return (Inr ((spec, acts), (status, acts')))"
  shows "\<exists>global leaf readGlobal writeLeaf readLeaf writeGlobal specGVRs statusGVRs.
    FromKubeconfig options \<noteq> [] \<and> load (FromKubeconfig options) = Inr global \<and>
    (if ToKubeconfig options = [] then inCluster else load (ToKubeconfig options)) = Inr leaf \<and>
    D (global\<lparr>UserAgent := ''globalhub#spec-syncer/v0.0.0''\<rparr>) = Some readGlobal \<and>
    D (leaf\<lparr>UserAgent := ''globalhub#spec-syncer/v0.0.0''\<rparr>) = Some writeLeaf \<and>
    D (leaf\<lparr>UserAgent := ''globalhub#status-syncer/v0.0.0''\<rparr>) = Some readLeaf \<and>
    D (global\<lparr>UserAgent := ''globalhub#status-syncer/v0.0.0''\<rparr>) = Some writeGlobal \<and>
    fromInformers spec = Some \<lparr>fi_client = readGlobal, fi_resync = 36000, fi_namespace = [],
      fi_selector = ''!policy.open-cluster-management.io/root-policy'', fi_watched = specGVRs\<rparr> \<and>
    fromInformers status = Some \<lparr>fi_client = readLeaf, fi_resync = 36000, fi_namespace = [],
      fi_selector = ''!policy.open-cluster-management.io/root-policy'', fi_watched = statusGVRs\<rparr> \<and>
    map Some specGVRs = map (ParseResourceArg U)
      [''policies.v1.policy.open-cluster-management.io'', ''placementbindings.v1.policy.open-cluster-management.io'',
       ''placementrules.v1.apps.open-cluster-management.io''] \<and>
    map Some statusGVRs = map (ParseResourceArg U)
      [''policies.v1.policy.open-cluster-management.io'', ''managedclusters.v1.cluster.open-cluster-management.io'',
       ''clustermanagementaddons.v1alpha1.addon.open-cluster-management.io'',
       ''customresourcedefinitions.v1.apiextensions.k8s.io''] \<and>
    direction spec = SyncDown \<and> direction status = SyncUp \<and>
    upsertFn spec = Some (\<lambda>g ns ob ix w. Return (applyToDownstream U writeLeaf g ns ob w)) \<and>
    deleteFn spec = Some (deleteFromDownstream writeLeaf) \<and>
    upsertFn status = Some (updateStatusInUpstream U T env writeGlobal (PodNamespace options) (Host leaf)) \<and>
    deleteFn status = None \<and>
    acts = [RunInformer, StartWorker, StartWorker, WaitStop, ShutDownQueue] \<and> acts' = acts"
proof -
  obtain global leaf where from_to: "FromKubeconfig options \<noteq> []" "load (FromKubeconfig options) = Inr global"
      "(if ToKubeconfig options = [] then inCluster else load (ToKubeconfig options)) = Inr leaf"
    and run: "StartSyncer U T env D \<lparr>UpstreamConfig = global, DownstreamConfig = leaf, SyncerName = PodNamespace options\<rparr> =
      Return (spec, status)"
    and acts: "acts = Start numThreads" "acts' = Start numThreads"
    using RunE_started [OF assms] by metis
  from run obtain readGlobal writeLeaf readLeaf writeGlobal where
    clients: "D (global\<lparr>UserAgent := specSyncerAgent\<rparr>) = Some readGlobal"
      "D (leaf\<lparr>UserAgent := specSyncerAgent\<rparr>) = Some writeLeaf"
      "D (leaf\<lparr>UserAgent := statusSyncerAgent\<rparr>) = Some readLeaf"
      "D (global\<lparr>UserAgent := statusSyncerAgent\<rparr>) = Some writeGlobal"
    and down: "New U T env (PodNamespace options) readGlobal writeLeaf (Host global) SyncDown = Return spec"
    and up: "New U T env (PodNamespace options) readLeaf writeGlobal (Host leaf) SyncUp = Return status"
    by (rule start_syncer_wiring) simp_all
  have threads: "Start numThreads = [RunInformer, StartWorker, StartWorker, WaitStop, ShutDownQueue]"
    by (simp add: Start_def numThreads_def numeral_2_eq_2)
  have same: "acts' = acts" using acts by simp
  obtain specGVRs where spec: "map (ParseResourceArg U) down_gvrs = map Some specGVRs"
      "fromInformers spec = Some \<lparr>fi_client = readGlobal, fi_resync = 36000, fi_namespace = [],
        fi_selector = ''!policy.open-cluster-management.io/root-policy'', fi_watched = specGVRs\<rparr>"
    using New_informers [OF down] by (simp only: if_True simp_thms) blast
  obtain statusGVRs where status: "map (ParseResourceArg U) up_gvrs = map Some statusGVRs"
      "fromInformers status = Some \<lparr>fi_client = readLeaf, fi_resync = 36000, fi_namespace = [],
        fi_selector = ''!policy.open-cluster-management.io/root-policy'', fi_watched = statusGVRs\<rparr>"
    using New_informers [OF up] by (simp only: if_False SyncDirection.distinct simp_thms) blast
  show ?thesis
    using spec(2) spec(1) [symmetric] status(2) status(1) [symmetric] from_to clients New_down [OF down] New_up [OF up]
      acts(1) [unfolded threads] same
    unfolding specSyncerAgent_def statusSyncerAgent_def down_gvrs_def up_gvrs_def
    by (intro exI [of _ global] exI [of _ leaf] exI [of _ readGlobal] exI [of _ writeLeaf] exI [of _ readLeaf]
        exI [of _ writeGlobal] exI [of _ specGVRs] exI [of _ statusGVRs] conjI)
qed

definition sample_options :: Options where
  "sample_options = AddFlags (Some ''global.kubeconfig'') None (Some ''hub1'') NewOptions"

theorem syncer_command_wiring_witness:
  "\<exists>spec acts status acts' r.
     RunE json_ops (\<lambda>_. Inr []) (\<lambda>_. None) (\<lambda>_. Some mem_client)
       (\<lambda>f. Inr \<lparr>Host = f, UserAgent = []\<rparr>) (Inr \<lparr>Host = ''https://hub1'', UserAgent = []\<rparr>) sample_options =
       Return (Inr ((spec, acts), (status, acts'))) \<and>
     fromInformers spec = Some r \<and> fi_resync r = 36000 \<and>
     map Some (fi_watched r) = map (ParseResourceArg json_ops) down_gvrs \<and> deleteFn status = None"
proof -
  let ?run = "RunE json_ops (\<lambda>_. Inr []) (\<lambda>_. None) (\<lambda>_. Some mem_client)
       (\<lambda>f. Inr \<lparr>Host = f, UserAgent = []\<rparr>) (Inr \<lparr>Host = ''https://hub1'', UserAgent = []\<rparr>) sample_options"
  have "case ?run of Return (Inr _) \<Rightarrow> True | _ \<Rightarrow> False" by code_simp
  then obtain spec acts status acts' where
    run: "?run = Return (Inr ((spec, acts), (status, acts')))"
    by (auto split: outcome.splits sum.splits)
  from syncer_command_wiring [OF run, folded down_gvrs_def up_gvrs_def]
  obtain readGlobal specGVRs where
    r: "fromInformers spec = Some \<lparr>fi_client = readGlobal, fi_resync = 36000, fi_namespace = [],
      fi_selector = ''!policy.open-cluster-management.io/root-policy'', fi_watched = specGVRs\<rparr>"
    and gs: "map Some specGVRs = map (ParseResourceArg json_ops) down_gvrs"
    and none: "deleteFn status = None"
    by (elim exE conjE) (rule that, assumption+)
  define r where "r = \<lparr>fi_client = readGlobal, fi_resync = 36000, fi_namespace = [],
      fi_selector = ''!policy.open-cluster-management.io/root-policy'', fi_watched = specGVRs\<rparr>"
  then have "fi_resync r = 36000" and "fi_watched r = specGVRs" by simp_all
  with r [folded r_def] gs have "fromInformers spec = Some r \<and> fi_resync r = 36000 \<and>
      map Some (fi_watched r) = map (ParseResourceArg json_ops) down_gvrs" by metis
  with run none show ?thesis by blast
qed

end
