(* ===== verification/DeepCopy.thy ===== *)
theory DeepCopy
  imports HubControlPlane
begin

text \<open>
  The generated copy functions of the API types,
  \<^verbatim>\<open>src/apis/hubcontrolplane/v1alpha1/zz_generated.deepcopy.go\<close>, on an explicit memory: what they are for is
  the absence of sharing, which values alone cannot show.

  A slice is a pointer to a backing array with an offset and a length, a nil slice is \<open>None\<close>.
  Backing arrays of strings and of objects and the allocated structs live at addresses; strings
  are immutable values. A struct that is not behind a pointer is a value that holds its slices.
  \<open>ObjectMeta\<close> and \<open>ListMeta\<close> belong to the API machinery: their images \<open>'m\<close> and the part of memory
  \<open>'mm\<close> they live in are opaque, and the locale \<open>metadata_copy\<close> states what their copy functions do.
\<close>

section \<open>Memory\<close>

type_synonym addr = nat

record slice =
  ptr :: addr
  off :: nat
  len :: nat

record ManagedClustersStatus_mem =
  mm_Available :: "slice option"
  mm_Unavailable :: "slice option"
  mm_Unknown :: "slice option"

record HubControlPlaneStatus_mem =
  mm_Addons :: "slice option"
  mm_ManagedClusters :: ManagedClustersStatus_mem

record 'm HubControlPlane_mem =
  mm_TypeMeta :: "string \<times> string" \<comment> \<open>kind and API version\<close>
  mm_ObjectMeta :: 'm
  mm_Spec :: HubControlPlaneSpec
  mm_Status :: HubControlPlaneStatus_mem

record 'm HubControlPlaneList_mem =
  ml_TypeMeta :: "string \<times> string"
  ml_ListMeta :: 'm
  ml_Items :: "slice option"

record ('m, 'mm) memory =
  free :: addr \<comment> \<open>addresses from here on are unused\<close>
  strings :: "addr \<rightharpoonup> string list" \<comment> \<open>backing arrays of \<open>[]string\<close>\<close>
  arrays :: "addr \<rightharpoonup> 'm HubControlPlane_mem list" \<comment> \<open>backing arrays of \<open>[]HubControlPlane\<close>\<close>
  planes :: "addr \<rightharpoonup> 'm HubControlPlane_mem"
  plane_lists :: "addr \<rightharpoonup> 'm HubControlPlaneList_mem"
  plane_specs :: "addr \<rightharpoonup> HubControlPlaneSpec"
  plane_statuses :: "addr \<rightharpoonup> HubControlPlaneStatus_mem"
  cluster_statuses :: "addr \<rightharpoonup> ManagedClustersStatus_mem"
  metas :: 'mm

text \<open>The elements a slice of a backing array shows.\<close>

definition window :: "slice \<Rightarrow> 'a list \<Rightarrow> 'a list" where
  "window s xs = take (len s) (drop (off s) xs)"

definition elements :: "(addr \<rightharpoonup> 'a list) \<Rightarrow> slice \<Rightarrow> 'a list" where
  "elements h s = (case h (ptr s) of None \<Rightarrow> [] | Some xs \<Rightarrow> window s xs)"

definition in_array :: "(addr \<rightharpoonup> 'a list) \<Rightarrow> slice \<Rightarrow> bool" where
  "in_array h s \<longleftrightarrow> (case h (ptr s) of None \<Rightarrow> False | Some xs \<Rightarrow> off s + len s \<le> length xs)"

text \<open>\<open>make([]string, n)\<close> and \<open>copy(dst, src)\<close>.\<close>

definition make_strings :: "nat \<Rightarrow> ('m, 'mm) memory \<Rightarrow> slice \<times> ('m, 'mm) memory" where
  "make_strings n h =
     (\<lparr>ptr = free h, off = 0, len = n\<rparr>,
      h\<lparr>free := free h + 1, strings := (strings h)(free h \<mapsto> replicate n [])\<rparr>)"

definition copy_strings :: "slice \<Rightarrow> slice \<Rightarrow> ('m, 'mm) memory \<Rightarrow> ('m, 'mm) memory" where
  "copy_strings dst src h =
     (let n = min (len dst) (len src)
      in case strings h (ptr dst) of
           None \<Rightarrow> h
         | Some xs \<Rightarrow> h\<lparr>strings := (strings h)(ptr dst \<mapsto>
             take (off dst) xs @ take n (elements (strings h) src) @ drop (off dst + n) xs)\<rparr>)"

section \<open>The generated functions\<close>

text \<open>
  \<open>if in.F != nil { *out = make([]string, len(*in)); copy(*out, *in) }\<close>, after \<open>*out = *in\<close>. A function
  \<open>DeepCopyInto\<close> takes the struct read from \<open>in\<close> and gives the one stored in \<open>out\<close>.
\<close>

fun slice_DeepCopy :: "slice option \<Rightarrow> ('m, 'mm) memory \<Rightarrow> slice option \<times> ('m, 'mm) memory" where
  "slice_DeepCopy None h = (None, h)"
| "slice_DeepCopy (Some s) h =
     (let (d, h1) = make_strings (len s) h in (Some d, copy_strings d s h1))"

definition ManagedClustersStatus_DeepCopyInto ::
    "ManagedClustersStatus_mem \<Rightarrow> ('m, 'mm) memory \<Rightarrow> ManagedClustersStatus_mem \<times> ('m, 'mm) memory" where
  "ManagedClustersStatus_DeepCopyInto inp h =
     (let (a, h1) = slice_DeepCopy (mm_Available inp) h;
          (u, h2) = slice_DeepCopy (mm_Unavailable inp) h1;
          (k, h3) = slice_DeepCopy (mm_Unknown inp) h2
      in (inp\<lparr>mm_Available := a, mm_Unavailable := u, mm_Unknown := k\<rparr>, h3))"

definition HubControlPlaneStatus_DeepCopyInto ::
    "HubControlPlaneStatus_mem \<Rightarrow> ('m, 'mm) memory \<Rightarrow> HubControlPlaneStatus_mem \<times> ('m, 'mm) memory" where
  "HubControlPlaneStatus_DeepCopyInto inp h =
     (let (a, h1) = slice_DeepCopy (mm_Addons inp) h;
          (c, h2) = ManagedClustersStatus_DeepCopyInto (mm_ManagedClusters inp) h1
      in (inp\<lparr>mm_Addons := a, mm_ManagedClusters := c\<rparr>, h2))"

definition HubControlPlaneSpec_DeepCopyInto :: "HubControlPlaneSpec \<Rightarrow> HubControlPlaneSpec" where
  "HubControlPlaneSpec_DeepCopyInto inp = inp"

type_synonym ('m, 'mm) meta_copier = "'m \<Rightarrow> 'mm \<Rightarrow> 'm \<times> 'mm"

definition HubControlPlane_DeepCopyInto :: "('m, 'mm) meta_copier \<Rightarrow>
    'm HubControlPlane_mem \<Rightarrow> ('m, 'mm) memory \<Rightarrow> 'm HubControlPlane_mem \<times> ('m, 'mm) memory" where
  "HubControlPlane_DeepCopyInto ObjectMeta_DeepCopyInto inp h =
     (let (m, mm) = ObjectMeta_DeepCopyInto (mm_ObjectMeta inp) (metas h);
          (s, h1) = HubControlPlaneStatus_DeepCopyInto (mm_Status inp) (h\<lparr>metas := mm\<rparr>)
      in (inp\<lparr>mm_ObjectMeta := m, mm_Spec := mm_Spec inp, mm_Status := s\<rparr>, h1))"

text \<open>The loop over the items: \<open>(*in)[i].DeepCopyInto(&(*out)[i])\<close>.\<close>

fun items_DeepCopyInto :: "('m, 'mm) meta_copier \<Rightarrow>
    'm HubControlPlane_mem list \<Rightarrow> ('m, 'mm) memory \<Rightarrow> 'm HubControlPlane_mem list \<times> ('m, 'mm) memory" where
  "items_DeepCopyInto M [] h = ([], h)"
| "items_DeepCopyInto M (x # xs) h =
     (let (y, h1) = HubControlPlane_DeepCopyInto M x h;
          (ys, h2) = items_DeepCopyInto M xs h1
      in (y # ys, h2))"

definition HubControlPlaneList_DeepCopyInto :: "('m, 'mm) meta_copier \<Rightarrow> ('m, 'mm) meta_copier \<Rightarrow>
    'm HubControlPlaneList_mem \<Rightarrow> ('m, 'mm) memory \<Rightarrow> 'm HubControlPlaneList_mem \<times> ('m, 'mm) memory" where
  "HubControlPlaneList_DeepCopyInto ListMeta_DeepCopyInto ObjectMeta_DeepCopyInto inp h =
     (let (m, mm) = ListMeta_DeepCopyInto (ml_ListMeta inp) (metas h); h1 = h\<lparr>metas := mm\<rparr>
      in case ml_Items inp of
           None \<Rightarrow> (inp\<lparr>ml_ListMeta := m\<rparr>, h1)
         | Some s \<Rightarrow>
             (let d = \<lparr>ptr = free h1, off = 0, len = len s\<rparr>;
                  (ys, h2) = items_DeepCopyInto ObjectMeta_DeepCopyInto (elements (arrays h1) s)
                    (h1\<lparr>free := free h1 + 1\<rparr>)
              in (inp\<lparr>ml_ListMeta := m, ml_Items := Some d\<rparr>,
                  h2\<lparr>arrays := (arrays h2)(ptr d \<mapsto> ys)\<rparr>)))"

text \<open>
  \<open>DeepCopy\<close> of a pointer, the same lines for each type: nil gives nil, otherwise the struct is copied
  into a newly allocated one. \<open>get\<close> and \<open>put\<close> select the region of the type; there are no dangling
  pointers in Go, reading one is a \<open>Panic\<close> here.
\<close>

type_synonym ('a, 'h) copier = "'a \<Rightarrow> 'h \<Rightarrow> 'a \<times> 'h"

definition DeepCopy_new :: "(('m, 'mm) memory \<Rightarrow> addr \<rightharpoonup> 'a) \<Rightarrow>
    (addr \<Rightarrow> 'a \<Rightarrow> ('m, 'mm) memory \<Rightarrow> ('m, 'mm) memory) \<Rightarrow> ('a, ('m, 'mm) memory) copier \<Rightarrow>
    addr option \<Rightarrow> ('m, 'mm) memory \<Rightarrow> (addr option \<times> ('m, 'mm) memory) outcome" where
  "DeepCopy_new get put DeepCopyInto inp h =
     (case inp of
        None \<Rightarrow> Return (None, h)
      | Some p \<Rightarrow>
          (case get h p of
             None \<Rightarrow> Panic ''invalid memory address''
           | Some x \<Rightarrow>
               (let out = free h; (y, h1) = DeepCopyInto x (h\<lparr>free := free h + 1\<rparr>)
                in Return (Some out, put out y h1))))"

definition HubControlPlane_DeepCopy ::
    "('m, 'mm) meta_copier \<Rightarrow> addr option \<Rightarrow> ('m, 'mm) memory \<Rightarrow> (addr option \<times> ('m, 'mm) memory) outcome" where
  "HubControlPlane_DeepCopy M =
     DeepCopy_new planes (\<lambda>a x h. h\<lparr>planes := (planes h)(a \<mapsto> x)\<rparr>) (HubControlPlane_DeepCopyInto M)"

definition HubControlPlaneList_DeepCopy ::
    "('m, 'mm) meta_copier \<Rightarrow> ('m, 'mm) meta_copier \<Rightarrow>
     addr option \<Rightarrow> ('m, 'mm) memory \<Rightarrow> (addr option \<times> ('m, 'mm) memory) outcome" where
  "HubControlPlaneList_DeepCopy LM M =
     DeepCopy_new plane_lists (\<lambda>a x h. h\<lparr>plane_lists := (plane_lists h)(a \<mapsto> x)\<rparr>)
       (HubControlPlaneList_DeepCopyInto LM M)"

definition HubControlPlaneSpec_DeepCopy ::
    "addr option \<Rightarrow> ('m, 'mm) memory \<Rightarrow> (addr option \<times> ('m, 'mm) memory) outcome" where
  "HubControlPlaneSpec_DeepCopy =
     DeepCopy_new plane_specs (\<lambda>a x h. h\<lparr>plane_specs := (plane_specs h)(a \<mapsto> x)\<rparr>)
       (\<lambda>x h. (HubControlPlaneSpec_DeepCopyInto x, h))"

definition HubControlPlaneStatus_DeepCopy ::
    "addr option \<Rightarrow> ('m, 'mm) memory \<Rightarrow> (addr option \<times> ('m, 'mm) memory) outcome" where
  "HubControlPlaneStatus_DeepCopy =
     DeepCopy_new plane_statuses (\<lambda>a x h. h\<lparr>plane_statuses := (plane_statuses h)(a \<mapsto> x)\<rparr>)
       HubControlPlaneStatus_DeepCopyInto"

definition ManagedClustersStatus_DeepCopy ::
    "addr option \<Rightarrow> ('m, 'mm) memory \<Rightarrow> (addr option \<times> ('m, 'mm) memory) outcome" where
  "ManagedClustersStatus_DeepCopy =
     DeepCopy_new cluster_statuses (\<lambda>a x h. h\<lparr>cluster_statuses := (cluster_statuses h)(a \<mapsto> x)\<rparr>)
       ManagedClustersStatus_DeepCopyInto"

text \<open>
  A \<open>runtime.Object\<close> is an interface: nil, or a pointer with its type, which may itself be nil.
  \<open>DeepCopyObject\<close> turns a nil pointer into the nil interface.
\<close>

datatype runtime_Object = NilObject | PlanePtr "addr option" | PlaneListPtr "addr option"

definition HubControlPlane_DeepCopyObject ::
    "('m, 'mm) meta_copier \<Rightarrow> addr option \<Rightarrow> ('m, 'mm) memory \<Rightarrow> (runtime_Object \<times> ('m, 'mm) memory) outcome" where
  "HubControlPlane_DeepCopyObject M inp h =
     bind_outcome (HubControlPlane_DeepCopy M inp h) (\<lambda>(c, h').
       Return (if c \<noteq> None then PlanePtr c else NilObject, h'))"

definition HubControlPlaneList_DeepCopyObject ::
    "('m, 'mm) meta_copier \<Rightarrow> ('m, 'mm) meta_copier \<Rightarrow>
     addr option \<Rightarrow> ('m, 'mm) memory \<Rightarrow> (runtime_Object \<times> ('m, 'mm) memory) outcome" where
  "HubControlPlaneList_DeepCopyObject LM M inp h =
     bind_outcome (HubControlPlaneList_DeepCopy LM M inp h) (\<lambda>(c, h').
       Return (if c \<noteq> None then PlaneListPtr c else NilObject, h'))"

section \<open>Values, addresses and well-formedness\<close>

definition slice_value :: "('m, 'mm) memory \<Rightarrow> slice option \<Rightarrow> string list option" where
  "slice_value h = map_option (elements (strings h))"

definition clusters_value :: "('m, 'mm) memory \<Rightarrow> ManagedClustersStatus_mem \<Rightarrow>
    string list option \<times> string list option \<times> string list option" where
  "clusters_value h c = (slice_value h (mm_Available c), slice_value h (mm_Unavailable c), slice_value h (mm_Unknown c))"

definition status_value :: "('m, 'mm) memory \<Rightarrow> HubControlPlaneStatus_mem \<Rightarrow> string list option \<times> string list option \<times> string list option \<times> string list option" where
  "status_value h s = (slice_value h (mm_Addons s), clusters_value h (mm_ManagedClusters s))"

text \<open>The slices of strings a status holds, and what they occupy.\<close>

definition status_slices :: "HubControlPlaneStatus_mem \<Rightarrow> slice option list" where
  "status_slices s = [mm_Addons s, mm_Available (mm_ManagedClusters s), mm_Unavailable (mm_ManagedClusters s),
     mm_Unknown (mm_ManagedClusters s)]"

definition slices_addrs :: "slice option list \<Rightarrow> addr set" where
  "slices_addrs ss = {ptr s | s. Some s \<in> set ss}"

definition slices_ok :: "('m, 'mm) memory \<Rightarrow> slice option list \<Rightarrow> bool" where
  "slices_ok h ss \<longleftrightarrow> (\<forall>s. Some s \<in> set ss \<longrightarrow> ptr s < free h \<and> in_array (strings h) s)"

text \<open>Only new arrays of strings were allocated.\<close>

definition strings_grow :: "('m, 'mm) memory \<Rightarrow> ('m, 'mm) memory \<Rightarrow> bool" where
  "strings_grow h h' \<longleftrightarrow> free h \<le> free h' \<and> (\<forall>a<free h. strings h' a = strings h a) \<and>
     h' = h\<lparr>free := free h', strings := strings h'\<rparr>"

lemma strings_grow_refl: "strings_grow h h"
  by (simp add: strings_grow_def)

lemma strings_grow_trans: "strings_grow h h1 \<Longrightarrow> strings_grow h1 h2 \<Longrightarrow> strings_grow h h2"
  by (cases h; cases h1; cases h2) (auto simp: strings_grow_def)

lemma grow_slices:
  assumes "strings_grow h h'" and "slices_ok h ss"
  shows "slices_ok h' ss" and "Some s \<in> set ss \<Longrightarrow> elements (strings h') s = elements (strings h) s"
  using assms by (auto simp: slices_ok_def strings_grow_def in_array_def elements_def)

lemma copied_elements:
  assumes "in_array h s"
  shows "length (elements h s) = len s"
  using assms by (auto simp: in_array_def elements_def window_def split: option.splits)

text \<open>What copying one slice does.\<close>

definition copied :: "('m, 'mm) memory \<Rightarrow> ('m, 'mm) memory \<Rightarrow> slice option list \<Rightarrow> slice option list \<Rightarrow> bool" where
  "copied h h' ss ds \<longleftrightarrow> strings_grow h h' \<and> slices_ok h' ds \<and>
     map (slice_value h') ds = map (slice_value h) ss \<and> slices_addrs ds \<subseteq> {free h..<free h'}"

lemma slice_DeepCopy_copied:
  assumes "slices_ok h [s]" and "slice_DeepCopy s h = (d, h')"
  shows "copied h h' [s] [d]"
proof (cases s)
  case None
  with assms show ?thesis
    by (simp add: copied_def strings_grow_refl slices_ok_def slice_value_def slices_addrs_def)
next
  case (Some s0)
  let ?xs = "elements (strings h) s0"
  from assms(1) Some have ok: "ptr s0 < free h" "length ?xs = len s0"
    by (auto simp: slices_ok_def copied_elements)
  then have same: "elements ((strings h)(free h \<mapsto> replicate (len s0) [])) s0 = ?xs"
    by (simp add: elements_def)
  from assms(2) Some have d: "d = Some \<lparr>ptr = free h, off = 0, len = len s0\<rparr>"
    and h': "h' = h\<lparr>free := free h + 1, strings := (strings h)(free h \<mapsto> ?xs)\<rparr>"
    using ok(2) by (auto simp: make_strings_def copy_strings_def same Let_def)
  show ?thesis
    using ok Some
    by (auto simp: copied_def strings_grow_def slices_ok_def slices_addrs_def slice_value_def d h'
        elements_def window_def in_array_def)
qed

lemma copied_append:
  assumes "copied h h1 ss ds" and "copied h1 h2 ts es" and "slices_ok h ts"
  shows "copied h h2 (ss @ ts) (ds @ es)"
proof -
  note g1 = assms(1) [unfolded copied_def, THEN conjunct1] and g2 = assms(2) [unfolded copied_def, THEN conjunct1]
  have "slices_ok h1 ds" using assms(1) by (simp add: copied_def)
  then have ds: "slices_ok h2 ds" "map (slice_value h2) ds = map (slice_value h1) ds"
    using grow_slices [OF g2] by (auto simp: slice_value_def map_option_case split: option.splits)
  have ts: "map (slice_value h1) ts = map (slice_value h) ts"
    using grow_slices(2) [OF g1 assms(3)] by (auto simp: slice_value_def map_option_case split: option.splits)
  have "free h \<le> free h1" "free h1 \<le> free h2" using g1 g2 by (simp_all add: strings_grow_def)
  then show ?thesis
    using assms(1,2) ds ts strings_grow_trans [OF g1 g2]
    by (fastforce simp: copied_def slices_ok_def slices_addrs_def)
qed

lemma clusters_copied:
  assumes ok: "slices_ok h [mm_Available c, mm_Unavailable c, mm_Unknown c]"
    and run: "ManagedClustersStatus_DeepCopyInto c h = (d, h')"
  shows "copied h h' [mm_Available c, mm_Unavailable c, mm_Unknown c] [mm_Available d, mm_Unavailable d, mm_Unknown d]"
proof -
  obtain a h1 where a: "slice_DeepCopy (mm_Available c) h = (a, h1)" by fastforce
  obtain u h2 where u: "slice_DeepCopy (mm_Unavailable c) h1 = (u, h2)" by fastforce
  obtain k h3 where k: "slice_DeepCopy (mm_Unknown c) h2 = (k, h3)" by fastforce
  from run a u k have d: "mm_Available d = a" "mm_Unavailable d = u" "mm_Unknown d = k" "h' = h3"
    by (auto simp: ManagedClustersStatus_DeepCopyInto_def)
  have oks: "slices_ok h [mm_Available c]" "slices_ok h [mm_Unavailable c]" "slices_ok h [mm_Unknown c]"
    using ok by (auto simp: slices_ok_def)
  have 1: "copied h h1 [mm_Available c] [a]" by (rule slice_DeepCopy_copied [OF oks(1) a])
  then have g1: "strings_grow h h1" by (simp add: copied_def)
  have 2: "copied h1 h2 [mm_Unavailable c] [u]"
    by (rule slice_DeepCopy_copied [OF grow_slices(1) [OF g1 oks(2)] u])
  then have "strings_grow h1 h2" by (simp add: copied_def)
  from strings_grow_trans [OF g1 this] have 3: "copied h2 h3 [mm_Unknown c] [k]"
    by (rule slice_DeepCopy_copied [OF grow_slices(1) [OF _ oks(3)] k])
  from copied_append [OF copied_append [OF 1 2 oks(2)] 3 oks(3)] show ?thesis by (simp add: d)
qed

lemma status_copied:
  assumes ok: "slices_ok h (status_slices s)" and run: "HubControlPlaneStatus_DeepCopyInto s h = (d, h')"
  shows "copied h h' (status_slices s) (status_slices d)"
proof -
  let ?c = "mm_ManagedClusters s"
  obtain a h1 where a: "slice_DeepCopy (mm_Addons s) h = (a, h1)" by fastforce
  obtain c h2 where c: "ManagedClustersStatus_DeepCopyInto ?c h1 = (c, h2)" by fastforce
  from run a c have d: "mm_Addons d = a" "mm_ManagedClusters d = c" "h' = h2"
    by (auto simp: HubControlPlaneStatus_DeepCopyInto_def)
  have oks: "slices_ok h [mm_Addons s]" "slices_ok h [mm_Available ?c, mm_Unavailable ?c, mm_Unknown ?c]"
    using ok by (auto simp: slices_ok_def status_slices_def)
  have 1: "copied h h1 [mm_Addons s] [a]" by (rule slice_DeepCopy_copied [OF oks(1) a])
  then have "strings_grow h h1" by (simp add: copied_def)
  from copied_append [OF 1 clusters_copied [OF grow_slices(1) [OF this oks(2)] c] oks(2)]
  show ?thesis by (simp add: status_slices_def d)
qed

lemma status_value_slices:
  "map (slice_value h) (status_slices s) = map (slice_value h') (status_slices t) \<longleftrightarrow>
     status_value h s = status_value h' t"
  by (auto simp: status_slices_def status_value_def clusters_value_def)

section \<open>Objects and lists\<close>

text \<open>\<open>mv\<close>, \<open>mok\<close> and \<open>ma\<close> are value, well-formedness and addresses of metadata.\<close>

definition plane_value :: "('mm \<Rightarrow> 'm \<Rightarrow> 'v) \<Rightarrow> ('m, 'mm) memory \<Rightarrow> 'm HubControlPlane_mem \<Rightarrow>
    (string \<times> string) \<times> 'v \<times> HubControlPlaneSpec \<times> string list option \<times> string list option \<times> string list option \<times> string list option" where
  "plane_value mv h x = (mm_TypeMeta x, mv (metas h) (mm_ObjectMeta x), mm_Spec x, status_value h (mm_Status x))"

definition plane_ok :: "('mm \<Rightarrow> 'm \<Rightarrow> bool) \<Rightarrow> ('m, 'mm) memory \<Rightarrow> 'm HubControlPlane_mem \<Rightarrow> bool" where
  "plane_ok mok h x \<longleftrightarrow> mok (metas h) (mm_ObjectMeta x) \<and> slices_ok h (status_slices (mm_Status x))"

definition plane_addrs :: "'m HubControlPlane_mem \<Rightarrow> addr set" where
  "plane_addrs x = slices_addrs (status_slices (mm_Status x))"

definition items_of :: "('m, 'mm) memory \<Rightarrow> 'm HubControlPlaneList_mem \<Rightarrow> 'm HubControlPlane_mem list" where
  "items_of h l = (case ml_Items l of None \<Rightarrow> [] | Some s \<Rightarrow> elements (arrays h) s)"

definition list_value :: "('mm \<Rightarrow> 'm \<Rightarrow> 'v) \<Rightarrow> ('m, 'mm) memory \<Rightarrow> 'm HubControlPlaneList_mem \<Rightarrow>
    (string \<times> string) \<times> 'v \<times> bool \<times> ((string \<times> string) \<times> 'v \<times> HubControlPlaneSpec \<times> string list option \<times> string list option \<times> string list option \<times> string list option) list" where
  "list_value mv h l = (ml_TypeMeta l, mv (metas h) (ml_ListMeta l), ml_Items l = None,
     map (plane_value mv h) (items_of h l))"

definition list_ok :: "('mm \<Rightarrow> 'm \<Rightarrow> bool) \<Rightarrow> ('m, 'mm) memory \<Rightarrow> 'm HubControlPlaneList_mem \<Rightarrow> bool" where
  "list_ok mok h l \<longleftrightarrow> mok (metas h) (ml_ListMeta l) \<and> (\<forall>x\<in>set (items_of h l). plane_ok mok h x) \<and>
     (\<forall>s. ml_Items l = Some s \<longrightarrow> ptr s < free h \<and> in_array (arrays h) s)"

text \<open>The backing arrays a list refers to, and the memory of its metadata.\<close>

definition list_cells :: "('m, 'mm) memory \<Rightarrow> 'm HubControlPlaneList_mem \<Rightarrow> addr set" where
  "list_cells h l = {ptr s | s. ml_Items l = Some s} \<union> (\<Union>x\<in>set (items_of h l). plane_addrs x)"

definition list_metas :: "('mm \<Rightarrow> 'm \<Rightarrow> addr set) \<Rightarrow> ('m, 'mm) memory \<Rightarrow> 'm HubControlPlaneList_mem \<Rightarrow> addr set" where
  "list_metas ma h l = ma (metas h) (ml_ListMeta l) \<union> (\<Union>x\<in>set (items_of h l). ma (metas h) (mm_ObjectMeta x))"

section \<open>Metadata\<close>

text \<open>
  What the copy functions of the API machinery promise: the copy has the value of the original,
  whatever existed keeps its value and its place, and the copy shares nothing with it.
\<close>

locale metadata_copy =
  fixes M :: "('m, 'mm) meta_copier" and meta_value :: "'mm \<Rightarrow> 'm \<Rightarrow> 'v"
    and meta_addrs :: "'mm \<Rightarrow> 'm \<Rightarrow> addr set" and meta_ok :: "'mm \<Rightarrow> 'm \<Rightarrow> bool"
  assumes copy_value: "meta_ok mm m \<Longrightarrow> M m mm = (d, mm') \<Longrightarrow> meta_value mm' d = meta_value mm m \<and> meta_ok mm' d"
    and copy_frame: "meta_ok mm m \<Longrightarrow> M m mm = (d, mm') \<Longrightarrow> meta_ok mm x \<Longrightarrow>
      meta_ok mm' x \<and> meta_value mm' x = meta_value mm x \<and> meta_addrs mm' x = meta_addrs mm x"
    and copy_fresh: "meta_ok mm m \<Longrightarrow> M m mm = (d, mm') \<Longrightarrow> meta_ok mm x \<Longrightarrow> meta_addrs mm' d \<inter> meta_addrs mm x = {}"
begin

text \<open>New strings and new metadata, the rest as before.\<close>

definition grows :: "('m, 'mm) memory \<Rightarrow> ('m, 'mm) memory \<Rightarrow> bool" where
  "grows h h' \<longleftrightarrow> free h \<le> free h' \<and> (\<forall>a<free h. strings h' a = strings h a) \<and>
     h' = h\<lparr>free := free h', strings := strings h', metas := metas h'\<rparr> \<and>
     (\<forall>x. meta_ok (metas h) x \<longrightarrow> meta_ok (metas h') x \<and>
        meta_value (metas h') x = meta_value (metas h) x \<and> meta_addrs (metas h') x = meta_addrs (metas h) x)"

lemma grows_refl: "grows h h"
  by (simp add: grows_def)

lemma grows_trans: "grows h h1 \<Longrightarrow> grows h1 h2 \<Longrightarrow> grows h h2"
  by (cases h; cases h1; cases h2) (auto simp: grows_def)

lemma grows_slices:
  assumes "grows h h'" and "slices_ok h ss"
  shows "slices_ok h' ss" and "map (slice_value h') ss = map (slice_value h) ss"
  using assms by (auto simp: slices_ok_def grows_def in_array_def elements_def slice_value_def map_option_case split: option.splits)

lemma grows_plane:
  assumes "grows h h'" and "plane_ok meta_ok h x"
  shows "plane_ok meta_ok h' x" and "plane_value meta_value h' x = plane_value meta_value h x"
    and "meta_addrs (metas h') (mm_ObjectMeta x) = meta_addrs (metas h) (mm_ObjectMeta x)"
  using assms grows_slices [OF assms(1)] status_value_slices [of h' "mm_Status x" h "mm_Status x"]
  by (auto simp: plane_ok_def plane_value_def grows_def)

text \<open>What a copied object is, with respect to the memory \<open>h0\<close> before.\<close>

definition fresh_copy :: "('m, 'mm) memory \<Rightarrow> ('m, 'mm) memory \<Rightarrow> 'm HubControlPlane_mem \<Rightarrow> 'm HubControlPlane_mem \<Rightarrow> bool" where
  "fresh_copy h0 h' x y \<longleftrightarrow> plane_ok meta_ok h' y \<and> plane_value meta_value h' y = plane_value meta_value h0 x \<and>
     plane_addrs y \<subseteq> {free h0..<free h'} \<and>
     (\<forall>m. meta_ok (metas h0) m \<longrightarrow> meta_addrs (metas h') (mm_ObjectMeta y) \<inter> meta_addrs (metas h0) m = {})"

lemma plane_copied:
  assumes ok: "plane_ok meta_ok h x" and run: "HubControlPlane_DeepCopyInto M x h = (y, h')"
  shows "grows h h' \<and> fresh_copy h h' x y"
proof -
  obtain m mm where m: "M (mm_ObjectMeta x) (metas h) = (m, mm)" by fastforce
  let ?h = "h\<lparr>metas := mm\<rparr>"
  obtain s h1 where s: "HubControlPlaneStatus_DeepCopyInto (mm_Status x) ?h = (s, h1)" by fastforce
  from run m s have y: "y = x\<lparr>mm_ObjectMeta := m, mm_Status := s\<rparr>" "h' = h1"
    by (auto simp: HubControlPlane_DeepCopyInto_def)
  from ok have mok: "meta_ok (metas h) (mm_ObjectMeta x)" by (simp add: plane_ok_def)
  have "slices_ok ?h (status_slices (mm_Status x))" using ok by (simp add: plane_ok_def slices_ok_def)
  from status_copied [OF this s]
  have c: "strings_grow ?h h1" "slices_ok h1 (status_slices s)" "status_value h1 s = status_value ?h (mm_Status x)"
      "slices_addrs (status_slices s) \<subseteq> {free h..<free h1}"
    by (simp_all add: copied_def status_value_slices)
  then have g: "metas h1 = mm" by (cases h1) (auto simp: strings_grow_def)
  have "grows h h1" using c(1) copy_frame [OF mok m]
    by (cases h; cases h1) (auto simp: grows_def strings_grow_def)
  moreover have "status_value ?h (mm_Status x) = status_value h (mm_Status x)"
    by (simp add: status_value_def clusters_value_def slice_value_def)
  ultimately show ?thesis
    using c g copy_value [OF mok m] copy_fresh [OF mok m]
    by (simp add: fresh_copy_def plane_ok_def plane_value_def plane_addrs_def y)
qed

lemma fresh_copy_grows:
  assumes "fresh_copy h0 h1 x y" and "grows h1 h2"
  shows "fresh_copy h0 h2 x y"
  using assms grows_plane [OF assms(2), of y] by (auto simp: fresh_copy_def grows_def)

lemma fresh_copy_earlier:
  assumes "fresh_copy h1 h2 x y" and "grows h0 h1" and "plane_ok meta_ok h0 x"
  shows "fresh_copy h0 h2 x y"
  using assms grows_plane(2) [OF assms(2,3)] by (fastforce simp: fresh_copy_def grows_def)

lemma items_copied:
  assumes "\<forall>x\<in>set xs. plane_ok meta_ok h x" and "items_DeepCopyInto M xs h = (ys, h')"
  shows "grows h h' \<and> list_all2 (fresh_copy h h') xs ys"
  using assms
proof (induction xs arbitrary: h ys h')
  case Nil
  then show ?case by (simp add: grows_refl)
next
  case (Cons x xs)
  obtain y h1 where y: "HubControlPlane_DeepCopyInto M x h = (y, h1)" by fastforce
  obtain zs h2 where zs: "items_DeepCopyInto M xs h1 = (zs, h2)" by fastforce
  from Cons.prems y zs have r: "ys = y # zs" "h' = h2" by auto
  from plane_copied [OF _ y] Cons.prems have 1: "grows h h1" "fresh_copy h h1 x y" by auto
  have ok: "\<forall>x\<in>set xs. plane_ok meta_ok h1 x" using Cons.prems grows_plane(1) [OF 1(1)] by auto
  from Cons.IH [OF ok zs] have 2: "grows h1 h2" "list_all2 (fresh_copy h1 h2) xs zs" by auto
  have "list_all2 (fresh_copy h h2) xs zs"
    by (rule list.rel_mono_strong [OF 2(2)]) (use Cons.prems(1) in \<open>auto intro: fresh_copy_earlier [OF _ 1(1)]\<close>)
  with r grows_trans [OF 1(1) 2(1)] fresh_copy_grows [OF 1(2) 2(1)] show ?case by simp
qed

end

locale list_copy = metadata_copy M meta_value meta_addrs meta_ok + lm: metadata_copy LM meta_value meta_addrs meta_ok
  for M LM :: "('m, 'mm) meta_copier" and meta_value :: "'mm \<Rightarrow> 'm \<Rightarrow> 'v"
    and meta_addrs :: "'mm \<Rightarrow> 'm \<Rightarrow> addr set" and meta_ok :: "'mm \<Rightarrow> 'm \<Rightarrow> bool"
begin

lemma list_meta_grows:
  assumes ok: "list_ok meta_ok h l" and m: "LM (ml_ListMeta l) (metas h) = (m, mm)" and f: "free h \<le> f"
  shows "grows h (h\<lparr>free := f, metas := mm\<rparr>)" and "grows h (h\<lparr>metas := mm, free := f\<rparr>)"
  using lm.copy_frame [OF _ m] ok f by (auto simp: grows_def list_ok_def)

text \<open>The copy of a list into a memory \<open>h'\<close> that has its items.\<close>

lemma list_copied:
  assumes ok: "list_ok meta_ok h l" and f: "free h < f"
    and run: "HubControlPlaneList_DeepCopyInto LM M l (h\<lparr>free := f\<rparr>) = (d, h')"
  shows "\<exists>h2. grows h h2 \<and> (\<exists>A. h' = h2\<lparr>arrays := A\<rparr> \<and> (\<forall>a<free h. A a = arrays h a)) \<and>
    meta_value (metas h') (ml_ListMeta d) = meta_value (metas h) (ml_ListMeta l) \<and> meta_ok (metas h') (ml_ListMeta d) \<and>
    (\<forall>m. meta_ok (metas h) m \<longrightarrow> meta_addrs (metas h') (ml_ListMeta d) \<inter> meta_addrs (metas h) m = {}) \<and>
    ml_TypeMeta d = ml_TypeMeta l \<and> (ml_Items d = None \<longleftrightarrow> ml_Items l = None) \<and>
    (\<forall>s. ml_Items d = Some s \<longrightarrow> free h \<le> ptr s \<and> ptr s < free h' \<and> in_array (arrays h') s) \<and>
    list_all2 (fresh_copy h h2) (items_of h l) (items_of h' d)"
proof -
  obtain m mm where m: "LM (ml_ListMeta l) (metas h) = (m, mm)" by fastforce
  from ok have mok: "meta_ok (metas h) (ml_ListMeta l)" by (simp add: list_ok_def)
  note meta = lm.copy_value [OF mok m] lm.copy_fresh [OF mok m]
  show ?thesis
  proof (cases "ml_Items l")
    case None
    then have "d = l\<lparr>ml_ListMeta := m\<rparr>" "h' = h\<lparr>free := f, metas := mm\<rparr>"
      using run m by (auto simp: HubControlPlaneList_DeepCopyInto_def)
    then show ?thesis
      using list_meta_grows(1) [OF ok m, of f] f meta None
      by (intro exI [of _ "h\<lparr>free := f, metas := mm\<rparr>"]) (auto simp: items_of_def intro!: exI [of _ "arrays h"])
  next
    case (Some s)
    let ?h1 = "h\<lparr>metas := mm, free := f + 1\<rparr>" and ?xs = "elements (arrays h) s"
    obtain ys h2 where ys: "items_DeepCopyInto M ?xs ?h1 = (ys, h2)" by fastforce
    have res: "d = l\<lparr>ml_ListMeta := m, ml_Items := Some \<lparr>ptr = f, off = 0, len = len s\<rparr>\<rparr>"
      "h' = h2\<lparr>arrays := (arrays h2)(f \<mapsto> ys)\<rparr>"
      using run m Some ys by (auto simp: HubControlPlaneList_DeepCopyInto_def)
    have g1: "grows h ?h1" by (rule list_meta_grows(2) [OF ok m]) (use f in simp)
    have oks: "\<forall>x\<in>set ?xs. plane_ok meta_ok h x" using ok Some by (simp add: list_ok_def items_of_def)
    then have "\<forall>x\<in>set ?xs. plane_ok meta_ok ?h1 x" using grows_plane(1) [OF g1] by blast
    from items_copied [OF this ys] have g2: "grows ?h1 h2" and c: "list_all2 (fresh_copy ?h1 h2) ?xs ys" by auto
    have c': "list_all2 (fresh_copy h h2) ?xs ys"
      by (rule list.rel_mono_strong [OF c]) (use oks in \<open>auto intro: fresh_copy_earlier [OF _ g1]\<close>)
    have "length ys = len s"
      using list_all2_lengthD [OF c] ok Some by (simp add: list_ok_def copied_elements)
    moreover have "free h2 > f" and "arrays h2 = arrays h" and frame: "\<forall>x. meta_ok mm x \<longrightarrow>
        meta_ok (metas h2) x \<and> meta_value (metas h2) x = meta_value mm x \<and> meta_addrs (metas h2) x = meta_addrs mm x"
      using g2 by (cases h2; auto simp: grows_def)+
    ultimately show ?thesis
      using grows_trans [OF g1 g2] c' meta f Some
      by (intro exI [of _ h2]) (auto simp: res items_of_def in_array_def elements_def window_def
          intro!: exI [of _ "(arrays h)(f \<mapsto> ys)"])
  qed
qed

end

text \<open>Metadata with a name and a map of labels, the part the program uses, behind a pointer.\<close>

record meta_image =
  im_Name :: string
  im_Labels :: "addr option"

type_synonym meta_memory = "nat \<times> (addr \<rightharpoonup> (string \<times> string) list)"

fun image_copy :: "meta_image \<Rightarrow> meta_memory \<Rightarrow> meta_image \<times> meta_memory" where
  "image_copy m (n, h) =
     (case im_Labels m of
        None \<Rightarrow> (m, (n, h))
      | Some a \<Rightarrow> (m\<lparr>im_Labels := Some n\<rparr>, (n + 1, h(n := h a))))"

definition image_value :: "meta_memory \<Rightarrow> meta_image \<Rightarrow> string \<times> (string \<times> string) list option option" where
  "image_value mm m = (im_Name m, map_option (snd mm) (im_Labels m))"

definition image_addrs :: "meta_memory \<Rightarrow> meta_image \<Rightarrow> addr set" where
  "image_addrs mm m = set_option (im_Labels m)"

definition image_ok :: "meta_memory \<Rightarrow> meta_image \<Rightarrow> bool" where
  "image_ok mm m \<longleftrightarrow> (case im_Labels m of None \<Rightarrow> True | Some a \<Rightarrow> a < fst mm)"

interpretation labelled: metadata_copy image_copy image_value image_addrs image_ok
  by unfold_locales (auto simp: image_value_def image_addrs_def image_ok_def split: option.splits)

interpretation labelled_lists: list_copy image_copy image_copy image_value image_addrs image_ok ..

section \<open>Properties\<close>

lemma value_ignores [simp]:
  "plane_value mv (h\<lparr>arrays := A\<rparr>) x = plane_value mv h x" "plane_ok mok (h\<lparr>arrays := A\<rparr>) x = plane_ok mok h x"
  "plane_value mv (h\<lparr>plane_lists := L\<rparr>) x = plane_value mv h x" "plane_ok mok (h\<lparr>plane_lists := L\<rparr>) x = plane_ok mok h x"
  by (simp_all add: plane_value_def plane_ok_def status_value_def clusters_value_def slice_value_def slices_ok_def)

lemma items_ignore [simp]: "items_of (h\<lparr>plane_lists := L\<rparr>) l = items_of h l"
  by (simp add: items_of_def split: option.split)

lemma list_ignores [simp]:
  "list_value mv (h\<lparr>plane_lists := L\<rparr>) l = list_value mv h l" "list_ok mok (h\<lparr>plane_lists := L\<rparr>) l = list_ok mok h l"
  "list_cells (h\<lparr>plane_lists := L\<rparr>) l = list_cells h l" "list_metas ma (h\<lparr>plane_lists := L\<rparr>) l = list_metas ma h l"
  by (simp_all add: list_value_def list_ok_def list_cells_def list_metas_def fun_eq_iff)

text \<open>Writing to arrays a list does not refer to does not change its value.\<close>

lemma slice_value_frame:
  "\<forall>s. so = Some s \<longrightarrow> ptr s \<noteq> a \<Longrightarrow> slice_value (h\<lparr>strings := (strings h)(a \<mapsto> ss)\<rparr>) so = slice_value h so"
  by (cases so) (auto simp: slice_value_def elements_def)

lemma plane_value_frame:
  "a \<notin> plane_addrs x \<Longrightarrow> plane_value mv (h\<lparr>strings := (strings h)(a \<mapsto> ss)\<rparr>) x = plane_value mv h x"
  by (auto simp: plane_value_def status_value_def clusters_value_def plane_addrs_def slices_addrs_def status_slices_def
      intro!: slice_value_frame)

lemma list_value_frame:
  assumes "a \<notin> list_cells h l"
  shows "list_value mv (h\<lparr>strings := (strings h)(a \<mapsto> ss), arrays := (arrays h)(a \<mapsto> xs)\<rparr>) l = list_value mv h l"
proof -
  have "items_of (h\<lparr>strings := (strings h)(a \<mapsto> ss), arrays := (arrays h)(a \<mapsto> xs)\<rparr>) l = items_of h l"
    using assms by (auto simp: items_of_def list_cells_def elements_def split: option.splits)
  moreover have "plane_value mv (h\<lparr>strings := (strings h)(a \<mapsto> ss)\<rparr>) x = plane_value mv h x"
    if "x \<in> set (items_of h l)" for x
    by (rule plane_value_frame) (use that assms in \<open>auto simp: list_cells_def\<close>)
  ultimately show ?thesis by (simp add: list_value_def)
qed

context list_copy
begin

lemma list_copied_apart:
  assumes ok: "list_ok meta_ok h l" and f: "free h < f"
    and run: "HubControlPlaneList_DeepCopyInto LM M l (h\<lparr>free := f\<rparr>) = (d, h')"
  shows "list_value meta_value h' d = list_value meta_value h l \<and> list_ok meta_ok h' d \<and>
    list_value meta_value h' l = list_value meta_value h l \<and>
    list_cells h' d \<inter> list_cells h' l = {} \<and> list_metas meta_addrs h' d \<inter> list_metas meta_addrs h' l = {} \<and>
    plane_lists h' = plane_lists h"
proof -
  from list_copied [OF assms] obtain h2 A where g: "grows h h2" and h': "h' = h2\<lparr>arrays := A\<rparr>"
    and A: "\<forall>a<free h. A a = arrays h a"
    and meta: "meta_value (metas h') (ml_ListMeta d) = meta_value (metas h) (ml_ListMeta l)" "meta_ok (metas h') (ml_ListMeta d)"
      "\<forall>m. meta_ok (metas h) m \<longrightarrow> meta_addrs (metas h') (ml_ListMeta d) \<inter> meta_addrs (metas h) m = {}"
    and shape: "ml_TypeMeta d = ml_TypeMeta l" "ml_Items d = None \<longleftrightarrow> ml_Items l = None"
      "\<forall>s. ml_Items d = Some s \<longrightarrow> free h \<le> ptr s \<and> ptr s < free h' \<and> in_array (arrays h') s"
    and items: "list_all2 (fresh_copy h h2) (items_of h l) (items_of h' d)"
    by (elim exE conjE)
  have same: "items_of h' l = items_of h l"
    using ok A by (auto simp: items_of_def list_ok_def elements_def h' split: option.splits)
  have planes: "plane_value meta_value h2 x = plane_value meta_value h x"
      "meta_addrs (metas h2) (mm_ObjectMeta x) = meta_addrs (metas h) (mm_ObjectMeta x)" "meta_ok (metas h) (mm_ObjectMeta x)"
      "plane_addrs x \<subseteq> {..<free h}" if "x \<in> set (items_of h l)" for x
    using that ok grows_plane [OF g, of x]
    by (auto simp: list_ok_def plane_ok_def plane_addrs_def slices_addrs_def slices_ok_def)
  have lmeta: "meta_value (metas h2) (ml_ListMeta l) = meta_value (metas h) (ml_ListMeta l)"
      "meta_addrs (metas h2) (ml_ListMeta l) = meta_addrs (metas h) (ml_ListMeta l)" "meta_ok (metas h) (ml_ListMeta l)"
    using ok g by (auto simp: list_ok_def grows_def)
  have copies: "plane_ok meta_ok h2 y" "plane_addrs y \<subseteq> {free h..}"
      "\<forall>m. meta_ok (metas h) m \<longrightarrow> meta_addrs (metas h2) (mm_ObjectMeta y) \<inter> meta_addrs (metas h) m = {}"
    if y: "y \<in> set (items_of h' d)" for y
  proof -
    obtain x where "fresh_copy h h2 x y"
      using y items by (auto simp: list_all2_conv_all_nth in_set_conv_nth)
    then show "plane_ok meta_ok h2 y" "plane_addrs y \<subseteq> {free h..}"
        "\<forall>m. meta_ok (metas h) m \<longrightarrow> meta_addrs (metas h2) (mm_ObjectMeta y) \<inter> meta_addrs (metas h) m = {}"
      by (auto simp: fresh_copy_def)
  qed
  have "map (plane_value meta_value h') (items_of h' d) = map (plane_value meta_value h) (items_of h l)"
    using items by (auto simp: list_all2_conv_all_nth list_eq_iff_nth_eq fresh_copy_def h')
  then have val: "list_value meta_value h' d = list_value meta_value h l"
    using meta shape by (simp add: list_value_def)
  have okd: "list_ok meta_ok h' d" using meta shape copies by (simp add: list_ok_def h')
  have keep: "list_value meta_value h' l = list_value meta_value h l"
    unfolding list_value_def same using planes lmeta by (simp add: h')
  have "list_cells h' d \<subseteq> {free h..}"
    using shape(3) by (auto simp: list_cells_def dest: subsetD [OF copies(2)])
  moreover have "list_cells h' l \<subseteq> {..<free h}"
    using ok by (auto simp: list_cells_def same list_ok_def dest: subsetD [OF planes(4)])
  ultimately have cells: "list_cells h' d \<inter> list_cells h' l = {}" by fastforce
  have metas': "metas h' = metas h2" by (simp add: h')
  have l_side: "list_metas meta_addrs h' l = meta_addrs (metas h) (ml_ListMeta l) \<union>
      (\<Union>x\<in>set (items_of h l). meta_addrs (metas h) (mm_ObjectMeta x))"
    unfolding list_metas_def same metas' using planes(2) lmeta(2) by simp
  have d_side: "list_metas meta_addrs h' d \<inter> meta_addrs (metas h) m = {}" if "meta_ok (metas h) m" for m
  proof -
    have "\<forall>y\<in>set (items_of h' d). meta_addrs (metas h2) (mm_ObjectMeta y) \<inter> meta_addrs (metas h) m = {}"
      using copies(3) that by simp
    moreover have "meta_addrs (metas h2) (ml_ListMeta d) \<inter> meta_addrs (metas h) m = {}"
      using meta(3) that by (simp add: metas')
    ultimately show ?thesis unfolding list_metas_def metas' by blast
  qed
  have metas: "list_metas meta_addrs h' d \<inter> list_metas meta_addrs h' l = {}"
    unfolding l_side Int_Un_distrib Int_UN_distrib using d_side lmeta(3) planes(3) by simp
  have "plane_lists h' = plane_lists h" using g h' by (cases h2) (auto simp: grows_def)
  then show ?thesis using val okd keep metas cells by blast
qed

end

text \<open>
  C13. A deep copy of a list of hub control planes is equal and separate: the new list has the value
  of the old one (a nil slice stays nil), the old one keeps its value, the two share no backing
  array and no metadata, and whatever is written through the copy afterwards leaves the value of
  the original as it is. A nil pointer gives the nil interface, never an interface that holds a nil
  pointer.
\<close>

theorem deep_copy_separate:
  assumes "metadata_copy M mv ma mok" and "metadata_copy LM mv ma mok"
    and p: "plane_lists h p = Some x" "p < free h" and ok: "list_ok mok h x"
  shows "\<exists>q y h'. HubControlPlaneList_DeepCopyObject LM M (Some p) h = Return (PlaneListPtr (Some q), h') \<and>
      q \<noteq> p \<and> plane_lists h' q = Some y \<and> plane_lists h' p = Some x \<and> list_ok mok h' y \<and>
      list_value mv h' y = list_value mv h x \<and> list_value mv h' x = list_value mv h x \<and>
      list_metas ma h' y \<inter> list_metas ma h' x = {} \<and>
      (\<forall>a ss xs. a \<in> list_cells h' y \<longrightarrow>
         list_value mv (h'\<lparr>strings := (strings h')(a \<mapsto> ss), arrays := (arrays h')(a \<mapsto> xs)\<rparr>) x = list_value mv h x) \<and>
      HubControlPlaneList_DeepCopyObject LM M None h = Return (NilObject, h)"
proof -
  have lc: "list_copy M LM mv ma mok" using assms(1,2) by (rule list_copy.intro)
  obtain y h1 where run: "HubControlPlaneList_DeepCopyInto LM M x (h\<lparr>free := free h + 1\<rparr>) = (y, h1)" by fastforce
  from list_copy.list_copied_apart [OF lc ok _ run]
  have c: "list_value mv h1 y = list_value mv h x" "list_ok mok h1 y" "list_value mv h1 x = list_value mv h x"
    "list_cells h1 y \<inter> list_cells h1 x = {}" "list_metas ma h1 y \<inter> list_metas ma h1 x = {}"
    "plane_lists h1 = plane_lists h" by simp_all
  let ?h = "h1\<lparr>plane_lists := (plane_lists h1)(free h \<mapsto> y)\<rparr>"
  have res: "HubControlPlaneList_DeepCopyObject LM M (Some p) h = Return (PlaneListPtr (Some (free h)), ?h)"
      "HubControlPlaneList_DeepCopyObject LM M None h = Return (NilObject, h)"
    using p run by (simp_all add: HubControlPlaneList_DeepCopyObject_def HubControlPlaneList_DeepCopy_def DeepCopy_new_def Let_def)
  have "list_value mv (?h\<lparr>strings := (strings ?h)(a \<mapsto> ss), arrays := (arrays ?h)(a \<mapsto> xs)\<rparr>) x = list_value mv h x"
    if "a \<in> list_cells ?h y" for a ss xs
    using list_value_frame [where a = a and h = ?h and l = x and mv = mv and ss = ss and xs = xs] that c by auto
  with res c p show ?thesis by (intro exI [of _ "free h"] exI [of _ y] exI [of _ ?h]) auto
qed

definition sample_memory :: "(meta_image, meta_memory) memory" where
  "sample_memory = \<lparr>free = 3, strings = [0 \<mapsto> [''c1'', ''c2'']],
     arrays = [1 \<mapsto> [\<lparr>mm_TypeMeta = (''HubControlPlane'', ''v1alpha1''),
       mm_ObjectMeta = \<lparr>im_Name = ''hub1'', im_Labels = Some 0\<rparr>, mm_Spec = \<lparr>Endpoint = ''https://hub1''\<rparr>,
       mm_Status = \<lparr>mm_Addons = None, mm_ManagedClusters =
         \<lparr>mm_Available = Some \<lparr>ptr = 0, off = 0, len = 1\<rparr>, mm_Unavailable = None,
          mm_Unknown = Some \<lparr>ptr = 0, off = 1, len = 1\<rparr>\<rparr>\<rparr>\<rparr>]],
     planes = Map.empty, plane_lists = [2 \<mapsto> \<lparr>ml_TypeMeta = (''HubControlPlaneList'', ''v1alpha1''),
       ml_ListMeta = \<lparr>im_Name = [], im_Labels = None\<rparr>, ml_Items = Some \<lparr>ptr = 1, off = 0, len = 1\<rparr>\<rparr>],
     plane_specs = Map.empty, plane_statuses = Map.empty, cluster_statuses = Map.empty,
     metas = (1, [0 \<mapsto> [(''a'', ''b'')]])\<rparr>"

theorem deep_copy_separate_witness:
  "\<exists>q y h'. HubControlPlaneList_DeepCopyObject image_copy image_copy (Some 2) sample_memory =
      Return (PlaneListPtr (Some q), h') \<and> q \<noteq> 2 \<and> plane_lists h' q = Some y \<and>
      map (\<lambda>(_, _, _, s). s) (snd (snd (snd (list_value image_value h' y)))) =
        [(None, (Some [''c1''], None, Some [''c2'']))]"
proof -
  let ?l = "\<lparr>ml_TypeMeta = (''HubControlPlaneList'', ''v1alpha1''),
       ml_ListMeta = \<lparr>im_Name = [], im_Labels = None\<rparr>, ml_Items = Some \<lparr>ptr = 1, off = 0, len = 1\<rparr>\<rparr>"
  have l: "plane_lists sample_memory 2 = Some ?l" and lt: "2 < free sample_memory"
    by (simp_all add: sample_memory_def)
  have ok: "list_ok image_ok sample_memory ?l"
    by (simp add: list_ok_def image_ok_def sample_memory_def items_of_def elements_def window_def plane_ok_def
        slices_ok_def status_slices_def in_array_def split: option.splits)
  have val: "map (\<lambda>(_, _, _, s). s) (snd (snd (snd (list_value image_value sample_memory ?l)))) =
      [(None, (Some [''c1''], None, Some [''c2'']))]"
    by (simp add: list_value_def plane_value_def status_value_def clusters_value_def slice_value_def sample_memory_def
        items_of_def elements_def window_def)
  from deep_copy_separate [OF labelled.metadata_copy_axioms labelled.metadata_copy_axioms l lt ok] val show ?thesis
    by metis
qed

end
