(* ===== verification/ComplianceSummary.thy ===== *)
theory ComplianceSummary
  imports Unstructured
begin

text \<open>
  The compliance summary of \<^verbatim>\<open>src/server/controllers/globalhubcontroller/policy_controller.go\<close>:
  the two structs, the counting of a leaf hub's clusters, the merge of one hub's counts
  into the summary of a policy, and the passage through \<open>encoding/json\<close> in both
  directions. The counters are Go \<open>uint32\<close>, that is \<open>32 word\<close>: every addition and
  subtraction wraps around.
\<close>

type_synonym uint32 = "32 word"

record ClusterSummary =
  cs_Name :: string
  cs_Compliant :: uint32
  cs_NonCompliant :: uint32

record ComplianceSummary =
  Compliant :: uint32
  NonCompliant :: uint32
  Summaries :: "ClusterSummary list"

definition zero_summary :: ComplianceSummary where
  "zero_summary = \<lparr>Compliant = 0, NonCompliant = 0, Summaries = []\<rparr>"

section \<open>Counting the clusters of a leaf hub\<close>

text \<open>
  An element of \<open>syncerPolicy.Status.Status\<close>, a slice of pointers: \<open>None\<close> is a nil pointer,
  whose dereference panics.
\<close>

record CompliancePerClusterStatus =
  ComplianceState :: string
  ClusterName :: string

fun count_clusters ::
  "CompliancePerClusterStatus option list \<Rightarrow> ClusterSummary \<Rightarrow> ClusterSummary outcome" where
  "count_clusters [] acc = Return acc"
| "count_clusters (None # clusters) acc = Panic ''invalid memory address or nil pointer dereference''"
| "count_clusters (Some cluster # clusters) acc =
     count_clusters clusters
       (if ComplianceState cluster = ''Compliant'' then acc\<lparr>cs_Compliant := cs_Compliant acc + 1\<rparr>
        else if ComplianceState cluster = ''NonCompliant''
        then acc\<lparr>cs_NonCompliant := cs_NonCompliant acc + 1\<rparr>
        else acc)"

section \<open>Merging one hub's counts\<close>

text \<open>
  The \<open>range\<close> loop over \<open>policyComplianceSummary.Summaries\<close>, with \<open>exist\<close> and the two totals
  as loop state and the slice rewritten in place. It does not stop at the first match.
\<close>

fun merge_loop :: "ClusterSummary \<Rightarrow> ClusterSummary list \<Rightarrow> bool \<times> uint32 \<times> uint32 \<Rightarrow>
    (bool \<times> uint32 \<times> uint32) \<times> ClusterSummary list" where
  "merge_loop new [] st = (st, [])"
| "merge_loop new (s # ss) (exist, c, n) =
     (if cs_Name new = cs_Name s then
        (let (st, ss') = merge_loop new ss
               (True, c + (cs_Compliant new - cs_Compliant s), n + (cs_NonCompliant new - cs_NonCompliant s))
         in (st, s\<lparr>cs_Compliant := cs_Compliant new, cs_NonCompliant := cs_NonCompliant new\<rparr> # ss'))
      else
        (let (st, ss') = merge_loop new ss (exist, c, n) in (st, s # ss')))"

definition merge_summary :: "ClusterSummary \<Rightarrow> ComplianceSummary \<Rightarrow> ComplianceSummary" where
  "merge_summary new S =
     (case merge_loop new (Summaries S) (False, Compliant S, NonCompliant S) of
        ((exist, c, n), ss) \<Rightarrow>
          if exist then \<lparr>Compliant = c, NonCompliant = n, Summaries = ss\<rparr>
          else \<lparr>Compliant = c + cs_Compliant new, NonCompliant = n + cs_NonCompliant new,
                Summaries = ss @ [new]\<rparr>)"

section \<open>JSON\<close>

text \<open>
  \<open>json.Marshal\<close> of the structs, with \<open>omitempty\<close> on every field, read back into
  \<open>interface{}\<close> values.
\<close>

definition json_of_cluster :: "ClusterSummary \<Rightarrow> json" where
  "json_of_cluster s = JObj
     ((if cs_Name s = [] then [] else [(''name'', JStr (cs_Name s))]) @
      (if cs_Compliant s = 0 then [] else [(''compliant'', JInt (uint (cs_Compliant s)))]) @
      (if cs_NonCompliant s = 0 then [] else [(''noncompliant'', JInt (uint (cs_NonCompliant s)))]))"

definition json_of_summary :: "ComplianceSummary \<Rightarrow> json" where
  "json_of_summary S = JObj
     ((if Compliant S = 0 then [] else [(''compliant'', JInt (uint (Compliant S)))]) @
      (if NonCompliant S = 0 then [] else [(''noncompliant'', JInt (uint (NonCompliant S)))]) @
      (if Summaries S = [] then [] else [(''summaries'', JArr (map json_of_cluster (Summaries S)))]))"

text \<open>
  \<open>json.Unmarshal\<close> into the structs: \<open>null\<close> leaves a field as it is (and empties a slice), a
  key matches a field name up to (ASCII) case, an unknown key is skipped, and the entries
  come in the sorted key order \<open>json.Marshal\<close> wrote them in. A number that is no \<open>uint32\<close> or a
  value of another kind is an error.
\<close>

definition type_error :: error where
  "type_error = Errorf ''json: cannot unmarshal value into Go struct field''"

definition lower :: "char \<Rightarrow> char" where
  "lower c = (if CHR ''A'' \<le> c \<and> c \<le> CHR ''Z'' then char_of (of_char c + (32::nat)) else c)"

definition field_matches :: "string \<Rightarrow> string \<Rightarrow> bool" where
  "field_matches field key \<longleftrightarrow> map lower key = field"

fun decode_uint32 :: "json \<Rightarrow> uint32 \<Rightarrow> error + uint32" where
  "decode_uint32 JNull old = Inr old"
| "decode_uint32 (JInt i) old = (if 0 \<le> i \<and> i < 2 ^ 32 then Inr (word_of_int i) else Inl type_error)"
| "decode_uint32 _ old = Inl type_error"

fun decode_string :: "json \<Rightarrow> string \<Rightarrow> error + string" where
  "decode_string JNull old = Inr old"
| "decode_string (JStr s) old = Inr s"
| "decode_string _ old = Inl type_error"

fun map_result :: "('a \<Rightarrow> 'b) \<Rightarrow> error + 'a \<Rightarrow> error + 'b" where
  "map_result f (Inl e) = Inl e"
| "map_result f (Inr x) = Inr (f x)"

definition cluster_field :: "string \<times> json \<Rightarrow> ClusterSummary \<Rightarrow> error + ClusterSummary" where
  "cluster_field e s =
     (if field_matches ''name'' (fst e)
      then map_result (\<lambda>v. s\<lparr>cs_Name := v\<rparr>) (decode_string (snd e) (cs_Name s))
      else if field_matches ''compliant'' (fst e)
      then map_result (\<lambda>v. s\<lparr>cs_Compliant := v\<rparr>) (decode_uint32 (snd e) (cs_Compliant s))
      else if field_matches ''noncompliant'' (fst e)
      then map_result (\<lambda>v. s\<lparr>cs_NonCompliant := v\<rparr>) (decode_uint32 (snd e) (cs_NonCompliant s))
      else Inr s)"

fun decode_fields :: "(string \<times> json \<Rightarrow> 's \<Rightarrow> error + 's) \<Rightarrow> content \<Rightarrow> 's \<Rightarrow> error + 's" where
  "decode_fields f [] s = Inr s"
| "decode_fields f (e # es) s = (case f e s of Inl err \<Rightarrow> Inl err | Inr s' \<Rightarrow> decode_fields f es s')"

definition zero_cluster :: ClusterSummary where
  "zero_cluster = \<lparr>cs_Name = [], cs_Compliant = 0, cs_NonCompliant = 0\<rparr>"

fun cluster_of_json :: "json \<Rightarrow> error + ClusterSummary" where
  "cluster_of_json JNull = Inr zero_cluster"
| "cluster_of_json (JObj m) = decode_fields cluster_field (norm_entries m) zero_cluster"
| "cluster_of_json _ = Inl type_error"

fun map_results :: "('a \<Rightarrow> error + 'b) \<Rightarrow> 'a list \<Rightarrow> error + 'b list" where
  "map_results f [] = Inr []"
| "map_results f (x # xs) =
     (case f x of Inl e \<Rightarrow> Inl e | Inr y \<Rightarrow> map_result ((#) y) (map_results f xs))"

fun decode_summaries :: "json \<Rightarrow> error + ClusterSummary list" where
  "decode_summaries JNull = Inr []"
| "decode_summaries (JArr xs) = map_results cluster_of_json xs"
| "decode_summaries _ = Inl type_error"

definition summary_field :: "string \<times> json \<Rightarrow> ComplianceSummary \<Rightarrow> error + ComplianceSummary" where
  "summary_field e S =
     (if field_matches ''compliant'' (fst e)
      then map_result (\<lambda>v. S\<lparr>Compliant := v\<rparr>) (decode_uint32 (snd e) (Compliant S))
      else if field_matches ''noncompliant'' (fst e)
      then map_result (\<lambda>v. S\<lparr>NonCompliant := v\<rparr>) (decode_uint32 (snd e) (NonCompliant S))
      else if field_matches ''summaries'' (fst e)
      then map_result (\<lambda>v. S\<lparr>Summaries := v\<rparr>) (decode_summaries (snd e))
      else Inr S)"

fun summary_of_json :: "json \<Rightarrow> error + ComplianceSummary" where
  "summary_of_json JNull = Inr zero_summary"
| "summary_of_json (JObj m) = decode_fields summary_field (norm_entries m) zero_summary"
| "summary_of_json _ = Inl type_error"

section \<open>The abstract table of reports\<close>

text \<open>
  What a summary is meant to hold: for every hub that reported, its latest two counts. The
  totals are derived data.
\<close>

type_synonym report_table = "string \<rightharpoonup> uint32 \<times> uint32"

definition report :: "ClusterSummary \<Rightarrow> uint32 \<times> uint32" where
  "report s = (cs_Compliant s, cs_NonCompliant s)"

definition table :: "ComplianceSummary \<Rightarrow> report_table" where
  "table S = map_of (map (\<lambda>s. (cs_Name s, report s)) (Summaries S))"

definition consistent :: "ComplianceSummary \<Rightarrow> bool" where
  "consistent S \<longleftrightarrow>
     Compliant S = sum_list (map cs_Compliant (Summaries S)) \<and>
     NonCompliant S = sum_list (map cs_NonCompliant (Summaries S))"

definition names :: "ComplianceSummary \<Rightarrow> string list" where
  "names S = map cs_Name (Summaries S)"

section \<open>The merge loop\<close>

text \<open>The loop, entry by entry: which entries it rewrites and by how much it moves the totals.\<close>

definition put :: "ClusterSummary \<Rightarrow> ClusterSummary \<Rightarrow> ClusterSummary" where
  "put new s = (if cs_Name new = cs_Name s
     then s\<lparr>cs_Compliant := cs_Compliant new, cs_NonCompliant := cs_NonCompliant new\<rparr> else s)"

lemma merge_loop_eq:
  "merge_loop new ss (exist, c, n) =
     ((exist \<or> cs_Name new \<in> set (map cs_Name ss),
       c + (sum_list (map cs_Compliant (map (put new) ss)) - sum_list (map cs_Compliant ss)),
       n + (sum_list (map cs_NonCompliant (map (put new) ss)) - sum_list (map cs_NonCompliant ss))),
      map (put new) ss)"
  by (induction ss arbitrary: exist c n) (auto simp: put_def algebra_simps)

lemma put_names [simp]: "cs_Name (put new s) = cs_Name s"
  by (simp add: put_def)

lemma map_put_absent: "cs_Name new \<notin> set (map cs_Name ss) \<Longrightarrow> map (put new) ss = ss"
  by (induction ss) (auto simp: put_def)

lemma merge_summary_Summaries:
  "Summaries (merge_summary new S) =
     (if cs_Name new \<in> set (names S) then map (put new) (Summaries S) else Summaries S @ [new])"
  by (auto simp: merge_summary_def merge_loop_eq names_def map_put_absent)

lemma merge_summary_totals:
  "Compliant (merge_summary new S) =
     Compliant S + (sum_list (map cs_Compliant (Summaries (merge_summary new S))) -
                    sum_list (map cs_Compliant (Summaries S)))"
  "NonCompliant (merge_summary new S) =
     NonCompliant S + (sum_list (map cs_NonCompliant (Summaries (merge_summary new S))) -
                       sum_list (map cs_NonCompliant (Summaries S)))"
  by (auto simp: merge_summary_def merge_loop_eq names_def map_put_absent simp del: map_map)

lemma merge_summary_names:
  "names (merge_summary new S) =
     (if cs_Name new \<in> set (names S) then names S else names S @ [cs_Name new])"
  by (simp add: names_def merge_summary_Summaries comp_def)

lemma table_put:
  "map_of (map (\<lambda>s. (cs_Name s, report s)) (map (put new) ss)) k =
     (if k = cs_Name new \<and> k \<in> set (map cs_Name ss) then Some (report new)
      else map_of (map (\<lambda>s. (cs_Name s, report s)) ss) k)"
  by (induction ss) (auto simp: put_def report_def)

lemma table_absent: "k \<notin> set (map cs_Name ss) \<Longrightarrow> map_of (map (\<lambda>s. (cs_Name s, report s)) ss) k = None"
  by (induction ss) auto

lemma merge_summary_table: "table (merge_summary new S) = (table S)(cs_Name new \<mapsto> report new)"
proof
  fix k
  show "table (merge_summary new S) k = ((table S)(cs_Name new \<mapsto> report new)) k"
  proof (cases "cs_Name new \<in> set (names S)")
    case True
    then show ?thesis
      using table_put [of new "Summaries S" k]
      by (auto simp: table_def merge_summary_Summaries names_def comp_def)
  next
    case False
    then show ?thesis
      using table_absent [of "cs_Name new" "Summaries S"]
      by (auto simp: table_def merge_summary_Summaries names_def map_add_def split: option.splits)
  qed
qed

lemma merge_summary_consistent: "consistent S \<Longrightarrow> consistent (merge_summary new S)"
  using merge_summary_totals [of new S] by (simp add: consistent_def)

lemma consistent_zero: "consistent zero_summary"
  by (simp add: consistent_def zero_summary_def)

lemma put_idem: "put new (put new s) = put new s"
  by (simp add: put_def)

lemma map_put_same: "map (put new) (map (put new) ss) = map (put new) ss"
  by (simp add: put_idem)

lemma put_new: "put new new = new"
  by (simp add: put_def)

lemma merge_summary_idem: "merge_summary new (merge_summary new S) = merge_summary new S"
proof -
  let ?S = "merge_summary new S"
  have "cs_Name new \<in> set (names ?S)" by (simp add: merge_summary_names)
  moreover have "map (put new) (Summaries ?S) = Summaries ?S"
    using map_put_absent [of new "Summaries S"]
    by (auto simp: merge_summary_Summaries put_idem put_new names_def)
  ultimately have "Summaries (merge_summary new ?S) = Summaries ?S"
    by (simp add: merge_summary_Summaries)
  with merge_summary_totals [of new ?S] show ?thesis by simp
qed

text \<open>Without wrap-around the totals are the sums of the counts as numbers.\<close>

lemma unat_sum_list:
  fixes ws :: "uint32 list"
  shows "sum_list (map unat ws) < 2 ^ 32 \<Longrightarrow> unat (sum_list ws) = sum_list (map unat ws)"
proof (induction ws)
  case Nil
  then show ?case by simp
next
  case (Cons w ws)
  then have "unat w + unat (sum_list ws) < 2 ^ LENGTH(32)" by simp
  then have "unat (w + sum_list ws) = unat w + unat (sum_list ws)"
    by (simp add: unat_word_ariths)
  with Cons show ?case by simp
qed

section \<open>The counting loop\<close>

definition of_state :: "string \<Rightarrow> CompliancePerClusterStatus list \<Rightarrow> nat" where
  "of_state st clusters = length (filter (\<lambda>c. ComplianceState c = st) clusters)"

lemma count_clusters_eq:
  "count_clusters (map Some clusters) acc =
     Return (acc\<lparr>cs_Compliant := cs_Compliant acc + of_nat (of_state ''Compliant'' clusters),
                 cs_NonCompliant := cs_NonCompliant acc + of_nat (of_state ''NonCompliant'' clusters)\<rparr>)"
  by (induction clusters arbitrary: acc) (simp_all add: of_state_def algebra_simps)

lemma count_clusters_panics_iff:
  "returns (count_clusters clusters acc) \<longleftrightarrow> None \<notin> set clusters"
  by (induction clusters acc rule: count_clusters.induct) auto

section \<open>Round trip through JSON\<close>

lemma norm_entries_sorted:
  assumes "sorted (map fst m)" and "distinct (map fst m)"
  shows "norm_entries m = m"
proof -
  from assms have "sort (remdups (map fst m)) = map fst m"
    by (simp add: distinct_remdups_id sorted_sort_id)
  then have "norm_entries m = map (\<lambda>k. (k, key_value m k)) (map fst m)"
    by (simp add: norm_entries_def)
  also have "\<dots> = m"
    using assms(2) by (auto simp: key_value_def intro!: map_idI)
  finally show ?thesis .
qed

lemma uint_bounds [simp]: "uint (w::uint32) < 4294967296"
  using uint_lt2p [of w] by simp

lemma decode_uint: "decode_uint32 (JInt (uint (w::uint32))) old = Inr w"
  by simp

lemma field_matches_literal [simp]:
  "field_matches ''name'' ''name''" "field_matches ''compliant'' ''compliant''"
  "field_matches ''noncompliant'' ''noncompliant''" "field_matches ''summaries'' ''summaries''"
  "\<not> field_matches ''name'' ''compliant''" "\<not> field_matches ''name'' ''noncompliant''"
  "\<not> field_matches ''compliant'' ''noncompliant''" "\<not> field_matches ''compliant'' ''summaries''"
  "\<not> field_matches ''noncompliant'' ''summaries''"
  by (simp_all add: field_matches_def lower_def)

lemma norm_cluster_entries:
  "norm_entries
     ((if a then [] else [(''name'', x)]) @ (if b then [] else [(''compliant'', y)]) @
      (if c then [] else [(''noncompliant'', z)])) =
   (if b then [] else [(''compliant'', y)]) @ (if a then [] else [(''name'', x)]) @
   (if c then [] else [(''noncompliant'', z)])"
  by (simp add: norm_entries_def key_value_def)

lemma norm_summary_entries:
  "norm_entries
     ((if a then [] else [(''compliant'', x)]) @ (if b then [] else [(''noncompliant'', y)]) @
      (if c then [] else [(''summaries'', z)])) =
   (if a then [] else [(''compliant'', x)]) @ (if b then [] else [(''noncompliant'', y)]) @
   (if c then [] else [(''summaries'', z)])"
  by (simp add: norm_entries_def key_value_def)

lemma cluster_round_trip: "cluster_of_json (json_of_cluster s) = Inr s"
  by (cases s)
    (simp add: json_of_cluster_def norm_cluster_entries cluster_field_def zero_cluster_def)

lemma clusters_round_trip: "map_results cluster_of_json (map json_of_cluster ss) = Inr ss"
  by (induction ss) (simp_all add: cluster_round_trip)

lemma summary_round_trip_lemma: "summary_of_json (json_of_summary S) = Inr S"
  by (cases S)
    (simp add: json_of_summary_def norm_summary_entries summary_field_def zero_summary_def
      clusters_round_trip)

section \<open>Properties\<close>

text \<open>
  C6. The merge refines the abstract table: the summary then holds the hub's new counts under the
  hub's name and every other hub's counts as they were, it lists every hub at most once if it
  did so before, and merging the same report again changes nothing.
\<close>

theorem merge_refines_table:
  "table (merge_summary new S) = (table S)(cs_Name new \<mapsto> report new) \<and>
   distinct (names (merge_summary new S)) = distinct (names S) \<and>
   merge_summary new (merge_summary new S) = merge_summary new S"
  by (simp add: merge_summary_table merge_summary_idem merge_summary_names)

lemma consistent_foldl: "consistent S \<Longrightarrow> consistent (foldl (\<lambda>S new. merge_summary new S) S reports)"
  by (induction reports arbitrary: S) (simp_all add: merge_summary_consistent)

text \<open>
  C7. After any sequence of reports the two totals are the sums of the counts per hub, in the
  arithmetic of \<open>uint32\<close>: the incremental update with subtraction loses nothing to wrap-around.
  As long as the true sum fits into 32 bits, the total of compliant clusters is that number.
\<close>

theorem totals_are_sums:
  assumes "consistent S"
  shows "consistent (foldl (\<lambda>S new. merge_summary new S) S reports) \<and>
    (sum_list (map (unat \<circ> cs_Compliant) (Summaries (foldl (\<lambda>S new. merge_summary new S) S reports))) < 2 ^ 32 \<longrightarrow>
     unat (Compliant (foldl (\<lambda>S new. merge_summary new S) S reports)) =
       sum_list (map (unat \<circ> cs_Compliant) (Summaries (foldl (\<lambda>S new. merge_summary new S) S reports))))"
proof -
  let ?S = "foldl (\<lambda>S new. merge_summary new S) S reports"
  have cons: "consistent ?S" by (rule consistent_foldl [OF assms])
  moreover have "unat (Compliant ?S) = sum_list (map (unat \<circ> cs_Compliant) (Summaries ?S))"
    if "sum_list (map (unat \<circ> cs_Compliant) (Summaries ?S)) < 2 ^ 32"
    using unat_sum_list [of "map cs_Compliant (Summaries ?S)"] that cons by (simp add: consistent_def)
  ultimately show ?thesis by blast
qed

definition sample_report :: "string \<Rightarrow> nat \<Rightarrow> nat \<Rightarrow> ClusterSummary" where
  "sample_report n c d = \<lparr>cs_Name = n, cs_Compliant = of_nat c, cs_NonCompliant = of_nat d\<rparr>"

theorem totals_are_sums_witness:
  "let S = foldl (\<lambda>S new. merge_summary new S) zero_summary
       [sample_report ''hub1'' 5 1, sample_report ''hub2'' 2 2, sample_report ''hub1'' 3 0]
   in Summaries S = [sample_report ''hub1'' 3 0, sample_report ''hub2'' 2 2] \<and> unat (Compliant S) = 5"
proof -
  let ?S = "foldl (\<lambda>S new. merge_summary new S) zero_summary
       [sample_report ''hub1'' 5 1, sample_report ''hub2'' 2 2, sample_report ''hub1'' 3 0]"
  have sums: "Summaries ?S = [sample_report ''hub1'' 3 0, sample_report ''hub2'' 2 2]"
    by (simp add: sample_report_def zero_summary_def merge_summary_def)
  have "sum_list (map (unat \<circ> cs_Compliant) (Summaries ?S)) = 5"
    by (simp only: sums) (simp add: sample_report_def)
  with totals_are_sums [OF consistent_zero,
      of "[sample_report ''hub1'' 5 1, sample_report ''hub2'' 2 2, sample_report ''hub1'' 3 0]"] sums
  show ?thesis by (simp only: Let_def) simp
qed

text \<open>
  C23. What the controller writes into the status map is read back as the same summary: decoding
  inverts encoding, although every zero count, empty name and empty list is omitted.
\<close>

theorem summary_round_trip: "summary_of_json (json_of_summary S) = Inr S"
  by (rule summary_round_trip_lemma)

text \<open>
  The report of a hub counts its compliant and its non-compliant clusters, modulo 2^32, keeps
  the hub's name, and ignores any other state; a nil entry in the list panics, and nothing else
  does.
\<close>

theorem count_clusters_counts:
  "(returns (count_clusters clusters acc) \<longleftrightarrow> None \<notin> set clusters) \<and>
   count_clusters (map Some cs) \<lparr>cs_Name = n, cs_Compliant = 0, cs_NonCompliant = 0\<rparr> =
     Return \<lparr>cs_Name = n,
       cs_Compliant = of_nat (length (filter (\<lambda>c. ComplianceState c = ''Compliant'') cs)),
       cs_NonCompliant = of_nat (length (filter (\<lambda>c. ComplianceState c = ''NonCompliant'') cs))\<rparr>"
  by (simp add: count_clusters_panics_iff count_clusters_eq of_state_def)

end
