(* ===== verification/VersionedServer.thy ===== *)
theory VersionedServer
  imports ApiClient
begin

text \<open>
  The part of the API server's documented behaviour that concurrent status updates rely on, as a
  contract over the history of every object. Other clients write at any time, also between two
  calls and while a call is under way; every stored state has a resource version; a status update
  is refused with a conflict when the version it carries is not the stored one; an update that is
  accepted replaces the status and nothing else the writer owns; and the answer to an update may
  get lost although the update was accepted.

  The contract is interpreted on an in-memory server whose other clients follow a script.
\<close>

section \<open>Histories\<close>

text \<open>A revision: who wrote, and the state written; \<open>None\<close>: the object was deleted.\<close>

datatype writer = Us | Others

type_synonym revision = "writer \<times> unstructured option"

type_synonym history = "objkey \<Rightarrow> revision list"

definition current :: "revision list \<Rightarrow> unstructured option" where
  "current rs = (if rs = [] then None else snd (last rs))"

definition foreign :: "revision list \<Rightarrow> bool" where
  "foreign rs \<longleftrightarrow> list_all (\<lambda>r. fst r = Others) rs"

text \<open>Only others have written in the meantime.\<close>

definition grown :: "revision list \<Rightarrow> revision list \<Rightarrow> bool" where
  "grown rs rs' \<longleftrightarrow> (\<exists>xs. foreign xs \<and> rs' = rs @ xs)"

lemma foreign_append [simp]: "foreign (xs @ ys) \<longleftrightarrow> foreign xs \<and> foreign ys"
  by (simp add: foreign_def)

lemma grown_refl: "grown rs rs"
  by (simp add: grown_def foreign_def)

lemma grown_trans: "grown rs rs' \<Longrightarrow> grown rs' rs'' \<Longrightarrow> grown rs rs''"
  by (auto simp: grown_def)

lemma grown_set: "grown rs rs' \<Longrightarrow> set rs \<subseteq> set rs'"
  by (auto simp: grown_def)

lemma current_append: "rs \<noteq> [] \<Longrightarrow> current (ss @ rs) = current rs"
  by (simp add: current_def)

lemma current_in_set: "current rs = Some x \<Longrightarrow> \<exists>a. (a, Some x) \<in> set rs"
  by (auto simp: current_def split: if_splits) (metis last_in_set prod.collapse)

text \<open>
  What an accepted status update does to an object: the status is the one sent, and what the
  writer owns of the rest is kept. The server may change its own fields of the metadata, as it
  does with the resource version.
\<close>

definition status_written :: "meta_ops \<Rightarrow> unstructured \<Rightarrow> unstructured \<Rightarrow> unstructured \<Rightarrow> bool" where
  "status_written U sent old new \<longleftrightarrow>
     key_value (Object new) ''status'' = key_value (Object sent) ''status'' \<and>
     (\<forall>k. k \<noteq> ''status'' \<and> k \<noteq> ''metadata'' \<longrightarrow> key_value (Object new) k = key_value (Object old) k) \<and>
     GetName U new = GetName U old \<and> GetNamespace U new = GetNamespace U old \<and>
     GetStr U FUID new = GetStr U FUID old \<and> label_of U new = label_of U old"

definition accepted :: "meta_ops \<Rightarrow> objkey \<Rightarrow> unstructured \<Rightarrow> history \<Rightarrow> history \<Rightarrow> bool" where
  "accepted U key sent L L' \<longleftrightarrow>
     (\<forall>k. k \<noteq> key \<longrightarrow> grown (L k) (L' k)) \<and>
     (\<exists>xs own ys old. L' key = L key @ xs @ [(Us, Some own)] @ ys \<and> foreign xs \<and> foreign ys \<and>
        current (L key @ xs) = Some old \<and> status_written U sent old own \<and>
        (GetResourceVersion U sent \<noteq> [] \<longrightarrow> GetResourceVersion U old = GetResourceVersion U sent))"

section \<open>The contract\<close>

text \<open>
  \<open>log\<close> reads the histories off the world, \<open>ok\<close> is what the server keeps of them. An update that
  would change nothing may leave the version as it is, so a version names a state, not a write.
\<close>

locale versioned_server =
  fixes U :: meta_ops and C :: "'w dynamic_client" and log :: "'w \<Rightarrow> history" and ok :: "'w \<Rightarrow> bool"
  assumes version_names_state: "ok w \<Longrightarrow> (a, Some x) \<in> set (log w k) \<Longrightarrow> (b, Some y) \<in> set (log w k) \<Longrightarrow>
      GetResourceVersion U x = GetResourceVersion U y \<Longrightarrow> x = y"
    and Get_reads: "ok w \<Longrightarrow> cGet C g ns n w = (r, w') \<Longrightarrow> ok w' \<and> (\<forall>k. grown (log w k) (log w' k))"
    and Get_object: "ok w \<Longrightarrow> cGet C g (Some m) n w = (Inr ob, w') \<Longrightarrow>
      (\<exists>a. (a, Some ob) \<in> set (log w' (g, Some m, n))) \<and>
      GetNamespace U ob = m \<and> GetName U ob = n \<and> GetResourceVersion U ob \<noteq> []"
    and UpdateStatus_ok: "ok w \<Longrightarrow> cUpdateStatus C g ns ob w = (r, w') \<Longrightarrow> ok w'"
    and UpdateStatus_accepted: "ok w \<Longrightarrow> cUpdateStatus C g ns ob w = (Inr ob', w') \<Longrightarrow>
      accepted U (g, ns, GetName U ob) ob (log w) (log w')"
    and UpdateStatus_conflict: "ok w \<Longrightarrow> cUpdateStatus C g ns ob w = (Inl (StatusError Conflict), w') \<Longrightarrow>
      \<forall>k. grown (log w k) (log w' k)"
    and UpdateStatus_failed: "ok w \<Longrightarrow> cUpdateStatus C g ns ob w = (Inl e, w') \<Longrightarrow>
      (\<forall>k. grown (log w k) (log w' k)) \<or> accepted U (g, ns, GetName U ob) ob (log w) (log w')"
begin

text \<open>
  An accepted update of an object that was read before replaced exactly the state that was read,
  whatever was written in between.
\<close>

lemma accepted_replaces_read:
  assumes "ok w'" and acc: "accepted U key sent (log w) (log w')"
    and ob: "(a, Some ob) \<in> set (log w key)" and rv: "GetResourceVersion U sent = GetResourceVersion U ob"
      "GetResourceVersion U ob \<noteq> []"
  shows "\<exists>xs own ys. log w' key = log w key @ xs @ [(Us, Some own)] @ ys \<and> foreign xs \<and> foreign ys \<and>
    current (log w key @ xs) = Some ob \<and> status_written U sent ob own"
proof -
  from acc obtain xs own ys old where log: "log w' key = log w key @ xs @ [(Us, Some own)] @ ys"
    and others: "foreign xs" "foreign ys" and old: "current (log w key @ xs) = Some old"
    and sw: "status_written U sent old own" and "GetResourceVersion U old = GetResourceVersion U sent"
    using rv by (auto simp: accepted_def)
  moreover obtain b where "(b, Some old) \<in> set (log w key @ xs)" using current_in_set [OF old] by blast
  ultimately have "old = ob" using version_names_state [OF assms(1), of b old key a ob] ob rv by auto
  with log others old sw show ?thesis by blast
qed

end

section \<open>An in-memory server with other clients\<close>

text \<open>
  Before a call is served, the writes at the head of the script happen. \<open>lost\<close> says of the next
  accepted updates whether their answers get lost. The \<open>i\<close>-th revision of an object has a version
  of \<open>i + 1\<close> letters.
\<close>

record shared_world =
  revisions :: history
  script :: "(objkey \<times> unstructured option) list list"
  lost :: "bool list"

fun ns_string :: "string option \<Rightarrow> string" where
  "ns_string None = []"
| "ns_string (Some ns) = ns"

definition version_of :: "nat \<Rightarrow> string" where
  "version_of i = replicate (Suc i) (CHR ''v'')"

definition stamp :: "objkey \<Rightarrow> nat \<Rightarrow> unstructured \<Rightarrow> unstructured" where
  "stamp k i x =
     (case k of (g, ns, n) \<Rightarrow>
        SetStr json_ops FResourceVersion (version_of i)
          (SetStr json_ops FName n (SetStr json_ops FNamespace (ns_string ns)
             (if meta_wf x then x else \<lparr>Object = []\<rparr>))))"

definition put :: "writer \<Rightarrow> objkey \<Rightarrow> unstructured option \<Rightarrow> shared_world \<Rightarrow> shared_world" where
  "put a k x w = w\<lparr>revisions := (revisions w)
     (k := revisions w k @ [(a, map_option (stamp k (length (revisions w k))) x)])\<rparr>"

fun others_write :: "(objkey \<times> unstructured option) list \<Rightarrow> shared_world \<Rightarrow> shared_world" where
  "others_write [] w = w"
| "others_write ((k, x) # ws) w = others_write ws (put Others k x w)"

definition others_go :: "shared_world \<Rightarrow> shared_world" where
  "others_go w = others_write (case script w of [] \<Rightarrow> [] | ws # _ \<Rightarrow> ws) (w\<lparr>script := tl (script w)\<rparr>)"

definition shared_get :: "gvr \<Rightarrow> string option \<Rightarrow> string \<Rightarrow> shared_world \<Rightarrow> (error + unstructured) \<times> shared_world" where
  "shared_get g ns n w =
     (let w1 = others_go w
      in case current (revisions w1 (g, ns, n)) of
           None \<Rightarrow> (Inl (StatusError NotFound), w1)
         | Some x \<Rightarrow> (Inr x, w1))"

definition shared_update_status ::
  "gvr \<Rightarrow> string option \<Rightarrow> unstructured \<Rightarrow> shared_world \<Rightarrow> (error + unstructured) \<times> shared_world" where
  "shared_update_status g ns ob w =
     (let w1 = others_go w; k = (g, ns, GetName json_ops ob)
      in case current (revisions w1 k) of
           None \<Rightarrow> (Inl (StatusError NotFound), w1)
         | Some old \<Rightarrow>
             if GetResourceVersion json_ops ob \<noteq> [] \<and> GetResourceVersion json_ops ob \<noteq> GetResourceVersion json_ops old
             then (Inl (StatusError Conflict), w1)
             else
               (let new = set_top ''status'' (key_value (Object ob) ''status'') old;
                    w2 = put Us k (Some new) (w1\<lparr>lost := tl (lost w1)\<rparr>)
                in ((case lost w1 of True # _ \<Rightarrow> Inl (StatusError (OtherReason ''Timeout'')) | _ \<Rightarrow> Inr new), w2)))"

definition not_served :: "shared_world \<Rightarrow> (error + unstructured) \<times> shared_world" where
  "not_served w = (Inl (StatusError (OtherReason ''MethodNotAllowed'')), w)"

definition shared_client :: "shared_world dynamic_client" where
  "shared_client = \<lparr>cGet = shared_get, cCreate = (\<lambda>_ _ _. not_served), cUpdate = (\<lambda>_ _ _. not_served),
     cUpdateStatus = shared_update_status, cPatch = (\<lambda>_ _ _ _. not_served),
     cDelete = (\<lambda>_ _ _ w. (Some (StatusError (OtherReason ''MethodNotAllowed'')), w))\<rparr>"

lemmas shared_defs = shared_client_def shared_get_def shared_update_status_def others_go_def put_def

text \<open>Every state has the version of its place in the history, and the key of the object.\<close>

definition stamped :: "objkey \<Rightarrow> nat \<Rightarrow> unstructured \<Rightarrow> bool" where
  "stamped k i x \<longleftrightarrow> meta_wf x \<and> GetResourceVersion json_ops x = version_of i \<and>
     GetName json_ops x = snd (snd k) \<and> GetNamespace json_ops x = ns_string (fst (snd k))"

definition shared_ok :: "shared_world \<Rightarrow> bool" where
  "shared_ok w \<longleftrightarrow> (\<forall>k i x. i < length (revisions w k) \<longrightarrow> snd (revisions w k ! i) = Some x \<longrightarrow> stamped k i x)"

lemma version_of_inj [simp]: "version_of i = version_of j \<longleftrightarrow> i = j"
  by (auto simp: version_of_def dest: arg_cong [where f = length])

lemma version_of_nonempty [simp]: "version_of i \<noteq> []"
  by (simp add: version_of_def)

lemma stamped_stamp: "stamped k i (stamp k i x)"
proof -
  obtain g ns n where k: "k = (g, ns, n)" by (cases k)
  have "meta_wf \<lparr>Object = []\<rparr>" by (simp add: meta_wf_def)
  then have "meta_wf (if meta_wf x then x else \<lparr>Object = []\<rparr>)" by simp
  then show ?thesis
    by (simp add: k stamped_def stamp_def json_acc.GetStr_SetStr json_acc.wf_SetStr)
qed

lemma shared_ok_put: "shared_ok w \<Longrightarrow> shared_ok (put a k x w)"
  by (auto simp: shared_ok_def put_def nth_append stamped_stamp less_Suc_eq simp del: split_paired_All
      split: if_splits)

lemma put_revisions: "revisions (put a k x w) j = revisions w j @
    (if j = k then [(a, map_option (stamp k (length (revisions w k))) x)] else [])"
  by (simp add: put_def)

lemma others_write_effect:
  "shared_ok w \<Longrightarrow> shared_ok (others_write ws w) \<and> (\<forall>k. grown (revisions w k) (revisions (others_write ws w) k)) \<and>
     lost (others_write ws w) = lost w"
proof (induction ws w rule: others_write.induct)
  case (1 w)
  then show ?case by (simp add: grown_refl)
next
  case (2 k x ws w)
  have "grown (revisions w j) (revisions (put Others k x w) j)" for j
    unfolding grown_def put_revisions by (intro exI conjI) (auto simp: foreign_def)
  moreover have "lost (put Others k x w) = lost w" by (simp add: put_def)
  ultimately show ?case using 2 by (simp only: others_write.simps) (blast intro: shared_ok_put grown_trans)
qed

lemma others_go_effect:
  assumes "shared_ok w"
  shows "shared_ok (others_go w)" and "grown (revisions w k) (revisions (others_go w) k)"
proof -
  have "shared_ok (w\<lparr>script := tl (script w)\<rparr>)" using assms by (simp add: shared_ok_def)
  from others_write_effect [OF this, of "case script w of [] \<Rightarrow> [] | ws # _ \<Rightarrow> ws"]
  show "shared_ok (others_go w)" and "grown (revisions w k) (revisions (others_go w) k)"
    by (simp_all add: others_go_def del: split_paired_All)
qed

lemma shared_ok_member:
  assumes "shared_ok w" and "(a, Some x) \<in> set (revisions w k)"
  shows "\<exists>i < length (revisions w k). revisions w k ! i = (a, Some x) \<and> stamped k i x"
  using assms unfolding shared_ok_def in_set_conv_nth by (metis snd_conv)

lemma stamp_status_written:
  assumes "stamped k j old"
  shows "status_written json_ops ob old (stamp k i (set_top ''status'' (key_value (Object ob) ''status'') old))"
proof -
  obtain g ns n where k: "k = (g, ns, n)" by (cases k)
  let ?x = "set_top ''status'' (key_value (Object ob) ''status'') old"
  have wf: "meta_wf ?x" and names: "GetName json_ops old = n" "GetNamespace json_ops old = ns_string ns"
    using assms by (simp_all add: stamped_def k)
  have "label_of json_ops ?x = label_of json_ops old"
    by (simp add: label_of_def json_ops_def json_strmap_def fun_eq_iff)
  with wf names show ?thesis
    by (simp add: status_written_def stamp_def k json_acc.accessors json_acc.GetStr_frame key_value_set_top
        top_field_def)
qed

lemma shared_update_accepted:
  assumes ok: "shared_ok w" and old: "current (revisions (others_go w) (g, ns, GetName json_ops ob)) = Some old"
    and rv: "GetResourceVersion json_ops ob = [] \<or> GetResourceVersion json_ops ob = GetResourceVersion json_ops old"
  shows "accepted json_ops (g, ns, GetName json_ops ob) ob (revisions w)
    (revisions (put Us (g, ns, GetName json_ops ob) (Some (set_top ''status'' (key_value (Object ob) ''status'') old))
       ((others_go w)\<lparr>lost := l\<rparr>)))"
proof -
  let ?k = "(g, ns, GetName json_ops ob)" and ?w = "others_go w"
  let ?own = "stamp ?k (length (revisions ?w ?k)) (set_top ''status'' (key_value (Object ob) ''status'') old)"
  obtain xs where xs: "foreign xs" "revisions ?w ?k = revisions w ?k @ xs"
    using others_go_effect(2) [OF ok, of ?k] by (auto simp: grown_def)
  obtain j where "stamped ?k j old"
    using shared_ok_member [OF others_go_effect(1) [OF ok]] current_in_set [OF old] by blast
  then have "status_written json_ops ob old ?own" by (rule stamp_status_written)
  then have "revisions w ?k @ xs @ [(Us, Some ?own)] @ [] = revisions w ?k @ xs @ [(Us, Some ?own)] @ [] \<and>
      foreign xs \<and> foreign [] \<and> current (revisions w ?k @ xs) = Some old \<and> status_written json_ops ob old ?own \<and>
      (GetResourceVersion json_ops ob \<noteq> [] \<longrightarrow> GetResourceVersion json_ops old = GetResourceVersion json_ops ob)"
    using xs old rv by (auto simp: foreign_def)
  then show ?thesis
    using others_go_effect(2) [OF ok] xs(2)
    unfolding accepted_def put_revisions by (intro conjI allI impI) (simp, force)
qed

lemma shared_update_cases:
  assumes ok: "shared_ok w" and run: "shared_update_status g ns ob w = (r, w')"
  shows "shared_ok w' \<and>
    ((\<forall>k. grown (revisions w k) (revisions w' k)) \<and> (\<exists>e. r = Inl e) \<or>
     accepted json_ops (g, ns, GetName json_ops ob) ob (revisions w) (revisions w') \<and> r \<noteq> Inl (StatusError Conflict))"
proof -
  note go = others_go_effect [OF ok]
  have lost_ok: "shared_ok ((others_go w)\<lparr>lost := l\<rparr>)" for l using go(1) by (simp add: shared_ok_def)
  from run go show ?thesis
    by (auto simp: shared_update_status_def Let_def shared_ok_put lost_ok
        split: option.splits if_splits list.splits bool.splits intro: shared_update_accepted [OF ok])
qed

interpretation shared: versioned_server json_ops shared_client revisions shared_ok
proof
  fix w a x k b y
  assume ok: "shared_ok w" and x: "(a, Some x) \<in> set (revisions w k)" and y: "(b, Some y) \<in> set (revisions w k)"
    and rv: "GetResourceVersion json_ops x = GetResourceVersion json_ops y"
  from shared_ok_member [OF ok x] shared_ok_member [OF ok y] rv show "x = y" by (auto simp: stamped_def)
next
  fix w g ns n r w'
  assume "shared_ok w" and "cGet shared_client g ns n w = (r, w')"
  then show "shared_ok w' \<and> (\<forall>k. grown (revisions w k) (revisions w' k))"
    using others_go_effect by (auto simp: shared_client_def shared_get_def Let_def split: option.splits)
next
  fix w g ns n ob w'
  assume ok: "shared_ok w" and "cGet shared_client g (Some ns) n w = (Inr ob, w')"
  then have "current (revisions w' (g, Some ns, n)) = Some ob" and "w' = others_go w"
    by (auto simp: shared_client_def shared_get_def Let_def split: option.splits)
  with others_go_effect(1) [OF ok] show "(\<exists>a. (a, Some ob) \<in> set (revisions w' (g, Some ns, n))) \<and>
      GetNamespace json_ops ob = ns \<and> GetName json_ops ob = n \<and> GetResourceVersion json_ops ob \<noteq> []"
    using current_in_set shared_ok_member by (fastforce simp: stamped_def)
qed (use shared_update_cases in \<open>fastforce simp: shared_client_def\<close>)+

end
