(* ===== verification/PolicyController.thy ===== *)
theory PolicyController
  imports ComplianceSummary VersionedServer SyncerTypes
begin

text \<open>
  The reconcilers of \<^verbatim>\<open>src/server/controllers/globalhubcontroller\<close>: the policy controller
  (\<^verbatim>\<open>policy_controller.go\<close>), the placement rule and the placement binding controllers
  (\<^verbatim>\<open>placementrule_controller.go\<close>, \<^verbatim>\<open>placementbinding_controller.go\<close>) and the interface
  \<open>IController\<close> (\<^verbatim>\<open>controller.go\<close>) they implement.

  A reconciler gets a pointer into the informer's cache and writes labels through it, so its
  result holds the object as it stands in the cache afterwards, next to the error and the
  world. The typed conversion \<open>FromUnstructured\<close>, the group-versions of the foreign API
  packages and \<open>retry.RetryOnConflict\<close> are arguments; the locale \<open>retrying\<close> states what the
  retry helper promises, the locale \<open>versioned_server\<close> of \<open>VersionedServer\<close> what the API server
  does with status updates while other clients write.
\<close>

section \<open>Retry on conflict\<close>

type_synonym 'w attempt = "'w \<Rightarrow> (error option \<times> 'w) outcome"

text \<open>
  The runs of \<open>RetryOnConflict(backoff, fn)\<close>: \<open>fn\<close> is called at least once, called again only
  after a conflict, and the result is that of the last call.
\<close>

inductive attempts :: "'w attempt \<Rightarrow> 'w \<Rightarrow> (error option \<times> 'w) outcome \<Rightarrow> bool"
  for f :: "'w attempt" where
  last: "attempts f w (f w)"
| again: "f w = Return (Some (StatusError Conflict), w') \<Longrightarrow> attempts f w' r \<Longrightarrow> attempts f w r"

inductive_cases attempts_cases: "attempts f w r"

locale retrying =
  fixes R :: "'w attempt \<Rightarrow> 'w attempt"
  assumes RetryOnConflict: "attempts f w (R f w)"
begin

lemma retry_final:
  assumes "f w = Return (e, w')" and "e \<noteq> Some (StatusError Conflict)"
  shows "R f w = Return (e, w')"
  using RetryOnConflict [of f w] assms by (auto elim: attempts_cases)

text \<open>
  A postcondition that every call establishes holds of the retried operation, if a call that
  ends in a conflict leaves a state the next call can start from.
\<close>

lemma retry_post:
  assumes inv: "I w"
    and step: "\<And>w e w'. I w \<Longrightarrow> f w = Return (e, w') \<Longrightarrow> P e w' \<and> (e = Some (StatusError Conflict) \<longrightarrow> I w')"
    and res: "R f w = Return (e, w')"
  shows "P e w'"
proof -
  have "I w \<longrightarrow> r = Return (e, w') \<longrightarrow> P e w'" if "attempts f w r" for w r
    using that by (induction rule: attempts.induct) (use step in blast)+
  with RetryOnConflict [of f w] inv res show ?thesis by blast
qed

end

text \<open>\<open>retry.DefaultRetry\<close> allows five steps.\<close>

fun retry_steps :: "nat \<Rightarrow> 'w attempt \<Rightarrow> 'w attempt" where
  "retry_steps 0 f w = f w"
| "retry_steps (Suc n) f w =
     (case f w of
        Return (Some e, w') \<Rightarrow>
          if IsConflict e then retry_steps n f w' else Return (Some e, w')
      | r \<Rightarrow> r)"

lemma retry_steps_attempts: "attempts f w (retry_steps n f w)"
proof (induction n arbitrary: w)
  case 0
  show ?case by (simp add: attempts.last)
next
  case (Suc n)
  show ?case
  proof (cases "\<exists>w'. f w = Return (Some (StatusError Conflict), w')")
    case True
    then obtain w' where f: "f w = Return (Some (StatusError Conflict), w')" ..
    then show ?thesis using attempts.again [OF f Suc [of w']] by (simp add: error_kinds)
  next
    case False
    then have "retry_steps (Suc n) f w = f w"
      by (auto simp: error_kinds split: outcome.splits option.splits)
    then show ?thesis by (simp add: attempts.last)
  qed
qed

interpretation default_retry: retrying "retry_steps 4"
  by unfold_locales (rule retry_steps_attempts)

section \<open>The controller interface\<close>

type_synonym 'w reconciler = "iface \<Rightarrow> 'w \<Rightarrow> (error option \<times> iface \<times> 'w) outcome"

record 'w IController =
  ic_GetName :: string
  ic_GetGVR :: gvr
  ic_CreateInstance :: string \<comment> \<open>the Go type of the empty instance\<close>
  ic_Reconcile :: "'w reconciler"

record GroupVersion =
  gv_Group :: string
  gv_Version :: string

definition WithResource :: "GroupVersion \<Rightarrow> string \<Rightarrow> gvr" where
  "WithResource gv r = \<lparr>Group = gv_Group gv, Version = gv_Version gv, Resource = r\<rparr>"

definition convert_error :: error where
  "convert_error = Errorf ''cann't convert obj to *unstructured.Unstructured''"

text \<open>
  The labelling branch, the same lines in the three controllers: the label is set on the
  cached object first, then the object is sent to the server.
\<close>

definition relabelled :: "meta_ops \<Rightarrow> unstructured \<Rightarrow> unstructured" where
  "relabelled U unObj =
     SetLabels U (AList.update GlobalHubPolicyNamespaceLabel (GetNamespace U unObj)
       (entries_of (GetLabels U unObj))) unObj"

definition add_label :: "meta_ops \<Rightarrow> 'w dynamic_client \<Rightarrow> gvr \<Rightarrow> unstructured \<Rightarrow> 'w \<Rightarrow>
    error option \<times> iface \<times> 'w" where
  "add_label U C g unObj w =
     (let unObj' = relabelled U unObj;
          (r, w') = cUpdate C g (Some (GetNamespace U unObj')) unObj' w
      in (err_of r, Unstr unObj', w'))"

section \<open>The placement controllers\<close>

definition placementrule_reconcile :: "meta_ops \<Rightarrow> 'w dynamic_client \<Rightarrow> gvr \<Rightarrow> 'w reconciler" where
  "placementrule_reconcile U C g obj w =
     (case obj of
        Unstr unObj \<Rightarrow>
          (case label_of U unObj GlobalHubPolicyNamespaceLabel of
             None \<Rightarrow> Return (add_label U C g unObj w)
           | Some _ \<Rightarrow> Return (None, obj, w))
      | _ \<Rightarrow> Return (Some convert_error, obj, w))"

definition NewPlacementRuleController :: "meta_ops \<Rightarrow> GroupVersion \<Rightarrow> 'w dynamic_client \<Rightarrow> 'w IController" where
  "NewPlacementRuleController U placementrulev1 C =
     (let g = WithResource placementrulev1 ''placementrules''
      in \<lparr>ic_GetName = ''placementrule-controller'', ic_GetGVR = g,
          ic_CreateInstance = ''PlacementRule'', ic_Reconcile = placementrule_reconcile U C g\<rparr>)"

definition placementbinding_reconcile :: "meta_ops \<Rightarrow> 'w dynamic_client \<Rightarrow> gvr \<Rightarrow> 'w reconciler" where
  "placementbinding_reconcile U C g obj w =
     (case obj of
        Unstr unObj \<Rightarrow>
          (case label_of U unObj GlobalHubPolicyNamespaceLabel of
             None \<Rightarrow> Return (add_label U C g unObj w)
           | Some _ \<Rightarrow> Return (None, obj, w))
      | _ \<Rightarrow> Return (Some convert_error, obj, w))"

definition NewPlacementBindingController :: "meta_ops \<Rightarrow> GroupVersion \<Rightarrow> 'w dynamic_client \<Rightarrow> 'w IController" where
  "NewPlacementBindingController U policyv1 C =
     (let g = WithResource policyv1 ''placementbindings''
      in \<lparr>ic_GetName = ''placementbinding-controller'', ic_GetGVR = g,
          ic_CreateInstance = ''PlacementBinding'', ic_Reconcile = placementbinding_reconcile U C g\<rparr>)"

section \<open>The policy controller\<close>

text \<open>
  What the controller reads of a \<open>policyv1.Policy\<close>. \<open>Status = None\<close> is a nil slice, an entry
  \<open>None\<close> a nil pointer.
\<close>

record Policy =
  p_Namespace :: string
  p_Name :: string
  p_Status :: "CompliancePerClusterStatus option list option"

type_synonym converter = "content \<Rightarrow> error + Policy"

text \<open>
  The status map of the global object: the existing one, or an empty one that is put into
  the object. A status that is no map fails the type assertion.
\<close>

fun status_map :: "json \<Rightarrow> content outcome" where
  "status_map JNull = Return []"
| "status_map (JObj m) = Return m"
| "status_map _ = Panic ''interface conversion: interface {} is not map[string]interface {}''"

text \<open>Lines 143 to 178: the summary is read from the status map, merged and written back.\<close>

definition merge_status :: "ClusterSummary \<Rightarrow> content \<Rightarrow> error + content" where
  "merge_status new policyStatusMap =
     map_result (\<lambda>S. AList.update ''complianceSummary'' (json_of_summary (merge_summary new S)) policyStatusMap)
       (summary_of_json (key_value policyStatusMap ''complianceSummary''))"

definition newClusterSummary :: "Policy \<Rightarrow> ClusterSummary outcome" where
  "newClusterSummary syncerPolicy =
     count_clusters (case p_Status syncerPolicy of None \<Rightarrow> [] | Some cs \<Rightarrow> cs)
       \<lparr>cs_Name = p_Namespace syncerPolicy, cs_Compliant = 0, cs_NonCompliant = 0\<rparr>"

definition updateGlobalHubPolicy ::
  "meta_ops \<Rightarrow> 'w dynamic_client \<Rightarrow> gvr \<Rightarrow> Policy \<Rightarrow> string \<Rightarrow> 'w attempt" where
  "updateGlobalHubPolicy U C policyGVR syncerPolicy originalNamespace w =
     (case cGet C policyGVR (Some originalNamespace) (p_Name syncerPolicy) w of
        (Inl err, w1) \<Rightarrow> Return (Some err, w1)
      | (Inr globalObj, w1) \<Rightarrow>
          bind_outcome (newClusterSummary syncerPolicy) (\<lambda>new.
          bind_outcome (status_map (key_value (Object globalObj) ''status'')) (\<lambda>policyStatusMap.
            case merge_status new policyStatusMap of
              Inl err \<Rightarrow> Return (Some err, w1)
            | Inr merged \<Rightarrow>
                (let globalObj' = set_top ''status'' (JObj merged) globalObj;
                     (r, w2) = cUpdateStatus C policyGVR (Some (GetNamespace U globalObj')) globalObj' w1
                 in Return (err_of r, w2)))))"

definition policy_reconcile ::
  "meta_ops \<Rightarrow> converter \<Rightarrow> ('w attempt \<Rightarrow> 'w attempt) \<Rightarrow> 'w dynamic_client \<Rightarrow> gvr \<Rightarrow> 'w reconciler" where
  "policy_reconcile U FromUnstructured R C policyGVR obj w =
     (case obj of
        Unstr unObj \<Rightarrow>
          (case label_of U unObj GlobalHubPolicyNamespaceLabel of
             None \<Rightarrow> Return (add_label U C policyGVR unObj w)
           | Some originalNamespace \<Rightarrow>
               if originalNamespace = GetNamespace U unObj then Return (None, obj, w)
               else
                 (case FromUnstructured (Object unObj) of
                    Inl err \<Rightarrow> Return (Some err, obj, w)
                  | Inr syncerPolicy \<Rightarrow>
                      if p_Status syncerPolicy = None then Return (None, obj, w)
                      else
                        bind_outcome (R (updateGlobalHubPolicy U C policyGVR syncerPolicy originalNamespace) w)
                          (\<lambda>(err, w'). Return (err, obj, w'))))
      | _ \<Rightarrow> Return (Some convert_error, obj, w))"

definition NewPolicyController ::
  "meta_ops \<Rightarrow> converter \<Rightarrow> ('w attempt \<Rightarrow> 'w attempt) \<Rightarrow> GroupVersion \<Rightarrow> 'w dynamic_client \<Rightarrow> 'w IController" where
  "NewPolicyController U FromUnstructured R policyv1 C =
     (let g = WithResource policyv1 ''policies''
      in \<lparr>ic_GetName = ''policy-controller'', ic_GetGVR = g,
          ic_CreateInstance = ''Policy'', ic_Reconcile = policy_reconcile U FromUnstructured R C g\<rparr>)"

section \<open>The contract of the reconcilers\<close>

text \<open>
  What the generic controller's clients expect of every \<open>IController\<close>: an object without the
  label gets it, an object labelled with its own namespace is left alone, anything else than
  an \<open>Unstructured\<close> is an error, and a labelled object stays in the cache as it is.
\<close>

locale label_controller = unstructured_accessors U
  for U :: meta_ops +
  fixes C :: "'w dynamic_client" and g :: gvr and rec :: "'w reconciler"
  assumes unlabelled: "label_of U ob GlobalHubPolicyNamespaceLabel = None \<Longrightarrow>
      rec (Unstr ob) w = Return (add_label U C g ob w)"
    and home: "label_of U ob GlobalHubPolicyNamespaceLabel = Some (GetNamespace U ob) \<Longrightarrow>
      rec (Unstr ob) w = Return (None, Unstr ob, w)"
    and foreign: "\<not> (\<exists>ob. obj = Unstr ob) \<Longrightarrow> rec obj w = Return (Some convert_error, obj, w)"
    and cached: "label_of U ob GlobalHubPolicyNamespaceLabel \<noteq> None \<Longrightarrow>
      rec (Unstr ob) w = Return (e, obj', w') \<Longrightarrow> obj' = Unstr ob"
begin

lemma relabelled_label:
  assumes "meta_wf ob"
  shows "label_of U (relabelled U ob) =
    (label_of U ob)(GlobalHubPolicyNamespaceLabel \<mapsto> GetNamespace U ob)"
  using assms
  by (simp add: relabelled_def accessors) (simp add: label_of_def fun_eq_iff split: option.splits)

lemma relabelled_frame:
  "GetStr U f (relabelled U ob) = GetStr U f ob"
  "k \<noteq> ''metadata'' \<Longrightarrow> key_value (Object (relabelled U ob)) k = key_value (Object ob) k"
  by (simp_all add: relabelled_def accessors)

text \<open>
  The cached object carries the label after a reconcile whether or not the server took the
  update, so the next reconcile of the cached object sends nothing.
\<close>

lemma labels_once:
  assumes wf: "meta_wf ob" and un: "label_of U ob GlobalHubPolicyNamespaceLabel = None"
    and upd: "cUpdate C g (Some (GetNamespace U ob)) (relabelled U ob) w = (r, w')"
  shows "rec (Unstr ob) w = Return (err_of r, Unstr (relabelled U ob), w')"
    and "rec (Unstr (relabelled U ob)) w'' = Return (None, Unstr (relabelled U ob), w'')"
proof -
  show "rec (Unstr ob) w = Return (err_of r, Unstr (relabelled U ob), w')"
    using upd by (simp add: unlabelled [OF un] add_label_def relabelled_frame)
  show "rec (Unstr (relabelled U ob)) w'' = Return (None, Unstr (relabelled U ob), w'')"
    by (rule home) (simp add: relabelled_label [OF wf] relabelled_frame)
qed

end

lemma policy_label_controller:
  assumes "unstructured_accessors U"
  shows "label_controller U C g (policy_reconcile U F R C g)"
  using assms
  by (auto simp: label_controller_def label_controller_axioms_def policy_reconcile_def
      bind_outcome_Return_iff split: if_splits sum.splits iface.splits)

lemma placementrule_label_controller:
  assumes "unstructured_accessors U"
  shows "label_controller U C g (placementrule_reconcile U C g)"
  using assms
  by (auto simp: label_controller_def label_controller_axioms_def placementrule_reconcile_def
      split: iface.splits)

lemma placementbinding_label_controller:
  assumes "unstructured_accessors U"
  shows "label_controller U C g (placementbinding_reconcile U C g)"
  using assms
  by (auto simp: label_controller_def label_controller_axioms_def placementbinding_reconcile_def
      split: iface.splits)

interpretation policy: label_controller json_ops C g "policy_reconcile json_ops F R C g" for C g F R
  by (rule policy_label_controller) (rule json_acc.unstructured_accessors_axioms)

interpretation placementrule: label_controller json_ops C g "placementrule_reconcile json_ops C g" for C g
  by (rule placementrule_label_controller) (rule json_acc.unstructured_accessors_axioms)

interpretation placementbinding: label_controller json_ops C g "placementbinding_reconcile json_ops C g" for C g
  by (rule placementbinding_label_controller) (rule json_acc.unstructured_accessors_axioms)

section \<open>Status updates of the global policy\<close>

text \<open>The summary an object holds: what the abstraction of the global policy's status is.\<close>

definition stored_summary :: "unstructured \<Rightarrow> (error + ComplianceSummary) outcome" where
  "stored_summary ob =
     bind_outcome (status_map (key_value (Object ob) ''status'')) (\<lambda>m.
       Return (summary_of_json (key_value m ''complianceSummary'')))"

text \<open>
  Equal up to the summary and the server's own metadata: the other fields of the status, the
  fields outside status and metadata, the identity and the labels are the same.
\<close>

definition same_but_summary :: "meta_ops \<Rightarrow> unstructured \<Rightarrow> unstructured \<Rightarrow> bool" where
  "same_but_summary U a b \<longleftrightarrow>
     (\<forall>k. k \<noteq> ''status'' \<and> k \<noteq> ''metadata'' \<longrightarrow> key_value (Object a) k = key_value (Object b) k) \<and>
     GetName U a = GetName U b \<and> GetNamespace U a = GetNamespace U b \<and>
     GetStr U FUID a = GetStr U FUID b \<and> label_of U a = label_of U b \<and>
     (\<exists>m n. status_map (key_value (Object a) ''status'') = Return m \<and>
        status_map (key_value (Object b) ''status'') = Return n \<and>
        (\<forall>k. k \<noteq> ''complianceSummary'' \<longrightarrow> key_value m k = key_value n k))"

lemma map_result_Inr_iff: "map_result f r = Inr y \<longleftrightarrow> (\<exists>x. r = Inr x \<and> y = f x)"
  by (cases r) auto

lemma map_result_Inl_iff: "map_result f r = Inl e \<longleftrightarrow> r = Inl e"
  by (cases r) auto

lemma key_value_update: "key_value (AList.update k v m) k' = (if k' = k then v else key_value m k')"
  by (simp add: key_value_def)

lemma merge_status_stored:
  assumes m: "status_map (key_value (Object ob) ''status'') = Return m"
    and merged: "merge_status new m = Inr n"
  shows "\<exists>S. stored_summary ob = Return (Inr S) \<and>
      stored_summary (set_top ''status'' (JObj n) ob) = Return (Inr (merge_summary new S))"
    and "k \<noteq> ''complianceSummary'' \<Longrightarrow> key_value n k = key_value m k"
  using assms
  by (auto simp: merge_status_def stored_summary_def key_value_set_top
      map_result_Inr_iff key_value_update summary_round_trip_lemma)

lemma stored_summary_cong:
  "key_value (Object a) ''status'' = key_value (Object b) ''status'' \<Longrightarrow> stored_summary a = stored_summary b"
  by (simp add: stored_summary_def)

lemma merged_status_written:
  assumes m: "status_map (key_value (Object old) ''status'') = Return m" and merged: "merge_status new m = Inr n"
    and own: "status_written U (set_top ''status'' (JObj n) old) old own"
  shows "\<exists>S. stored_summary old = Return (Inr S) \<and> stored_summary own = Return (Inr (merge_summary new S))"
    and "same_but_summary U old own"
proof -
  from own have status: "key_value (Object own) ''status'' = JObj n"
    by (simp add: status_written_def key_value_set_top)
  then have "stored_summary own = stored_summary (set_top ''status'' (JObj n) old)"
    by (intro stored_summary_cong) (simp add: key_value_set_top)
  with merge_status_stored(1) [OF m merged]
  show "\<exists>S. stored_summary old = Return (Inr S) \<and> stored_summary own = Return (Inr (merge_summary new S))" by simp
  show "same_but_summary U old own"
    using own m status merge_status_stored(2) [OF m merged] by (auto simp: same_but_summary_def status_written_def)
qed

text \<open>
  A report went into the history of an object once: among the revisions added there is exactly one
  of ours. It came after whatever others had written until then; it differs from the state before
  it in the summary, into which the hub's counts were merged. Other objects are not touched.
\<close>

definition reported_once :: "meta_ops \<Rightarrow> ClusterSummary \<Rightarrow> objkey \<Rightarrow> history \<Rightarrow> history \<Rightarrow> bool" where
  "reported_once U new key L L' \<longleftrightarrow>
     (\<forall>k. k \<noteq> key \<longrightarrow> grown (L k) (L' k)) \<and>
     (\<exists>xs own ys old S. L' key = L key @ xs @ [(Us, Some own)] @ ys \<and> foreign xs \<and> foreign ys \<and>
        current (L key @ xs) = Some old \<and> stored_summary old = Return (Inr S) \<and>
        stored_summary own = Return (Inr (merge_summary new S)) \<and> same_but_summary U old own)"

lemma reported_once_later:
  assumes "\<forall>k. grown (L k) (M k)" and "reported_once U new key M N"
  shows "reported_once U new key L N"
proof -
  obtain zs where zs: "foreign zs" "M key = L key @ zs" using assms(1) unfolding grown_def by blast
  from assms(2) obtain xs own ys old S where "N key = M key @ xs @ [(Us, Some own)] @ ys" and "foreign xs" "foreign ys"
    and "current (M key @ xs) = Some old" and "stored_summary old = Return (Inr S)"
    and "stored_summary own = Return (Inr (merge_summary new S))" and "same_but_summary U old own"
    by (auto simp: reported_once_def)
  with zs have "N key = L key @ (zs @ xs) @ [(Us, Some own)] @ ys \<and> foreign (zs @ xs) \<and> foreign ys \<and>
      current (L key @ (zs @ xs)) = Some old \<and> stored_summary old = Return (Inr S) \<and>
      stored_summary own = Return (Inr (merge_summary new S)) \<and> same_but_summary U old own" by simp
  moreover have "\<forall>k. k \<noteq> key \<longrightarrow> grown (L k) (N k)"
    using assms grown_trans unfolding reported_once_def by blast
  ultimately show ?thesis unfolding reported_once_def by blast
qed

text \<open>What the result of an update says of the histories.\<close>

definition update_outcome :: "meta_ops \<Rightarrow> Policy \<Rightarrow> objkey \<Rightarrow> error option \<Rightarrow> history \<Rightarrow> history \<Rightarrow> bool" where
  "update_outcome U p key e L L' \<longleftrightarrow>
     (let untouched = (\<forall>k. grown (L k) (L' k));
          once = (\<exists>new. newClusterSummary p = Return new \<and> reported_once U new key L L')
      in case e of
           None \<Rightarrow> once
         | Some err \<Rightarrow> if IsConflict err then untouched else untouched \<or> once)"

lemma update_outcome_later:
  assumes "\<forall>k. grown (L k) (M k)" and "update_outcome U p key e M N"
  shows "update_outcome U p key e L N"
proof -
  have grown: "\<forall>k. grown (L k) (N k)" if "\<forall>k. grown (M k) (N k)"
    using that assms(1) grown_trans by blast
  have once: "\<exists>new. newClusterSummary p = Return new \<and> reported_once U new key L N"
    if "\<exists>new. newClusterSummary p = Return new \<and> reported_once U new key M N"
    using that reported_once_later [OF assms(1)] by blast
  show ?thesis using assms(2) grown once
    by (cases e) (auto simp only: update_outcome_def Let_def option.case split: if_splits)
qed

locale policy_server = versioned_server U C log ok + unstructured_accessors U
  for U :: meta_ops and C :: "'w dynamic_client" and log :: "'w \<Rightarrow> history" and ok :: "'w \<Rightarrow> bool"
begin

text \<open>One attempt: what was read is what is replaced, or nothing of ours is written.\<close>

lemma sent_outcome:
  assumes okw: "ok w1" and ob: "(a, Some ob) \<in> set (log w1 (g, Some ns, n))"
    and key: "GetNamespace U ob = ns" "GetName U ob = n" "GetResourceVersion U ob \<noteq> []" and n: "p_Name p = n"
    and new: "newClusterSummary p = Return new" and m: "status_map (key_value (Object ob) ''status'') = Return m"
    and merged: "merge_status new m = Inr st"
    and upd: "cUpdateStatus C g (Some ns) (set_top ''status'' (JObj st) ob) w1 = (r, w2)"
  shows "ok w2 \<and> update_outcome U p (g, Some ns, n) (err_of r) (log w1) (log w2)"
proof -
  let ?sent = "set_top ''status'' (JObj st) ob" and ?key = "(g, Some ns, n)"
  have ok2: "ok w2" using okw upd by (rule UpdateStatus_ok)
  have sent: "GetName U ?sent = n" "GetResourceVersion U ?sent = GetResourceVersion U ob"
    using key by (simp_all add: GetStr_frame)
  have once: "reported_once U new ?key (log w1) (log w2)" if acc: "accepted U ?key ?sent (log w1) (log w2)"
  proof -
    from accepted_replaces_read [OF ok2 acc ob sent(2) key(3)] obtain xs own ys where
      log: "log w2 ?key = log w1 ?key @ xs @ [(Us, Some own)] @ ys" "foreign xs" "foreign ys"
        "current (log w1 ?key @ xs) = Some ob"
      and own: "status_written U ?sent ob own" by blast
    from merged_status_written [OF m merged own] log acc show ?thesis
      unfolding reported_once_def accepted_def by blast
  qed
  show ?thesis
  proof (cases r)
    case (Inr v)
    with UpdateStatus_accepted [OF okw] upd sent(1) once new ok2 show ?thesis
      by (auto simp: update_outcome_def Let_def)
  next
    case (Inl e)
    with UpdateStatus_failed [OF okw upd [unfolded Inl]] UpdateStatus_conflict [OF okw] upd sent(1) once new ok2
    show ?thesis by (auto simp: update_outcome_def Let_def IsConflict_def)
  qed
qed

lemma update_effect:
  assumes okw: "ok w" and run: "updateGlobalHubPolicy U C g p ns w = Return (e, w')"
  shows "ok w' \<and> update_outcome U p (g, Some ns, p_Name p) e (log w) (log w')"
proof (cases "cGet C g (Some ns) (p_Name p) w")
  case (Pair r w1)
  from Get_reads [OF okw Pair] have ok1: "ok w1" and read: "\<forall>k. grown (log w k) (log w1 k)" by auto
  then have untouched: "update_outcome U p key (Some err) (log w) (log w1)" for err key
    by (simp add: update_outcome_def Let_def)
  show ?thesis
  proof (cases r)
    case (Inl err)
    with Pair run ok1 untouched show ?thesis by (auto simp: updateGlobalHubPolicy_def)
  next
    case (Inr ob)
    from Get_object [OF okw Pair [unfolded Inr]] obtain a where ob: "(a, Some ob) \<in> set (log w1 (g, Some ns, p_Name p))"
      and key: "GetNamespace U ob = ns" "GetName U ob = p_Name p" "GetResourceVersion U ob \<noteq> []" by blast
    from run Pair Inr obtain new m where new: "newClusterSummary p = Return new"
        and m: "status_map (key_value (Object ob) ''status'') = Return m"
      by (auto simp: updateGlobalHubPolicy_def bind_outcome_Return_iff)
    show ?thesis
    proof (cases "merge_status new m")
      case (Inl err)
      with run Pair Inr new m ok1 untouched show ?thesis by (auto simp: updateGlobalHubPolicy_def)
    next
      case (Inr st)
      obtain r2 where upd: "cUpdateStatus C g (Some ns) (set_top ''status'' (JObj st) ob) w1 = (r2, w')" and e: "e = err_of r2"
        using run Pair \<open>r = Inr ob\<close> new m Inr key(1)
        by (cases "cUpdateStatus C g (Some ns) (set_top ''status'' (JObj st) ob) w1")
          (auto simp: updateGlobalHubPolicy_def GetStr_frame)
      from sent_outcome [OF ok1 ob key refl new m Inr upd] e show ?thesis
        using update_outcome_later [OF read] by blast
    qed
  qed
qed

text \<open>With retries: every attempt but the last ended in a conflict and left nothing of ours.\<close>

lemma retried_update_effect:
  assumes R: "retrying R" and okw: "ok w"
    and run: "R (updateGlobalHubPolicy U C g p ns) w = Return (e, w')"
  shows "ok w' \<and> update_outcome U p (g, Some ns, p_Name p) e (log w) (log w')"
proof -
  let ?I = "\<lambda>x. ok x \<and> (\<forall>k. grown (log w k) (log x k))"
  let ?P = "\<lambda>e x. ok x \<and> update_outcome U p (g, Some ns, p_Name p) e (log w) (log x)"
  have step: "?P e x' \<and> (e = Some (StatusError Conflict) \<longrightarrow> ?I x')"
    if "?I x" and "updateGlobalHubPolicy U C g p ns x = Return (e, x')" for x e x'
  proof -
    from update_effect that have "ok x' \<and> update_outcome U p (g, Some ns, p_Name p) e (log x) (log x')" by blast
    with update_outcome_later [of "log w" "log x"] that(1) have P: "?P e x'" by blast
    then show ?thesis by (auto simp: update_outcome_def Let_def IsConflict_def)
  qed
  show ?thesis
    by (rule retrying.retry_post [OF R, where I = ?I and P = ?P, OF _ step run]) (simp_all add: okw grown_refl)
qed

end

interpretation shared_policy: policy_server json_ops shared_client revisions shared_ok
  by unfold_locales

section \<open>Properties\<close>

text \<open>
  C3. The status of a synced copy reaches the global policy exactly once, while other clients write
  the same policy and any other object at any time. If the reconcile succeeds, the history of the
  policy has grown by exactly one write of ours, among any number of writes of others: it replaced
  the state current at that moment, merged this hub's counts into the summary stored there, and
  left the other fields as they were. If the reconcile gives up on a conflict, however many
  attempts it made, nothing of ours was written. After any other error there is no such write, or
  that one (its answer was lost). No other object is written, and the cached copy stays as it is.
\<close>

theorem report_merged_exactly_once:
  assumes server: "policy_server U C log ok" and retry: "retrying R" and okw: "ok w"
    and label: "label_of U ob GlobalHubPolicyNamespaceLabel = Some ns" and away: "ns \<noteq> GetNamespace U ob"
    and conv: "F (Object ob) = Inr p" and status: "p_Status p \<noteq> None"
    and run: "policy_reconcile U F R C g (Unstr ob) w = Return (e, obj', w')"
  shows "obj' = Unstr ob \<and>
    (let key = (g, Some ns, p_Name p);
         untouched = (\<forall>k. grown (log w k) (log w' k));
         once = (\<exists>new. newClusterSummary p = Return new \<and> reported_once U new key (log w) (log w'))
     in case e of
          None \<Rightarrow> once
        | Some err \<Rightarrow> if err = StatusError Conflict then untouched else untouched \<or> once)"
proof -
  from label away conv status run
  have "R (updateGlobalHubPolicy U C g p ns) w = Return (e, w')" and obj: "obj' = Unstr ob"
    by (auto simp: policy_reconcile_def bind_outcome_Return_iff)
  from policy_server.retried_update_effect [OF server retry okw this(1)] obj
  show ?thesis unfolding update_outcome_def IsConflict_def Let_def by blast
qed

definition sample_gvr :: gvr where
  "sample_gvr = \<lparr>Group = ''policy.open-cluster-management.io'', Version = ''v1'', Resource = ''policies''\<rparr>"

definition sample_copy :: unstructured where
  "sample_copy = sample_object ''hub1'' ''p'' [(GlobalHubPolicyNamespaceLabel, ''ns'')] JNull"

definition sample_converter :: converter where
  "sample_converter m = Inr \<lparr>p_Namespace = ''hub1'', p_Name = ''p'',
     p_Status = Some [Some \<lparr>ComplianceState = ''Compliant'', ClusterName = ''c1''\<rparr>]\<rparr>"

text \<open>
  A server that has the global policy. Another client writes it after the first read, so the first
  status update is refused; the second attempt is accepted, and its answer gets lost if \<open>l\<close>.
\<close>

definition sample_global :: objkey where
  "sample_global = (sample_gvr, Some ''ns'', ''p'')"

definition sample_world :: "bool \<Rightarrow> shared_world" where
  "sample_world l =
     \<lparr>revisions = revisions (put Others sample_global (Some (sample_object ''ns'' ''p'' [] JNull))
        \<lparr>revisions = (\<lambda>_. []), script = [], lost = []\<rparr>),
      script = [[], [(sample_global, Some (sample_object ''ns'' ''p'' [(''a'', ''b'')] JNull))]], lost = [l]\<rparr>"

lemma sample_world_ok: "shared_ok (sample_world l)"
proof -
  have "shared_ok (put Others sample_global (Some (sample_object ''ns'' ''p'' [] JNull))
      \<lparr>revisions = (\<lambda>_. []), script = [], lost = []\<rparr>)" by (rule shared_ok_put) (simp add: shared_ok_def)
  then show ?thesis by (simp add: shared_ok_def sample_world_def)
qed

abbreviation sample_reconcile :: "bool \<Rightarrow> (error option \<times> iface \<times> shared_world) outcome" where
  "sample_reconcile l \<equiv> policy_reconcile json_ops sample_converter (retry_steps 4) shared_client sample_gvr
     (Unstr sample_copy) (sample_world l)"

theorem report_merged_exactly_once_witness:
  "(\<exists>w' new. sample_reconcile False = Return (None, Unstr sample_copy, w') \<and>
     map fst (revisions w' sample_global) = [Others, Others, Us] \<and>
     reported_once json_ops new sample_global (revisions (sample_world False)) (revisions w')) \<and>
   (\<exists>w'. sample_reconcile True = Return (Some (StatusError (OtherReason ''Timeout'')), Unstr sample_copy, w') \<and>
     map fst (revisions w' sample_global) = [Others, Others, Us])"
proof
  have "case sample_reconcile False of
      Return (None, obj, w') \<Rightarrow> map fst (revisions w' sample_global) = [Others, Others, Us] | _ \<Rightarrow> False" by code_simp
  then obtain obj w' where run: "sample_reconcile False = Return (None, obj, w')"
    and writers: "map fst (revisions w' sample_global) = [Others, Others, Us]"
    by (auto split: outcome.splits option.splits)
  let ?p = "\<lparr>p_Namespace = ''hub1'', p_Name = ''p'',
     p_Status = Some [Some \<lparr>ComplianceState = ''Compliant'', ClusterName = ''c1''\<rparr>]\<rparr>"
  note reported = report_merged_exactly_once [OF shared_policy.policy_server_axioms default_retry.retrying_axioms
      sample_world_ok _ _ _ _ run, of "''ns''" ?p]
  have key: "(sample_gvr, Some ''ns'', p_Name ?p) = sample_global" by (simp add: sample_global_def)
  have "label_of json_ops sample_copy GlobalHubPolicyNamespaceLabel = Some ''ns''"
    and "''ns'' \<noteq> GetNamespace json_ops sample_copy" by code_simp+
  moreover have "sample_converter (Object sample_copy) = Inr ?p" and "p_Status ?p \<noteq> None"
    by (simp_all add: sample_converter_def)
  ultimately have obj: "obj = Unstr sample_copy" and "\<exists>new. newClusterSummary ?p = Return new \<and>
      reported_once json_ops new sample_global (revisions (sample_world False)) (revisions w')"
    using reported unfolding key Let_def option.case by blast+
  then obtain new where "reported_once json_ops new sample_global (revisions (sample_world False)) (revisions w')" by blast
  with run [unfolded obj] writers show "\<exists>w' new. sample_reconcile False = Return (None, Unstr sample_copy, w') \<and>
     map fst (revisions w' sample_global) = [Others, Others, Us] \<and>
     reported_once json_ops new sample_global (revisions (sample_world False)) (revisions w')"
    by (intro exI conjI)
next
  have "case sample_reconcile True of
      Return (Some e, obj, w') \<Rightarrow> e = StatusError (OtherReason ''Timeout'') \<and>
        (case obj of Unstr ob \<Rightarrow> ob = sample_copy | _ \<Rightarrow> False) \<and>
        map fst (revisions w' sample_global) = [Others, Others, Us] | _ \<Rightarrow> False" by code_simp
  then show "\<exists>w'. sample_reconcile True = Return (Some (StatusError (OtherReason ''Timeout'')), Unstr sample_copy, w') \<and>
     map fst (revisions w' sample_global) = [Others, Others, Us]"
    by (auto split: outcome.splits option.splits iface.splits)
qed

text \<open>
  C14. The three reconcilers label alike. An object without the label is sent to the server once,
  in its own namespace, with the label set to that namespace, all other labels, its name and its
  content kept; the result is the server's, but the cached object has the label in any case. A
  reconcile of the labelled object sends nothing, and anything else than an \<open>Unstructured\<close> is an
  error.
\<close>

theorem reconcilers_label:
  assumes U: "unstructured_accessors U" and wf: "meta_wf ob"
    and un: "label_of U ob GlobalHubPolicyNamespaceLabel = None"
    and upd: "cUpdate C g (Some (GetNamespace U ob)) (relabelled U ob) w = (r, w')"
    and rec: "rec = policy_reconcile U F R C g \<or> rec = placementrule_reconcile U C g \<or>
      rec = placementbinding_reconcile U C g"
  shows "rec (Unstr ob) w = Return (err_of r, Unstr (relabelled U ob), w') \<and>
    label_of U (relabelled U ob) = (label_of U ob)(GlobalHubPolicyNamespaceLabel \<mapsto> GetNamespace U ob) \<and>
    GetName U (relabelled U ob) = GetName U ob \<and> GetNamespace U (relabelled U ob) = GetNamespace U ob \<and>
    (\<forall>k. k \<noteq> ''metadata'' \<longrightarrow> key_value (Object (relabelled U ob)) k = key_value (Object ob) k) \<and>
    rec (Unstr (relabelled U ob)) w'' = Return (None, Unstr (relabelled U ob), w'') \<and>
    (\<forall>t. rec (OtherIface t) w'' = Return (Some convert_error, OtherIface t, w''))"
proof -
  have ctl: "label_controller U C g rec"
    using rec policy_label_controller [OF U] placementrule_label_controller [OF U]
      placementbinding_label_controller [OF U] by auto
  show ?thesis
    using label_controller.labels_once [OF ctl wf un upd] label_controller.relabelled_label [OF ctl wf]
      label_controller.relabelled_frame [OF ctl] label_controller.foreign [OF ctl] by simp
qed

theorem reconcilers_label_witness:
  "let ob = sample_object ''ns'' ''p'' [(''a'', ''b'')] JNull;
       w = mem_empty\<lparr>objects := [((sample_gvr, Some ''ns'', ''p''), ob)]\<rparr>
   in \<exists>w'. placementrule_reconcile json_ops mem_client sample_gvr (Unstr ob) w =
        Return (None, Unstr (relabelled json_ops ob), w') \<and>
      label_of json_ops (relabelled json_ops ob) ''a'' = Some ''b''"
proof -
  let ?ob = "sample_object ''ns'' ''p'' [(''a'', ''b'')] JNull"
  let ?w = "mem_empty\<lparr>objects := [((sample_gvr, Some ''ns'', ''p''), ?ob)]\<rparr>"
  have wf: "meta_wf ?ob" and un: "label_of json_ops ?ob GlobalHubPolicyNamespaceLabel = None"
    and a: "label_of json_ops ?ob ''a'' = Some ''b''" and ne: "''a'' \<noteq> GlobalHubPolicyNamespaceLabel" by code_simp+
  have "case cUpdate mem_client sample_gvr (Some (GetNamespace json_ops ?ob)) (relabelled json_ops ?ob) ?w of
      (Inr _, _) \<Rightarrow> True | _ \<Rightarrow> False" by code_simp
  then obtain v w' where upd:
    "cUpdate mem_client sample_gvr (Some (GetNamespace json_ops ?ob)) (relabelled json_ops ?ob) ?w = (Inr v, w')"
    by (auto split: prod.splits sum.splits)
  from reconcilers_label [OF json_acc.unstructured_accessors_axioms wf un upd,
      of "placementrule_reconcile json_ops mem_client sample_gvr"] a ne
  show ?thesis by (auto simp: Let_def)
qed

end
