(* ===== verification/ReportSystem.thy ===== *)
theory ReportSystem
  imports PolicyController
begin

text \<open>
  Reports that reach one global policy at the same time. \<open>updateGlobalHubPolicy\<close> reads the policy,
  merges and sends the status back; between the two calls other replicas of the controller and
  other clients may write the same object. The server refuses a status update whose resource
  version is not the stored one, and \<open>RetryOnConflict\<close> repeats the attempt; when it gives up is the
  library's choice, the argument \<open>again\<close>: whether there is another attempt after so many conflicts
  and one more.

  \<open>report_step\<close> interleaves any number of reporters \<open>'i\<close> at the grain of the calls to the server.
  The steps are labelled, so that runs can be counted: \<open>Do i\<close> is the next call of a reporter,
  answered by the server according to what it stores, \<open>Fail i e\<close> the same call ending in an error
  of another kind, and an update may have been accepted all the same. Other clients may change,
  replace, delete and create the policy; the schema of the custom resource definition sees to it
  that the summary of a stored policy is one. \<open>commits\<close> is a ghost: the reports in the order in
  which the server accepted them, since another client last set the summary, which is \<open>base\<close>.
\<close>

section \<open>The two halves of an attempt\<close>

definition prepare_update :: "Policy \<Rightarrow> unstructured \<Rightarrow> (error + unstructured) outcome" where
  "prepare_update syncerPolicy globalObj =
     bind_outcome (newClusterSummary syncerPolicy) (\<lambda>new.
     bind_outcome (status_map (key_value (Object globalObj) ''status'')) (\<lambda>policyStatusMap.
       Return (map_result (\<lambda>merged. set_top ''status'' (JObj merged) globalObj)
         (merge_status new policyStatusMap))))"

lemma updateGlobalHubPolicy_halves:
  "updateGlobalHubPolicy U C g p ns w =
     (case cGet C g (Some ns) (p_Name p) w of
        (Inl err, w1) \<Rightarrow> Return (Some err, w1)
      | (Inr ob, w1) \<Rightarrow>
          bind_outcome (prepare_update p ob) (\<lambda>r.
            case r of
              Inl err \<Rightarrow> Return (Some err, w1)
            | Inr ob' \<Rightarrow>
                (let (res, w2) = cUpdateStatus C g (Some (GetNamespace U ob')) ob' w1
                 in Return (err_of res, w2))))"
proof -
  have bind_assoc: "bind_outcome (bind_outcome m f) h = bind_outcome m (\<lambda>x. bind_outcome (f x) h)"
    for m :: "'x outcome" and f :: "'x \<Rightarrow> 'y outcome" and h :: "'y \<Rightarrow> 'z outcome"
    by (cases m) simp_all
  show ?thesis
    unfolding updateGlobalHubPolicy_def prepare_update_def bind_assoc
    by (auto simp: Let_def split: prod.splits sum.splits intro!: arg_cong2 [where f = bind_outcome] ext)
qed

section \<open>Interleaved reporters\<close>

datatype pc =
    Idle
  | Reading nat Policy \<comment> \<open>conflicts so far\<close>
  | Writing nat Policy unstructured \<comment> \<open>the object about to be sent\<close>
  | Finished "error option"
  | Crashed

record 'i system =
  stored :: "unstructured option"
  versions :: "string set" \<comment> \<open>resource versions given out so far\<close>
  base :: ComplianceSummary \<comment> \<open>the summary another client last gave the policy\<close>
  pcs :: "'i \<Rightarrow> pc"
  commits :: "ClusterSummary list"

datatype 'i action = Begin 'i Policy | Do 'i | Fail 'i error | Environment

text \<open>What the server stores: the status of the object sent, in the stored object, with a new version.\<close>

definition accept :: "meta_ops \<Rightarrow> unstructured \<Rightarrow> string \<Rightarrow> unstructured \<Rightarrow> unstructured" where
  "accept U sent v old =
     SetStr U FResourceVersion v (set_top ''status'' (key_value (Object sent) ''status'') old)"

definition after_conflict :: "(nat \<Rightarrow> bool) \<Rightarrow> nat \<Rightarrow> Policy \<Rightarrow> pc" where
  "after_conflict again n p =
     (if again n then Reading (Suc n) p else Finished (Some (StatusError Conflict)))"

definition goto :: "'i \<Rightarrow> pc \<Rightarrow> 'i system \<Rightarrow> 'i system" where
  "goto i c s = s\<lparr>pcs := (pcs s)(i := c)\<rparr>"

definition committed ::
  "meta_ops \<Rightarrow> unstructured \<Rightarrow> string \<Rightarrow> unstructured \<Rightarrow> ClusterSummary \<Rightarrow> 'i system \<Rightarrow> 'i system" where
  "committed U sent v old new s =
     s\<lparr>stored := Some (accept U sent v old), versions := insert v (versions s), commits := commits s @ [new]\<rparr>"

inductive report_step :: "meta_ops \<Rightarrow> (nat \<Rightarrow> bool) \<Rightarrow> 'i action \<Rightarrow> 'i system \<Rightarrow> 'i system \<Rightarrow> bool"
  for U :: meta_ops and again :: "nat \<Rightarrow> bool" where
  start: "pcs s i = Idle \<or> pcs s i = Finished e \<Longrightarrow> report_step U again (Begin i p) s (goto i (Reading 0 p) s)"
| read: "pcs s i = Reading n p \<Longrightarrow> stored s = Some ob \<Longrightarrow> prepare_update p ob = Return (Inr ob') \<Longrightarrow>
    report_step U again (Do i) s (goto i (Writing n p ob') s)"
| read_undecodable: "pcs s i = Reading n p \<Longrightarrow> stored s = Some ob \<Longrightarrow> prepare_update p ob = Return (Inl e) \<Longrightarrow>
    report_step U again (Do i) s (goto i (Finished (Some e)) s)"
| read_panic: "pcs s i = Reading n p \<Longrightarrow> stored s = Some ob \<Longrightarrow> prepare_update p ob = Panic m \<Longrightarrow>
    report_step U again (Do i) s (goto i Crashed s)"
| read_gone: "pcs s i = Reading n p \<Longrightarrow> stored s = None \<Longrightarrow>
    report_step U again (Do i) s (goto i (Finished (Some (StatusError NotFound))) s)"
| read_fails: "pcs s i = Reading n p \<Longrightarrow> \<not> IsConflict e \<Longrightarrow>
    report_step U again (Fail i e) s (goto i (Finished (Some e)) s)"
| commit: "pcs s i = Writing n p ob' \<Longrightarrow> stored s = Some old \<Longrightarrow>
    GetResourceVersion U ob' = GetResourceVersion U old \<Longrightarrow> v \<notin> versions s \<Longrightarrow>
    newClusterSummary p = Return new \<Longrightarrow>
    report_step U again (Do i) s (goto i (Finished None) (committed U ob' v old new s))"
| write_conflict: "pcs s i = Writing n p ob' \<Longrightarrow> stored s = Some old \<Longrightarrow>
    GetResourceVersion U ob' \<noteq> GetResourceVersion U old \<Longrightarrow>
    report_step U again (Do i) s (goto i (after_conflict again n p) s)"
| write_gone: "pcs s i = Writing n p ob' \<Longrightarrow> stored s = None \<Longrightarrow>
    report_step U again (Do i) s (goto i (Finished (Some (StatusError NotFound))) s)"
| write_fails: "pcs s i = Writing n p ob' \<Longrightarrow> \<not> IsConflict e \<Longrightarrow>
    report_step U again (Fail i e) s (goto i (Finished (Some e)) s)"
| answer_lost: "pcs s i = Writing n p ob' \<Longrightarrow> stored s = Some old \<Longrightarrow>
    GetResourceVersion U ob' = GetResourceVersion U old \<Longrightarrow> v \<notin> versions s \<Longrightarrow>
    newClusterSummary p = Return new \<Longrightarrow> \<not> IsConflict e \<Longrightarrow>
    report_step U again (Fail i e) s (goto i (Finished (Some e)) (committed U ob' v old new s))"
| other_write: "stored s = Some old \<Longrightarrow> stored_summary ob = stored_summary old \<Longrightarrow> meta_wf ob \<Longrightarrow>
    GetResourceVersion U ob \<notin> versions s \<Longrightarrow>
    report_step U again Environment s
      (s\<lparr>stored := Some ob, versions := insert (GetResourceVersion U ob) (versions s)\<rparr>)"
| delete: "report_step U again Environment s (s\<lparr>stored := None, commits := []\<rparr>)"
| replace: "stored_summary ob = Return (Inr S) \<Longrightarrow> meta_wf ob \<Longrightarrow> GetResourceVersion U ob \<notin> versions s \<Longrightarrow>
    report_step U again Environment s
      (s\<lparr>stored := Some ob, versions := insert (GetResourceVersion U ob) (versions s), base := S, commits := []\<rparr>)"

inductive run :: "meta_ops \<Rightarrow> (nat \<Rightarrow> bool) \<Rightarrow> 'i action list \<Rightarrow> 'i system \<Rightarrow> 'i system \<Rightarrow> bool"
  for U :: meta_ops and again :: "nat \<Rightarrow> bool" where
  run_Nil: "run U again [] s s"
| run_snoc: "run U again as s t \<Longrightarrow> report_step U again a t u \<Longrightarrow> run U again (as @ [a]) s u"

inductive_cases run_NilE: "run U again [] s t"
inductive_cases step_cases: "report_step U again a s t"
inductive_cases do_stepE: "report_step U again (Do i) s t"

text \<open>A start: no reporter runs, and a stored policy has a readable summary.\<close>

definition initial :: "meta_ops \<Rightarrow> 'i system \<Rightarrow> bool" where
  "initial U s \<longleftrightarrow> finite (versions s) \<and> commits s = [] \<and> (\<forall>i. pcs s i = Idle) \<and>
     (\<forall>ob. stored s = Some ob \<longrightarrow> meta_wf ob \<and> GetResourceVersion U ob \<in> versions s \<and>
        stored_summary ob = Return (Inr (base s)))"

section \<open>The invariant\<close>

abbreviation merged :: "ComplianceSummary \<Rightarrow> ClusterSummary list \<Rightarrow> ComplianceSummary" where
  "merged S reports \<equiv> foldl (\<lambda>S new. merge_summary new S) S reports"

definition policy_ok :: "meta_ops \<Rightarrow> 'i system \<Rightarrow> bool" where
  "policy_ok U s \<longleftrightarrow> finite (versions s) \<and>
     (\<forall>ob. stored s = Some ob \<longrightarrow> meta_wf ob \<and> GetResourceVersion U ob \<in> versions s \<and>
        stored_summary ob = Return (Inr (merged (base s) (commits s))))"

text \<open>An object about to be sent was prepared from the stored one, unless its version is out of date.\<close>

definition sent_ok :: "meta_ops \<Rightarrow> 'i system \<Rightarrow> bool" where
  "sent_ok U s \<longleftrightarrow> (\<forall>i n p ob'. pcs s i = Writing n p ob' \<longrightarrow>
     GetResourceVersion U ob' \<in> versions s \<and> (\<exists>new. newClusterSummary p = Return new) \<and>
     (\<forall>ob. stored s = Some ob \<longrightarrow> GetResourceVersion U ob = GetResourceVersion U ob' \<longrightarrow>
        prepare_update p ob = Return (Inr ob')))"

lemma prepare_update_Inr:
  assumes "prepare_update p ob = Return (Inr ob')"
  shows "\<exists>new m n. newClusterSummary p = Return new \<and>
    status_map (key_value (Object ob) ''status'') = Return m \<and> merge_status new m = Inr n \<and>
    ob' = set_top ''status'' (JObj n) ob"
  using assms by (auto simp: prepare_update_def bind_outcome_Return_iff map_result_Inr_iff)

locale versioned_objects = unstructured_accessors U for U :: meta_ops
begin

lemma prepared_version:
  "prepare_update p ob = Return (Inr ob') \<Longrightarrow> GetResourceVersion U ob' = GetResourceVersion U ob"
  by (auto dest!: prepare_update_Inr simp: GetStr_frame)

lemma meta_wf_set_top_status: "meta_wf ob \<Longrightarrow> meta_wf (set_top ''status'' v ob)"
  by (simp add: meta_wf_def set_top_def)

lemma accept_meta:
  assumes "meta_wf old"
  shows "meta_wf (accept U sent v old)" and "GetResourceVersion U (accept U sent v old) = v"
  using assms by (simp_all add: accept_def accessors meta_wf_set_top_status)

lemma stored_summary_accept:
  "stored_summary (accept U sent v old) = stored_summary (set_top ''status'' (key_value (Object sent) ''status'') old)"
  by (simp add: stored_summary_def accept_def content_SetStr top_field_def key_value_set_top)

lemma stored_summary_committed:
  assumes prep: "prepare_update p old = Return (Inr ob')" and new: "newClusterSummary p = Return new"
    and S: "stored_summary old = Return (Inr S)"
  shows "stored_summary (accept U ob' v old) = Return (Inr (merge_summary new S))"
proof -
  from prepare_update_Inr [OF prep] new obtain m n where
    m: "status_map (key_value (Object old) ''status'') = Return m" and n: "merge_status new m = Inr n"
    and ob': "ob' = set_top ''status'' (JObj n) old" by auto
  from merge_status_stored(1) [OF m n] S
  have "stored_summary (set_top ''status'' (JObj n) old) = Return (Inr (merge_summary new S))" by simp
  then show ?thesis by (simp add: stored_summary_accept ob' key_value_set_top)
qed

lemma committed_ok:
  assumes "policy_ok U s" and "sent_ok U s" and "pcs s i = Writing n p ob'" and "stored s = Some old"
    and "GetResourceVersion U ob' = GetResourceVersion U old" and new: "newClusterSummary p = Return new"
  shows "policy_ok U (goto i c (committed U ob' v old new s))"
proof -
  from assms have prep: "prepare_update p old = Return (Inr ob')"
    and old: "meta_wf old" "stored_summary old = Return (Inr (merged (base s) (commits s)))"
    by (auto simp: policy_ok_def sent_ok_def)
  from assms(1) stored_summary_committed [OF prep new old(2)] accept_meta [OF old(1)]
  show ?thesis by (simp add: policy_ok_def goto_def committed_def)
qed

lemma committed_sent_ok:
  assumes "policy_ok U s" and "sent_ok U s" and "stored s = Some old" and "v \<notin> versions s"
    and "\<And>n p ob. c \<noteq> Writing n p ob"
  shows "sent_ok U (goto i c (committed U ob' v old new s))"
proof -
  from assms have "meta_wf old" by (simp add: policy_ok_def)
  from accept_meta(2) [OF this] assms show ?thesis by (auto simp: sent_ok_def goto_def committed_def)
qed

lemma step_policy_ok:
  assumes "report_step U again a s t" and "policy_ok U s" and "sent_ok U s"
  shows "policy_ok U t"
  using assms
proof (induction rule: report_step.induct)
  case (commit s i n p ob' old v new)
  then show ?case by (blast intro: committed_ok)
next
  case (answer_lost s i n p ob' old v new e)
  then show ?case by (blast intro: committed_ok)
qed (auto simp: policy_ok_def goto_def)

lemma step_sent_ok:
  assumes "report_step U again a s t" and "policy_ok U s" and "sent_ok U s"
  shows "sent_ok U t"
  using assms
proof (induction rule: report_step.induct)
  case (read s i n p ob ob')
  then show ?case
    using prepared_version [of p ob ob'] prepare_update_Inr [of p ob ob']
    by (auto simp: sent_ok_def policy_ok_def goto_def)
next
  case (commit s i n p ob' old v new)
  then show ?case by (intro committed_sent_ok) simp_all
next
  case (answer_lost s i n p ob' old v new e)
  then show ?case by (intro committed_sent_ok) simp_all
next
  case (write_conflict s i n p ob' old)
  then show ?case by (auto simp: sent_ok_def goto_def after_conflict_def)
qed (fastforce simp: sent_ok_def goto_def)+

lemma run_ok:
  assumes "run U again as s t" and "initial U s"
  shows "policy_ok U t \<and> sent_ok U t"
  using assms
proof (induction rule: run.induct)
  case (run_Nil s)
  then show ?case by (simp add: initial_def policy_ok_def sent_ok_def)
next
  case (run_snoc as s t a u)
  then show ?case using step_policy_ok step_sent_ok by blast
qed

end

interpretation json_versions: versioned_objects json_ops ..

section \<open>Schedules\<close>

text \<open>
  A run by a schedule: \<open>Begin\<close> starts a reconcile, \<open>Do\<close> performs the next call of a reporter. \<open>v\<close> is
  the version the server gives to an accepted update.
\<close>

definition next_call :: "meta_ops \<Rightarrow> (nat \<Rightarrow> bool) \<Rightarrow> string \<Rightarrow> 'i \<Rightarrow> 'i system \<Rightarrow> 'i system option" where
  "next_call U again v i s =
     (case pcs s i of
        Reading n p \<Rightarrow>
          (case stored s of
             None \<Rightarrow> Some (goto i (Finished (Some (StatusError NotFound))) s)
           | Some ob \<Rightarrow>
               (case prepare_update p ob of
                  Panic m \<Rightarrow> Some (goto i Crashed s)
                | Return (Inl e) \<Rightarrow> Some (goto i (Finished (Some e)) s)
                | Return (Inr ob') \<Rightarrow> Some (goto i (Writing n p ob') s)))
      | Writing n p ob' \<Rightarrow>
          (case stored s of
             None \<Rightarrow> Some (goto i (Finished (Some (StatusError NotFound))) s)
           | Some old \<Rightarrow>
               if GetResourceVersion U ob' \<noteq> GetResourceVersion U old
               then Some (goto i (after_conflict again n p) s)
               else if v \<in> versions s then None
               else (case newClusterSummary p of
                       Panic m \<Rightarrow> None
                     | Return new \<Rightarrow> Some (goto i (Finished None) (committed U ob' v old new s))))
      | _ \<Rightarrow> None)"

text \<open>These are the steps labelled \<open>Do i\<close>, all of them.\<close>

lemma next_call_step: "next_call U again v i s = Some t \<Longrightarrow> report_step U again (Do i) s t"
  by (auto simp: next_call_def split: pc.splits option.splits outcome.splits sum.splits if_splits
      intro: report_step.intros)

lemma next_call_iff: "report_step U again (Do i) s t \<longleftrightarrow> (\<exists>v. next_call U again v i s = Some t)"
proof
  assume "report_step U again (Do i) s t"
  then show "\<exists>v. next_call U again v i s = Some t" by (cases rule: do_stepE) (auto simp: next_call_def)
qed (blast intro: next_call_step)


lemma run_step: "report_step U again a s t \<Longrightarrow> run U again as t u \<Longrightarrow> run U again (a # as) s u"
proof (rotate_tac, induction rule: run.induct)
  case (run_Nil t)
  then show ?case using run.run_snoc [OF run.run_Nil, of U again a s t] by simp
next
  case (run_snoc as t u b w)
  then have "run U again ((a # as) @ [b]) s w" by (intro run.run_snoc)
  then show ?case by simp
qed

lemma run_append: "run U again as s t \<Longrightarrow> run U again bs t u \<Longrightarrow> run U again (as @ bs) s u"
proof (rotate_tac, induction rule: run.induct)
  case (run_Nil t)
  then show ?case by simp
next
  case (run_snoc bs t u b w)
  then show ?case using run.run_snoc [of U again "as @ bs" s u b w] by simp
qed

lemma run_not_idle:
  assumes "run U again as s t" and "pcs s i \<noteq> Idle"
  shows "pcs t i \<noteq> Idle"
  using assms
proof (induction rule: run.induct)
  case (run_snoc as s t a u)
  then have "pcs t i \<noteq> Idle" by simp
  with run_snoc.hyps(2) show ?case
    by cases (auto simp: goto_def committed_def after_conflict_def)
qed

lemma run_two:
  "run U again [a, b] s u \<longleftrightarrow> (\<exists>t. report_step U again a s t \<and> report_step U again b t u)"
proof
  have "run U again as s u \<Longrightarrow> as = [a, b] \<Longrightarrow> \<exists>t. report_step U again a s t \<and> report_step U again b t u" for as
  proof (induction rule: run.induct)
    case (run_snoc as s t c u)
    then have "run U again [a] s t" and "c = b" by auto
    moreover have "run U again cs s t \<Longrightarrow> cs = [a] \<Longrightarrow> report_step U again a s t" for cs
      by (induction rule: run.induct) (auto elim: run.cases)
    ultimately show ?case using run_snoc.hyps(2) by blast
  qed simp
  then show "run U again [a, b] s u \<Longrightarrow> \<exists>t. report_step U again a s t \<and> report_step U again b t u" by simp
next
  assume "\<exists>t. report_step U again a s t \<and> report_step U again b t u"
  then show "run U again [a, b] s u" by (blast intro: run_step run_Nil)
qed


section \<open>Properties\<close>



definition sample_policy :: "string \<Rightarrow> string \<Rightarrow> Policy" where
  "sample_policy hub state = \<lparr>p_Namespace = hub, p_Name = ''p'',
     p_Status = Some [Some \<lparr>ComplianceState = state, ClusterName = ''c1''\<rparr>]\<rparr>"

text \<open>\<open>retry.DefaultRetry\<close> allows five attempts.\<close>

definition default_again :: "nat \<Rightarrow> bool" where
  "default_again n \<longleftrightarrow> n < 4"

definition sample_system :: "nat system" where
  "sample_system = \<lparr>stored = Some (SetStr json_ops FResourceVersion ''1'' (sample_object ''ns'' ''p'' [] JNull)),
     versions = {''1''}, base = zero_summary, pcs = (\<lambda>_. Idle), commits = []\<rparr>"


lemma initial_sample: "initial json_ops sample_system"
proof -
  let ?ob = "SetStr json_ops FResourceVersion ''1'' (sample_object ''ns'' ''p'' [] JNull)"
  have "meta_wf ?ob \<and> GetResourceVersion json_ops ?ob = ''1''" by code_simp
  moreover have "case stored_summary ?ob of Return (Inr S) \<Rightarrow> S = zero_summary | _ \<Rightarrow> False" by code_simp
  ultimately show ?thesis
    by (auto simp: initial_def sample_system_def split: outcome.splits sum.splits)
qed


text \<open>The calls a reconcile may still make, if there is no attempt after \<open>N\<close> conflicts.\<close>

fun calls_left :: "nat \<Rightarrow> pc \<Rightarrow> nat" where
  "calls_left N (Reading n p) = 2 * (N - n) + 2"
| "calls_left N (Writing n p ob) = 2 * (N - n) + 1"
| "calls_left N _ = 0"

fun call_of :: "'i \<Rightarrow> 'i action \<Rightarrow> bool" where
  "call_of i (Do j) \<longleftrightarrow> i = j"
| "call_of i (Fail j e) \<longleftrightarrow> i = j"
| "call_of i _ \<longleftrightarrow> False"

lemma step_calls_left:
  assumes "report_step U again a s t" and "\<forall>n \<ge> N. \<not> again n"
  shows "if call_of i a then calls_left N (pcs t i) < calls_left N (pcs s i)
         else (\<exists>p. a = Begin i p) \<or> pcs t i = pcs s i"
proof -
  have "calls_left N (after_conflict again n p) < 2 * (N - n) + 1" for n p
    using assms(2) by (cases "n < N") (auto simp: after_conflict_def)
  with assms(1) show ?thesis by cases (auto simp: goto_def committed_def)
qed

lemma run_calls_left:
  assumes "run U again as s t" and "\<forall>p. Begin i p \<notin> set as" and N: "\<forall>n \<ge> N. \<not> again n"
  shows "length (filter (call_of i) as) + calls_left N (pcs t i) \<le> calls_left N (pcs s i)"
  using assms(1,2)
proof (induction rule: run.induct)
  case (run_Nil s)
  then show ?case by simp
next
  case (run_snoc as s t a u)
  then have "length (filter (call_of i) as) + calls_left N (pcs t i) \<le> calls_left N (pcs s i)" by simp
  with step_calls_left [OF run_snoc.hyps(2) N, of i] run_snoc.prems show ?case by (auto split: if_splits)
qed

text \<open>A reporter that is not through can always make its next call.\<close>

lemma next_call_possible:
  assumes "policy_ok U s" and "sent_ok U s" and "\<exists>n p. pcs s i = Reading n p \<or> (\<exists>ob. pcs s i = Writing n p ob)"
  shows "\<exists>t. report_step U again (Do i) s t"
proof -
  from assms(1) have "finite (versions s)" by (simp add: policy_ok_def)
  then obtain v where v: "v \<notin> versions s" using ex_new_if_finite [OF infinite_UNIV_listI] by blast
  have "\<exists>new. newClusterSummary p = Return new" if "pcs s i = Writing n p ob" for n p ob
    using assms(2) that by (auto simp: sent_ok_def)
  with assms(3) v have "\<exists>t. next_call U again v i s = Some t"
    by (fastforce simp: next_call_def split: option.splits outcome.splits sum.splits)
  then show ?thesis by (auto simp: next_call_iff)
qed

text \<open>Read and write of one reporter with nothing in between: every such pair of calls is accepted.\<close>

lemma undisturbed_attempt:
  assumes reading: "pcs t i = Reading n p" and ob: "stored t = Some ob"
    and prep: "prepare_update p ob = Return (Inr ob')"
    and rv: "GetResourceVersion U ob' = GetResourceVersion U ob" and new: "newClusterSummary p = Return new"
    and run: "run U again [Do i, Do i] t u"
  shows "pcs u i = Finished None \<and> commits u = commits t @ [new] \<and>
    (\<exists>v. v \<notin> versions t \<and> stored u = Some (accept U ob' v ob))"
proof -
  from run obtain v w t1 where t1: "next_call U again v i t = Some t1" and u: "next_call U again w i t1 = Some u"
    by (auto simp: run_two next_call_iff)
  from t1 reading ob prep have "t1 = goto i (Writing n p ob') t" by (simp add: next_call_def)
  with u ob rv new show ?thesis by (auto simp: next_call_def goto_def committed_def split: if_splits)
qed

text \<open>
  C5. A reconcile ends. If the library makes no further attempt after \<open>N\<close> conflicts, then in any
  interleaving a reconcile with \<open>n\<close> conflicts behind it makes at most two calls for each of the
  \<open>N - n + 1\<close> attempts left, failing calls included; and it never gets stuck: as long as it is not
  finished or crashed, its next call can be made. If nobody disturbs an attempt (both calls are
  answered, with nothing between them) and the stored status can be merged, then every way the
  attempt can go ends the reconcile without an error, with the report accepted as the last one and
  the prepared status stored under a new version; and there is such a way.
\<close>

theorem reconcile_terminates:
  assumes "unstructured_accessors U" and "initial U s" and "run U again as s t" and "pcs t i = Reading n p"
    and "\<forall>m \<ge> N. \<not> again m"
  shows "(\<forall>bs u. run U again bs t u \<longrightarrow> (\<forall>q. Begin i q \<notin> set bs) \<longrightarrow>
      length (filter (call_of i) bs) \<le> 2 * (N - n + 1) \<and>
      (pcs u i = Crashed \<or> (\<exists>e. pcs u i = Finished e) \<or> (\<exists>u'. report_step U again (Do i) u u'))) \<and>
    (\<forall>ob ob'. stored t = Some ob \<longrightarrow> prepare_update p ob = Return (Inr ob') \<longrightarrow>
      (\<exists>new. newClusterSummary p = Return new \<and> (\<exists>u. run U again [Do i, Do i] t u) \<and>
        (\<forall>u. run U again [Do i, Do i] t u \<longrightarrow> pcs u i = Finished None \<and> commits u = commits t @ [new] \<and>
           (\<exists>v. v \<notin> versions t \<and> stored u = Some (accept U ob' v ob)))))"
proof (intro conjI allI impI)
  have U: "versioned_objects U" by (intro versioned_objects.intro assms)
  note ok = versioned_objects.run_ok [OF U _ assms(2)]
  {
    fix bs u
    assume bs: "run U again bs t u" "\<forall>q. Begin i q \<notin> set bs"
    from run_calls_left [OF bs assms(5)] assms(4)
    show "length (filter (call_of i) bs) \<le> 2 * (N - n + 1)" by simp
    have "policy_ok U u \<and> sent_ok U u" using ok [OF run_append [OF assms(3) bs(1)]] .
    moreover have "pcs u i \<noteq> Idle" using run_not_idle [OF bs(1)] assms(4) by simp
    ultimately show "pcs u i = Crashed \<or> (\<exists>e. pcs u i = Finished e) \<or> (\<exists>u'. report_step U again (Do i) u u')"
      using next_call_possible [of U u i again] by (cases "pcs u i") auto
  next
    fix ob ob'
    assume ob: "stored t = Some ob" and prep: "prepare_update p ob = Return (Inr ob')"
    note rv = versioned_objects.prepared_version [OF U prep]
    from prepare_update_Inr [OF prep] obtain new where new: "newClusterSummary p = Return new" by blast
    have t1: "report_step U again (Do i) t (goto i (Writing n p ob') t)"
      by (rule report_step.read [OF assms(4) ob prep])
    with ok [OF assms(3)] have "policy_ok U (goto i (Writing n p ob') t) \<and> sent_ok U (goto i (Writing n p ob') t)"
      using versioned_objects.step_policy_ok [OF U t1] versioned_objects.step_sent_ok [OF U t1] by blast
    then have "\<exists>u. report_step U again (Do i) (goto i (Writing n p ob') t) u"
      by (intro next_call_possible) (auto simp: goto_def)
    with t1 have "\<exists>u. run U again [Do i, Do i] t u" unfolding run_two by blast
    with undisturbed_attempt [OF assms(4) ob prep rv new] new
    show "\<exists>new. newClusterSummary p = Return new \<and> (\<exists>u. run U again [Do i, Do i] t u) \<and>
        (\<forall>u. run U again [Do i, Do i] t u \<longrightarrow> pcs u i = Finished None \<and> commits u = commits t @ [new] \<and>
           (\<exists>v. v \<notin> versions t \<and> stored u = Some (accept U ob' v ob)))" by blast
  }
qed

theorem reconcile_terminates_witness:
  "\<exists>t u. run json_ops default_again [Begin 0 (sample_policy ''hub1'' ''Compliant'')] sample_system t \<and>
     run json_ops default_again [Do 0, Do 0] t u \<and> pcs u 0 = Finished None \<and> length (commits u) = 1"
proof -
  let ?p = "sample_policy ''hub1'' ''Compliant''"
  let ?t = "goto 0 (Reading 0 ?p) sample_system"
  have run: "run json_ops default_again [Begin 0 ?p] sample_system ?t"
    by (intro run_step [OF _ run_Nil] report_step.start) (simp add: sample_system_def)
  have reading: "pcs ?t 0 = Reading 0 ?p" and commits: "commits ?t = []" by (simp_all add: goto_def sample_system_def)
  have "case stored ?t of Some ob \<Rightarrow> (case prepare_update ?p ob of Return (Inr _) \<Rightarrow> True | _ \<Rightarrow> False) | None \<Rightarrow> False"
    by code_simp
  then obtain ob ob' where ob: "stored ?t = Some ob" "prepare_update ?p ob = Return (Inr ob')"
    by (auto split: option.splits outcome.splits sum.splits)
  have "\<forall>m \<ge> 4. \<not> default_again m" by (simp add: default_again_def)
  note ends = conjunct2 [OF reconcile_terminates [OF json_acc.unstructured_accessors_axioms initial_sample run reading this],
      rule_format, OF ob]
  then obtain u where "run json_ops default_again [Do 0, Do 0] ?t u" by blast
  with ends run commits show ?thesis by (intro exI [of _ ?t] exI [of _ u]) auto
qed

end
