(* ===== verification/GenericController.thy ===== *)
theory GenericController
  imports PolicyController Workqueue
begin

text \<open>
  The controller loop of the global hub, \<^verbatim>\<open>src/server/controllers/globalhubcontroller/generic_controller.go\<close>,
  the three controllers it is started with (\<^verbatim>\<open>controller.go\<close>) and the installation of the
  custom resource definitions (\<^verbatim>\<open>install_crds.go\<close>).

  The informer's store and the key functions of \<open>k8s.io/client-go/tools/cache\<close> are the fields
  of \<open>cache_ops\<close>. The store hands out pointers, so \<open>StoreWrite\<close> stands for what a reconciler
  writes through the pointer it got from \<open>StoreGet\<close>. The laws are those of the locale
  \<open>informer_store\<close>, interpreted on a store over lists.
\<close>

section \<open>The informer's store\<close>

text \<open>The empty instance \<open>createInstance()\<close> returns, with the name and namespace set on it.\<close>

record object_ref =
  ref_type :: string
  ref_name :: string
  ref_namespace :: string

record 's cache_ops =
  MetaNamespaceKeyFunc :: "iface \<Rightarrow> error + string"
  SplitMetaNamespaceKey :: "string \<Rightarrow> error + (string \<times> string)"
  StoreGet :: "object_ref \<Rightarrow> 's \<Rightarrow> iface option \<times> error option"
    \<comment> \<open>\<open>item, exist, err\<close>: \<open>None\<close> is \<open>exist = false\<close>\<close>
  StoreWrite :: "object_ref \<Rightarrow> iface \<Rightarrow> 's \<Rightarrow> 's"

definition meta_key :: "string \<Rightarrow> string \<Rightarrow> string" where
  "meta_key ns n = (if ns = [] then n else ns @ ''/'' @ n)"

locale informer_store =
  fixes U :: meta_ops and K :: "'s cache_ops"
  assumes Key_Unstr: "MetaNamespaceKeyFunc K (Unstr ob) = Inr (meta_key (GetNamespace U ob) (GetName U ob))"
    and Split_key: "CHR ''/'' \<notin> set ns \<Longrightarrow> CHR ''/'' \<notin> set n \<Longrightarrow>
      SplitMetaNamespaceKey K (meta_key ns n) = Inr (ns, n)"
    and Get_Write: "StoreGet K i st = (Some old, None) \<Longrightarrow>
      StoreGet K i (StoreWrite K i obj st) = (Some obj, None)"

section \<open>The generic controller\<close>

record 'w GenericController =
  gc_name :: string
  gc_gvr :: gvr
  gc_createInstance :: string
  gc_reconcile :: "'w reconciler"

definition NewGenericController :: "'w IController \<Rightarrow> 'w GenericController" where
  "NewGenericController controller =
     \<lparr>gc_name = ic_GetName controller, gc_gvr = ic_GetGVR controller,
      gc_createInstance = ic_CreateInstance controller, gc_reconcile = ic_Reconcile controller\<rparr>"

definition enqueue :: "'s cache_ops \<Rightarrow> ('q, string) rate_limiting_queue \<Rightarrow> iface \<Rightarrow> 'q \<Rightarrow> 'q" where
  "enqueue K Q obj q =
     (case MetaNamespaceKeyFunc K obj of Inl err \<Rightarrow> q | Inr key \<Rightarrow> qAdd Q key q)"

text \<open>The three event handlers registered by \<open>NewGenericController\<close>.\<close>

datatype gc_event = OnAdd iface | OnUpdate iface iface | OnDelete iface

fun gc_handler :: "'s cache_ops \<Rightarrow> ('q, string) rate_limiting_queue \<Rightarrow> gc_event \<Rightarrow> 'q \<Rightarrow> 'q" where
  "gc_handler K Q (OnAdd obj) q = enqueue K Q obj q"
| "gc_handler K Q (OnUpdate old obj) q = enqueue K Q obj q"
| "gc_handler K Q (OnDelete obj) q = enqueue K Q obj q"

text \<open>
  \<open>process\<close>. The last comparison is \<open>err != c.reconcile(...)\<close>: the result of the reconciler is
  compared with the error of the store, and that error is returned.
\<close>

definition gc_process ::
  "'s cache_ops \<Rightarrow> 'w GenericController \<Rightarrow> string \<Rightarrow> 's \<times> 'w \<Rightarrow> (error option \<times> 's \<times> 'w) outcome" where
  "gc_process K c key sw =
     (case SplitMetaNamespaceKey K key of
        Inl err \<Rightarrow> Return (None, sw)
      | Inr (ns, n) \<Rightarrow>
          (let inst = \<lparr>ref_type = gc_createInstance c, ref_name = n, ref_namespace = ns\<rparr>
           in case StoreGet K inst (fst sw) of
                (None, err) \<Rightarrow> Return (None, sw)
              | (Some item, err) \<Rightarrow>
                  if err \<noteq> None then Return (None, sw)
                  else bind_outcome (gc_reconcile c item (snd sw)) (\<lambda>(rerr, item', w').
                    let sw' = (StoreWrite K inst item' (fst sw), w')
                    in if err \<noteq> rerr then Return (err, sw') else Return (None, sw'))))"

definition gc_processNextWorkItem ::
  "'s cache_ops \<Rightarrow> ('q, string) rate_limiting_queue \<Rightarrow> 'w GenericController \<Rightarrow> 'q \<Rightarrow> 's \<times> 'w \<Rightarrow>
   (bool \<times> 'q \<times> 's \<times> 'w) outcome option" where
  "gc_processNextWorkItem K Q c q sw =
     (case qGet Q q of
        None \<Rightarrow> None
      | Some (None, q') \<Rightarrow> Some (Return (False, q', sw))
      | Some (Some key, q') \<Rightarrow>
          Some (bind_outcome (gc_process K c key sw) (\<lambda>(err, sw').
            case err of
              Some _ \<Rightarrow> Return (True, qDone Q key (qAddRateLimited Q key q'), sw')
            | None \<Rightarrow> Return (True, qDone Q key (qForget Q key q'), sw'))))"

fun gc_startWorker ::
  "nat \<Rightarrow> 's cache_ops \<Rightarrow> ('q, string) rate_limiting_queue \<Rightarrow> 'w GenericController \<Rightarrow> 'q \<Rightarrow> 's \<times> 'w \<Rightarrow>
   (stop \<times> 'q \<times> 's \<times> 'w) outcome" where
  "gc_startWorker 0 K Q c q sw = Return (OutOfFuel, q, sw)"
| "gc_startWorker (Suc fuel) K Q c q sw =
     (case gc_processNextWorkItem K Q c q sw of
        None \<Rightarrow> Return (Blocked, q, sw)
      | Some r \<Rightarrow> bind_outcome r (\<lambda>(cont, q', sw').
          if cont then gc_startWorker fuel K Q c q' sw' else Return (Quit, q', sw')))"

text \<open>
  \<open>Run\<close> by what it does in order. \<open>synced\<close> is the answer of \<open>WaitForCacheSync\<close>; the deferred
  shutdown of the queue runs on both exits.
\<close>

definition gc_Run :: "bool \<Rightarrow> nat \<Rightarrow> run_action list" where
  "gc_Run synced numThreads =
     RunInformer #
     (if \<not> synced then [ShutDownQueue]
      else replicate numThreads StartWorker @ [WaitStop, ShutDownQueue])"

section \<open>The controllers of the global hub\<close>

definition local_resource_selector :: string where
  "local_resource_selector = ''!multicluster-global-hub.open-cluster-management.io/local-resource''"

text \<open>\<open>AddControllers\<close>: each controller with the selector of its informer, started with one thread.\<close>

definition AddControllers ::
  "meta_ops \<Rightarrow> converter \<Rightarrow> ('w attempt \<Rightarrow> 'w attempt) \<Rightarrow> GroupVersion \<Rightarrow> GroupVersion \<Rightarrow>
   'w dynamic_client \<Rightarrow> ('w GenericController \<times> string \<times> nat) list" where
  "AddControllers U FromUnstructured R policyv1 placementrulev1 dynamicClient =
     map (\<lambda>c. (NewGenericController c, local_resource_selector, 1))
       [NewPolicyController U FromUnstructured R policyv1 dynamicClient,
        NewPlacementBindingController U policyv1 dynamicClient,
        NewPlacementRuleController U placementrulev1 dynamicClient]"

section \<open>Installing the custom resource definitions\<close>




section \<open>Properties of the loop\<close>

lemma gc_processNextWorkItem_eq:
  "gc_processNextWorkItem K Q c q sw = work_item Q (gc_process K c) q sw"
  by (simp add: gc_processNextWorkItem_def work_item_def)

lemma gc_startWorker_eq: "gc_startWorker fuel K Q c q sw = work_loop fuel Q (gc_process K c) q sw"
proof (induction fuel arbitrary: q sw)
  case 0
  then show ?case by simp
next
  case (Suc fuel)
  then have eq: "gc_startWorker fuel K Q c = work_loop fuel Q (gc_process K c)" by blast
  show ?case unfolding gc_startWorker.simps work_loop.simps gc_processNextWorkItem_eq eq ..
qed

lemma process_swallows: "gc_process K c key sw = Return (e, sw') \<Longrightarrow> e = None"
  by (auto simp: gc_process_def Let_def bind_outcome_Return_iff
      split: sum.splits prod.splits option.splits if_splits)

lemma process_stored:
  assumes "SplitMetaNamespaceKey K key = Inr (ns, n)"
    and "StoreGet K \<lparr>ref_type = gc_createInstance c, ref_name = n, ref_namespace = ns\<rparr> st = (Some item, None)"
    and "gc_reconcile c item w = Return (e, item', w')"
  shows "gc_process K c key (st, w) =
    Return (None, StoreWrite K \<lparr>ref_type = gc_createInstance c, ref_name = n, ref_namespace = ns\<rparr> item' st, w')"
  using assms by (simp add: gc_process_def)

lemma process_absent:
  assumes "SplitMetaNamespaceKey K key = Inr (ns, n)"
    and "StoreGet K \<lparr>ref_type = gc_createInstance c, ref_name = n, ref_namespace = ns\<rparr> (fst sw) = (None, err)"
  shows "gc_process K c key sw = Return (None, sw)"
  using assms by (simp add: gc_process_def)

text \<open>A reconciler that does not panic lets the worker return from every item.\<close>

lemma process_returns:
  assumes "\<And>item w. returns (gc_reconcile c item w)"
  shows "\<exists>sw'. gc_process K c key sw = Return (None, sw')"
proof -
  have "\<exists>e sw'. gc_process K c key sw = Return (e, sw')"
  proof (cases "SplitMetaNamespaceKey K key")
    case (Inl err)
    then show ?thesis by (simp add: gc_process_def)
  next
    case (Inr nn)
    obtain ns n where nn: "nn = (ns, n)" by fastforce
    let ?i = "\<lparr>ref_type = gc_createInstance c, ref_name = n, ref_namespace = ns\<rparr>"
    obtain item err where get: "StoreGet K ?i (fst sw) = (item, err)" by fastforce
    show ?thesis
    proof (cases item)
      case None
      with Inr nn get show ?thesis by (simp add: gc_process_def)
    next
      case (Some x)
      from assms [of x "snd sw"] obtain rerr x' w' where "gc_reconcile c x (snd sw) = Return (rerr, x', w')"
        by (auto simp: returns_iff)
      with Inr nn get Some show ?thesis by (simp add: gc_process_def Let_def)
    qed
  qed
  then show ?thesis by (auto dest: process_swallows)
qed

section \<open>Properties of the installation\<close>





section \<open>A store over lists\<close>

type_synonym list_store = "(string \<times> iface) list"

fun split_key :: "string \<Rightarrow> (string \<times> string) option" where
  "split_key [] = None"
| "split_key (c # s) =
     (if c = CHR ''/'' then Some ([], s) else map_option (\<lambda>(a, b). (c # a, b)) (split_key s))"

definition list_cache :: "meta_ops \<Rightarrow> list_store cache_ops" where
  "list_cache U = \<lparr>
     MetaNamespaceKeyFunc = (\<lambda>obj. case obj of
        Unstr ob \<Rightarrow> Inr (meta_key (GetNamespace U ob) (GetName U ob))
      | _ \<Rightarrow> Inl (Errorf ''object has no meta'')),
     SplitMetaNamespaceKey = (\<lambda>key. case split_key key of
        None \<Rightarrow> Inr ([], key)
      | Some (ns, n) \<Rightarrow> if CHR ''/'' \<in> set n then Inl (Errorf ''unexpected key format'') else Inr (ns, n)),
     StoreGet = (\<lambda>i st. (map_of st (meta_key (ref_namespace i) (ref_name i)), None)),
     StoreWrite = (\<lambda>i obj st. AList.update (meta_key (ref_namespace i) (ref_name i)) obj st)\<rparr>"

lemma split_key_None: "CHR ''/'' \<notin> set n \<Longrightarrow> split_key n = None"
  by (induction n) auto

lemma split_key_append: "CHR ''/'' \<notin> set ns \<Longrightarrow> split_key (ns @ ''/'' @ n) = Some (ns, n)"
  by (induction ns) auto

interpretation list_cache: informer_store U "list_cache U" for U
  by unfold_locales
    (auto simp: list_cache_def meta_key_def split_key_None split_key_append [simplified])

section \<open>Reconciling what was enqueued\<close>

definition slash_free :: "meta_ops \<Rightarrow> unstructured \<Rightarrow> bool" where
  "slash_free U ob \<longleftrightarrow> CHR ''/'' \<notin> set (GetNamespace U ob) \<and> CHR ''/'' \<notin> set (GetName U ob)"

definition ref_of :: "meta_ops \<Rightarrow> 'w GenericController \<Rightarrow> unstructured \<Rightarrow> object_ref" where
  "ref_of U c ob = \<lparr>ref_type = gc_createInstance c, ref_name = GetName U ob, ref_namespace = GetNamespace U ob\<rparr>"

context informer_store
begin

text \<open>The key an event enqueues leads the worker to the object of that name in the store.\<close>

lemma enqueue_key:
  "enqueue K Q (Unstr ob) q = qAdd Q (meta_key (GetNamespace U ob) (GetName U ob)) q"
  by (simp add: enqueue_def Key_Unstr)

lemma process_enqueued:
  assumes "slash_free U ob" and "StoreGet K (ref_of U c ob) st = (Some item, None)"
    and "gc_reconcile c item w = Return (e, item', w')"
  shows "gc_process K c (meta_key (GetNamespace U ob) (GetName U ob)) (st, w) =
    Return (None, StoreWrite K (ref_of U c ob) item' st, w')"
  using process_stored [of K _ "GetNamespace U ob" "GetName U ob" c st item w e item' w'] assms
  by (simp add: slash_free_def ref_of_def Split_key)

text \<open>
  A failed labelling is final: the update is sent once and fails, the item is not retried,
  and processing the key again, however often the cached object is resynced, sends nothing.
\<close>

lemma label_lost:
  assumes ctl: "label_controller U C g (gc_reconcile c)"
    and wf: "meta_wf ob" "slash_free U ob"
    and stored: "StoreGet K (ref_of U c ob) st = (Some (Unstr ob), None)"
    and un: "label_of U ob GlobalHubPolicyNamespaceLabel = None"
    and fails: "cUpdate C g (Some (GetNamespace U ob)) (relabelled U ob) w = (Inl e, w')"
  defines "key \<equiv> meta_key (GetNamespace U ob) (GetName U ob)"
    and "st' \<equiv> StoreWrite K (ref_of U c ob) (Unstr (relabelled U ob)) st"
  shows "gc_process K c key (st, w) = Return (None, st', w')"
    and "\<exists>st''. gc_process K c key (st', w'') = Return (None, st'', w'')"
proof -
  note once = label_controller.labels_once [OF ctl wf(1) un fails]
  show "gc_process K c key (st, w) = Return (None, st', w')"
    unfolding key_def st'_def by (rule process_enqueued [OF wf(2) stored once(1)])
  have "StoreGet K (ref_of U c ob) st' = (Some (Unstr (relabelled U ob)), None)"
    unfolding st'_def by (rule Get_Write [OF stored])
  from process_enqueued [OF wf(2) this once(2)]
  show "\<exists>st''. gc_process K c key (st', w'') = Return (None, st'', w'')"
    by (auto simp: key_def)
qed

end

section \<open>Properties\<close>

text \<open>
  C16. A failed reconcile is never retried: whatever the reconciler returns, the key a worker took
  is not pending when the round is over, and nothing else changes in the queue.
\<close>

theorem failed_reconciles_not_requeued:
  assumes Q: "work_queue Q queue_ok pending processing" and ok: "queue_ok q"
    and run: "gc_processNextWorkItem K Q c q sw = Some (Return (cont, q', sw'))"
  shows "\<exists>key. key \<in> pending q \<and> pending q' = pending q - {key} \<and> processing q' = processing q \<and> queue_ok q'"
proof -
  obtain key err where "key \<in> pending q" and "gc_process K c key sw = Return (err, sw')"
      and "pending q' = (if err = None then pending q - {key} else pending q)"
      and "processing q' = processing q" and "queue_ok q'"
    using work_queue.work_item_protocol [OF Q ok run [unfolded gc_processNextWorkItem_eq]] by metis
  moreover from this(2) have "err = None" by (rule process_swallows)
  ultimately show ?thesis by auto
qed

definition sample_gc :: "mem_world GenericController" where
  "sample_gc = NewGenericController (NewPlacementRuleController json_ops
     \<lparr>gv_Group = ''apps.open-cluster-management.io'', gv_Version = ''v1''\<rparr> mem_client)"

definition sample_rule :: unstructured where
  "sample_rule = sample_object ''ns'' ''p'' [] JNull"

definition sample_store :: list_store where
  "sample_store = [(''ns/p'', Unstr sample_rule)]"

definition failing_world :: mem_world where
  "failing_world = mem_empty\<lparr>faults := [Some (StatusError Conflict)]\<rparr>"

theorem failed_reconciles_not_requeued_witness:
  "\<exists>q' sw'. gc_processNextWorkItem (list_cache json_ops) list_queue_ops sample_gc
      (lq_add ''ns/p'' lq_empty) (sample_store, failing_world) = Some (Return (True, q', sw')) \<and>
    set (dirty q') = {} \<and> length (requests (snd sw')) = 1 \<and> objects (snd sw') = []"
proof -
  let ?run = "gc_processNextWorkItem (list_cache json_ops) list_queue_ops sample_gc
      (lq_add ''ns/p'' lq_empty) (sample_store, failing_world)"
  have "case ?run of Some (Return (cont, q', sw')) \<Rightarrow> cont \<and> length (requests (snd sw')) = 1 \<and> objects (snd sw') = []
      | _ \<Rightarrow> False" by code_simp
  then obtain q' sw' where run: "?run = Some (Return (True, q', sw'))"
      and reqs: "length (requests (snd sw')) = 1" "objects (snd sw') = []"
    by (auto split: option.splits outcome.splits)
  have "set (dirty (lq_add ''ns/p'' lq_empty)) = {''ns/p''}" by (simp add: lq_add_def lq_empty_def)
  with failed_reconciles_not_requeued [OF lq.work_queue_axioms lq_ok_add [OF lq_ok_empty] run] run reqs
  show ?thesis by auto
qed

text \<open>
  A worker whose reconciler does not panic empties the queue, one round per pending key,
  whether or not the reconciles succeed.
\<close>

theorem generic_worker_empties_queue:
  assumes Q: "work_queue Q queue_ok pending processing"
    and "queue_ok q" and "processing q = {}" and "finite (pending q)"
    and "\<And>item w. returns (gc_reconcile c item w)"
  shows "\<exists>q' sw'. gc_startWorker (Suc (card (pending q))) K Q c q sw = Return (Blocked, q', sw') \<and>
    pending q' = {} \<and> queue_ok q'"
  unfolding gc_startWorker_eq
  by (rule work_queue.worker_drains [OF Q assms(2,3,4)])
    (rule process_returns [OF assms(5)], simp)

theorem generic_worker_empties_queue_witness:
  "\<exists>q' sw'. gc_startWorker 2 (list_cache json_ops) list_queue_ops sample_gc (lq_add ''ns/p'' lq_empty)
      (sample_store, failing_world) = Return (Blocked, q', sw') \<and> set (dirty q') = {}"
proof -
  have "returns (gc_reconcile sample_gc item w)" for item w
    by (cases item) (auto simp: sample_gc_def NewGenericController_def NewPlacementRuleController_def Let_def
        placementrule_reconcile_def split: option.splits)
  moreover have "set (dirty (lq_add ''ns/p'' lq_empty)) = {''ns/p''}"
    and "set (inproc (lq_add ''ns/p'' lq_empty)) = {}"
    by (simp_all add: lq_add_def lq_empty_def)
  ultimately show ?thesis
    using generic_worker_empties_queue [OF lq.work_queue_axioms lq_ok_add [OF lq_ok_empty],
        of "''ns/p''" sample_gc "list_cache json_ops" "(sample_store, failing_world)"]
    by (auto simp: numeral_2_eq_2)
qed

text \<open>
  C15. A failed labelling is final. If the update that adds the label fails, the object stays
  unlabelled on the server, \<open>process\<close> reports no error, and processing the same cached object
  again sends nothing, because the cache already shows the label.
\<close>

theorem failed_labelling_final:
  assumes store: "informer_store U K" and ctl: "label_controller U C g (gc_reconcile c)"
    and wf: "meta_wf ob" "slash_free U ob"
    and stored: "StoreGet K (ref_of U c ob) st = (Some (Unstr ob), None)"
    and un: "label_of U ob GlobalHubPolicyNamespaceLabel = None"
    and fails: "cUpdate C g (Some (GetNamespace U ob)) (relabelled U ob) w = (Inl e, w')"
  shows "\<exists>st'. gc_process K c (meta_key (GetNamespace U ob) (GetName U ob)) (st, w) = Return (None, st', w') \<and>
    (\<forall>w''. \<exists>st''. gc_process K c (meta_key (GetNamespace U ob) (GetName U ob)) (st', w'') = Return (None, st'', w''))"
  using informer_store.label_lost [OF store ctl wf stored un fails] by blast

theorem failed_labelling_final_witness:
  "\<exists>st'. gc_process (list_cache json_ops) sample_gc ''ns/p'' (sample_store, failing_world) =
       Return (None, st', snd (cUpdate mem_client (gc_gvr sample_gc) (Some ''ns'') (relabelled json_ops sample_rule) failing_world)) \<and>
     (\<exists>st''. gc_process (list_cache json_ops) sample_gc ''ns/p'' (st', mem_empty) = Return (None, st'', mem_empty))"
proof -
  have ctl: "label_controller json_ops mem_client (gc_gvr sample_gc) (gc_reconcile sample_gc)"
    using placementrule_label_controller [OF json_acc.unstructured_accessors_axioms]
    by (simp add: sample_gc_def NewGenericController_def NewPlacementRuleController_def Let_def)
  have wf: "meta_wf sample_rule" "slash_free json_ops sample_rule"
    and un: "label_of json_ops sample_rule GlobalHubPolicyNamespaceLabel = None"
    and names: "GetNamespace json_ops sample_rule = ''ns''" "GetName json_ops sample_rule = ''p''"
    by code_simp+
  have stored: "StoreGet (list_cache json_ops) (ref_of json_ops sample_gc sample_rule) sample_store =
      (Some (Unstr sample_rule), None)"
    by (simp add: list_cache_def ref_of_def names sample_store_def meta_key_def)
  let ?w' = "snd (cUpdate mem_client (gc_gvr sample_gc) (Some ''ns'') (relabelled json_ops sample_rule) failing_world)"
  have fails: "cUpdate mem_client (gc_gvr sample_gc) (Some (GetNamespace json_ops sample_rule))
      (relabelled json_ops sample_rule) failing_world = (Inl (StatusError Conflict), ?w')"
    by (simp add: names mem_defs failing_world_def)
  have key: "meta_key ''ns'' ''p'' = ''ns/p''" by (simp add: meta_key_def)
  from failed_labelling_final [OF list_cache.informer_store_axioms ctl wf stored un fails]
  show ?thesis by (auto simp: names key)
qed





end
