(* ===== verification/GoStrings.thy ===== *)
theory GoStrings
  imports Prelude
begin

text \<open>
  What the API server's configuration code uses of Go's \<open>strings\<close> and \<open>strconv\<close>: \<open>Split\<close> with a
  one-character separator, \<open>HasPrefix\<close>, \<open>Atoi\<close> and the \<open>%d\<close> verb, with the laws that relate
  them.
\<close>

section \<open>Splitting\<close>

fun Split :: "char \<Rightarrow> string \<Rightarrow> string list" where
  "Split sep [] = [[]]"
| "Split sep (c # s) =
     (if c = sep then [] # Split sep s
      else (case Split sep s of t # ts \<Rightarrow> (c # t) # ts | [] \<Rightarrow> [[c]]))"

fun Join :: "char \<Rightarrow> string list \<Rightarrow> string" where
  "Join sep [] = []"
| "Join sep [t] = t"
| "Join sep (t # ts) = t @ sep # Join sep ts"

lemma Split_not_Nil [simp]: "Split sep s \<noteq> []"
  by (cases s) (auto split: list.splits)

lemma Split_free: "sep \<notin> set s \<Longrightarrow> Split sep s = [s]"
  by (induction s) auto

lemma Split_append: "sep \<notin> set t \<Longrightarrow> Split sep (t @ sep # s) = t # Split sep s"
  by (induction t) auto

lemma Join_Split: "Join sep (Split sep s) = s"
proof (induction s)
  case Nil
  then show ?case by simp
next
  case (Cons c s)
  obtain t ts where s: "Split sep s = t # ts" by (meson Split_not_Nil neq_Nil_conv)
  with Cons show ?case by (cases ts) auto
qed

lemma Split_tokens_free: "t \<in> set (Split sep s) \<Longrightarrow> sep \<notin> set t"
proof (induction s arbitrary: t)
  case Nil
  then show ?case by simp
next
  case (Cons c s)
  obtain u us where s: "Split sep s = u # us" by (meson Split_not_Nil neq_Nil_conv)
  with Cons show ?case by (auto split: if_splits)
qed

lemma Split_Join:
  assumes "ts \<noteq> []" and "\<And>t. t \<in> set ts \<Longrightarrow> sep \<notin> set t"
  shows "Split sep (Join sep ts) = ts"
  using assms
  by (induction sep ts rule: Join.induct) (auto simp: Split_free Split_append)

lemma Split_eq_iff:
  "Split sep s = ts \<longleftrightarrow> ts \<noteq> [] \<and> (\<forall>t\<in>set ts. sep \<notin> set t) \<and> s = Join sep ts"
  using Split_Join [of ts sep] Split_tokens_free [of _ sep s] Join_Split [of sep s] by auto

definition HasPrefix :: "string \<Rightarrow> string \<Rightarrow> bool" where
  "HasPrefix s p \<longleftrightarrow> take (length p) s = p"

lemma HasPrefix_iff: "HasPrefix s p \<longleftrightarrow> (\<exists>r. s = p @ r)"
  by (metis HasPrefix_def append_eq_conv_conj append_take_drop_id)

section \<open>Decimal numbers\<close>

definition digit_char :: "nat \<Rightarrow> char" where
  "digit_char d = char_of (48 + d)"

definition digit_value :: "char \<Rightarrow> nat option" where
  "digit_value c = (if 48 \<le> (of_char c :: nat) \<and> (of_char c :: nat) \<le> 57 then Some (of_char c - 48) else None)"

fun digits_of :: "nat \<Rightarrow> string" where
  "digits_of n = (if n < 10 then [digit_char n] else digits_of (n div 10) @ [digit_char (n mod 10)])"

declare digits_of.simps [simp del]

text \<open>The verb \<open>%d\<close>.\<close>

definition Itoa :: "int \<Rightarrow> string" where
  "Itoa i = (if i < 0 then CHR ''-'' # digits_of (nat (- i)) else digits_of (nat i))"

fun parse_digits :: "string \<Rightarrow> nat \<Rightarrow> nat option" where
  "parse_digits [] acc = Some acc"
| "parse_digits (c # s) acc =
     (case digit_value c of None \<Rightarrow> None | Some d \<Rightarrow> parse_digits s (10 * acc + d))"

definition parse_nat :: "string \<Rightarrow> nat option" where
  "parse_nat s = (if s = [] then None else parse_digits s 0)"

definition in_int64 :: "int \<Rightarrow> bool" where
  "in_int64 i \<longleftrightarrow> - (2 ^ 63) \<le> i \<and> i < 2 ^ 63"

text \<open>\<open>strconv.Atoi\<close>: an optional sign, at least one digit, and a value that fits an \<open>int\<close>.\<close>

definition Atoi :: "string \<Rightarrow> int option" where
  "Atoi s =
     (let v = (case s of
                 [] \<Rightarrow> None
               | c # s' \<Rightarrow>
                   if c = CHR ''-'' then map_option (\<lambda>n. - int n) (parse_nat s')
                   else if c = CHR ''+'' then map_option int (parse_nat s')
                   else map_option int (parse_nat s))
      in case v of None \<Rightarrow> None | Some i \<Rightarrow> if in_int64 i then Some i else None)"

lemma digit_value_char: "d < 10 \<Longrightarrow> digit_value (digit_char d) = Some d"
  by (simp add: digit_value_def digit_char_def)

lemma parse_digits_append:
  "parse_digits (s @ t) acc = (case parse_digits s acc of None \<Rightarrow> None | Some a \<Rightarrow> parse_digits t a)"
  by (induction s arbitrary: acc) (auto split: option.splits)

lemma parse_digits_of: "parse_digits (digits_of n) 0 = Some n"
proof (induction n rule: less_induct)
  case (less n)
  show ?case
  proof (cases "n < 10")
    case True
    then show ?thesis by (simp add: digits_of.simps [of n] digit_value_char)
  next
    case False
    then have "parse_digits (digits_of (n div 10)) 0 = Some (n div 10)" by (intro less.IH) simp
    with False show ?thesis
      by (simp add: digits_of.simps [of n] parse_digits_append digit_value_char)
  qed
qed

lemma digits_of_not_Nil [simp]: "digits_of n \<noteq> []"
  by (simp add: digits_of.simps [of n])

lemma digits_of_set: "c \<in> set (digits_of n) \<Longrightarrow> digit_value c \<noteq> None"
proof (induction n rule: digits_of.induct)
  case (1 n)
  then show ?case
    by (cases "n < 10") (auto simp: digits_of.simps [of n] digit_value_char)
qed

lemma digit_value_symbols [simp]:
  "digit_value CHR ''-'' = None" "digit_value CHR ''+'' = None" "digit_value CHR ''#'' = None"
  by (simp_all add: digit_value_def)

lemma digits_of_hd: "hd (digits_of n) \<noteq> CHR ''-'' \<and> hd (digits_of n) \<noteq> CHR ''+''"
  using digits_of_set [OF hd_in_set, of n] by auto

lemma Itoa_hash_free: "CHR ''#'' \<notin> set (Itoa i)"
  by (auto simp: Itoa_def dest: digits_of_set)

lemma parse_nat_digits_of [simp]: "parse_nat (digits_of n) = Some n"
  by (simp add: parse_nat_def parse_digits_of)

lemma Atoi_Itoa: "in_int64 i \<Longrightarrow> Atoi (Itoa i) = Some i"
proof (cases "i < 0")
  case True
  assume "in_int64 i"
  with True show ?thesis by (simp add: Atoi_def Itoa_def)
next
  case False
  assume "in_int64 i"
  with False digits_of_hd [of "nat i"] parse_nat_digits_of [of "nat i"] show ?thesis
    by (cases "digits_of (nat i)") (auto simp: Atoi_def Itoa_def)
qed

lemma Atoi_range: "Atoi s = Some i \<Longrightarrow> in_int64 i"
  by (auto simp: Atoi_def Let_def split: option.splits if_splits)

end
