(* ===== verification/GoUrl.thy ===== *)
theory GoUrl
  imports GoStrings
begin

text \<open>
  Go's \<open>net/url.Parse\<close>, which the server applies to issuers, to the URI of the key set and to the
  loopback host. The functions are those of the standard library, by name; \<open>viaRequest\<close> is false
  throughout. Characters are bytes. An error is the message of the library.

  The theory proves what the callers depend on: where a scheme comes from, that it is in lower
  case, and that ordinary \<^verbatim>\<open>https\<close> addresses are accepted.
\<close>

section \<open>Characters\<close>

abbreviation byte :: "char \<Rightarrow> nat" where
  "byte c \<equiv> of_char c"

definition between :: "char \<Rightarrow> char \<Rightarrow> char \<Rightarrow> bool" where
  "between a b c \<longleftrightarrow> byte a \<le> byte c \<and> byte c \<le> byte b"

definition is_letter :: "char \<Rightarrow> bool" where
  "is_letter c \<longleftrightarrow> between CHR ''a'' CHR ''z'' c \<or> between CHR ''A'' CHR ''Z'' c"

definition is_digit :: "char \<Rightarrow> bool" where
  "is_digit c \<longleftrightarrow> between CHR ''0'' CHR ''9'' c"

definition ishex :: "char \<Rightarrow> bool" where
  "ishex c \<longleftrightarrow> is_digit c \<or> between CHR ''a'' CHR ''f'' c \<or> between CHR ''A'' CHR ''F'' c"

definition unhex :: "char \<Rightarrow> nat" where
  "unhex c =
     (if is_digit c then byte c - 48
      else if between CHR ''a'' CHR ''f'' c then byte c - 97 + 10
      else if between CHR ''A'' CHR ''F'' c then byte c - 65 + 10
      else 0)"

definition ToLower :: "string \<Rightarrow> string" where
  "ToLower = map (\<lambda>c. if between CHR ''A'' CHR ''Z'' c then char_of (byte c + 32) else c)"

definition CTLByte :: "char \<Rightarrow> bool" where
  "CTLByte c \<longleftrightarrow> byte c < 32 \<or> byte c = 127"

text \<open>\<open>strings.Cut\<close> and the split at the last occurrence, \<open>strings.LastIndex\<close>.\<close>

fun Cut :: "char \<Rightarrow> string \<Rightarrow> string \<times> string" where
  "Cut sep [] = ([], [])"
| "Cut sep (c # s) = (if c = sep then ([], s) else (case Cut sep s of (a, b) \<Rightarrow> (c # a, b)))"

fun cut_last :: "char \<Rightarrow> string \<Rightarrow> (string \<times> string) option" where
  "cut_last sep [] = None"
| "cut_last sep (c # s) =
     (case cut_last sep s of
        Some (a, b) \<Rightarrow> Some (c # a, b)
      | None \<Rightarrow> if c = sep then Some ([], s) else None)"

section \<open>Escapes\<close>

datatype encoding = encodePath | encodeUserPassword | encodeHost | encodeZone | encodeFragment

definition shouldEscape :: "char \<Rightarrow> encoding \<Rightarrow> bool" where
  "shouldEscape c mode =
     (if is_letter c \<or> is_digit c then False
      else if (mode = encodeHost \<or> mode = encodeZone) \<and> c \<in> set (''!$&()*+,;=:[]<>'' @ [CHR 0x27, CHR 0x22]) then False
      else if c \<in> set ''-_.~'' then False
      else if c \<in> set ''$&+,/:;=?@'' \<and> mode = encodePath then c = CHR ''?''
      else if c \<in> set ''$&+,/:;=?@'' \<and> mode = encodeUserPassword then c \<in> set ''@/?:''
      else if c \<in> set ''$&+,/:;=?@'' \<and> mode = encodeFragment then False
      else if mode = encodeFragment \<and> c \<in> set ''!()*'' then False
      else True)"

text \<open>The check of an escape and of a plain character, and the decoded string.\<close>

definition bad_escape :: "encoding \<Rightarrow> char \<Rightarrow> char \<Rightarrow> bool" where
  "bad_escape mode x y \<longleftrightarrow>
     \<not> ishex x \<or> \<not> ishex y \<or>
     (mode = encodeHost \<and> unhex x < 8 \<and> [x, y] \<noteq> ''25'') \<or>
     (mode = encodeZone \<and> [x, y] \<noteq> ''25'' \<and> 16 * unhex x + unhex y \<noteq> 32 \<and>
      shouldEscape (char_of (16 * unhex x + unhex y)) encodeHost)"

definition bad_plain :: "encoding \<Rightarrow> char \<Rightarrow> bool" where
  "bad_plain mode c \<longleftrightarrow> (mode = encodeHost \<or> mode = encodeZone) \<and> byte c < 128 \<and> shouldEscape c mode"

fun unescape :: "encoding \<Rightarrow> string \<Rightarrow> error + string" where
  "unescape mode [] = Inr []"
| "unescape mode (c # s) =
     (if c = CHR ''%''
      then (case s of
              x # y # s' \<Rightarrow>
                if bad_escape mode x y then Inl (Errorf ''invalid URL escape %q'')
                else (case unescape mode s' of
                        Inl err \<Rightarrow> Inl err
                      | Inr t \<Rightarrow> Inr (char_of (16 * unhex x + unhex y) # t))
            | _ \<Rightarrow> Inl (Errorf ''invalid URL escape %q''))
      else if bad_plain mode c then Inl (Errorf ''invalid character %q in host name'')
      else (case unescape mode s of Inl err \<Rightarrow> Inl err | Inr t \<Rightarrow> Inr (c # t)))"

section \<open>Parsing\<close>

record url =
  Scheme :: string
  Opaque :: string
  User :: "(string \<times> string option) option"
  Host :: string
  Path :: string
  ForceQuery :: bool
  RawQuery :: string
  Fragment :: string

definition zero_url :: url where
  "zero_url = \<lparr>Scheme = [], Opaque = [], User = None, Host = [], Path = [], ForceQuery = False,
     RawQuery = [], Fragment = []\<rparr>"

text \<open>\<open>getScheme\<close>: \<open>acc\<close> is what was read, in reverse; \<open>raw\<close> the whole input.\<close>

fun scheme_loop :: "string \<Rightarrow> string \<Rightarrow> string \<Rightarrow> error + string \<times> string" where
  "scheme_loop raw acc [] = Inr ([], raw)"
| "scheme_loop raw acc (c # s) =
     (if is_letter c then scheme_loop raw (c # acc) s
      else if is_digit c \<or> c \<in> set ''+-.''
      then if acc = [] then Inr ([], raw) else scheme_loop raw (c # acc) s
      else if c = CHR '':''
      then if acc = [] then Inl (Errorf ''missing protocol scheme'') else Inr (rev acc, s)
      else Inr ([], raw))"

definition getScheme :: "string \<Rightarrow> error + string \<times> string" where
  "getScheme rawURL = scheme_loop rawURL [] rawURL"

fun validOptionalPort :: "string \<Rightarrow> bool" where
  "validOptionalPort [] = True"
| "validOptionalPort (c # port) = (c = CHR '':'' \<and> list_all is_digit port)"

definition validUserinfo :: "string \<Rightarrow> bool" where
  "validUserinfo = list_all (\<lambda>c. is_letter c \<or> is_digit c \<or> c \<in> set (''-._:~!$&()*+,;=%@'' @ [CHR 0x27]))"

text \<open>The first occurrence of an escaped percent sign, where a zone begins.\<close>

fun find_zone :: "string \<Rightarrow> (string \<times> string) option" where
  "find_zone [] = None"
| "find_zone (c # s) =
     (if HasPrefix (c # s) ''%25'' then Some ([], c # s)
      else map_option (\<lambda>(a, b). (c # a, b)) (find_zone s))"

fun append_all :: "(error + string) list \<Rightarrow> error + string" where
  "append_all [] = Inr []"
| "append_all (Inl err # rs) = Inl err"
| "append_all (Inr s # rs) = (case append_all rs of Inl err \<Rightarrow> Inl err | Inr t \<Rightarrow> Inr (s @ t))"

definition parseHost :: "string \<Rightarrow> error + string" where
  "parseHost host =
     (if HasPrefix host ''[''
      then (case cut_last CHR '']'' host of
              None \<Rightarrow> Inl (Errorf ''missing ']' in host'')
            | Some (a, colonPort) \<Rightarrow>
                if \<not> validOptionalPort colonPort then Inl (Errorf ''invalid port %q after host'')
                else (case find_zone a of
                        Some (host1, host2) \<Rightarrow>
                          append_all [unescape encodeHost host1, unescape encodeZone host2,
                            unescape encodeHost (CHR '']'' # colonPort)]
                      | None \<Rightarrow> unescape encodeHost host))
      else (case cut_last CHR '':'' host of
              Some (a, port) \<Rightarrow>
                if \<not> validOptionalPort (CHR '':'' # port) then Inl (Errorf ''invalid port %q after host'')
                else unescape encodeHost host
            | None \<Rightarrow> unescape encodeHost host))"

definition parseUserinfo :: "string \<Rightarrow> error + string \<times> string option" where
  "parseUserinfo userinfo =
     (if \<not> validUserinfo userinfo then Inl (Errorf ''net/url: invalid userinfo'')
      else if CHR '':'' \<notin> set userinfo
      then (case unescape encodeUserPassword userinfo of Inl err \<Rightarrow> Inl err | Inr u \<Rightarrow> Inr (u, None))
      else (case Cut CHR '':'' userinfo of
              (username, password) \<Rightarrow>
                (case unescape encodeUserPassword username of
                   Inl err \<Rightarrow> Inl err
                 | Inr u \<Rightarrow>
                     (case unescape encodeUserPassword password of
                        Inl err \<Rightarrow> Inl err
                      | Inr p \<Rightarrow> Inr (u, Some p)))))"

definition parseAuthority :: "string \<Rightarrow> error + (string \<times> string option) option \<times> string" where
  "parseAuthority authority =
     (case cut_last CHR ''@'' authority of
        None \<Rightarrow> (case parseHost authority of Inl err \<Rightarrow> Inl err | Inr h \<Rightarrow> Inr (None, h))
      | Some (userinfo, host) \<Rightarrow>
          (case parseHost host of
             Inl err \<Rightarrow> Inl err
           | Inr h \<Rightarrow>
               (case parseUserinfo userinfo of Inl err \<Rightarrow> Inl err | Inr u \<Rightarrow> Inr (Some u, h))))"

text \<open>The path after the authority keeps its slash.\<close>

definition split_authority :: "string \<Rightarrow> string \<times> string" where
  "split_authority s = (takeWhile (\<lambda>c. c \<noteq> CHR ''/'') s, dropWhile (\<lambda>c. c \<noteq> CHR ''/'') s)"

definition split_query :: "string \<Rightarrow> bool \<times> string \<times> string" where
  "split_query rest =
     (if rest \<noteq> [] \<and> last rest = CHR ''?'' \<and> count_list rest CHR ''?'' = 1
      then (True, butlast rest, [])
      else (case Cut CHR ''?'' rest of (a, q) \<Rightarrow> (False, a, q)))"

definition setPath :: "url \<Rightarrow> string \<Rightarrow> error + url" where
  "setPath u p = (case unescape encodePath p of Inl err \<Rightarrow> Inl err | Inr path \<Rightarrow> Inr (u\<lparr>Path := path\<rparr>))"

definition parse_rest :: "url \<Rightarrow> string \<Rightarrow> error + url" where
  "parse_rest u rest =
     (if \<not> HasPrefix rest ''/'' \<and> Scheme u \<noteq> [] then Inr (u\<lparr>Opaque := rest\<rparr>)
      else if \<not> HasPrefix rest ''/'' \<and> CHR '':'' \<in> set (fst (Cut CHR ''/'' rest))
      then Inl (Errorf ''first path segment in URL cannot contain colon'')
      else if (Scheme u \<noteq> [] \<or> \<not> HasPrefix rest ''///'') \<and> HasPrefix rest ''//''
      then (case split_authority (drop 2 rest) of
              (authority, path) \<Rightarrow>
                (case parseAuthority authority of
                   Inl err \<Rightarrow> Inl err
                 | Inr (user, host) \<Rightarrow> setPath (u\<lparr>User := user, Host := host\<rparr>) path))
      else setPath u rest)"

definition url_parse :: "string \<Rightarrow> error + url" where
  "url_parse rawURL =
     (if list_ex CTLByte rawURL then Inl (Errorf ''net/url: invalid control character in URL'')
      else if rawURL = ''*'' then Inr (zero_url\<lparr>Path := ''*''\<rparr>)
      else (case getScheme rawURL of
              Inl err \<Rightarrow> Inl err
            | Inr (scheme, rest) \<Rightarrow>
                (case split_query rest of
                   (force, rest', q) \<Rightarrow>
                     parse_rest (zero_url\<lparr>Scheme := ToLower scheme, ForceQuery := force, RawQuery := q\<rparr>) rest')))"

definition url_Parse :: "string \<Rightarrow> error + url" where
  "url_Parse rawURL =
     (case Cut CHR ''#'' rawURL of
        (u, frag) \<Rightarrow>
          (case url_parse u of
             Inl err \<Rightarrow> Inl err
           | Inr url \<Rightarrow>
               if frag = [] then Inr url
               else (case unescape encodeFragment frag of
                       Inl err \<Rightarrow> Inl err
                     | Inr f \<Rightarrow> Inr (url\<lparr>Fragment := f\<rparr>))))"

section \<open>Laws\<close>

definition scheme_char :: "char \<Rightarrow> bool" where
  "scheme_char c \<longleftrightarrow> is_letter c \<or> is_digit c \<or> c \<in> set ''+-.''"

lemma scheme_loop_Inr:
  assumes "scheme_loop raw acc s = Inr (sch, rest)" and "sch \<noteq> []"
  shows "\<exists>t. s = t @ CHR '':'' # rest \<and> sch = rev acc @ t \<and> list_all scheme_char t \<and>
    (acc = [] \<longrightarrow> t \<noteq> [] \<and> is_letter (hd t))"
  using assms
proof (induction raw acc s rule: scheme_loop.induct)
  case (1 raw acc)
  then show ?case by simp
next
  case (2 raw acc c s)
  show ?case
  proof (cases "is_letter c \<or> acc \<noteq> [] \<and> (is_digit c \<or> c \<in> set ''+-.'')")
    case True
    with 2 obtain t where "s = t @ CHR '':'' # rest" "sch = rev (c # acc) @ t" "list_all scheme_char t"
      by (auto split: if_splits)
    moreover from True have "scheme_char c" by (auto simp: scheme_char_def)
    ultimately show ?thesis using True by (intro exI [of _ "c # t"]) auto
  next
    case False
    with 2 show ?thesis by (auto split: if_splits)
  qed
qed

lemma not_letter_colon: "\<not> is_letter CHR '':''" "\<not> is_digit CHR '':''"
  by (simp_all add: is_letter_def is_digit_def between_def)

lemma scheme_loop_colon:
  assumes "list_all scheme_char t" and "acc \<noteq> [] \<or> (t \<noteq> [] \<and> is_letter (hd t))"
  shows "scheme_loop raw acc (t @ CHR '':'' # rest) = Inr (rev acc @ t, rest)"
  using assms
  by (induction t arbitrary: acc) (auto simp: not_letter_colon scheme_char_def)

text \<open>
  The scheme of a parsed URL, if it has one, is what stands before the first colon, in lower case; it
  begins with a letter.
\<close>

lemma parse_rest_Scheme: "parse_rest u rest = Inr v \<Longrightarrow> Scheme v = Scheme u"
  by (auto simp: parse_rest_def setPath_def split: if_splits sum.splits prod.splits)

lemma url_Parse_Scheme:
  assumes "url_Parse s = Inr u" and "Scheme u \<noteq> []"
  shows "\<exists>sch r. fst (Cut CHR ''#'' s) = sch @ CHR '':'' # r \<and> list_all scheme_char sch \<and> is_letter (hd sch) \<and>
    Scheme u = ToLower sch"
proof -
  let ?raw = "fst (Cut CHR ''#'' s)"
  from assms(1) obtain v where v: "url_parse ?raw = Inr v" "Scheme v = Scheme u"
    by (auto simp: url_Parse_def split: prod.splits sum.splits if_splits)
  with assms(2) obtain sch r where g: "getScheme ?raw = Inr (sch, r)" and S: "Scheme u = ToLower sch"
    by (auto simp: url_parse_def zero_url_def split: if_splits sum.splits prod.splits dest!: parse_rest_Scheme)
  from S assms(2) have "sch \<noteq> []" by (auto simp: ToLower_def)
  from scheme_loop_Inr [OF g [unfolded getScheme_def] this] S show ?thesis by auto
qed

text \<open>A host of letters, digits, dashes and dots, with a path of the same characters, is accepted.\<close>

definition plain :: "char \<Rightarrow> bool" where
  "plain c \<longleftrightarrow> is_letter c \<or> is_digit c \<or> c \<in> set ''-.''"

lemma plain_facts:
  assumes "plain c"
  shows "c \<noteq> CHR ''%''" "c \<noteq> CHR '':''" "c \<noteq> CHR ''@''" "c \<noteq> CHR ''/''" "c \<noteq> CHR ''?''" "c \<noteq> CHR ''#''"
    "c \<noteq> CHR ''[''" "\<not> CTLByte c" "\<not> bad_plain mode c"
  using assms
  by (auto simp: plain_def is_letter_def is_digit_def between_def CTLByte_def bad_plain_def shouldEscape_def)

lemma unescape_plain: "list_all (\<lambda>c. c \<noteq> CHR ''%'' \<and> \<not> bad_plain mode c) s \<Longrightarrow> unescape mode s = Inr s"
  by (induction s) auto

lemma cut_last_free: "sep \<notin> set s \<Longrightarrow> cut_last sep s = None"
  by (induction s) auto

lemma Cut_free: "sep \<notin> set s \<Longrightarrow> Cut sep s = (s, [])"
  by (induction s) auto

lemma parseAuthority_plain:
  assumes "list_all plain h"
  shows "parseAuthority h = Inr (None, h)"
proof -
  have pl: "c \<in> set h \<Longrightarrow> plain c" for c using assms by (simp add: list_all_iff)
  have "CHR ''@'' \<notin> set h" "CHR '':'' \<notin> set h" using plain_facts(2,3) [OF pl] by blast+
  moreover have "\<not> HasPrefix h ''[''" using plain_facts(7) [OF pl] by (force simp: HasPrefix_iff)
  moreover have "unescape encodeHost h = Inr h"
    by (rule unescape_plain) (simp add: list_all_iff plain_facts(1,9) [OF pl])
  ultimately show ?thesis by (simp add: parseAuthority_def parseHost_def cut_last_free)
qed

lemma https_letters: "list_all scheme_char ''https''" "is_letter (hd ''https'')"
  by (simp_all add: scheme_char_def is_letter_def between_def)

lemma url_Parse_https:
  assumes "list_all plain h" and "list_all plain p"
  shows "url_Parse (''https://'' @ h @ CHR ''/'' # p) =
    Inr (zero_url\<lparr>Scheme := ''https'', Host := h, Path := CHR ''/'' # p\<rparr>)"
proof -
  let ?rest = "''//'' @ h @ CHR ''/'' # p"
  have chars: "c \<noteq> CHR ''%'' \<and> c \<noteq> CHR ''?'' \<and> c \<noteq> CHR ''#'' \<and> \<not> CTLByte c \<and> (c \<in> set h \<longrightarrow> c \<noteq> CHR ''/'')"
    if "c \<in> set (h @ p)" for c
  proof -
    from that assms have "plain c" by (auto simp: list_all_iff)
    from plain_facts [OF this] show ?thesis by simp
  qed
  have nq: "CHR ''?'' \<notin> set ?rest" and nf: "CHR ''#'' \<notin> set (''https:'' @ ?rest)" using chars by auto
  have ctl: "\<not> list_ex CTLByte (''https:'' @ ?rest)" using chars by (auto simp: list_ex_iff CTLByte_def)
  have "getScheme (''https:'' @ ?rest) = Inr (''https'', ?rest)"
    using scheme_loop_colon [OF https_letters(1), of "[]" "''https:'' @ ?rest" ?rest] https_letters(2)
    by (simp add: getScheme_def)
  moreover have "split_query ?rest = (False, ?rest, [])"
    using nq by (auto simp: split_query_def Cut_free count_list_0_iff)
  moreover have "ToLower ''https'' = ''https''" by (simp add: ToLower_def between_def)
  moreover have "split_authority (drop 2 ?rest) = (h, CHR ''/'' # p)"
    using chars by (auto simp: split_authority_def takeWhile_append dropWhile_append)
  moreover have "unescape encodePath (CHR ''/'' # p) = Inr (CHR ''/'' # p)"
    using chars by (intro unescape_plain) (auto simp: list_all_iff bad_plain_def)
  ultimately have "url_parse (''https:'' @ ?rest) = Inr (zero_url\<lparr>Scheme := ''https'', Host := h, Path := CHR ''/'' # p\<rparr>)"
    using ctl parseAuthority_plain [OF assms(1)]
    by (simp add: url_parse_def parse_rest_def HasPrefix_def setPath_def zero_url_def)
  with Cut_free [OF nf] show ?thesis by (simp add: url_Parse_def)
qed

end
