(* ===== verification/AuthOptions.thy ===== *)
theory AuthOptions
  imports GoUrl
begin

text \<open>
  The authorization and authentication options of the API server,
  \<^verbatim>\<open>src/server/apiserver/options/authorization.go\<close> and \<^verbatim>\<open>authentication.go\<close>: defaults,
  validation, translation into the authenticator's configuration, and how the authorization
  modes switch anonymous requests off. A pointer field is an option, a list of errors is the
  list of format strings of the errors the code appends. Durations are nanoseconds.

  The mode names and their validity test, the two option structs of the generic API server
  (client certificates \<open>'c\<close> and request headers \<open>'h\<close>) with their conversions, and the
  constructor of the authenticator are not part of the repository; they are arguments. The URLs
  of the service account options are parsed by the standard library's parser, \<^verbatim>\<open>GoUrl\<close>.
\<close>

type_synonym duration = int

definition Second :: duration where "Second = 1000000000"
definition Minute :: duration where "Minute = 60 * Second"
definition Hour :: duration where "Hour = 60 * Minute"

record Backoff =
  Steps :: int

section \<open>Authorization\<close>

record authzmodes =
  ModeAlwaysAllow :: string
  ModeABAC :: string
  ModeWebhook :: string
  IsValidAuthorizationMode :: "string \<Rightarrow> bool"

record BuiltInAuthorizationOptions =
  Modes :: "string list"
  PolicyFile :: string
  WebhookConfigFile :: string
  WebhookVersion :: string
  WebhookCacheAuthorizedTTL :: duration
  WebhookCacheUnauthorizedTTL :: duration
  WebhookRetryBackoff :: "Backoff option"

definition NewBuiltInAuthorizationOptions :: "authzmodes \<Rightarrow> Backoff option \<Rightarrow> BuiltInAuthorizationOptions" where
  "NewBuiltInAuthorizationOptions Z DefaultAuthWebhookRetryBackoff =
     \<lparr>Modes = [ModeAlwaysAllow Z], PolicyFile = [], WebhookConfigFile = [],
      WebhookVersion = ''v1beta1'', WebhookCacheAuthorizedTTL = 5 * Minute,
      WebhookCacheUnauthorizedTTL = 30 * Second,
      WebhookRetryBackoff = DefaultAuthWebhookRetryBackoff\<rparr>"

text \<open>\<open>if cond { allErrors = append(allErrors, ...) }\<close>\<close>

definition complain :: "bool \<Rightarrow> string \<Rightarrow> string list" where
  "complain cond msg = (if cond then [msg] else [])"

fun mode_errors :: "authzmodes \<Rightarrow> BuiltInAuthorizationOptions \<Rightarrow> string list \<Rightarrow> string list" where
  "mode_errors Z opt [] = []"
| "mode_errors Z opt (mode # ms) =
     complain (\<not> IsValidAuthorizationMode Z mode) ''authorization-mode %q is not a valid mode'' @
     complain (mode = ModeABAC Z \<and> PolicyFile opt = [])
       ''authorization-mode ABAC's authorization policy file not passed'' @
     complain (mode = ModeWebhook Z \<and> WebhookConfigFile opt = [])
       ''authorization-mode Webhook's authorization config file not passed'' @
     mode_errors Z opt ms"

fun bad_backoff :: "Backoff option \<Rightarrow> bool" where
  "bad_backoff None = False"
| "bad_backoff (Some b) = (Steps b \<le> 0)"

fun authorization_Validate :: "authzmodes \<Rightarrow> BuiltInAuthorizationOptions option \<Rightarrow> string list" where
  "authorization_Validate Z None = []"
| "authorization_Validate Z (Some opt) =
     complain (length (Modes opt) = 0) ''at least one authorization-mode must be passed'' @
     mode_errors Z opt (Modes opt) @
     complain (PolicyFile opt \<noteq> [] \<and> ModeABAC Z \<notin> set (Modes opt))
       ''cannot specify --authorization-policy-file without mode ABAC'' @
     complain (WebhookConfigFile opt \<noteq> [] \<and> ModeWebhook Z \<notin> set (Modes opt))
       ''cannot specify --authorization-webhook-config-file without mode Webhook'' @
     complain (length (Modes opt) \<noteq> length (remdups (Modes opt)))
       ''authorization-mode %q has mode specified more than once'' @
     complain (bad_backoff (WebhookRetryBackoff opt))
       ''number of webhook retry attempts must be greater than 0, but is: %d''"

record 'f authorizer_Config =
  AuthorizationModes :: "string list"
  ac_PolicyFile :: string
  ac_WebhookConfigFile :: string
  ac_WebhookVersion :: string
  ac_WebhookCacheAuthorizedTTL :: duration
  ac_WebhookCacheUnauthorizedTTL :: duration
  VersionedInformerFactory :: 'f
  ac_WebhookRetryBackoff :: "Backoff option"

definition ToAuthorizationConfig :: "BuiltInAuthorizationOptions \<Rightarrow> 'f \<Rightarrow> 'f authorizer_Config" where
  "ToAuthorizationConfig opt informers =
     \<lparr>AuthorizationModes = Modes opt, ac_PolicyFile = PolicyFile opt,
      ac_WebhookConfigFile = WebhookConfigFile opt, ac_WebhookVersion = WebhookVersion opt,
      ac_WebhookCacheAuthorizedTTL = WebhookCacheAuthorizedTTL opt,
      ac_WebhookCacheUnauthorizedTTL = WebhookCacheUnauthorizedTTL opt,
      VersionedInformerFactory = informers, ac_WebhookRetryBackoff = WebhookRetryBackoff opt\<rparr>"

section \<open>Authentication options\<close>

record OIDCAuthenticationOptions =
  CAFile :: string
  ClientID :: string
  IssuerURL :: string
  UsernameClaim :: string
  UsernamePrefix :: string
  GroupsClaim :: string
  GroupsPrefix :: string
  SigningAlgs :: "string list"
  RequiredClaims :: "(string \<times> string) list"

record ServiceAccountAuthenticationOptions =
  KeyFiles :: "string list"
  Lookup :: bool
  Issuers :: "string list"
  JWKSURI :: string
  MaxExpiration :: duration
  ExtendExpiration :: bool

record WebHookAuthenticationOptions =
  ConfigFile :: string
  wh_Version :: string
  CacheTTL :: duration
  RetryBackoff :: "Backoff option"

record ('c, 'h) BuiltInAuthenticationOptions =
  APIAudiences :: "string list"
  Anonymous :: "bool option" \<comment> \<open>\<open>Allow\<close>\<close>
  BootstrapToken :: "bool option" \<comment> \<open>\<open>Enable\<close>\<close>
  ClientCert :: "'c option"
  OIDC :: "OIDCAuthenticationOptions option"
  RequestHeader :: "'h option"
  ServiceAccounts :: "ServiceAccountAuthenticationOptions option"
  TokenFile :: "string option"
  WebHook :: "WebHookAuthenticationOptions option"
  TokenSuccessCacheTTL :: duration
  TokenFailureCacheTTL :: duration

definition NewBuiltInAuthenticationOptions :: "('c, 'h) BuiltInAuthenticationOptions" where
  "NewBuiltInAuthenticationOptions =
     \<lparr>APIAudiences = [], Anonymous = None, BootstrapToken = None, ClientCert = None, OIDC = None,
      RequestHeader = None, ServiceAccounts = None, TokenFile = None, WebHook = None,
      TokenSuccessCacheTTL = 10 * Second, TokenFailureCacheTTL = 0 * Second\<rparr>"

type_synonym ('c, 'h) setter = "('c, 'h) BuiltInAuthenticationOptions \<Rightarrow> ('c, 'h) BuiltInAuthenticationOptions"

definition WithAnonymous :: "('c, 'h) setter" where
  "WithAnonymous opt = opt\<lparr>Anonymous := Some True\<rparr>"

definition WithBootstrapToken :: "('c, 'h) setter" where
  "WithBootstrapToken opt = opt\<lparr>BootstrapToken := Some False\<rparr>"

definition WithClientCert :: "'c \<Rightarrow> ('c, 'h) setter" where
  "WithClientCert zero opt = opt\<lparr>ClientCert := Some zero\<rparr>"

definition zero_OIDC :: OIDCAuthenticationOptions where
  "zero_OIDC = \<lparr>CAFile = [], ClientID = [], IssuerURL = [], UsernameClaim = [],
     UsernamePrefix = [], GroupsClaim = [], GroupsPrefix = [], SigningAlgs = [], RequiredClaims = []\<rparr>"

definition zero_WebHook :: WebHookAuthenticationOptions where
  "zero_WebHook = \<lparr>ConfigFile = [], wh_Version = [], CacheTTL = 0, RetryBackoff = None\<rparr>"

definition WithOIDC :: "('c, 'h) setter" where
  "WithOIDC opt = opt\<lparr>OIDC := Some zero_OIDC\<rparr>"

definition WithRequestHeader :: "'h \<Rightarrow> ('c, 'h) setter" where
  "WithRequestHeader zero opt = opt\<lparr>RequestHeader := Some zero\<rparr>"

definition WithServiceAccounts :: "('c, 'h) setter" where
  "WithServiceAccounts opt = opt\<lparr>ServiceAccounts := Some \<lparr>KeyFiles = [], Lookup = True, Issuers = [],
     JWKSURI = [], MaxExpiration = 0, ExtendExpiration = True\<rparr>\<rparr>"

definition WithTokenFile :: "('c, 'h) setter" where
  "WithTokenFile opt = opt\<lparr>TokenFile := Some []\<rparr>"

definition WithWebHook :: "Backoff option \<Rightarrow> ('c, 'h) setter" where
  "WithWebHook DefaultAuthWebhookRetryBackoff opt = opt\<lparr>WebHook := Some (zero_WebHook\<lparr>
     wh_Version := ''v1beta1'', CacheTTL := 2 * Minute, RetryBackoff := DefaultAuthWebhookRetryBackoff\<rparr>)\<rparr>"

definition WithAll :: "'c \<Rightarrow> 'h \<Rightarrow> Backoff option \<Rightarrow> ('c, 'h) setter" where
  "WithAll c0 h0 backoff opt =
     WithWebHook backoff (WithTokenFile (WithServiceAccounts (WithRequestHeader h0
       (WithOIDC (WithClientCert c0 (WithBootstrapToken (WithAnonymous opt)))))))"

lemmas with_all_defs = WithAll_def WithWebHook_def WithTokenFile_def WithServiceAccounts_def
  WithRequestHeader_def WithOIDC_def WithClientCert_def WithBootstrapToken_def WithAnonymous_def
  NewBuiltInAuthenticationOptions_def

section \<open>Validation\<close>

fun is_Inl :: "'a + 'b \<Rightarrow> bool" where
  "is_Inl (Inl a) = True"
| "is_Inl (Inr b) = False"

fun oidc_incomplete :: "OIDCAuthenticationOptions option \<Rightarrow> bool" where
  "oidc_incomplete None = False"
| "oidc_incomplete (Some d) = ((length (IssuerURL d) > 0) \<noteq> (length (ClientID d) > 0))"

text \<open>The loop over the issuers, with the map \<open>seen\<close> as the list of its keys.\<close>

fun issuer_errors :: "string list \<Rightarrow> string list \<Rightarrow> string list" where
  "issuer_errors [] seen = []"
| "issuer_errors (issuer # issuers) seen =
     (if CHR '':'' \<in> set issuer \<and> is_Inl (url_Parse issuer)
      then ''service-account-issuer %q contained a ':' but was not a valid URL: %v'' #
        issuer_errors issuers seen
      else if issuer = []
      then ''service-account-issuer should not be an empty string'' # issuer_errors issuers seen
      else if issuer \<in> set seen
      then ''service-account-issuer %q is already specified'' # issuer_errors issuers seen
      else issuer_errors issuers (issuer # seen))"

definition jwks_errors :: "string \<Rightarrow> string list" where
  "jwks_errors uri =
     (if uri = [] then []
      else (case url_Parse uri of
              Inl err \<Rightarrow> [''service-account-jwks-uri must be a valid URL: %v'']
            | Inr u \<Rightarrow> complain (Scheme u \<noteq> ''https'')
                ''service-account-jwks-uri requires https scheme, parsed as: %v''))"

fun serviceaccount_errors :: "ServiceAccountAuthenticationOptions option \<Rightarrow> string list" where
  "serviceaccount_errors None = []"
| "serviceaccount_errors (Some sa) =
     (if length (Issuers sa) > 0 then issuer_errors (Issuers sa) [] else []) @
     complain (length (Issuers sa) = 0) ''service-account-issuer is a required flag'' @
     complain (length (KeyFiles sa) = 0) ''service-account-key-file is a required flag'' @
     jwks_errors (JWKSURI sa)"

fun webhook_errors :: "WebHookAuthenticationOptions option \<Rightarrow> string list" where
  "webhook_errors None = []"
| "webhook_errors (Some wh) =
     complain (bad_backoff (RetryBackoff wh))
       ''number of webhook retry attempts must be greater than 0, but is: %d''"

definition authentication_Validate :: "('c, 'h) BuiltInAuthenticationOptions \<Rightarrow> string list" where
  "authentication_Validate opt =
     complain (oidc_incomplete (OIDC opt)) ''oidc-issuer-url and oidc-client-id should be specified together'' @
     serviceaccount_errors (ServiceAccounts opt) @
     webhook_errors (WebHook opt)"

section \<open>The authenticator's configuration\<close>

record ('ca, 'rh) authenticator_Config =
  cfg_Anonymous :: bool
  cfg_BootstrapToken :: bool
  ClientCAContentProvider :: "'ca option"
  cfg_OIDC :: OIDCAuthenticationOptions \<comment> \<open>the nine \<open>OIDC*\<close> fields\<close>
  RequestHeaderConfig :: "'rh option"
  cfg_APIAudiences :: "string list"
  ServiceAccountKeyFiles :: "string list"
  ServiceAccountIssuers :: "string list"
  ServiceAccountLookup :: bool
  TokenAuthFile :: string
  cfg_WebHook :: WebHookAuthenticationOptions \<comment> \<open>the four \<open>Webhook*\<close> fields\<close>
  cfg_TokenSuccessCacheTTL :: duration
  cfg_TokenFailureCacheTTL :: duration

text \<open>The conversions of the two foreign option structs; \<open>None\<close> is a nil provider.\<close>

record ('c, 'h, 'ca, 'rh) auth_env =
  GetClientCAContentProvider :: "'c \<Rightarrow> error + 'ca option"
  ToAuthenticationRequestHeaderConfig :: "'h \<Rightarrow> error + 'rh option"
  CAContentProvider :: "'rh \<Rightarrow> 'ca option"

fun convert :: "('x \<Rightarrow> error + 'y option) \<Rightarrow> 'x option \<Rightarrow> error + 'y option" where
  "convert f None = Inr None"
| "convert f (Some x) = f x"

definition audiences :: "('c, 'h) BuiltInAuthenticationOptions \<Rightarrow> string list" where
  "audiences opt =
     (case ServiceAccounts opt of
        None \<Rightarrow> APIAudiences opt
      | Some sa \<Rightarrow> if length (Issuers sa) \<noteq> 0 \<and> length (APIAudiences opt) = 0
                   then Issuers sa else APIAudiences opt)"

definition ToAuthenticationConfig ::
  "('c, 'h, 'ca, 'rh) auth_env \<Rightarrow> ('c, 'h) BuiltInAuthenticationOptions \<Rightarrow>
   error + ('ca, 'rh) authenticator_Config" where
  "ToAuthenticationConfig E opt =
     (case convert (GetClientCAContentProvider E) (ClientCert opt) of
        Inl err \<Rightarrow> Inl err
      | Inr ca \<Rightarrow>
          (case convert (ToAuthenticationRequestHeaderConfig E) (RequestHeader opt) of
             Inl err \<Rightarrow> Inl err
           | Inr rh \<Rightarrow> Inr
               \<lparr>cfg_Anonymous = (case Anonymous opt of None \<Rightarrow> False | Some allow \<Rightarrow> allow),
                cfg_BootstrapToken = (case BootstrapToken opt of None \<Rightarrow> False | Some enable \<Rightarrow> enable),
                ClientCAContentProvider = ca,
                cfg_OIDC = (case OIDC opt of None \<Rightarrow> zero_OIDC | Some d \<Rightarrow> d),
                RequestHeaderConfig = rh,
                cfg_APIAudiences = audiences opt,
                ServiceAccountKeyFiles = (case ServiceAccounts opt of None \<Rightarrow> [] | Some sa \<Rightarrow> KeyFiles sa),
                ServiceAccountIssuers = (case ServiceAccounts opt of None \<Rightarrow> [] | Some sa \<Rightarrow> Issuers sa),
                ServiceAccountLookup = (case ServiceAccounts opt of None \<Rightarrow> False | Some sa \<Rightarrow> Lookup sa),
                TokenAuthFile = (case TokenFile opt of None \<Rightarrow> [] | Some f \<Rightarrow> f),
                cfg_WebHook = (case WebHook opt of None \<Rightarrow> zero_WebHook | Some wh \<Rightarrow> wh),
                cfg_TokenSuccessCacheTTL = TokenSuccessCacheTTL opt,
                cfg_TokenFailureCacheTTL = TokenFailureCacheTTL opt\<rparr>))"

definition ApplyAuthorization ::
  "authzmodes \<Rightarrow> BuiltInAuthorizationOptions option \<Rightarrow> ('c, 'h) BuiltInAuthenticationOptions option \<Rightarrow>
   ('c, 'h) BuiltInAuthenticationOptions option" where
  "ApplyAuthorization Z authorization opt =
     (case opt of
        None \<Rightarrow> None
      | Some opt' \<Rightarrow>
          (case authorization of
             None \<Rightarrow> Some opt'
           | Some az \<Rightarrow>
               (case Anonymous opt' of
                  None \<Rightarrow> Some opt'
                | Some allow \<Rightarrow>
                    if allow \<and> ModeAlwaysAllow Z \<in> set (Modes az)
                    then Some (opt'\<lparr>Anonymous := Some False\<rparr>) else Some opt')))"

section \<open>Lemmas\<close>

lemma complain_Nil [simp]: "complain c m = [] \<longleftrightarrow> \<not> c"
  by (simp add: complain_def)

lemma mode_errors_Nil:
  "mode_errors Z opt ms = [] \<longleftrightarrow>
     (\<forall>m\<in>set ms. IsValidAuthorizationMode Z m \<and> (m = ModeABAC Z \<longrightarrow> PolicyFile opt \<noteq> []) \<and>
        (m = ModeWebhook Z \<longrightarrow> WebhookConfigFile opt \<noteq> []))"
  by (induction ms) auto

lemma length_remdups_distinct: "length xs = length (remdups xs) \<longleftrightarrow> distinct xs"
  by (metis length_remdups_eq remdups_id_iff_distinct)

lemma issuer_errors_Nil:
  "issuer_errors is seen = [] \<longleftrightarrow>
     distinct is \<and> set is \<inter> set seen = {} \<and>
     (\<forall>i\<in>set is. i \<noteq> [] \<and> (CHR '':'' \<in> set i \<longrightarrow> \<not> is_Inl (url_Parse i)))"
  by (induction "is" arbitrary: seen) auto

lemma jwks_errors_Nil:
  "jwks_errors uri = [] \<longleftrightarrow> uri = [] \<or> (\<exists>u. url_Parse uri = Inr u \<and> Scheme u = ''https'')"
  by (auto simp: jwks_errors_def split: sum.splits)

lemmas validation_Nil = mode_errors_Nil issuer_errors_Nil jwks_errors_Nil length_remdups_distinct

section \<open>Applying the authentication options\<close>

text \<open>
  What \<open>ApplyTo\<close> writes: the serving state \<open>'i\<close> that \<open>ApplyClientCert\<close> extends, the audiences and
  the authenticator of the server, and the security definitions of the two OpenAPI
  configurations (\<open>None\<close>: the pointer is nil).
\<close>

record ('i, 'a, 'sd) auth_target =
  serving :: 'i
  ai_APIAudiences :: "string list"
  ai_Authenticator :: "'a option"
  openAPIConfig :: "'sd option"
  openAPIV3Config :: "'sd option"

text \<open>\<open>New\<close> gets the configuration and the dialer, if an egress selector gave one.\<close>

record ('ca, 'rh, 'i, 'a, 'sd, 'd) authn_library =
  ApplyClientCert :: "'ca \<Rightarrow> 'i \<Rightarrow> error option \<times> 'i"
  NewAuthenticator :: "('ca, 'rh) authenticator_Config \<Rightarrow> 'd option \<Rightarrow> 'a option \<times> 'sd \<times> error option"

fun apply_cert ::
  "('ca \<Rightarrow> 'i \<Rightarrow> error option \<times> 'i) \<Rightarrow> 'ca option \<Rightarrow> 'i \<Rightarrow> error option \<times> 'i" where
  "apply_cert f None i = (None, i)"
| "apply_cert f (Some ca) i =
     (case f ca i of
        (Some err, i') \<Rightarrow> (Some (Errorf ''unable to load client CA file: %v''), i')
      | (None, i') \<Rightarrow> (None, i'))"

fun egress_dialer :: "(error + 'd) option \<Rightarrow> error + 'd option" where
  "egress_dialer None = Inr None"
| "egress_dialer (Some (Inl err)) = Inl err"
| "egress_dialer (Some (Inr d)) = Inr (Some d)"

definition authentication_ApplyTo ::
  "('c, 'h, 'ca, 'rh) auth_env \<Rightarrow> ('ca, 'rh, 'i, 'a, 'sd, 'd) authn_library \<Rightarrow>
   ('c, 'h) BuiltInAuthenticationOptions option \<Rightarrow> (error + 'd) option \<Rightarrow>
   ('i, 'a, 'sd) auth_target \<Rightarrow> error option \<times> ('i, 'a, 'sd) auth_target" where
  "authentication_ApplyTo E L o' egressSelector t =
     (case o' of
        None \<Rightarrow> (None, t)
      | Some opt \<Rightarrow>
          if openAPIConfig t = None then (Some (Errorf ''uninitialized OpenAPIConfig''), t)
          else
            (case ToAuthenticationConfig E opt of
               Inl err \<Rightarrow> (Some err, t)
             | Inr cfg \<Rightarrow>
                 (case apply_cert (ApplyClientCert L) (ClientCAContentProvider cfg) (serving t) of
                    (Some err, i1) \<Rightarrow> (Some err, t\<lparr>serving := i1\<rparr>)
                  | (None, i1) \<Rightarrow>
                      (case apply_cert (ApplyClientCert L)
                              (Option.bind (RequestHeaderConfig cfg) (CAContentProvider E)) i1 of
                         (Some err, i2) \<Rightarrow> (Some err, t\<lparr>serving := i2\<rparr>)
                       | (None, i2) \<Rightarrow>
                           (let t2 = t\<lparr>serving := i2, ai_APIAudiences := audiences opt\<rparr>
                            in case egress_dialer egressSelector of
                                 Inl err \<Rightarrow> (Some err, t2)
                               | Inr dial \<Rightarrow>
                                   (case NewAuthenticator L cfg dial of
                                      (a, sd, err) \<Rightarrow>
                                        (err, t2\<lparr>ai_Authenticator := a, openAPIConfig := Some sd,
                                          openAPIV3Config := map_option (\<lambda>_. sd) (openAPIV3Config t2)\<rparr>)))))))"

lemma authentication_ApplyTo_success:
  assumes "authentication_ApplyTo E L (Some opt) egress t = (None, t')"
  shows "ai_APIAudiences t' = audiences opt"
    and "\<exists>cfg dial sd. ToAuthenticationConfig E opt = Inr cfg \<and> egress_dialer egress = Inr dial \<and>
      NewAuthenticator L cfg dial = (ai_Authenticator t', sd, None) \<and>
      openAPIConfig t' = Some sd \<and> openAPIV3Config t' = map_option (\<lambda>_. sd) (openAPIV3Config t)"
  using assms
  by (auto simp: authentication_ApplyTo_def Let_def split: if_splits sum.splits prod.splits option.splits)

lemma apply_cert_None: "fst (apply_cert f ca i) = None \<longleftrightarrow> (\<forall>c. ca = Some c \<longrightarrow> fst (f c i) = None)"
  by (cases ca) (auto split: prod.splits option.splits)

section \<open>Properties\<close>

text \<open>
  The authorization options are accepted exactly if they name at least one mode, no mode twice
  and only valid ones, give a policy file exactly with mode ABAC and a webhook configuration
  exactly with mode Webhook, and allow at least one webhook attempt.
\<close>

theorem authorization_valid_iff:
  "authorization_Validate Z (Some opt) = [] \<longleftrightarrow>
     Modes opt \<noteq> [] \<and> distinct (Modes opt) \<and> list_all (IsValidAuthorizationMode Z) (Modes opt) \<and>
     (ModeABAC Z \<in> set (Modes opt)) = (PolicyFile opt \<noteq> []) \<and>
     (ModeWebhook Z \<in> set (Modes opt)) = (WebhookConfigFile opt \<noteq> []) \<and>
     \<not> bad_backoff (WebhookRetryBackoff opt)"
  by (auto simp: validation_Nil list_all_iff)

lemma oidc_complete_iff:
  "\<not> oidc_incomplete oidc \<longleftrightarrow>
     (case oidc of None \<Rightarrow> True | Some d \<Rightarrow> (IssuerURL d = []) = (ClientID d = []))"
  by (cases oidc) auto

lemma good_backoff_iff:
  "\<not> bad_backoff backoff \<longleftrightarrow> (case backoff of None \<Rightarrow> True | Some b \<Rightarrow> Steps b > 0)"
  by (cases backoff) auto

text \<open>
  C40. The authentication options are accepted exactly if the OIDC issuer URL and client id are
  both given or both empty, a webhook with a retry backoff has a positive number of steps, and
  the service accounts, if configured, have at least one key file, at least one issuer, all
  issuers different, non-empty and, if they contain a colon, parsable, and a JWKS address that is
  absent or an https URL.
\<close>

theorem authentication_valid_iff:
  "authentication_Validate opt = [] \<longleftrightarrow>
     (case OIDC opt of None \<Rightarrow> True | Some oidc \<Rightarrow> (IssuerURL oidc = []) = (ClientID oidc = [])) \<and>
     (case WebHook opt of None \<Rightarrow> True
      | Some wh \<Rightarrow> (case RetryBackoff wh of None \<Rightarrow> True | Some backoff \<Rightarrow> Steps backoff > 0)) \<and>
     (case ServiceAccounts opt of
        None \<Rightarrow> True
      | Some sa \<Rightarrow> KeyFiles sa \<noteq> [] \<and> Issuers sa \<noteq> [] \<and> distinct (Issuers sa) \<and>
          list_all (\<lambda>i. i \<noteq> [] \<and> \<not> (CHR '':'' \<in> set i \<and> is_Inl (url_Parse i))) (Issuers sa) \<and>
          (JWKSURI sa = [] \<or> (\<exists>u. url_Parse (JWKSURI sa) = Inr u \<and> Scheme u = ''https'')))"
  by (cases "ServiceAccounts opt"; cases "WebHook opt")
    (auto simp: authentication_Validate_def validation_Nil list_all_iff oidc_complete_iff good_backoff_iff)

text \<open>
  Building the authenticator's configuration fails only if one of the two foreign option
  structs cannot be converted. Applying the options gives the server the same audiences as the
  authenticator: those configured, or the issuers if none are configured.
\<close>

theorem authenticator_audiences:
  assumes "authentication_ApplyTo E L (Some opt) egress t = (None, t')"
  shows "\<exists>cfg dial sd. ToAuthenticationConfig E opt = Inr cfg \<and>
    NewAuthenticator L cfg dial = (ai_Authenticator t', sd, None) \<and>
    ai_APIAudiences t' = cfg_APIAudiences cfg \<and>
    cfg_APIAudiences cfg = (if APIAudiences opt = [] then ServiceAccountIssuers cfg else APIAudiences opt)"
proof -
  from authentication_ApplyTo_success [OF assms] obtain cfg dial sd where
    cfg: "ToAuthenticationConfig E opt = Inr cfg" "NewAuthenticator L cfg dial = (ai_Authenticator t', sd, None)"
    and aud: "ai_APIAudiences t' = audiences opt" by blast
  from cfg(1) have "cfg_APIAudiences cfg = audiences opt"
    and "ServiceAccountIssuers cfg = (case ServiceAccounts opt of None \<Rightarrow> [] | Some sa \<Rightarrow> Issuers sa)"
    by (auto simp: ToAuthenticationConfig_def split: sum.splits)
  moreover from this(2) have "audiences opt = (if APIAudiences opt = [] then ServiceAccountIssuers cfg else APIAudiences opt)"
    by (auto simp: audiences_def split: option.splits)
  ultimately show ?thesis using cfg aud by auto
qed

definition sample_auth :: "(unit, unit) BuiltInAuthenticationOptions" where
  "sample_auth = WithAll () () None NewBuiltInAuthenticationOptions
     \<lparr>ServiceAccounts := Some \<lparr>KeyFiles = [''sa.pub''], Lookup = True, Issuers = [''https://hub''],
        JWKSURI = [], MaxExpiration = 0, ExtendExpiration = True\<rparr>\<rparr>"

theorem authenticator_audiences_witness:
  "\<exists>t'. authentication_ApplyTo
       \<lparr>GetClientCAContentProvider = (\<lambda>_. Inr (None :: unit option)),
        ToAuthenticationRequestHeaderConfig = (\<lambda>_. Inr (None :: unit option)), CAContentProvider = (\<lambda>_. None)\<rparr>
       \<lparr>ApplyClientCert = (\<lambda>_ i. (None, i)), NewAuthenticator = (\<lambda>_ (_ :: unit option). (Some (), (), None))\<rparr>
       (Some sample_auth) None
       \<lparr>serving = (), ai_APIAudiences = [], ai_Authenticator = None, openAPIConfig = Some (), openAPIV3Config = None\<rparr> =
       (None, t') \<and> ai_APIAudiences t' = [''https://hub'']"
proof -
  let ?E = "\<lparr>GetClientCAContentProvider = (\<lambda>_. Inr (None :: unit option)),
        ToAuthenticationRequestHeaderConfig = (\<lambda>_. Inr (None :: unit option)), CAContentProvider = (\<lambda>_. None)\<rparr>"
  let ?L = "\<lparr>ApplyClientCert = (\<lambda>_ i. (None, i)), NewAuthenticator = (\<lambda>_ (_ :: unit option). (Some (), (), None))\<rparr>"
  let ?t = "\<lparr>serving = (), ai_APIAudiences = [], ai_Authenticator = None, openAPIConfig = Some (), openAPIV3Config = None\<rparr>"
  obtain t' where run: "authentication_ApplyTo ?E ?L (Some sample_auth) None ?t = (None, t')"
  proof -
    have "fst (authentication_ApplyTo ?E ?L (Some sample_auth) None ?t) = None"
      by (simp add: authentication_ApplyTo_def ToAuthenticationConfig_def sample_auth_def with_all_defs)
    then show thesis by (metis prod.collapse that)
  qed
  from authenticator_audiences [OF this] obtain cfg where
    cfg: "ToAuthenticationConfig ?E sample_auth = Inr cfg" "ai_APIAudiences t' = cfg_APIAudiences cfg"
      "cfg_APIAudiences cfg = (if APIAudiences sample_auth = [] then ServiceAccountIssuers cfg else APIAudiences sample_auth)"
    by blast
  moreover have "APIAudiences sample_auth = []" and "ServiceAccountIssuers cfg = [''https://hub'']"
    using cfg(1)
    by (auto simp: ToAuthenticationConfig_def sample_auth_def with_all_defs)
  ultimately show ?thesis using run by auto
qed

end
