(* ===== verification/KubeControllerOptions.thy ===== *)
theory KubeControllerOptions
  imports AuthOptions
begin

text \<open>
  The options of the Kubernetes controllers that run inside the server,
  \<^verbatim>\<open>src/server/controllers/kubecontroller/options\<close> and \<^verbatim>\<open>config\<close>: which files sign certificates,
  the validation of that choice, and the configuration that is made of the options. The default
  configuration comes from the scheme of Kubernetes and the generic options belong to its
  controller manager library; both are arguments. A receiver that may be nil is an option.
\<close>

section \<open>Configuration\<close>

record CSRSigningConfiguration =
  sc_CertFile :: string
  sc_KeyFile :: string

record CSRSigningControllerConfiguration =
  ClusterSigningCertFile :: string
  ClusterSigningKeyFile :: string
  KubeletServingSigner :: CSRSigningConfiguration
  KubeletClientSigner :: CSRSigningConfiguration
  KubeAPIServerClientSigner :: CSRSigningConfiguration
  LegacyUnknownSigner :: CSRSigningConfiguration
  ClusterSigningDuration :: duration

record GroupResource =
  gr_Group :: string
  gr_Resource :: string

record GarbageCollectorControllerConfiguration =
  EnableGarbageCollector :: bool
  ConcurrentGCSyncs :: int
  GCIgnoredResources :: "GroupResource list"

record NamespaceControllerConfiguration =
  NamespaceSyncPeriod :: duration
  ConcurrentNamespaceSyncs :: int

record 'g KubeControllerManagerConfiguration =
  cc_Generic :: 'g
  cc_CSRSigning :: CSRSigningControllerConfiguration
  cc_GarbageCollector :: GarbageCollectorControllerConfiguration
  cc_Namespace :: NamespaceControllerConfiguration
  cc_RootCAFile :: string \<comment> \<open>\<open>SAController.RootCAFile\<close>\<close>

text \<open>The zero values of the structs; \<open>g0\<close> is the one of the generic part.\<close>

definition no_files :: CSRSigningConfiguration where
  "no_files = \<lparr>sc_CertFile = [], sc_KeyFile = []\<rparr>"

definition zero_csr :: CSRSigningControllerConfiguration where
  "zero_csr = \<lparr>ClusterSigningCertFile = [], ClusterSigningKeyFile = [], KubeletServingSigner = no_files,
     KubeletClientSigner = no_files, KubeAPIServerClientSigner = no_files,
     LegacyUnknownSigner = no_files, ClusterSigningDuration = 0\<rparr>"

definition zero_component_config :: "'g \<Rightarrow> 'g KubeControllerManagerConfiguration" where
  "zero_component_config g0 =
     \<lparr>cc_Generic = g0, cc_CSRSigning = zero_csr,
      cc_GarbageCollector = \<lparr>EnableGarbageCollector = False, ConcurrentGCSyncs = 0, GCIgnoredResources = []\<rparr>,
      cc_Namespace = \<lparr>NamespaceSyncPeriod = 0, ConcurrentNamespaceSyncs = 0\<rparr>, cc_RootCAFile = []\<rparr>"

section \<open>Signing files\<close>

text \<open>The last line of the function, after a switch that covers every case, is never reached.\<close>

definition csrSigningFilesValid :: "CSRSigningConfiguration \<Rightarrow> string option" where
  "csrSigningFilesValid config =
     (if length (sc_CertFile config) = 0 \<and> length (sc_KeyFile config) = 0 then None
      else if length (sc_CertFile config) \<noteq> 0 \<and> length (sc_KeyFile config) \<noteq> 0 then None
      else if length (sc_CertFile config) = 0 \<and> length (sc_KeyFile config) \<noteq> 0
      then Some ''cannot specify key without cert''
      else if length (sc_CertFile config) \<noteq> 0 \<and> length (sc_KeyFile config) = 0
      then Some ''cannot specify cert without key''
      else Some ''math broke'')"

text \<open>\<open>fmt.Errorf("%q: %v", flag, err)\<close> if there is an error; the flag prefixes need no escapes.\<close>

definition signer_errors :: "string \<Rightarrow> CSRSigningConfiguration \<Rightarrow> string list" where
  "signer_errors flag config =
     (case csrSigningFilesValid config of
        None \<Rightarrow> []
      | Some err \<Rightarrow> [CHR 0x22 # flag @ CHR 0x22 # '': '' @ err])"

definition files_set :: "CSRSigningConfiguration \<Rightarrow> bool" where
  "files_set config \<longleftrightarrow> length (sc_CertFile config) > 0 \<or> length (sc_KeyFile config) > 0"

fun csr_Validate :: "CSRSigningControllerConfiguration option \<Rightarrow> string list" where
  "csr_Validate None = []"
| "csr_Validate (Some opt) =
     signer_errors ''cluster-signing-kubelet-serving'' (KubeletServingSigner opt) @
     signer_errors ''cluster-signing-kube-apiserver-client'' (KubeletClientSigner opt) @
     signer_errors ''cluster-signing-kube-apiserver'' (KubeAPIServerClientSigner opt) @
     signer_errors ''cluster-signing-legacy-unknown'' (LegacyUnknownSigner opt) @
     complain
       ((length (ClusterSigningCertFile opt) > 0 \<or> length (ClusterSigningKeyFile opt) > 0) \<and>
        (files_set (KubeletServingSigner opt) \<or> files_set (KubeletClientSigner opt) \<or>
         files_set (KubeAPIServerClientSigner opt) \<or> files_set (LegacyUnknownSigner opt)))
       ''cannot specify --cluster-signing-{cert,key}-file and other --cluster-signing-*-file flags at the same time''"

fun csr_ApplyTo :: "CSRSigningControllerConfiguration option \<Rightarrow> CSRSigningControllerConfiguration
    \<Rightarrow> CSRSigningControllerConfiguration" where
  "csr_ApplyTo None cfg = cfg"
| "csr_ApplyTo (Some opt) cfg =
     cfg\<lparr>ClusterSigningCertFile := ClusterSigningCertFile opt,
         ClusterSigningKeyFile := ClusterSigningKeyFile opt,
         KubeletServingSigner := KubeletServingSigner opt,
         KubeletClientSigner := KubeletClientSigner opt,
         KubeAPIServerClientSigner := KubeAPIServerClientSigner opt,
         LegacyUnknownSigner := LegacyUnknownSigner opt,
         ClusterSigningDuration := ClusterSigningDuration opt\<rparr>"

section \<open>The other controllers\<close>

fun gc_ApplyTo :: "GarbageCollectorControllerConfiguration option \<Rightarrow> GarbageCollectorControllerConfiguration
    \<Rightarrow> GarbageCollectorControllerConfiguration" where
  "gc_ApplyTo None cfg = cfg"
| "gc_ApplyTo (Some opt) cfg =
     cfg\<lparr>ConcurrentGCSyncs := ConcurrentGCSyncs opt, GCIgnoredResources := GCIgnoredResources opt,
         EnableGarbageCollector := EnableGarbageCollector opt\<rparr>"

definition gc_Validate :: "GarbageCollectorControllerConfiguration option \<Rightarrow> string list" where
  "gc_Validate opt = []"

fun namespace_ApplyTo :: "NamespaceControllerConfiguration option \<Rightarrow> NamespaceControllerConfiguration
    \<Rightarrow> NamespaceControllerConfiguration" where
  "namespace_ApplyTo None cfg = cfg"
| "namespace_ApplyTo (Some opt) cfg =
     cfg\<lparr>NamespaceSyncPeriod := NamespaceSyncPeriod opt,
         ConcurrentNamespaceSyncs := ConcurrentNamespaceSyncs opt\<rparr>"

definition namespace_Validate :: "NamespaceControllerConfiguration option \<Rightarrow> string list" where
  "namespace_Validate opt = []"

section \<open>All options\<close>

text \<open>
  \<open>go\<close> are the generic options; their \<open>ApplyTo\<close> is an argument. \<open>NewKubeControllerManagerOptions\<close> builds the options
  from the default configuration and the set the garbage collector ignores by default, in the
  order in which Go happens to range over it. The fields for metrics and logs are never read and
  left out.
\<close>

record 'go KubeControllerManagerOptions =
  ko_Generic :: 'go
  ko_CSRSigning :: "CSRSigningControllerConfiguration option"
  ko_GarbageCollector :: "GarbageCollectorControllerConfiguration option"
  ko_Namespace :: "NamespaceControllerConfiguration option"

record ('g, 'go) options_lib =
  DefaultComponentConfig :: "error + 'g KubeControllerManagerConfiguration"
  NewGenericOptions :: "'g \<Rightarrow> 'go"
  GenericApplyTo :: "'go \<Rightarrow> 'g \<Rightarrow> error + 'g"
  ZeroGeneric :: 'g
  DefaultIgnoredResources :: "GroupResource list"

definition NewKubeControllerManagerOptions ::
    "('g, 'go) options_lib \<Rightarrow> error + 'go KubeControllerManagerOptions" where
  "NewKubeControllerManagerOptions L =
     (case DefaultComponentConfig L of
        Inl err \<Rightarrow> Inl err
      | Inr componentConfig \<Rightarrow> Inr
          \<lparr>ko_Generic = NewGenericOptions L (cc_Generic componentConfig),
           ko_CSRSigning = Some (cc_CSRSigning componentConfig),
           ko_GarbageCollector = Some ((cc_GarbageCollector componentConfig)
             \<lparr>GCIgnoredResources := DefaultIgnoredResources L\<rparr>),
           ko_Namespace = Some (cc_Namespace componentConfig)\<rparr>)"

definition options_ApplyTo ::
    "('g, 'go) options_lib \<Rightarrow> 'go KubeControllerManagerOptions \<Rightarrow> 'g KubeControllerManagerConfiguration
      \<Rightarrow> error + 'g KubeControllerManagerConfiguration" where
  "options_ApplyTo L s c =
     (case GenericApplyTo L (ko_Generic s) (cc_Generic c) of
        Inl err \<Rightarrow> Inl err
      | Inr g \<Rightarrow> Inr (c
          \<lparr>cc_Generic := g,
           cc_CSRSigning := csr_ApplyTo (ko_CSRSigning s) (cc_CSRSigning c),
           cc_GarbageCollector := gc_ApplyTo (ko_GarbageCollector s) (cc_GarbageCollector c),
           cc_Namespace := namespace_ApplyTo (ko_Namespace s) (cc_Namespace c)\<rparr>))"

text \<open>\<open>utilerrors.NewAggregate\<close> of no errors is nil; otherwise the aggregate is its list.\<close>

definition options_Validate :: "'go KubeControllerManagerOptions \<Rightarrow> string list option" where
  "options_Validate s =
     (let errs = csr_Validate (ko_CSRSigning s) @ gc_Validate (ko_GarbageCollector s) @
        namespace_Validate (ko_Namespace s)
      in if errs = [] then None else Some errs)"

text \<open>
  \<open>Config\<close>: a client for the given REST configuration (\<open>newForConfig\<close>) and the options applied to
  a component configuration that starts as the zero value, not as the default one. The event
  broadcaster and recorder are created by the library and carry no information here.
\<close>

record ('g, 'cl, 'rc) kube_Config =
  ComponentConfig :: "'g KubeControllerManagerConfiguration"
  kc_Client :: 'cl
  Kubeconfig :: 'rc

definition options_Config ::
    "('g, 'go) options_lib \<Rightarrow> ('rc \<Rightarrow> error + 'cl) \<Rightarrow> 'go KubeControllerManagerOptions \<Rightarrow> 'rc
      \<Rightarrow> error + ('g, 'cl, 'rc) kube_Config" where
  "options_Config L newForConfig s cfg =
     (case newForConfig cfg of
        Inl err \<Rightarrow> Inl err
      | Inr client \<Rightarrow>
          (case options_ApplyTo L s (zero_component_config (ZeroGeneric L)) of
             Inl err \<Rightarrow> Inl err
           | Inr cc \<Rightarrow> Inr \<lparr>ComponentConfig = cc, kc_Client = client, Kubeconfig = cfg\<rparr>))"

section \<open>What validation accepts\<close>

lemma csrSigningFilesValid_iff:
  "csrSigningFilesValid config = None \<longleftrightarrow> (sc_CertFile config = [] \<longleftrightarrow> sc_KeyFile config = [])"
  by (auto simp: csrSigningFilesValid_def)

lemma never_math_broke: "csrSigningFilesValid config \<noteq> Some ''math broke''"
  by (simp add: csrSigningFilesValid_def)

lemma signer_errors_Nil:
  "signer_errors flag config = [] \<longleftrightarrow> (sc_CertFile config = [] \<longleftrightarrow> sc_KeyFile config = [])"
  by (auto simp: signer_errors_def csrSigningFilesValid_iff [symmetric] split: option.splits)

definition specific_signers :: "CSRSigningControllerConfiguration \<Rightarrow> CSRSigningConfiguration list" where
  "specific_signers opt = [KubeletServingSigner opt, KubeletClientSigner opt,
     KubeAPIServerClientSigner opt, LegacyUnknownSigner opt]"

text \<open>
  The options of the controllers are valid exactly if each of the four specific signers has a
  certificate and a key or neither, and specific signers are not combined with a cluster-wide
  certificate or key. A cluster-wide certificate without a key, or the converse, is accepted.
\<close>

theorem csr_options_valid_iff:
  "options_Validate s = None \<longleftrightarrow>
    (case ko_CSRSigning s of
       None \<Rightarrow> True
     | Some opt \<Rightarrow>
         list_all (\<lambda>c. sc_CertFile c = [] \<longleftrightarrow> sc_KeyFile c = []) (specific_signers opt) \<and>
         ((ClusterSigningCertFile opt = [] \<and> ClusterSigningKeyFile opt = []) \<or>
          list_all (\<lambda>c. sc_CertFile c = [] \<and> sc_KeyFile c = []) (specific_signers opt)))"
proof (cases "ko_CSRSigning s")
  case None
  then show ?thesis by (simp add: options_Validate_def gc_Validate_def namespace_Validate_def)
next
  case (Some opt)
  then show ?thesis
    by (auto simp: options_Validate_def gc_Validate_def namespace_Validate_def signer_errors_Nil
        complain_def files_set_def specific_signers_def)
qed

lemma options_ApplyTo_csr:
  assumes "options_ApplyTo L s c = Inr c'" and "ko_CSRSigning s = Some opt"
  shows "cc_CSRSigning c' = opt"
  using assms by (auto simp: options_ApplyTo_def split: sum.splits)

lemma options_ApplyTo_root_ca:
  "options_ApplyTo L s c = Inr c' \<Longrightarrow> cc_RootCAFile c' = cc_RootCAFile c"
  by (auto simp: options_ApplyTo_def split: sum.splits)

end
