(* ===== verification/KubeControllers.thy ===== *)
theory KubeControllers
  imports KubeControllerOptions "HOL-Library.Multiset"
begin

text \<open>
  The Kubernetes controllers the server runs itself,
  \<^verbatim>\<open>src/server/controllers/kubecontroller\<close>: \<^verbatim>\<open>certificates.go\<close>, \<^verbatim>\<open>core.go\<close>, \<^verbatim>\<open>bootstrap.go\<close> (one
  start function per controller) and \<^verbatim>\<open>controllermanager.go\<close> (what is started, in which context,
  with which health checks). The controllers themselves and the clients are not part of the
  repository: \<open>'ct\<close> is a controller, \<open>'cl\<close> a client of any kind, \<open>'h\<close> a debugging handler or a
  health checker, and their constructors are the fields of \<open>kube_lib\<close>. A goroutine that is
  started is an entry of a list; \<open>klog.Fatalf\<close> and the \<open>OrDie\<close> functions end the process
  (\<open>Panic\<close>). The start jitter (a sleep) is not modelled.
\<close>

section \<open>Library interface\<close>

text \<open>
  \<open>QPS\<close> is a 32-bit floating point number by its bit pattern; \<open>f32_mul\<close> multiplies two of them.
  \<open>rc_other\<close> are the fields this code neither reads nor writes.
\<close>

record 'r RestConfig =
  QPS :: "32 word"
  Burst :: "64 word"
  CAData :: string
  rc_other :: 'r

datatype informer = CertificateSigningRequests | ConfigMaps | Namespaces | Secrets

datatype ('cl, 'ct) goroutine = RunWorkers 'ct int | RunAlone 'ct | SyncLoop 'ct 'cl duration

text \<open>
  A controller may implement \<open>Debuggable\<close> and \<open>HealthCheckable\<close>; the outer option says if it
  does, the inner one is the (possibly nil) result of the method.
\<close>

record 'h Interface =
  DebuggingHandler :: "'h option option"
  HealthChecker :: "'h option option"

datatype 'h check = NamedPingChecker string | NamedHealthChecker string 'h

type_synonym gvr = "string \<times> string \<times> string"

record ('r, 'cl, 'ct, 'h) kube_lib =
  f32_mul :: "32 word \<Rightarrow> 32 word \<Rightarrow> 32 word"
  ConfigOrDie :: "'r RestConfig \<Rightarrow> string \<Rightarrow> error + 'r RestConfig"
  ClientOrDie :: "'r RestConfig \<Rightarrow> string \<Rightarrow> error + 'cl"
  DiscoveryClientOrDie :: "'r RestConfig \<Rightarrow> string \<Rightarrow> error + 'cl"
  clientset_NewForConfig :: "'r RestConfig \<Rightarrow> error + 'cl"
  metadata_NewForConfig :: "'r RestConfig \<Rightarrow> error + 'cl"
  ServerGroupsAndResources :: "'cl \<Rightarrow> (string \<times> string list) list \<times> error option"
  ParseGroupVersion :: "string \<Rightarrow> error + string \<times> string"
  NewKubeAPIServerClientCSRSigningController :: "'cl \<Rightarrow> informer \<Rightarrow> string \<Rightarrow> string \<Rightarrow> duration \<Rightarrow> error + 'ct"
  NewLegacyUnknownCSRSigningController :: "'cl \<Rightarrow> informer \<Rightarrow> string \<Rightarrow> string \<Rightarrow> duration \<Rightarrow> error + 'ct"
  NewCSRApprovingController :: "'cl \<Rightarrow> informer \<Rightarrow> 'ct"
  NewCSRCleanerController :: "'cl \<Rightarrow> informer \<Rightarrow> 'ct"
  NewPublisher :: "informer \<Rightarrow> informer \<Rightarrow> 'cl \<Rightarrow> string \<Rightarrow> error + 'ct"
  NewSigner :: "'cl \<Rightarrow> informer \<Rightarrow> informer \<Rightarrow> error + 'ct"
  NewTokenCleaner :: "'cl \<Rightarrow> informer \<Rightarrow> error + 'ct"
  NewNamespaceController :: "'cl \<Rightarrow> 'cl \<Rightarrow> informer \<Rightarrow> duration \<Rightarrow> string \<Rightarrow> 'ct"
  NewGarbageCollector :: "'cl \<Rightarrow> 'cl \<Rightarrow> GroupResource set \<Rightarrow> error + 'ct"
  FinalizerKubernetes :: string
  interface_of :: "'ct \<Rightarrow> 'h Interface"
  os_ReadFile :: "string \<Rightarrow> error + string"
  ParseCertsPEM :: "string \<Rightarrow> error option"
  configz_New :: "string \<Rightarrow> error option"

text \<open>
  Of the controller context only the client builder (by the REST configuration it wraps), the
  component configuration and the available resources carry information; the informer
  factories and the REST mapper are unique in it and not passed explicitly.
\<close>

record ('g, 'r) ControllerContext =
  ClientBuilder :: "'r RestConfig"
  ctx_Config :: "'g KubeControllerManagerConfiguration"
  AvailableResources :: "gvr list"

type_synonym ('cl, 'ct) started = "('ct option \<times> bool \<times> error option) \<times> ('cl, 'ct) goroutine list"

type_synonym ('g, 'r, 'cl, 'ct) InitFunc = "('g, 'r) ControllerContext \<Rightarrow> ('cl, 'ct) started outcome"

fun orDie :: "error + 'a \<Rightarrow> 'a outcome" where
  "orDie (Inl err) = Panic ''Fatal''"
| "orDie (Inr x) = Return x"

section \<open>Certificate controllers\<close>

definition areKubeAPIServerClientSignerFilesSpecified :: "CSRSigningControllerConfiguration \<Rightarrow> bool" where
  "areKubeAPIServerClientSignerFilesSpecified config \<longleftrightarrow>
     length (sc_CertFile (KubeAPIServerClientSigner config)) > 0 \<or>
     length (sc_KeyFile (KubeAPIServerClientSigner config)) > 0"

definition areLegacyUnknownSignerFilesSpecified :: "CSRSigningControllerConfiguration \<Rightarrow> bool" where
  "areLegacyUnknownSignerFilesSpecified config \<longleftrightarrow>
     length (sc_CertFile (LegacyUnknownSigner config)) > 0 \<or>
     length (sc_KeyFile (LegacyUnknownSigner config)) > 0"

definition anySpecificFilesSet :: "CSRSigningControllerConfiguration \<Rightarrow> bool" where
  "anySpecificFilesSet config \<longleftrightarrow>
     areKubeAPIServerClientSignerFilesSpecified config \<or> areLegacyUnknownSignerFilesSpecified config"

definition getKubeAPIServerClientSignerFiles :: "CSRSigningControllerConfiguration \<Rightarrow> string \<times> string" where
  "getKubeAPIServerClientSignerFiles config =
     (if anySpecificFilesSet config
      then (sc_CertFile (KubeAPIServerClientSigner config), sc_KeyFile (KubeAPIServerClientSigner config))
      else (ClusterSigningCertFile config, ClusterSigningKeyFile config))"

definition getLegacyUnknownSignerFiles :: "CSRSigningControllerConfiguration \<Rightarrow> string \<times> string" where
  "getLegacyUnknownSignerFiles config =
     (if anySpecificFilesSet config
      then (sc_CertFile (LegacyUnknownSigner config), sc_KeyFile (LegacyUnknownSigner config))
      else (ClusterSigningCertFile config, ClusterSigningKeyFile config))"

text \<open>One of the two branches of the start function: a signer if there are files, else none.\<close>

definition start_signer ::
    "(string \<Rightarrow> string \<Rightarrow> error + 'ct) \<Rightarrow> string \<Rightarrow> string \<times> string \<Rightarrow> error + ('cl, 'ct) goroutine list" where
  "start_signer new msg = (\<lambda>(cert, key).
     if length cert > 0 \<or> length key > 0
     then (case new cert key of Inl err \<Rightarrow> Inl (Errorf msg) | Inr s \<Rightarrow> Inr [RunWorkers s 5])
     else Inr [])"

definition startCSRSigningController ::
    "('r, 'cl, 'ct, 'h) kube_lib \<Rightarrow> ('g, 'r, 'cl, 'ct) InitFunc" where
  "startCSRSigningController L ctx =
     (let config = cc_CSRSigning (ctx_Config ctx);
          missingSingleSigningFile =
            (ClusterSigningCertFile config = [] \<or> ClusterSigningKeyFile config = [])
      in if missingSingleSigningFile \<and> \<not> anySpecificFilesSet config
         then Return ((None, False, None), [])
         else if \<not> missingSingleSigningFile \<and> anySpecificFilesSet config
         then Return ((None, False, Some (Errorf ''cannot specify default and per controller certs at the same time'')), [])
         else bind_outcome (orDie (ClientOrDie L (ClientBuilder ctx) ''certificate-controller'')) (\<lambda>c.
           let certTTL = ClusterSigningDuration config
           in (case start_signer
                 (\<lambda>cert key. NewKubeAPIServerClientCSRSigningController L c CertificateSigningRequests cert key certTTL)
                 ''failed to start kubernetes.io/kube-apiserver-client certificate controller: %v''
                 (getKubeAPIServerClientSignerFiles config) of
                 Inl err \<Rightarrow> Return ((None, False, Some err), [])
               | Inr g1 \<Rightarrow>
                   (case start_signer
                      (\<lambda>cert key. NewLegacyUnknownCSRSigningController L c CertificateSigningRequests cert key certTTL)
                      ''failed to start kubernetes.io/legacy-unknown certificate controller: %v''
                      (getLegacyUnknownSignerFiles config) of
                      Inl err \<Rightarrow> Return ((None, False, Some err), g1)
                    | Inr g2 \<Rightarrow> Return ((None, True, None), g1 @ g2)))))"

definition startCSRApprovingController ::
    "('r, 'cl, 'ct, 'h) kube_lib \<Rightarrow> ('g, 'r, 'cl, 'ct) InitFunc" where
  "startCSRApprovingController L ctx =
     bind_outcome (orDie (ClientOrDie L (ClientBuilder ctx) ''certificate-controller'')) (\<lambda>c.
       Return ((None, True, None), [RunWorkers (NewCSRApprovingController L c CertificateSigningRequests) 5]))"

definition startCSRCleanerController ::
    "('r, 'cl, 'ct, 'h) kube_lib \<Rightarrow> ('g, 'r, 'cl, 'ct) InitFunc" where
  "startCSRCleanerController L ctx =
     bind_outcome (orDie (ClientOrDie L (ClientBuilder ctx) ''certificate-controller'')) (\<lambda>c.
       Return ((None, True, None), [RunWorkers (NewCSRCleanerController L c CertificateSigningRequests) 1]))"

definition readCA :: "('r, 'cl, 'ct, 'h) kube_lib \<Rightarrow> string \<Rightarrow> error + string" where
  "readCA L file =
     (case os_ReadFile L file of
        Inl err \<Rightarrow> Inl err
      | Inr rootCA \<Rightarrow> (case ParseCertsPEM L rootCA of Some err \<Rightarrow> Inl err | None \<Rightarrow> Inr rootCA))"

definition startRootCACertPublisher ::
    "('r, 'cl, 'ct, 'h) kube_lib \<Rightarrow> ('g, 'r, 'cl, 'ct) InitFunc" where
  "startRootCACertPublisher L ctx =
     (let file = cc_RootCAFile (ctx_Config ctx)
      in bind_outcome
           (if file \<noteq> [] then Return (readCA L file)
            else bind_outcome (orDie (ConfigOrDie L (ClientBuilder ctx) ''root-ca-cert-publisher''))
              (\<lambda>config. Return (Inr (CAData config))))
           (\<lambda>ca. case ca of
              Inl err \<Rightarrow> Return ((None, True, Some (Errorf ''error parsing root-ca-file at %s: %v'')), [])
            | Inr rootCA \<Rightarrow>
                bind_outcome (orDie (ClientOrDie L (ClientBuilder ctx) ''root-ca-cert-publisher'')) (\<lambda>c.
                  case NewPublisher L ConfigMaps Namespaces c rootCA of
                    Inl err \<Rightarrow> Return ((None, True, Some (Errorf ''error creating root CA certificate publisher: %v'')), [])
                  | Inr sac \<Rightarrow> Return ((None, True, None), [RunWorkers sac 1]))))"

section \<open>Namespace and garbage collection controllers\<close>

definition startModifiedNamespaceController ::
    "('r, 'cl, 'ct, 'h) kube_lib \<Rightarrow> ('g, 'r) ControllerContext \<Rightarrow> 'cl \<Rightarrow> 'r RestConfig
      \<Rightarrow> ('cl, 'ct) started" where
  "startModifiedNamespaceController L ctx namespaceKubeClient nsKubeconfig =
     (case metadata_NewForConfig L nsKubeconfig of
        Inl err \<Rightarrow> ((None, True, Some err), [])
      | Inr metadataClient \<Rightarrow>
          ((None, True, None),
           [RunWorkers
              (NewNamespaceController L namespaceKubeClient metadataClient Namespaces
                 (NamespaceSyncPeriod (cc_Namespace (ctx_Config ctx))) (FinalizerKubernetes L))
              (ConcurrentNamespaceSyncs (cc_Namespace (ctx_Config ctx)))]))"

text \<open>The bit patterns are those of 20.0 and 2.0.\<close>

definition startNamespaceController ::
    "('r, 'cl, 'ct, 'h) kube_lib \<Rightarrow> ('g, 'r, 'cl, 'ct) InitFunc" where
  "startNamespaceController L ctx =
     bind_outcome (orDie (ConfigOrDie L (ClientBuilder ctx) ''namespace-controller'')) (\<lambda>config.
       let nsKubeconfig = config\<lparr>QPS := f32_mul L (QPS config) 0x41A00000, Burst := Burst config * 100\<rparr>
       in bind_outcome (orDie (clientset_NewForConfig L nsKubeconfig)) (\<lambda>namespaceKubeClient.
            Return (startModifiedNamespaceController L ctx namespaceKubeClient nsKubeconfig)))"

definition startGarbageCollectorController ::
    "('r, 'cl, 'ct, 'h) kube_lib \<Rightarrow> ('g, 'r, 'cl, 'ct) InitFunc" where
  "startGarbageCollectorController L ctx =
     (let gc = cc_GarbageCollector (ctx_Config ctx); name = ''generic-garbage-collector''
      in if \<not> EnableGarbageCollector gc then Return ((None, False, None), [])
         else bind_outcome (orDie (ClientOrDie L (ClientBuilder ctx) name)) (\<lambda>gcClientset.
           bind_outcome (orDie (DiscoveryClientOrDie L (ClientBuilder ctx) name)) (\<lambda>discoveryClient.
           bind_outcome (orDie (ConfigOrDie L (ClientBuilder ctx) name)) (\<lambda>config.
             case metadata_NewForConfig L (config\<lparr>QPS := f32_mul L (QPS config) 0x40000000\<rparr>) of
               Inl err \<Rightarrow> Return ((None, True, Some err), [])
             | Inr metadataClient \<Rightarrow>
                 (case NewGarbageCollector L gcClientset metadataClient (set (GCIgnoredResources gc)) of
                    Inl err \<Rightarrow> Return ((None, True, Some (Errorf ''failed to start the generic garbage collector: %v'')), [])
                  | Inr garbageCollector \<Rightarrow>
                      Return ((Some garbageCollector, True, None),
                        [RunWorkers garbageCollector (ConcurrentGCSyncs gc),
                         SyncLoop garbageCollector discoveryClient (30 * Second)]))))))"

section \<open>Bootstrap controllers\<close>

definition startBootstrapSignerController ::
    "('r, 'cl, 'ct, 'h) kube_lib \<Rightarrow> ('g, 'r, 'cl, 'ct) InitFunc" where
  "startBootstrapSignerController L ctx =
     bind_outcome (orDie (ClientOrDie L (ClientBuilder ctx) ''bootstrap-signer'')) (\<lambda>c.
       case NewSigner L c Secrets ConfigMaps of
         Inl err \<Rightarrow> Return ((None, True, Some (Errorf ''error creating BootstrapSigner controller: %v'')), [])
       | Inr bsc \<Rightarrow> Return ((None, True, None), [RunAlone bsc]))"

definition startTokenCleanerController ::
    "('r, 'cl, 'ct, 'h) kube_lib \<Rightarrow> ('g, 'r, 'cl, 'ct) InitFunc" where
  "startTokenCleanerController L ctx =
     bind_outcome (orDie (ClientOrDie L (ClientBuilder ctx) ''token-cleaner'')) (\<lambda>c.
       case NewTokenCleaner L c Secrets of
         Inl err \<Rightarrow> Return ((None, True, Some (Errorf ''error creating TokenCleaner controller: %v'')), [])
       | Inr tcc \<Rightarrow> Return ((None, True, None), [RunAlone tcc]))"

section \<open>The controller manager\<close>

definition NewControllerInitializers ::
    "('r, 'cl, 'ct, 'h) kube_lib \<Rightarrow> (string \<times> ('g, 'r, 'cl, 'ct) InitFunc) list" where
  "NewControllerInitializers L =
     [(''namespace'', startNamespaceController L),
      (''garbagecollector'', startGarbageCollectorController L),
      (''csrsigning'', startCSRSigningController L),
      (''csrapproving'', startCSRApprovingController L),
      (''csrcleaner'', startCSRCleanerController L),
      (''bootstrapsigner'', startBootstrapSignerController L),
      (''tokencleaner'', startTokenCleanerController L),
      (''root-ca-cert-publisher'', startRootCACertPublisher L)]"

text \<open>
  What starting leaves behind: handlers registered on the mux, if there is one (path, whether it is a
  prefix, the stripped prefix, handler), health checks and goroutines.
\<close>

record ('cl, 'ct, 'h) manager =
  unsecuredMux :: "(string \<times> bool \<times> string \<times> 'h) list option"
  healthChecks :: "'h check list"
  goroutines :: "('cl, 'ct) goroutine list"

definition mount_debug :: "('r, 'cl, 'ct, 'h) kube_lib \<Rightarrow> string \<Rightarrow> 'ct option
    \<Rightarrow> (string \<times> bool \<times> string \<times> 'h) list option \<Rightarrow> (string \<times> bool \<times> string \<times> 'h) list option" where
  "mount_debug L controllerName ctrl mux =
     (case (ctrl, mux) of
        (Some c, Some handlers) \<Rightarrow>
          (case DebuggingHandler (interface_of L c) of
             Some (Some debugHandler) \<Rightarrow>
               (let basePath = ''/debug/controllers/'' @ controllerName
                in Some (handlers @ [(basePath, False, basePath, debugHandler),
                                     (basePath @ ''/'', True, basePath, debugHandler)]))
           | _ \<Rightarrow> mux)
      | _ \<Rightarrow> mux)"

definition check_for :: "('r, 'cl, 'ct, 'h) kube_lib \<Rightarrow> string \<Rightarrow> 'ct option \<Rightarrow> 'h check" where
  "check_for L controllerName ctrl =
     (case ctrl of
        None \<Rightarrow> NamedPingChecker controllerName
      | Some c \<Rightarrow>
          (case HealthChecker (interface_of L c) of
             Some (Some realCheck) \<Rightarrow> NamedHealthChecker controllerName realCheck
           | _ \<Rightarrow> NamedPingChecker controllerName))"

text \<open>The loop of \<open>StartControllers\<close>; \<open>controllerChecks\<close> are added to the handler only after it.\<close>

fun start_loop ::
    "('r, 'cl, 'ct, 'h) kube_lib \<Rightarrow> ('g, 'r) ControllerContext \<Rightarrow> (string \<times> ('g, 'r, 'cl, 'ct) InitFunc) list
      \<Rightarrow> 'h check list \<Rightarrow> ('cl, 'ct, 'h) manager \<Rightarrow> (error option \<times> 'h check list \<times> ('cl, 'ct, 'h) manager) outcome" where
  "start_loop L ctx [] controllerChecks st = Return (None, controllerChecks, st)"
| "start_loop L ctx ((controllerName, initFn) # controllers) controllerChecks st =
     bind_outcome (initFn ctx) (\<lambda>((ctrl, started, err), gs).
       let st' = st\<lparr>goroutines := goroutines st @ gs\<rparr>
       in if err \<noteq> None then Return (err, controllerChecks, st')
          else if \<not> started then start_loop L ctx controllers controllerChecks st'
          else start_loop L ctx controllers (controllerChecks @ [check_for L controllerName ctrl])
                 (st'\<lparr>unsecuredMux := mount_debug L controllerName ctrl (unsecuredMux st')\<rparr>))"

definition StartControllers ::
    "('r, 'cl, 'ct, 'h) kube_lib \<Rightarrow> ('g, 'r) ControllerContext \<Rightarrow> (string \<times> ('g, 'r, 'cl, 'ct) InitFunc) list
      \<Rightarrow> ('cl, 'ct, 'h) manager \<Rightarrow> (error option \<times> ('cl, 'ct, 'h) manager) outcome" where
  "StartControllers L ctx controllers st =
     bind_outcome (start_loop L ctx controllers [] st) (\<lambda>(err, controllerChecks, st').
       if err \<noteq> None then Return (err, st')
       else Return (None, st'\<lparr>healthChecks := healthChecks st' @ controllerChecks\<rparr>))"

text \<open>A failure of discovery is only logged as long as it returned something.\<close>

fun collect_resources ::
    "('r, 'cl, 'ct, 'h) kube_lib \<Rightarrow> (string \<times> string list) list \<Rightarrow> gvr list \<Rightarrow> error + gvr list" where
  "collect_resources L [] allResources = Inr allResources"
| "collect_resources L ((groupVersion, apiResources) # ls) allResources =
     (case ParseGroupVersion L groupVersion of
        Inl err \<Rightarrow> Inl err
      | Inr (g, v) \<Rightarrow>
          collect_resources L ls (fold (\<lambda>r rs. List.insert (g, v, r) rs) apiResources allResources))"

definition GetAvailableResources ::
    "('r, 'cl, 'ct, 'h) kube_lib \<Rightarrow> 'r RestConfig \<Rightarrow> (error + gvr list) outcome" where
  "GetAvailableResources L clientBuilder =
     bind_outcome (orDie (ClientOrDie L clientBuilder ''controller-discovery'')) (\<lambda>client.
       let (resourceMap, err) = ServerGroupsAndResources L client
       in if length resourceMap = 0
          then Return (Inl (Errorf ''unable to get any supported resources from server''))
          else Return (collect_resources L resourceMap []))"

definition CreateControllerContext ::
    "('r, 'cl, 'ct, 'h) kube_lib \<Rightarrow> ('g, 'cl, 'r RestConfig) kube_Config \<Rightarrow> 'r RestConfig \<Rightarrow> 'r RestConfig
      \<Rightarrow> (error + ('g, 'r) ControllerContext) outcome" where
  "CreateControllerContext L s rootClientBuilder clientBuilder =
     bind_outcome (orDie (ClientOrDie L rootClientBuilder ''shared-informers'')) (\<lambda>versionedClient.
     bind_outcome (orDie (ConfigOrDie L rootClientBuilder ''metadata-informers'')) (\<lambda>config.
     bind_outcome (orDie (metadata_NewForConfig L config)) (\<lambda>metadataClient.
     bind_outcome (orDie (DiscoveryClientOrDie L rootClientBuilder ''controller-discovery'')) (\<lambda>discoveryClient.
     bind_outcome (GetAvailableResources L rootClientBuilder) (\<lambda>available.
       case available of
         Inl err \<Rightarrow> Return (Inl err)
       | Inr rs \<Rightarrow> Return (Inr \<lparr>ClientBuilder = clientBuilder, ctx_Config = ComponentConfig s,
                               AvailableResources = rs\<rparr>))))))"

definition createClientBuilders :: "('g, 'cl, 'rc) kube_Config \<Rightarrow> 'rc \<times> 'rc" where
  "createClientBuilders c = (Kubeconfig c, Kubeconfig c)"

text \<open>
  \<open>Run\<close> up to the point where it waits for its context, which is never done; the recording of events
  is left out. The initializers are a Go map: \<open>order\<close> is
  the order in which the loop happens to visit its keys.
\<close>

record ('cl, 'ct, 'h) running =
  configz_set :: bool
  manager_state :: "('cl, 'ct, 'h) manager"
  informersStarted :: bool

definition in_order :: "string list \<Rightarrow> (string \<times> 'a) list \<Rightarrow> (string \<times> 'a) list" where
  "in_order order m = List.map_filter (\<lambda>k. map_option (Pair k) (map_of m k)) order"

definition kube_Run ::
    "('r, 'cl, 'ct, 'h) kube_lib \<Rightarrow> string list \<Rightarrow> ('g, 'cl, 'r RestConfig) kube_Config
      \<Rightarrow> ('cl, 'ct, 'h) running outcome" where
  "kube_Run L order c =
     (let cfgz = (configz_New L ''kubecontrollermanager.config.k8s.io'' = None);
          (clientBuilder, rootClientBuilder) = createClientBuilders c
      in bind_outcome (CreateControllerContext L c rootClientBuilder clientBuilder) (\<lambda>r.
           case r of
             Inl err \<Rightarrow> Panic ''error building controller context: %v''
           | Inr controllerContext \<Rightarrow>
               bind_outcome
                 (StartControllers L controllerContext (in_order order (NewControllerInitializers L))
                    \<lparr>unsecuredMux = None, healthChecks = [], goroutines = []\<rparr>)
                 (\<lambda>(err, st). if err \<noteq> None then Panic ''error starting controllers: %v''
                    else Return \<lparr>configz_set = cfgz, manager_state = st, informersStarted = True\<rparr>)))"

text \<open>The options always come from \<open>NewKubeControllerManagerOptions\<close>, so the pointer is never nil.\<close>

definition set_signing_files :: "string \<Rightarrow> string \<Rightarrow> 'go KubeControllerManagerOptions
    \<Rightarrow> 'go KubeControllerManagerOptions" where
  "set_signing_files clientCert clientKey s =
     s\<lparr>ko_CSRSigning := map_option (\<lambda>o1. o1\<lparr>ClusterSigningCertFile := clientCert,
          ClusterSigningKeyFile := clientKey\<rparr>) (ko_CSRSigning s)\<rparr>"

definition RunKubeControllers ::
    "('g, 'go) options_lib \<Rightarrow> ('r, 'cl, 'ct, 'h) kube_lib \<Rightarrow> string list \<Rightarrow> 'r RestConfig \<Rightarrow> string \<Rightarrow> string
      \<Rightarrow> ('cl, 'ct, 'h) running outcome" where
  "RunKubeControllers OL L order cfg clientCert clientKey =
     (case NewKubeControllerManagerOptions OL of
        Inl err \<Rightarrow> Panic ''unable to initialize kube options: %v''
      | Inr s \<Rightarrow>
          (case options_Config OL (clientset_NewForConfig L) (set_signing_files clientCert clientKey s) cfg of
             Inl err \<Rightarrow> Panic ''unable to config kube controller options: %v''
           | Inr config \<Rightarrow> kube_Run L order config))"

section \<open>Which signers run\<close>

lemma orDie_Return: "\<not> isl r \<Longrightarrow> orDie r = Return (projr r)"
  by (cases r) simp_all

lemma start_signer_no_files [simp]: "start_signer new msg ([], []) = Inr []"
  by (simp add: start_signer_def)

lemma start_signer_valid:
  assumes "\<And>cert key. cert \<noteq> [] \<Longrightarrow> key \<noteq> [] \<Longrightarrow> new cert key = Inr (S cert key)"
    and "cert = [] \<longleftrightarrow> key = []"
  shows "start_signer new msg (cert, key) = Inr (if cert = [] then [] else [RunWorkers (S cert key) 5])"
  using assms by (cases "cert = []") (simp_all add: start_signer_def)

definition has_cluster_files :: "CSRSigningControllerConfiguration \<Rightarrow> bool" where
  "has_cluster_files config \<longleftrightarrow> ClusterSigningCertFile config \<noteq> [] \<and> ClusterSigningKeyFile config \<noteq> []"

lemma csr_Validate_Nil:
  "csr_Validate (Some opt) = [] \<longleftrightarrow>
     list_all (\<lambda>c. sc_CertFile c = [] \<longleftrightarrow> sc_KeyFile c = []) (specific_signers opt) \<and>
     ((ClusterSigningCertFile opt = [] \<and> ClusterSigningKeyFile opt = []) \<or>
      list_all (\<lambda>c. sc_CertFile c = [] \<and> sc_KeyFile c = []) (specific_signers opt))"
  by (auto simp: signer_errors_Nil complain_def files_set_def specific_signers_def)

text \<open>
  C26. With validated options the signing controller starts without a configuration error, and
  which signers run with which files is a function of the options: with a cluster-wide certificate
  and key both signers run with these; otherwise each of the two signers runs, with its own
  certificate and key, exactly if they are given. No signer is ever constructed with only one of
  the two files. If neither signer has files the controller is skipped, also if only a cluster-wide
  certificate, only a cluster-wide key or files for the kubelet signers are given.
\<close>

theorem csr_signers_selected:
  assumes valid: "csr_Validate (Some (cc_CSRSigning (ctx_Config ctx))) = []"
    and cl: "ClientOrDie L (ClientBuilder ctx) ''certificate-controller'' = Inr c"
    and api: "\<And>cert key ttl. cert \<noteq> [] \<Longrightarrow> key \<noteq> [] \<Longrightarrow>
      NewKubeAPIServerClientCSRSigningController L c CertificateSigningRequests cert key ttl = Inr (A cert key ttl)"
    and legacy: "\<And>cert key ttl. cert \<noteq> [] \<Longrightarrow> key \<noteq> [] \<Longrightarrow>
      NewLegacyUnknownCSRSigningController L c CertificateSigningRequests cert key ttl = Inr (U cert key ttl)"
  shows "startCSRSigningController L ctx =
    (let config = cc_CSRSigning (ctx_Config ctx); ttl = ClusterSigningDuration config;
         a = KubeAPIServerClientSigner config; u = LegacyUnknownSigner config
     in if has_cluster_files config
        then Return ((None, True, None),
          [RunWorkers (A (ClusterSigningCertFile config) (ClusterSigningKeyFile config) ttl) 5,
           RunWorkers (U (ClusterSigningCertFile config) (ClusterSigningKeyFile config) ttl) 5])
        else Return ((None, sc_CertFile a \<noteq> [] \<or> sc_CertFile u \<noteq> [], None),
          (if sc_CertFile a = [] then [] else [RunWorkers (A (sc_CertFile a) (sc_KeyFile a) ttl) 5]) @
          (if sc_CertFile u = [] then [] else [RunWorkers (U (sc_CertFile u) (sc_KeyFile u) ttl) 5])))"
proof -
  let ?cfg = "cc_CSRSigning (ctx_Config ctx)"
  note sel = startCSRSigningController_def anySpecificFilesSet_def has_cluster_files_def
    areKubeAPIServerClientSignerFilesSpecified_def areLegacyUnknownSignerFilesSpecified_def
    getKubeAPIServerClientSignerFiles_def getLegacyUnknownSignerFiles_def Let_def cl
  from valid have pairs: "sc_CertFile (KubeAPIServerClientSigner ?cfg) = [] \<longleftrightarrow> sc_KeyFile (KubeAPIServerClientSigner ?cfg) = []"
      "sc_CertFile (LegacyUnknownSigner ?cfg) = [] \<longleftrightarrow> sc_KeyFile (LegacyUnknownSigner ?cfg) = []"
    by (auto simp: csr_Validate_Nil specific_signers_def simp del: csr_Validate.simps)
  show ?thesis
  proof (cases "has_cluster_files ?cfg")
    case True
    with valid have "sc_CertFile (KubeAPIServerClientSigner ?cfg) = []" "sc_KeyFile (KubeAPIServerClientSigner ?cfg) = []"
        "sc_CertFile (LegacyUnknownSigner ?cfg) = []" "sc_KeyFile (LegacyUnknownSigner ?cfg) = []"
      by (auto simp: csr_Validate_Nil specific_signers_def has_cluster_files_def simp del: csr_Validate.simps)
    with True show ?thesis by (simp add: sel start_signer_valid [OF api] start_signer_valid [OF legacy])
  next
    case False
    with pairs show ?thesis
      by (auto simp: sel start_signer_valid [OF api] start_signer_valid [OF legacy])
  qed
qed

section \<open>Starting in any order\<close>

fun check_name :: "'h check \<Rightarrow> string" where
  "check_name (NamedPingChecker n) = n"
| "check_name (NamedHealthChecker n _) = n"

lemma check_name_check_for [simp]: "check_name (check_for L n ctrl) = n"
  by (simp add: check_for_def split: option.splits)

lemma start_loop_succeeds:
  assumes "\<And>e. e \<in> set cs \<Longrightarrow> snd e ctx = Return ((C e, S e, None), G e)"
  shows "\<exists>m. start_loop L ctx cs ks st =
    Return (None, ks @ map (\<lambda>e. check_for L (fst e) (C e)) (filter S cs),
      st\<lparr>goroutines := goroutines st @ concat (map G cs), unsecuredMux := m\<rparr>)"
  using assms
proof (induction cs arbitrary: ks st)
  case Nil
  have "st = st\<lparr>goroutines := goroutines st @ [], unsecuredMux := unsecuredMux st\<rparr>" by simp
  then show ?case by (intro exI [of _ "unsecuredMux st"]) simp
next
  case (Cons e cs)
  obtain n f where e: "e = (n, f)" by fastforce
  have r: "f ctx = Return ((C e, S e, None), G e)" using Cons.prems [of e] e by simp
  have IH: "\<exists>m. start_loop L ctx cs ks st =
      Return (None, ks @ map (\<lambda>e. check_for L (fst e) (C e)) (filter S cs),
        st\<lparr>goroutines := goroutines st @ concat (map G cs), unsecuredMux := m\<rparr>)" for ks st
    by (rule Cons.IH) (simp add: Cons.prems)
  let ?st1 = "st\<lparr>goroutines := goroutines st @ G e\<rparr>"
  show ?case
  proof (cases "S e")
    case True
    from IH [of "ks @ [check_for L n (C e)]" "?st1\<lparr>unsecuredMux := mount_debug L n (C e) (unsecuredMux st)\<rparr>"]
    show ?thesis using True e r by auto
  next
    case False
    from IH [of ks ?st1] show ?thesis using False e r by auto
  qed
qed

lemma start_loop_fails:
  assumes "\<And>e. e \<in> set cs \<Longrightarrow> snd e ctx = Return ((C e, S e, E e), G e)"
    and "\<exists>e\<in>set cs. E e \<noteq> None"
  shows "\<exists>e ks' st'. e \<in> set cs \<and> E e \<noteq> None \<and> start_loop L ctx cs ks st = Return (E e, ks', st') \<and>
    healthChecks st' = healthChecks st"
  using assms
proof (induction cs arbitrary: ks st)
  case Nil
  then show ?case by simp
next
  case (Cons e cs)
  obtain n f where e: "e = (n, f)" by fastforce
  have r: "f ctx = Return ((C e, S e, E e), G e)" using Cons.prems(1) [of e] e by simp
  show ?case
  proof (cases "E e = None")
    case False
    then show ?thesis using e r by (intro exI [of _ e]) auto
  next
    case True
    with Cons.prems(2) have "\<exists>e\<in>set cs. E e \<noteq> None" by auto
    then have IH: "\<exists>e ks' st'. e \<in> set cs \<and> E e \<noteq> None \<and> start_loop L ctx cs ks st = Return (E e, ks', st') \<and>
        healthChecks st' = healthChecks st" for ks st
      using Cons.IH Cons.prems(1) by (meson list.set_intros(2))
    let ?st1 = "st\<lparr>goroutines := goroutines st @ G e\<rparr>"
    obtain ks1 st2 where "start_loop L ctx (e # cs) ks st = start_loop L ctx cs ks1 st2"
        and "healthChecks st2 = healthChecks st"
    proof (cases "S e")
      case True
      show ?thesis
        by (rule that [of "ks @ [check_for L n (C e)]"
              "?st1\<lparr>unsecuredMux := mount_debug L n (C e) (unsecuredMux st)\<rparr>"])
          (use True \<open>E e = None\<close> e r in simp_all)
    next
      case False
      show ?thesis by (rule that [of ks ?st1]) (use False \<open>E e = None\<close> e r in simp_all)
    qed
    with IH [of ks1 st2] show ?thesis by (metis list.set_intros(2))
  qed
qed

lemma StartControllers_succeeds:
  assumes "\<And>e. e \<in> set cs \<Longrightarrow> snd e ctx = Return ((C e, S e, None), G e)"
  shows "\<exists>st'. StartControllers L ctx cs st = Return (None, st') \<and>
    healthChecks st' = healthChecks st @ map (\<lambda>e. check_for L (fst e) (C e)) (filter S cs) \<and>
    goroutines st' = goroutines st @ concat (map G cs)"
  using start_loop_succeeds [of cs ctx C S G L "[]" st, OF assms] by (auto simp: StartControllers_def)

lemma StartControllers_fails:
  assumes "\<And>e. e \<in> set cs \<Longrightarrow> snd e ctx = Return ((C e, S e, E e), G e)"
    and "\<exists>e\<in>set cs. E e \<noteq> None"
  shows "\<exists>e st'. e \<in> set cs \<and> E e \<noteq> None \<and> StartControllers L ctx cs st = Return (E e, st') \<and>
    healthChecks st' = healthChecks st"
proof -
  from start_loop_fails [OF assms] obtain e ks' st' where "e \<in> set cs" "E e \<noteq> None"
      "start_loop L ctx cs [] st = Return (E e, ks', st')" "healthChecks st' = healthChecks st" by meson
  then show ?thesis by (intro exI [of _ e] exI [of _ st']) (auto simp: StartControllers_def)
qed

lemma mset_concat_map: "mset (concat (map G cs)) = (\<Sum>e\<in>#mset cs. mset (G e))"
  by (induction cs) simp_all

text \<open>
  C25. Go visits the initializers in a random order, and the order does not matter: if some
  initializer fails, \<open>StartControllers\<close> returns the error of one of them and installs no health
  check, in every order; if none fails it succeeds, installs exactly one health check for each
  controller that reports itself started and none for a skipped one, and all goroutines of all
  initializers run.
\<close>

theorem start_controllers_any_order:
  assumes results: "\<And>e. e \<in> set cs \<Longrightarrow> snd e ctx = Return ((C e, S e, E e), G e)"
    and perm: "mset order = mset cs"
  shows "\<exists>err st'. StartControllers L ctx order st = Return (err, st') \<and>
    ((\<exists>e\<in>set cs. E e \<noteq> None) \<longrightarrow> err \<noteq> None \<and> err \<in> E ` set cs \<and> healthChecks st' = healthChecks st) \<and>
    ((\<forall>e\<in>set cs. E e = None) \<longrightarrow> err = None \<and>
      mset (healthChecks st') = mset (healthChecks st) +
        image_mset (\<lambda>e. check_for L (fst e) (C e)) (filter_mset S (mset cs)) \<and>
      mset (goroutines st') = mset (goroutines st) + (\<Sum>e\<in>#mset cs. mset (G e)))"
proof -
  from perm have sets: "set order = set cs" by (metis set_mset_mset)
  have res: "e \<in> set order \<Longrightarrow> snd e ctx = Return ((C e, S e, E e), G e)" for e
    using results sets by simp
  show ?thesis
  proof (cases "\<exists>e\<in>set cs. E e \<noteq> None")
    case True
    then have failing: "\<exists>e\<in>set order. E e \<noteq> None" by (simp only: sets)
    have "\<exists>e st'. e \<in> set order \<and> E e \<noteq> None \<and> StartControllers L ctx order st = Return (E e, st') \<and>
        healthChecks st' = healthChecks st"
      by (rule StartControllers_fails [OF _ failing]) (rule res)
    then obtain e st' where e: "e \<in> set order" "E e \<noteq> None" and start: "StartControllers L ctx order st = Return (E e, st')"
        "healthChecks st' = healthChecks st" by (elim exE conjE)
    from e have img: "E e \<in> E ` set cs" by (simp only: sets [symmetric]) (rule imageI)
    from True have some: "\<not> (\<forall>e\<in>set cs. E e = None)" by simp
    show ?thesis
      by (intro exI [of _ "E e"] exI [of _ st'] conjI impI) (rule start e img | rule notE [OF some], assumption)+
  next
    case False
    then have ok: "e \<in> set order \<Longrightarrow> snd e ctx = Return ((C e, S e, None), G e)" for e
      using res [of e] sets by auto
    have "\<exists>st'. StartControllers L ctx order st = Return (None, st') \<and>
        healthChecks st' = healthChecks st @ map (\<lambda>e. check_for L (fst e) (C e)) (filter S order) \<and>
        goroutines st' = goroutines st @ concat (map G order)"
      by (rule StartControllers_succeeds) (rule ok)
    then obtain st' where "StartControllers L ctx order st = Return (None, st')"
      "healthChecks st' = healthChecks st @ map (\<lambda>e. check_for L (fst e) (C e)) (filter S order)"
      "goroutines st' = goroutines st @ concat (map G order)" by (elim exE conjE)
    with False show ?thesis by (simp add: mset_concat_map perm)
  qed
qed

section \<open>The whole start\<close>

text \<open>The library calls that may fail do not.\<close>

definition library_works :: "('r, 'cl, 'ct, 'h) kube_lib \<Rightarrow> bool" where
  "library_works L \<longleftrightarrow>
     (\<forall>rc n. \<not> isl (ConfigOrDie L rc n) \<and> \<not> isl (ClientOrDie L rc n) \<and> \<not> isl (DiscoveryClientOrDie L rc n)) \<and>
     (\<forall>rc. \<not> isl (clientset_NewForConfig L rc) \<and> \<not> isl (metadata_NewForConfig L rc)) \<and>
     (\<forall>c i cert key ttl. cert \<noteq> [] \<longrightarrow> key \<noteq> [] \<longrightarrow>
        \<not> isl (NewKubeAPIServerClientCSRSigningController L c i cert key ttl) \<and>
        \<not> isl (NewLegacyUnknownCSRSigningController L c i cert key ttl)) \<and>
     (\<forall>i j c ca. \<not> isl (NewPublisher L i j c ca) \<and> \<not> isl (NewSigner L c i j) \<and> \<not> isl (NewTokenCleaner L c i)) \<and>
     (\<forall>c m rs. \<not> isl (NewGarbageCollector L c m rs)) \<and>
     (\<forall>c. fst (ServerGroupsAndResources L c) \<noteq> []) \<and> (\<forall>gv. \<not> isl (ParseGroupVersion L gv))"

lemma not_isl_iff: "\<not> isl r \<longleftrightarrow> (\<forall>e. r \<noteq> Inl e)"
  by (cases r) simp_all

lemma library_errors:
  assumes "library_works L"
  shows "ConfigOrDie L rc n \<noteq> Inl e" "ClientOrDie L rc n \<noteq> Inl e" "DiscoveryClientOrDie L rc n \<noteq> Inl e"
    "clientset_NewForConfig L rc \<noteq> Inl e" "metadata_NewForConfig L rc \<noteq> Inl e"
    "NewPublisher L i j c ca \<noteq> Inl e" "NewSigner L c i j \<noteq> Inl e" "NewTokenCleaner L c i \<noteq> Inl e"
    "NewGarbageCollector L c m rs \<noteq> Inl e"
    "cert \<noteq> [] \<Longrightarrow> key \<noteq> [] \<Longrightarrow> NewKubeAPIServerClientCSRSigningController L c i cert key ttl \<noteq> Inl e"
    "cert \<noteq> [] \<Longrightarrow> key \<noteq> [] \<Longrightarrow> NewLegacyUnknownCSRSigningController L c i cert key ttl \<noteq> Inl e"
  using assms by (simp_all add: library_works_def not_isl_iff)

lemma library_orDie:
  assumes "library_works L"
  shows "orDie (ConfigOrDie L rc n) = Return (projr (ConfigOrDie L rc n))"
    "orDie (ClientOrDie L rc n) = Return (projr (ClientOrDie L rc n))"
    "orDie (DiscoveryClientOrDie L rc n) = Return (projr (DiscoveryClientOrDie L rc n))"
    "orDie (clientset_NewForConfig L rc) = Return (projr (clientset_NewForConfig L rc))"
    "orDie (metadata_NewForConfig L rc) = Return (projr (metadata_NewForConfig L rc))"
  using assms by (simp_all add: library_works_def orDie_Return)

lemma collect_resources_total:
  "(\<And>gv. \<not> isl (ParseGroupVersion L gv)) \<Longrightarrow> \<exists>rs'. collect_resources L ls rs = Inr rs'"
proof (induction ls arbitrary: rs)
  case Nil
  then show ?case by simp
next
  case (Cons l ls)
  obtain gv res where l: "l = (gv, res)" by fastforce
  from Cons.prems [of gv] obtain g v where "ParseGroupVersion L gv = Inr (g, v)"
    by (cases "ParseGroupVersion L gv") auto
  with Cons show ?case by (simp add: l)
qed

lemma controller_context_total:
  assumes "library_works L"
  shows "\<exists>rs. CreateControllerContext L s b b =
    Return (Inr \<lparr>ClientBuilder = b, ctx_Config = ComponentConfig s, AvailableResources = rs\<rparr>)"
proof -
  let ?c = "projr (ClientOrDie L b ''controller-discovery'')"
  obtain rm err where d: "ServerGroupsAndResources L ?c = (rm, err)" by fastforce
  then have "rm \<noteq> []" using assms by (metis fst_conv library_works_def)
  moreover obtain rs where "collect_resources L rm [] = Inr rs"
    using collect_resources_total [of L rm "[]"] assms by (auto simp: library_works_def)
  ultimately show ?thesis
    using assms d by (simp add: CreateControllerContext_def GetAvailableResources_def orDie_Return library_works_def)
qed

lemma in_order_perm:
  assumes "distinct (map fst m)" and "mset order = mset (map fst m)"
  shows "mset (in_order order m) = mset m"
proof -
  let ?f = "\<lambda>k. (k, the (map_of m k))"
  from assms(2) have sub: "set order = fst ` set m" by (metis set_mset_mset set_map)
  have "in_order ks m = map ?f ks" if "set ks \<subseteq> fst ` set m" for ks
    using that
  proof (induction ks)
    case Nil
    then show ?case by (simp add: in_order_def)
  next
    case (Cons k ks)
    then obtain v where "map_of m k = Some v" by (auto dest!: weak_map_of_SomeI)
    with Cons show ?case by (simp add: in_order_def)
  qed
  then have "mset (in_order order m) = image_mset ?f (mset order)" by (simp add: sub)
  also have "\<dots> = image_mset (\<lambda>e. ?f (fst e)) (mset m)" by (simp add: assms(2) image_mset.compositionality comp_def)
  also have "\<dots> = image_mset (\<lambda>e. e) (mset m)"
    by (rule image_mset_cong) (use assms(1) in \<open>auto simp: map_of_eq_Some_iff\<close>)
  finally show ?thesis by simp
qed

text \<open>What an initializer returns, when it does; a panic counts as nothing started.\<close>

fun result_of :: "('cl, 'ct) started outcome \<Rightarrow> ('cl, 'ct) started" where
  "result_of (Return r) = r"
| "result_of (Panic _) = ((None, False, None), [])"

abbreviation "init_ctrl ctx e \<equiv> fst (fst (result_of (snd e ctx)))"
abbreviation "init_started ctx e \<equiv> fst (snd (fst (result_of (snd e ctx))))"
abbreviation "init_goroutines ctx e \<equiv> snd (result_of (snd e ctx))"

definition starts :: "('cl, 'ct) started outcome \<Rightarrow> bool \<Rightarrow> bool" where
  "starts r b \<longleftrightarrow> (\<exists>c g. r = Return ((c, b, None), g))"

lemma starts_result: "starts r b \<Longrightarrow>
    r = Return ((fst (fst (result_of r)), fst (snd (fst (result_of r))), None), snd (result_of r)) \<and>
    fst (snd (fst (result_of r))) = b"
  by (auto simp: starts_def)

lemma csrsigning_cluster_files:
  fixes L :: "('r, 'cl, 'ct, 'h) kube_lib" and ctx :: "('g, 'r) ControllerContext"
  assumes works: "library_works L" and "\<not> anySpecificFilesSet (cc_CSRSigning (ctx_Config ctx))"
    and "has_cluster_files (cc_CSRSigning (ctx_Config ctx))"
  obtains c a u where "ClientOrDie L (ClientBuilder ctx) ''certificate-controller'' = Inr c"
    "NewKubeAPIServerClientCSRSigningController L c CertificateSigningRequests
       (ClusterSigningCertFile (cc_CSRSigning (ctx_Config ctx))) (ClusterSigningKeyFile (cc_CSRSigning (ctx_Config ctx)))
       (ClusterSigningDuration (cc_CSRSigning (ctx_Config ctx))) = Inr a"
    "NewLegacyUnknownCSRSigningController L c CertificateSigningRequests
       (ClusterSigningCertFile (cc_CSRSigning (ctx_Config ctx))) (ClusterSigningKeyFile (cc_CSRSigning (ctx_Config ctx)))
       (ClusterSigningDuration (cc_CSRSigning (ctx_Config ctx))) = Inr u"
    "startCSRSigningController L ctx = Return ((None, True, None), [RunWorkers a 5, RunWorkers u 5])"
proof -
  let ?cfg = "cc_CSRSigning (ctx_Config ctx)"
  obtain c where c: "ClientOrDie L (ClientBuilder ctx) ''certificate-controller'' = Inr c"
    using library_errors(2) [OF works] by (metis sum.exhaust)
  have files: "ClusterSigningCertFile ?cfg \<noteq> []" "ClusterSigningKeyFile ?cfg \<noteq> []"
    using assms(3) by (simp_all add: has_cluster_files_def)
  obtain a where a: "NewKubeAPIServerClientCSRSigningController L c CertificateSigningRequests
      (ClusterSigningCertFile ?cfg) (ClusterSigningKeyFile ?cfg) (ClusterSigningDuration ?cfg) = Inr a"
    using library_errors(10) [OF works files] by (metis sum.exhaust)
  obtain u where u: "NewLegacyUnknownCSRSigningController L c CertificateSigningRequests
      (ClusterSigningCertFile ?cfg) (ClusterSigningKeyFile ?cfg) (ClusterSigningDuration ?cfg) = Inr u"
    using library_errors(11) [OF works files] by (metis sum.exhaust)
  have "startCSRSigningController L ctx = Return ((None, True, None), [RunWorkers a 5, RunWorkers u 5])"
    using assms(2) files c a u
    by (simp add: startCSRSigningController_def getKubeAPIServerClientSignerFiles_def
        getLegacyUnknownSignerFiles_def start_signer_def Let_def)
  with c a u show thesis by (rule that)
qed

lemma csrsigning_starts:
  assumes "library_works L" and "\<not> anySpecificFilesSet (cc_CSRSigning (ctx_Config ctx))"
  shows "starts (startCSRSigningController L ctx) (has_cluster_files (cc_CSRSigning (ctx_Config ctx)))"
proof (cases "has_cluster_files (cc_CSRSigning (ctx_Config ctx))")
  case True
  from csrsigning_cluster_files [OF assms True] obtain a u where
    "startCSRSigningController L ctx = Return ((None, True, None), [RunWorkers a 5, RunWorkers u 5])" by metis
  with True show ?thesis by (simp add: starts_def)
next
  case False
  with assms(2) show ?thesis by (auto simp: starts_def startCSRSigningController_def has_cluster_files_def Let_def)
qed

lemma publisher_uses_ca_data:
  assumes works: "library_works L" and "cc_RootCAFile (ctx_Config ctx) = []"
  obtains c rc p where "ConfigOrDie L (ClientBuilder ctx) ''root-ca-cert-publisher'' = Inr rc"
    "NewPublisher L ConfigMaps Namespaces c (CAData rc) = Inr p"
    "startRootCACertPublisher L ctx = Return ((None, True, None), [RunWorkers p 1])"
proof -
  obtain rc where rc: "ConfigOrDie L (ClientBuilder ctx) ''root-ca-cert-publisher'' = Inr rc"
    using library_errors(1) [OF works] by (metis sum.exhaust)
  obtain c where c: "ClientOrDie L (ClientBuilder ctx) ''root-ca-cert-publisher'' = Inr c"
    using library_errors(2) [OF works] by (metis sum.exhaust)
  obtain p where p: "NewPublisher L ConfigMaps Namespaces c (CAData rc) = Inr p"
    using library_errors(6) [OF works] by (metis sum.exhaust)
  with rc c assms(2) show thesis by (intro that) (simp_all add: startRootCACertPublisher_def)
qed

lemma garbagecollector_starts:
  assumes "library_works L"
  shows "starts (startGarbageCollectorController L ctx) (EnableGarbageCollector (cc_GarbageCollector (ctx_Config ctx)))"
  by (auto simp: starts_def startGarbageCollectorController_def
      library_orDie [OF assms] library_errors [OF assms] Let_def
      split: sum.splits)

lemma others_start:
  assumes "library_works L" and "cc_RootCAFile (ctx_Config ctx) = []"
  shows "starts (startNamespaceController L ctx) True" "starts (startCSRApprovingController L ctx) True"
    "starts (startCSRCleanerController L ctx) True" "starts (startBootstrapSignerController L ctx) True"
    "starts (startTokenCleanerController L ctx) True" "starts (startRootCACertPublisher L ctx) True"
  using assms(2)
  by (auto simp: starts_def startNamespaceController_def startModifiedNamespaceController_def
      startCSRApprovingController_def startCSRCleanerController_def startBootstrapSignerController_def
      startTokenCleanerController_def startRootCACertPublisher_def
      library_orDie [OF assms(1)] library_errors [OF assms(1)] Let_def
      split: sum.splits)

lemmas initializers_start = csrsigning_starts garbagecollector_starts others_start

definition started_names :: "bool \<Rightarrow> bool \<Rightarrow> string list" where
  "started_names signing gc =
     [''namespace'', ''csrapproving'', ''csrcleaner'', ''bootstrapsigner'', ''tokencleaner'',
      ''root-ca-cert-publisher''] @ (if signing then [''csrsigning''] else []) @
     (if gc then [''garbagecollector''] else [])"

lemma StartControllers_initializers:
  assumes works: "library_works L" and spec: "\<not> anySpecificFilesSet (cc_CSRSigning (ctx_Config ctx))"
    and ca: "cc_RootCAFile (ctx_Config ctx) = []"
    and perm: "mset order = mset (started_names True True)"
  shows "\<exists>st'. StartControllers L ctx (in_order order (NewControllerInitializers L)) st = Return (None, st') \<and>
    mset (map check_name (healthChecks st')) = mset (map check_name (healthChecks st)) +
      mset (started_names (has_cluster_files (cc_CSRSigning (ctx_Config ctx)))
        (EnableGarbageCollector (cc_GarbageCollector (ctx_Config ctx)))) \<and>
    (\<forall>e\<in>set (NewControllerInitializers L). set (init_goroutines ctx e) \<subseteq> set (goroutines st'))"
proof -
  let ?I = "NewControllerInitializers L"
  note st = initializers_start(1) [OF works spec] initializers_start(2) [OF works, of ctx]
    initializers_start(3-8) [OF works ca]
  note res = st [THEN starts_result]
  have I: "mset (in_order order ?I) = mset ?I"
    by (rule in_order_perm) (simp_all add: perm NewControllerInitializers_def started_names_def)
  then have sets: "set (in_order order ?I) = set ?I" by (metis set_mset_mset)
  have "snd e ctx = Return ((init_ctrl ctx e, init_started ctx e, None), init_goroutines ctx e)" if "e \<in> set ?I" for e
    using that res by (auto simp: NewControllerInitializers_def)
  then have "\<exists>st'. StartControllers L ctx (in_order order ?I) st = Return (None, st') \<and>
    healthChecks st' = healthChecks st @ map (\<lambda>e. check_for L (fst e) (init_ctrl ctx e)) (filter (init_started ctx) (in_order order ?I)) \<and>
    goroutines st' = goroutines st @ concat (map (init_goroutines ctx) (in_order order ?I))"
    by (intro StartControllers_succeeds) (simp only: sets)
  then obtain st' where st': "StartControllers L ctx (in_order order ?I) st = Return (None, st')"
    "healthChecks st' = healthChecks st @ map (\<lambda>e. check_for L (fst e) (init_ctrl ctx e)) (filter (init_started ctx) (in_order order ?I))"
    "goroutines st' = goroutines st @ concat (map (init_goroutines ctx) (in_order order ?I))"
    by (elim exE conjE)
  have "mset (map check_name (healthChecks st')) =
      mset (map check_name (healthChecks st)) + image_mset fst (filter_mset (init_started ctx) (mset ?I))"
    by (simp add: st'(2) comp_def I)
  also have "image_mset fst (filter_mset (init_started ctx) (mset ?I)) =
      mset (started_names (has_cluster_files (cc_CSRSigning (ctx_Config ctx)))
        (EnableGarbageCollector (cc_GarbageCollector (ctx_Config ctx))))"
    using res [THEN conjunct2] by (simp add: NewControllerInitializers_def started_names_def)
  finally show ?thesis using st'(1,3) sets by (intro exI [of _ st']) auto
qed

lemma RunKubeControllers_config:
  fixes L :: "('r, 'cl, 'ct, 'h) kube_lib" and OL :: "('g, 'go) options_lib"
  assumes works: "library_works L" and d: "DefaultComponentConfig OL = Inr d"
    and g: "GenericApplyTo OL (NewGenericOptions OL (cc_Generic d)) (ZeroGeneric OL) = Inr g"
  obtains c :: "('g, 'cl, 'r RestConfig) kube_Config"
  where "RunKubeControllers OL L order cfg cert key = kube_Run L order c" "Kubeconfig c = cfg"
    "cc_RootCAFile (ComponentConfig c) = []"
    "cc_CSRSigning (ComponentConfig c) = (cc_CSRSigning d)\<lparr>ClusterSigningCertFile := cert, ClusterSigningKeyFile := key\<rparr>"
    "EnableGarbageCollector (cc_GarbageCollector (ComponentConfig c)) = EnableGarbageCollector (cc_GarbageCollector d)"
proof -
  obtain cl where cl: "clientset_NewForConfig L cfg = Inr cl"
    using library_errors(4) [OF works] by (metis sum.exhaust)
  let ?o = "(cc_CSRSigning d)\<lparr>ClusterSigningCertFile := cert, ClusterSigningKeyFile := key\<rparr>"
  let ?s = "\<lparr>ko_Generic = NewGenericOptions OL (cc_Generic d), ko_CSRSigning = Some ?o,
    ko_GarbageCollector = Some ((cc_GarbageCollector d)\<lparr>GCIgnoredResources := DefaultIgnoredResources OL\<rparr>),
    ko_Namespace = Some (cc_Namespace d)\<rparr>"
  let ?z = "zero_component_config (ZeroGeneric OL)"
  obtain cc where cc: "options_ApplyTo OL ?s ?z = Inr cc"
    by (simp add: options_ApplyTo_def g zero_component_config_def)
  have "cc_CSRSigning cc = ?o" by (rule options_ApplyTo_csr [OF cc]) simp
  moreover have "cc_RootCAFile cc = []" using options_ApplyTo_root_ca [OF cc] by (simp add: zero_component_config_def)
  moreover have "EnableGarbageCollector (cc_GarbageCollector cc) = EnableGarbageCollector (cc_GarbageCollector d)"
    using cc by (auto simp: options_ApplyTo_def g zero_component_config_def)
  moreover have "RunKubeControllers OL L order cfg cert key =
      kube_Run L order \<lparr>ComponentConfig = cc, kc_Client = cl, Kubeconfig = cfg\<rparr>"
    by (simp add: RunKubeControllers_def NewKubeControllerManagerOptions_def options_Config_def
        set_signing_files_def d cl cc)
  ultimately show thesis
    by (intro that [of "\<lparr>ComponentConfig = cc, kc_Client = cl, Kubeconfig = cfg\<rparr>"]) simp_all
qed

text \<open>
  C24. The controllers start as the server intends, whatever order Go visits them in: with the
  default options (which name no specific signer) and a library that does not fail, the process
  does not exit; there is exactly one health check for each of the six controllers that always
  run, for the signing controller if and only if a certificate and a key are given, and for the
  garbage collector if and only if the default configuration enables it. Both certificate signers
  then sign with the certificate and the key given. The published root certificate is always the
  one of the REST configuration: the options never carry a root certificate file.
\<close>

theorem kube_controllers_started:
  fixes L :: "('r, 'cl, 'ct, 'h) kube_lib" and OL :: "('g, 'go) options_lib"
  assumes works: "library_works L" and d: "DefaultComponentConfig OL = Inr d"
    and g: "GenericApplyTo OL (NewGenericOptions OL (cc_Generic d)) (ZeroGeneric OL) = Inr g"
    and default: "\<not> anySpecificFilesSet (cc_CSRSigning d)"
    and perm: "mset order = mset (started_names True True)"
  shows "\<exists>r. RunKubeControllers OL L order cfg cert key = Return r \<and> informersStarted r \<and>
    mset (map check_name (healthChecks (manager_state r))) =
      mset (started_names (cert \<noteq> [] \<and> key \<noteq> []) (EnableGarbageCollector (cc_GarbageCollector d))) \<and>
    (cert \<noteq> [] \<and> key \<noteq> [] \<longrightarrow> (\<exists>c a u ttl.
       NewKubeAPIServerClientCSRSigningController L c CertificateSigningRequests cert key ttl = Inr a \<and>
       NewLegacyUnknownCSRSigningController L c CertificateSigningRequests cert key ttl = Inr u \<and>
       {RunWorkers a 5, RunWorkers u 5} \<subseteq> set (goroutines (manager_state r)))) \<and>
    (\<exists>c rc p. ConfigOrDie L cfg ''root-ca-cert-publisher'' = Inr rc \<and>
       NewPublisher L ConfigMaps Namespaces c (CAData rc) = Inr p \<and>
       RunWorkers p 1 \<in> set (goroutines (manager_state r)))"
proof -
  obtain c :: "('g, 'cl, 'r RestConfig) kube_Config"
    where run: "RunKubeControllers OL L order cfg cert key = kube_Run L order c" and cfg: "Kubeconfig c = cfg"
    and ca: "cc_RootCAFile (ComponentConfig c) = []"
    and csr: "cc_CSRSigning (ComponentConfig c) = (cc_CSRSigning d)\<lparr>ClusterSigningCertFile := cert, ClusterSigningKeyFile := key\<rparr>"
    and gc: "EnableGarbageCollector (cc_GarbageCollector (ComponentConfig c)) = EnableGarbageCollector (cc_GarbageCollector d)"
    by (rule RunKubeControllers_config [OF works d g])
  obtain rs where ctx: "CreateControllerContext L c cfg cfg =
      Return (Inr \<lparr>ClientBuilder = cfg, ctx_Config = ComponentConfig c, AvailableResources = rs\<rparr>)"
    using controller_context_total [OF works] by metis
  let ?ctx = "\<lparr>ClientBuilder = cfg, ctx_Config = ComponentConfig c, AvailableResources = rs\<rparr>"
  let ?st0 = "\<lparr>unsecuredMux = None, healthChecks = [], goroutines = []\<rparr>"
  have spec: "\<not> anySpecificFilesSet (cc_CSRSigning (ctx_Config ?ctx))"
    using default by (simp add: csr anySpecificFilesSet_def areKubeAPIServerClientSignerFilesSpecified_def
        areLegacyUnknownSignerFilesSpecified_def)
  have files: "has_cluster_files (cc_CSRSigning (ctx_Config ?ctx)) \<longleftrightarrow> cert \<noteq> [] \<and> key \<noteq> []"
    by (simp add: csr has_cluster_files_def)
  from StartControllers_initializers [OF works spec _ perm, of ?st0] ca files gc obtain st' where
    start: "StartControllers L ?ctx (in_order order (NewControllerInitializers L)) ?st0 = Return (None, st')"
    and names: "mset (map check_name (healthChecks st')) =
      mset (started_names (cert \<noteq> [] \<and> key \<noteq> []) (EnableGarbageCollector (cc_GarbageCollector d)))"
    and all: "\<forall>e\<in>set (NewControllerInitializers L). set (init_goroutines ?ctx e) \<subseteq> set (goroutines st')"
    by auto
  have "RunKubeControllers OL L order cfg cert key = Return \<lparr>configz_set =
      (configz_New L ''kubecontrollermanager.config.k8s.io'' = None), manager_state = st', informersStarted = True\<rparr>"
    by (simp add: run kube_Run_def createClientBuilders_def cfg ctx start)
  moreover have "\<exists>c a u ttl.
       NewKubeAPIServerClientCSRSigningController L c CertificateSigningRequests cert key ttl = Inr a \<and>
       NewLegacyUnknownCSRSigningController L c CertificateSigningRequests cert key ttl = Inr u \<and>
       {RunWorkers a 5, RunWorkers u 5} \<subseteq> set (goroutines st')" if "cert \<noteq> [] \<and> key \<noteq> []"
  proof -
    from files that have "has_cluster_files (cc_CSRSigning (ctx_Config ?ctx))" by simp
    from csrsigning_cluster_files [OF works spec this] obtain c a u where
      "NewKubeAPIServerClientCSRSigningController L c CertificateSigningRequests cert key
         (ClusterSigningDuration (cc_CSRSigning d)) = Inr a"
      "NewLegacyUnknownCSRSigningController L c CertificateSigningRequests cert key
         (ClusterSigningDuration (cc_CSRSigning d)) = Inr u"
      "startCSRSigningController L ?ctx = Return ((None, True, None), [RunWorkers a 5, RunWorkers u 5])"
      by (simp add: csr) metis
    then show ?thesis using all by (intro exI conjI) (assumption, assumption, simp add: NewControllerInitializers_def)
  qed
  moreover have "\<exists>c rc p. ConfigOrDie L cfg ''root-ca-cert-publisher'' = Inr rc \<and>
       NewPublisher L ConfigMaps Namespaces c (CAData rc) = Inr p \<and> RunWorkers p 1 \<in> set (goroutines st')"
  proof -
    have "cc_RootCAFile (ctx_Config ?ctx) = []" using ca by simp
    from publisher_uses_ca_data [OF works this] obtain c rc p where "ConfigOrDie L cfg ''root-ca-cert-publisher'' = Inr rc"
      "NewPublisher L ConfigMaps Namespaces c (CAData rc) = Inr p"
      "startRootCACertPublisher L ?ctx = Return ((None, True, None), [RunWorkers p 1])"
      by simp metis
    then show ?thesis using all by (intro exI conjI) (assumption, assumption, simp add: NewControllerInitializers_def)
  qed
  ultimately show ?thesis using names by auto
qed

section \<open>A library and a configuration to run on\<close>

text \<open>Clients and controllers are names; a signer needs both of its files.\<close>

definition echo_signer :: "string \<Rightarrow> string \<Rightarrow> string \<Rightarrow> error + string" where
  "echo_signer n cert key = (if cert = [] \<or> key = [] then Inl (Errorf ''cannot load'') else Inr (n @ cert @ key))"

definition echo_lib :: "(unit, string, string, unit) kube_lib" where
  "echo_lib = \<lparr>f32_mul = (\<lambda>a b. a), ConfigOrDie = (\<lambda>rc n. Inr rc), ClientOrDie = (\<lambda>rc n. Inr n),
     DiscoveryClientOrDie = (\<lambda>rc n. Inr n), clientset_NewForConfig = (\<lambda>rc. Inr ''client''),
     metadata_NewForConfig = (\<lambda>rc. Inr ''metadata''),
     ServerGroupsAndResources = (\<lambda>c. ([(''v1'', [''namespaces''])], None)),
     ParseGroupVersion = (\<lambda>gv. Inr ([], gv)),
     NewKubeAPIServerClientCSRSigningController = (\<lambda>c i cert key ttl. echo_signer ''client '' cert key),
     NewLegacyUnknownCSRSigningController = (\<lambda>c i cert key ttl. echo_signer ''legacy '' cert key),
     NewCSRApprovingController = (\<lambda>c i. ''approver''), NewCSRCleanerController = (\<lambda>c i. ''cleaner''),
     NewPublisher = (\<lambda>i j c ca. Inr ca), NewSigner = (\<lambda>c i j. Inr ''signer''),
     NewTokenCleaner = (\<lambda>c i. Inr ''tokens''), NewNamespaceController = (\<lambda>c m i d f. ''namespaces''),
     NewGarbageCollector = (\<lambda>c m rs. Inr ''collector''), FinalizerKubernetes = ''kubernetes'',
     interface_of = (\<lambda>c. \<lparr>DebuggingHandler = None, HealthChecker = None\<rparr>),
     os_ReadFile = (\<lambda>f. Inr f), ParseCertsPEM = (\<lambda>b. None), configz_New = (\<lambda>n. None)\<rparr>"

definition echo_options :: "(unit, unit) options_lib" where
  "echo_options = \<lparr>DefaultComponentConfig = Inr ((zero_component_config ())
       \<lparr>cc_GarbageCollector := \<lparr>EnableGarbageCollector = True, ConcurrentGCSyncs = 20, GCIgnoredResources = []\<rparr>\<rparr>),
     NewGenericOptions = (\<lambda>g. g), GenericApplyTo = (\<lambda>go g. Inr g), ZeroGeneric = (), DefaultIgnoredResources = []\<rparr>"

definition echo_context :: "CSRSigningControllerConfiguration \<Rightarrow> (unit, unit) ControllerContext" where
  "echo_context csr = \<lparr>ClientBuilder = \<lparr>QPS = 0, Burst = 0, CAData = ''ca'', rc_other = ()\<rparr>,
     ctx_Config = (zero_component_config ())\<lparr>cc_CSRSigning := csr\<rparr>, AvailableResources = []\<rparr>"

lemma echo_lib_works: "library_works echo_lib"
  by (simp add: library_works_def echo_lib_def echo_signer_def)

theorem csr_signers_selected_witness:
  "startCSRSigningController echo_lib
     (echo_context (zero_csr\<lparr>LegacyUnknownSigner := \<lparr>sc_CertFile = ''c'', sc_KeyFile = ''k''\<rparr>\<rparr>)) =
   Return ((None, True, None), [RunWorkers ''legacy ck'' 5])"
proof -
  let ?ctx = "echo_context (zero_csr\<lparr>LegacyUnknownSigner := \<lparr>sc_CertFile = ''c'', sc_KeyFile = ''k''\<rparr>\<rparr>)"
  have valid: "csr_Validate (Some (cc_CSRSigning (ctx_Config ?ctx))) = []" by code_simp
  have cl: "ClientOrDie echo_lib (ClientBuilder ?ctx) ''certificate-controller'' = Inr ''certificate-controller''"
    by (simp add: echo_lib_def)
  have "startCSRSigningController echo_lib ?ctx =
    (let config = cc_CSRSigning (ctx_Config ?ctx); ttl = ClusterSigningDuration config;
         a = KubeAPIServerClientSigner config; u = LegacyUnknownSigner config;
         A = (\<lambda>cert key ttl. ''client '' @ cert @ key); U = (\<lambda>cert key ttl. ''legacy '' @ cert @ key)
     in if has_cluster_files config
        then Return ((None, True, None),
          [RunWorkers (A (ClusterSigningCertFile config) (ClusterSigningKeyFile config) ttl) 5,
           RunWorkers (U (ClusterSigningCertFile config) (ClusterSigningKeyFile config) ttl) 5])
        else Return ((None, sc_CertFile a \<noteq> [] \<or> sc_CertFile u \<noteq> [], None),
          (if sc_CertFile a = [] then [] else [RunWorkers (A (sc_CertFile a) (sc_KeyFile a) ttl) 5]) @
          (if sc_CertFile u = [] then [] else [RunWorkers (U (sc_CertFile u) (sc_KeyFile u) ttl) 5])))"
    unfolding Let_def
    by (rule csr_signers_selected [OF valid cl, unfolded Let_def]) (simp_all add: echo_lib_def echo_signer_def)
  then show ?thesis by (simp add: echo_context_def zero_csr_def no_files_def has_cluster_files_def)
qed

theorem start_controllers_any_order_witness:
  "\<exists>st'. StartControllers echo_lib (echo_context zero_csr)
      [(''tokencleaner'', startTokenCleanerController echo_lib),
       (''csrsigning'', startCSRSigningController echo_lib)]
      \<lparr>unsecuredMux = None, healthChecks = [], goroutines = []\<rparr> = Return (None, st') \<and>
    healthChecks st' = [NamedPingChecker ''tokencleaner''] \<and> goroutines st' = [RunAlone ''tokens'']"
proof -
  let ?L = echo_lib and ?ctx = "echo_context zero_csr"
  let ?cs = "[(''csrsigning'', startCSRSigningController ?L), (''tokencleaner'', startTokenCleanerController ?L)]"
  let ?C = "\<lambda>e. None" and ?E = "\<lambda>e. None" and ?S = "\<lambda>e. fst e = ''tokencleaner''"
  let ?G = "\<lambda>e. if fst e = ''tokencleaner'' then [RunAlone ''tokens''] else []"
  have "startTokenCleanerController ?L ?ctx = Return ((None, True, None), [RunAlone ''tokens''])"
    by (simp add: startTokenCleanerController_def echo_lib_def)
  moreover have "startCSRSigningController ?L ?ctx = Return ((None, False, None), [])" by code_simp
  ultimately have "snd e ?ctx = Return ((?C e, ?S e, ?E e), ?G e)" if "e \<in> set ?cs" for e
    using that by auto
  from start_controllers_any_order [where cs = ?cs and order = "rev ?cs" and L = ?L and
      st = "\<lparr>unsecuredMux = None, healthChecks = [], goroutines = []\<rparr>", OF this]
  show ?thesis by (auto simp: check_for_def)
qed

theorem kube_controllers_started_witness:
  "\<exists>r. RunKubeControllers echo_options echo_lib (started_names True True)
      \<lparr>QPS = 0, Burst = 0, CAData = ''ca'', rc_other = ()\<rparr> ''c'' ''k'' = Return r \<and>
    mset (map check_name (healthChecks (manager_state r))) = mset (started_names True True) \<and>
    {RunWorkers ''client ck'' 5, RunWorkers ''legacy ck'' 5, RunWorkers ''ca'' 1} \<subseteq> set (goroutines (manager_state r))"
proof -
  let ?d = "(zero_component_config ())
    \<lparr>cc_GarbageCollector := \<lparr>EnableGarbageCollector = True, ConcurrentGCSyncs = 20, GCIgnoredResources = []\<rparr>\<rparr>"
  let ?rc = "\<lparr>QPS = 0, Burst = 0, CAData = ''ca'', rc_other = ()\<rparr>"
  have d: "DefaultComponentConfig echo_options = Inr ?d" by (simp add: echo_options_def)
  have g: "GenericApplyTo echo_options (NewGenericOptions echo_options (cc_Generic ?d)) (ZeroGeneric echo_options) = Inr ()"
    by (simp add: echo_options_def)
  have n: "\<not> anySpecificFilesSet (cc_CSRSigning ?d)" by code_simp
  from kube_controllers_started [OF echo_lib_works d g n, of "started_names True True" ?rc "''c''" "''k''"]
  show ?thesis by (auto simp: echo_lib_def echo_signer_def)
qed

end
