(* ===== verification/ApiDefaults.thy ===== *)
theory ApiDefaults
  imports Prelude
begin

text \<open>
  What the API server serves and admits by default: the tables of
  \<^verbatim>\<open>src/server/apiserver/apienablement.go\<close> with \<open>APIResourceConfigSource\<close>, and the admission plugins of
  \<^verbatim>\<open>src/server/apiserver/options/plugins.go\<close> with the wrapper \<open>AdmissionOptions\<close> of \<^verbatim>\<open>admission.go\<close>.

  The packages of the Kubernetes API are the constructors of \<open>api_package\<close>, named as the imports are;
  their constant \<open>SchemeGroupVersion\<close> is an argument. So are the operations of \<open>ResourceConfig\<close> and
  of the plugin registry and the generic admission options, which belong to the generic API
  server. The plugin names are those the source gives beside each constant.
\<close>

section \<open>API enablement\<close>

datatype api_package = admissionregistrationv1 | apiserverinternalv1alpha1 | authenticationv1
  | authorizationapiv1 | autoscalingapiv2beta1 | autoscalingapiv2beta2 | batchapiv1beta1
  | certificatesapiv1 | coordinationapiv1 | apiv1 | discoveryv1 | discoveryv1beta1 | eventsv1
  | eventsv1beta1 | flowcontrolv1alpha1 | nodev1beta1 | policyapiv1beta1 | rbacv1 | storageapiv1
  | storageapiv1alpha1 | storageapiv1beta1 | flowcontrolv1beta1 | flowcontrolv1beta2

type_synonym group_version = "string \<times> string"

definition stableAPIGroupVersionsEnabledByDefault :: "api_package list" where
  "stableAPIGroupVersionsEnabledByDefault =
     [admissionregistrationv1, apiv1, authenticationv1, authorizationapiv1, certificatesapiv1,
      coordinationapiv1, discoveryv1, eventsv1, rbacv1, storageapiv1]"

definition legacyBetaEnabledByDefaultResources :: "(api_package \<times> string) list" where
  "legacyBetaEnabledByDefaultResources =
     [(discoveryv1beta1, ''endpointslices''),
      (eventsv1beta1, ''events''),
      (flowcontrolv1beta1, ''flowschemas''),
      (flowcontrolv1beta1, ''prioritylevelconfigurations''),
      (flowcontrolv1beta2, ''flowschemas''),
      (flowcontrolv1beta2, ''prioritylevelconfigurations'')]"

definition betaAPIGroupVersionsDisabledByDefault :: "api_package list" where
  "betaAPIGroupVersionsDisabledByDefault =
     [autoscalingapiv2beta1, autoscalingapiv2beta2, batchapiv1beta1, discoveryv1beta1, eventsv1beta1,
      nodev1beta1, policyapiv1beta1, storageapiv1beta1, flowcontrolv1beta1, flowcontrolv1beta2]"

definition alphaAPIGroupVersionsDisabledByDefault :: "api_package list" where
  "alphaAPIGroupVersionsDisabledByDefault =
     [apiserverinternalv1alpha1, storageapiv1alpha1, flowcontrolv1alpha1]"

record 'r resource_config_ops =
  NewResourceConfig :: 'r
  EnableVersions :: "group_version list \<Rightarrow> 'r \<Rightarrow> 'r"
  DisableVersions :: "group_version list \<Rightarrow> 'r \<Rightarrow> 'r"
  EnableResources :: "(group_version \<times> string) list \<Rightarrow> 'r \<Rightarrow> 'r"

definition APIResourceConfigSource ::
  "'r resource_config_ops \<Rightarrow> (api_package \<Rightarrow> group_version) \<Rightarrow> 'r" where
  "APIResourceConfigSource R SchemeGroupVersion =
     (let ret = NewResourceConfig R;
          ret = EnableVersions R (map SchemeGroupVersion stableAPIGroupVersionsEnabledByDefault) ret;
          ret = DisableVersions R (map SchemeGroupVersion betaAPIGroupVersionsDisabledByDefault) ret;
          ret = DisableVersions R (map SchemeGroupVersion alphaAPIGroupVersionsDisabledByDefault) ret
      in EnableResources R
           (map (\<lambda>(package, resource). (SchemeGroupVersion package, resource)) legacyBetaEnabledByDefaultResources)
           ret)"

lemmas enablement_tables = stableAPIGroupVersionsEnabledByDefault_def legacyBetaEnabledByDefaultResources_def
  betaAPIGroupVersionsDisabledByDefault_def alphaAPIGroupVersionsDisabledByDefault_def

section \<open>Admission plugins\<close>

definition AllOrderedPlugins :: "string list" where
  "AllOrderedPlugins =
     [''NamespaceAutoProvision'', ''NamespaceLifecycle'', ''NamespaceExists'', ''ServiceAccount'',
      ''EventRateLimit'', ''OwnerReferencesPermissionEnforcement'', ''CertificateApproval'',
      ''CertificateSigning'', ''CertificateSubjectRestriction'',
      ''MutatingAdmissionWebhook'', ''ValidatingAdmissionWebhook'', ''ResourceQuota'']"

definition RegisterAllAdmissionPlugins :: "(string \<Rightarrow> 'p \<Rightarrow> 'p) \<Rightarrow> 'p \<Rightarrow> 'p" where
  "RegisterAllAdmissionPlugins Register =
     fold Register
       [''EventRateLimit'', ''OwnerReferencesPermissionEnforcement'', ''NamespaceAutoProvision'',
        ''NamespaceExists'', ''ResourceQuota'', ''ServiceAccount'', ''CertificateApproval'',
        ''CertificateSigning'', ''CertificateSubjectRestriction'']"

definition DefaultOffAdmissionPlugins :: "string list" where
  "DefaultOffAdmissionPlugins =
     (let defaultOnPlugins =
            [''NamespaceLifecycle'', ''ServiceAccount'', ''MutatingAdmissionWebhook'',
             ''ValidatingAdmissionWebhook'', ''ResourceQuota'', ''CertificateApproval'',
             ''CertificateSigning'', ''CertificateSubjectRestriction'']
      in filter (\<lambda>p. p \<notin> set defaultOnPlugins) (remdups AllOrderedPlugins))"

text \<open>The generic admission options, with the registry \<open>'p\<close> of plugins.\<close>

record 'p GenericAdmissionOptions =
  Plugins :: 'p
  RecommendedPluginOrder :: "string list"
  DefaultOffPlugins :: "string list"

record 'p AdmissionOptions =
  GenericAdmission :: "'p GenericAdmissionOptions"

definition NewAdmissionOptions ::
  "(string \<Rightarrow> 'p \<Rightarrow> 'p) \<Rightarrow> 'p GenericAdmissionOptions \<Rightarrow> 'p AdmissionOptions" where
  "NewAdmissionOptions Register generic =
     \<lparr>GenericAdmission = generic\<lparr>
        Plugins := RegisterAllAdmissionPlugins Register (Plugins generic),
        RecommendedPluginOrder := AllOrderedPlugins,
        DefaultOffPlugins := DefaultOffAdmissionPlugins\<rparr>\<rparr>"

text \<open>\<open>Validate\<close> and \<open>ApplyTo\<close> delegate; \<open>ApplyTo\<close> accepts a nil receiver.\<close>

definition admission_Validate :: "('p GenericAdmissionOptions \<Rightarrow> string list) \<Rightarrow> 'p AdmissionOptions \<Rightarrow> string list" where
  "admission_Validate generic_Validate a = generic_Validate (GenericAdmission a)"

definition admission_ApplyTo ::
  "('p GenericAdmissionOptions \<Rightarrow> 'cfg \<Rightarrow> error + 'cfg) \<Rightarrow> 'p AdmissionOptions option \<Rightarrow> 'cfg \<Rightarrow> error + 'cfg" where
  "admission_ApplyTo generic_ApplyTo a cfg =
     (case a of None \<Rightarrow> Inr cfg | Some a' \<Rightarrow> generic_ApplyTo (GenericAdmission a') cfg)"

section \<open>Lemmas\<close>

lemma disabled_not_stable:
  "set stableAPIGroupVersionsEnabledByDefault \<inter>
     (set betaAPIGroupVersionsDisabledByDefault \<union> set alphaAPIGroupVersionsDisabledByDefault) = {}"
  by (simp add: enablement_tables)

section \<open>Properties\<close>

text \<open>
  C37. By default the API server serves all resources of the ten stable group-versions, and apart
  from these exactly the six legacy beta resources, although the group-versions they belong to are
  switched off; nothing of an alpha version is served. This rests on what \<open>ResourceConfig\<close> promises:
  a version preference is overwritten by the last call that names the version, a resource
  preference takes precedence over that of its version, and calls on versions create none.
\<close>

theorem enabled_by_default:
  assumes new: "\<And>v. ver (NewResourceConfig R) v = None" "\<And>r. res (NewResourceConfig R) r = None"
    and enable: "\<And>vs c v. ver (EnableVersions R vs c) v = (if v \<in> set vs then Some True else ver c v)"
      "\<And>vs c r. res c r = None \<Longrightarrow> res (EnableVersions R vs c) r = None"
    and disable: "\<And>vs c v. ver (DisableVersions R vs c) v = (if v \<in> set vs then Some False else ver c v)"
      "\<And>vs c r. res c r = None \<Longrightarrow> res (DisableVersions R vs c) r = None"
    and resources: "\<And>rs c v. ver (EnableResources R rs c) v = ver c v"
      "\<And>rs c r. res (EnableResources R rs c) r = (if r \<in> set rs then Some True else res c r)"
    and packages: "inj SchemeGroupVersion"
  shows "(case res (APIResourceConfigSource R SchemeGroupVersion) (SchemeGroupVersion p, resource) of
            Some enabled \<Rightarrow> enabled
          | None \<Rightarrow> ver (APIResourceConfigSource R SchemeGroupVersion) (SchemeGroupVersion p) = Some True) \<longleftrightarrow>
     p \<in> set stableAPIGroupVersionsEnabledByDefault \<or> (p, resource) \<in> set legacyBetaEnabledByDefaultResources"
proof -
  let ?c = "APIResourceConfigSource R SchemeGroupVersion"
  have mem: "SchemeGroupVersion p \<in> SchemeGroupVersion ` set ps \<longleftrightarrow> p \<in> set ps" for ps
    using packages by (auto dest: injD)
  have "ver ?c (SchemeGroupVersion p) = Some True \<longleftrightarrow> p \<in> set stableAPIGroupVersionsEnabledByDefault"
    using disabled_not_stable
    by (auto simp: APIResourceConfigSource_def Let_def new enable disable resources mem)
  moreover have "(SchemeGroupVersion p, resource) \<in>
      (\<lambda>(package, resource). (SchemeGroupVersion package, resource)) ` set legacyBetaEnabledByDefaultResources \<longleftrightarrow>
    (p, resource) \<in> set legacyBetaEnabledByDefaultResources"
    using packages by (force dest: injD)
  ultimately show ?thesis
    by (simp add: APIResourceConfigSource_def Let_def new enable disable resources)
qed

text \<open>A resource configuration as two maps of preferences, and the group-versions of some packages.\<close>

type_synonym preferences = "(group_version \<Rightarrow> bool option) \<times> (group_version \<times> string \<Rightarrow> bool option)"

definition map_resource_config :: "preferences resource_config_ops" where
  "map_resource_config =
     \<lparr>NewResourceConfig = (\<lambda>_. None, \<lambda>_. None),
      EnableVersions = (\<lambda>vs (v, r). (\<lambda>x. if x \<in> set vs then Some True else v x,
        \<lambda>x. if fst x \<in> set vs then None else r x)),
      DisableVersions = (\<lambda>vs (v, r). (\<lambda>x. if x \<in> set vs then Some False else v x,
        \<lambda>x. if fst x \<in> set vs then None else r x)),
      EnableResources = (\<lambda>rs (v, r). (v, \<lambda>x. if x \<in> set rs then Some True else r x))\<rparr>"

fun sample_group_version :: "api_package \<Rightarrow> group_version" where
  "sample_group_version admissionregistrationv1 = (''admissionregistration.k8s.io'', ''v1'')"
| "sample_group_version apiserverinternalv1alpha1 = (''internal.apiserver.k8s.io'', ''v1alpha1'')"
| "sample_group_version authenticationv1 = (''authentication.k8s.io'', ''v1'')"
| "sample_group_version authorizationapiv1 = (''authorization.k8s.io'', ''v1'')"
| "sample_group_version autoscalingapiv2beta1 = (''autoscaling'', ''v2beta1'')"
| "sample_group_version autoscalingapiv2beta2 = (''autoscaling'', ''v2beta2'')"
| "sample_group_version batchapiv1beta1 = (''batch'', ''v1beta1'')"
| "sample_group_version certificatesapiv1 = (''certificates.k8s.io'', ''v1'')"
| "sample_group_version coordinationapiv1 = (''coordination.k8s.io'', ''v1'')"
| "sample_group_version apiv1 = ([], ''v1'')"
| "sample_group_version discoveryv1 = (''discovery.k8s.io'', ''v1'')"
| "sample_group_version discoveryv1beta1 = (''discovery.k8s.io'', ''v1beta1'')"
| "sample_group_version eventsv1 = (''events.k8s.io'', ''v1'')"
| "sample_group_version eventsv1beta1 = (''events.k8s.io'', ''v1beta1'')"
| "sample_group_version flowcontrolv1alpha1 = (''flowcontrol.apiserver.k8s.io'', ''v1alpha1'')"
| "sample_group_version nodev1beta1 = (''node.k8s.io'', ''v1beta1'')"
| "sample_group_version policyapiv1beta1 = (''policy'', ''v1beta1'')"
| "sample_group_version rbacv1 = (''rbac.authorization.k8s.io'', ''v1'')"
| "sample_group_version storageapiv1 = (''storage.k8s.io'', ''v1'')"
| "sample_group_version storageapiv1alpha1 = (''storage.k8s.io'', ''v1alpha1'')"
| "sample_group_version storageapiv1beta1 = (''storage.k8s.io'', ''v1beta1'')"
| "sample_group_version flowcontrolv1beta1 = (''flowcontrol.apiserver.k8s.io'', ''v1beta1'')"
| "sample_group_version flowcontrolv1beta2 = (''flowcontrol.apiserver.k8s.io'', ''v1beta2'')"

definition all_packages :: "api_package list" where
  "all_packages = stableAPIGroupVersionsEnabledByDefault @ betaAPIGroupVersionsDisabledByDefault @
     alphaAPIGroupVersionsDisabledByDefault"

lemma all_packages_complete: "p \<in> set all_packages"
  by (cases p) (simp_all add: all_packages_def enablement_tables)

lemma sample_group_version_inj: "inj sample_group_version"
proof -
  have "distinct (map sample_group_version all_packages)" by code_simp
  moreover have "set all_packages = UNIV" using all_packages_complete by blast
  ultimately show ?thesis by (metis distinct_map)
qed

theorem enabled_by_default_witness:
  "(case snd (APIResourceConfigSource map_resource_config sample_group_version)
          (sample_group_version eventsv1beta1, ''events'') of
      Some enabled \<Rightarrow> enabled
    | None \<Rightarrow> fst (APIResourceConfigSource map_resource_config sample_group_version)
                 (sample_group_version eventsv1beta1) = Some True)"
  by (subst enabled_by_default [where ver = fst and res = snd])
    (auto simp: map_resource_config_def enablement_tables sample_group_version_inj split_beta)

text \<open>
  Exactly the four plugins NamespaceAutoProvision, NamespaceExists, EventRateLimit and
  OwnerReferencesPermissionEnforcement are off by default. The recommended order names no plugin
  twice, ends with the two webhooks and the quota, and names only registered plugins, as the generic
  options register the three the file does not register itself.
\<close>

theorem admission_defaults:
  assumes registry: "\<And>n p. Registered (Register n p) = insert n (Registered p)"
    and generic: "{''NamespaceLifecycle'', ''MutatingAdmissionWebhook'', ''ValidatingAdmissionWebhook''}
      \<subseteq> Registered (Plugins generic)"
    and o': "NewAdmissionOptions Register generic = \<lparr>GenericAdmission = a\<rparr>"
  shows "set (DefaultOffPlugins a) =
      {''NamespaceAutoProvision'', ''NamespaceExists'', ''EventRateLimit'', ''OwnerReferencesPermissionEnforcement''} \<and>
    distinct (RecommendedPluginOrder a) \<and> set (DefaultOffPlugins a) \<subseteq> set (RecommendedPluginOrder a) \<and>
    drop (length (RecommendedPluginOrder a) - 3) (RecommendedPluginOrder a) =
      [''MutatingAdmissionWebhook'', ''ValidatingAdmissionWebhook'', ''ResourceQuota''] \<and>
    set (RecommendedPluginOrder a) \<subseteq> Registered (Plugins a)"
proof -
  have a: "a = generic\<lparr>Plugins := RegisterAllAdmissionPlugins Register (Plugins generic),
      RecommendedPluginOrder := AllOrderedPlugins, DefaultOffPlugins := DefaultOffAdmissionPlugins\<rparr>"
    using o' by (simp add: NewAdmissionOptions_def)
  have off: "DefaultOffAdmissionPlugins = [''NamespaceAutoProvision'', ''NamespaceExists'', ''EventRateLimit'',
      ''OwnerReferencesPermissionEnforcement'']" by code_simp
  have "distinct AllOrderedPlugins" by code_simp
  moreover have "set AllOrderedPlugins \<subseteq> Registered (RegisterAllAdmissionPlugins Register (Plugins generic))"
    using generic by (simp add: RegisterAllAdmissionPlugins_def AllOrderedPlugins_def registry)
  ultimately show ?thesis by (simp add: a off AllOrderedPlugins_def)
qed

theorem admission_defaults_witness:
  "\<exists>a. NewAdmissionOptions insert \<lparr>Plugins = {''NamespaceLifecycle'', ''MutatingAdmissionWebhook'',
       ''ValidatingAdmissionWebhook''}, RecommendedPluginOrder = [], DefaultOffPlugins = []\<rparr> = \<lparr>GenericAdmission = a\<rparr> \<and>
     ''EventRateLimit'' \<in> set (DefaultOffPlugins a) \<and> ''ResourceQuota'' \<notin> set (DefaultOffPlugins a)"
proof -
  let ?g = "\<lparr>Plugins = {''NamespaceLifecycle'', ''MutatingAdmissionWebhook'', ''ValidatingAdmissionWebhook''},
    RecommendedPluginOrder = [], DefaultOffPlugins = []\<rparr>"
  obtain a where a: "NewAdmissionOptions insert ?g = \<lparr>GenericAdmission = a\<rparr>"
    by (metis AdmissionOptions.cases)
  from admission_defaults [where Registered = id, OF _ _ a] a show ?thesis by auto
qed

end
