(* ===== verification/ServerConfig.thy ===== *)
theory ServerConfig
  imports AuthOptions ApiDefaults "HOL-Library.Multiset"
begin

text \<open>
  The configuration of the API server, \<^verbatim>\<open>src/server/apiserver/server.go\<close> and
  \<^verbatim>\<open>src/server/apiserver/options/options.go\<close>, \<^verbatim>\<open>embeddedetcd.go\<close>: the defaulting done by
  \<open>Complete\<close>, its helpers (service ranges, watch cache sizes, the runtime-config rewrite), the
  validation of the options, and the use \<open>Run\<close> makes of them.

  Go maps are association lists with distinct keys; where the code ranges over a map, the
  order of the list stands for the iteration order, which Go leaves open. Addresses \<open>'ip\<close>,
  networks \<open>'net\<close>, keys and token generators are opaque values; the library calls that produce
  them are the fields of \<open>complete_env\<close>. A result of type \<open>(error + 'a) outcome\<close> may be a panic,
  an error or a value.
\<close>

definition bind_call :: "(error + 'a) outcome \<Rightarrow> ('a \<Rightarrow> (error + 'b) outcome) \<Rightarrow> (error + 'b) outcome" where
  "bind_call m f = bind_outcome m (\<lambda>r. case r of Inl e \<Rightarrow> Return (Inl e) | Inr x \<Rightarrow> f x)"

lemma bind_call_Inr_iff:
  "bind_call m f = Return (Inr y) \<longleftrightarrow> (\<exists>x. m = Return (Inr x) \<and> f x = Return (Inr y))"
  by (cases m) (auto simp: bind_call_def split: sum.splits)

lemma bind_call_simps [simp]:
  "bind_call (Return (Inr x)) f = f x" "bind_call (Return (Inl e)) f = Return (Inl e)"
  "bind_call (Panic p) f = Panic p"
  by (simp_all add: bind_call_def)

section \<open>Watch cache sizes\<close>

text \<open>\<open>ParseGroupResource\<close> and \<open>GroupResource.String\<close> of the API machinery.\<close>

record 'r group_resource_ops =
  ParseGroupResource :: "string \<Rightarrow> 'r"
  gr_String :: "'r \<Rightarrow> string"

fun parse_sizes :: "'r group_resource_ops \<Rightarrow> string list \<Rightarrow> ('r \<times> int) list \<Rightarrow> error + ('r \<times> int) list" where
  "parse_sizes G [] watchCacheSizes = Inr watchCacheSizes"
| "parse_sizes G (c # cs) watchCacheSizes =
     (let tokens = Split CHR ''#'' c
      in if length tokens \<noteq> 2 then Inl (Errorf ''invalid value of watch cache size: %s'')
         else (case Atoi (tokens ! 1) of
                 None \<Rightarrow> Inl (Errorf ''invalid size of watch cache size: %s'')
               | Some sz \<Rightarrow>
                   if sz < 0 then Inl (Errorf ''watch cache size cannot be negative: %s'')
                   else parse_sizes G cs
                     (AList.update (ParseGroupResource G (tokens ! 0)) sz watchCacheSizes)))"

definition ParseWatchCacheSizes :: "'r group_resource_ops \<Rightarrow> string list \<Rightarrow> error + ('r \<times> int) list" where
  "ParseWatchCacheSizes G cacheSizes = parse_sizes G cacheSizes []"

fun WriteWatchCacheSizes :: "'r group_resource_ops \<Rightarrow> ('r \<times> int) list \<Rightarrow> error + string list" where
  "WriteWatchCacheSizes G [] = Inr []"
| "WriteWatchCacheSizes G ((resource, sz) # m) =
     (if sz < 0 then Inl (Errorf ''watch cache size cannot be negative for resource %s'')
      else (case WriteWatchCacheSizes G m of
              Inl err \<Rightarrow> Inl err
            | Inr cacheSizes \<Rightarrow> Inr ((gr_String G resource @ ''#'' @ Itoa sz) # cacheSizes)))"

locale group_resources =
  fixes G :: "'r group_resource_ops" and valid :: "'r \<Rightarrow> bool"
  assumes parse_String: "valid r \<Longrightarrow> ParseGroupResource G (gr_String G r) = r"
    and String_hash_free: "valid r \<Longrightarrow> CHR ''#'' \<notin> set (gr_String G r)"
begin

lemma write_success:
  assumes "\<forall>(r, n)\<in>set m. 0 \<le> n"
  shows "WriteWatchCacheSizes G m = Inr (map (\<lambda>(r, n). gr_String G r @ ''#'' @ Itoa n) m)"
  using assms by (induction m) auto

lemma parse_written:
  assumes "valid r" and "0 \<le> n" and "in_int64 n"
  shows "parse_sizes G ((gr_String G r @ ''#'' @ Itoa n) # cs) m =
    parse_sizes G cs (AList.update r n m)"
  using assms
  by (simp add: Split_append String_hash_free Split_free Itoa_hash_free Atoi_Itoa parse_String)

lemma parse_all_written:
  assumes "\<forall>(r, n)\<in>set m. valid r \<and> 0 \<le> n \<and> in_int64 n"
  shows "\<exists>m'. parse_sizes G (map (\<lambda>(r, n). gr_String G r @ ''#'' @ Itoa n) m) acc = Inr m' \<and>
    map_of m' = map_of acc ++ map_of (rev m)"
  using assms
proof (induction m arbitrary: acc)
  case Nil
  then show ?case by simp
next
  case (Cons e m)
  obtain r n where e: "e = (r, n)" by fastforce
  from Cons.prems have "\<forall>(r, n)\<in>set m. valid r \<and> 0 \<le> n \<and> in_int64 n" by simp
  then have "\<exists>m'. parse_sizes G (map (\<lambda>(r, n). gr_String G r @ ''#'' @ Itoa n) m) (AList.update r n acc) = Inr m' \<and>
      map_of m' = map_of (AList.update r n acc) ++ map_of (rev m)"
    by (rule Cons.IH)
  then obtain m' where p:
      "parse_sizes G (map (\<lambda>(r, n). gr_String G r @ ''#'' @ Itoa n) m) (AList.update r n acc) = Inr m'"
      and m': "map_of m' = (map_of acc)(r \<mapsto> n) ++ map_of (rev m)"
    by (auto simp only: map_of_update)
  from Cons.prems have "valid r" and "0 \<le> n" and "in_int64 n" by (simp_all add: e)
  from parse_written [OF this] p
  have "parse_sizes G (map (\<lambda>(r, n). gr_String G r @ ''#'' @ Itoa n) (e # m)) acc = Inr m'"
    by (simp only: e list.map prod.case)
  moreover from m' have "map_of m' = map_of acc ++ map_of (rev (e # m))" by (simp add: e)
  ultimately show ?case by blast
qed

end

text \<open>The pair of the API machinery: \<^verbatim>\<open>resource.group\<close>, cut at the first dot.\<close>

fun cut_at :: "char \<Rightarrow> string \<Rightarrow> (string \<times> string) option" where
  "cut_at sep [] = None"
| "cut_at sep (c # s) =
     (if c = sep then Some ([], s) else map_option (\<lambda>(a, b). (c # a, b)) (cut_at sep s))"

definition pair_resources :: "(string \<times> string) group_resource_ops" where
  "pair_resources = \<lparr>
     ParseGroupResource = (\<lambda>s. case cut_at CHR ''.'' s of None \<Rightarrow> ([], s) | Some (r, g) \<Rightarrow> (g, r)),
     gr_String = (\<lambda>(g, r). if g = [] then r else r @ ''.'' @ g)\<rparr>"

definition pair_valid :: "string \<times> string \<Rightarrow> bool" where
  "pair_valid = (\<lambda>(g, r). CHR ''.'' \<notin> set r \<and> CHR ''#'' \<notin> set r \<and> CHR ''#'' \<notin> set g)"

lemma cut_at_free: "sep \<notin> set s \<Longrightarrow> cut_at sep s = None"
  by (induction s) auto

lemma cut_at_append: "sep \<notin> set a \<Longrightarrow> cut_at sep (a @ sep # b) = Some (a, b)"
  by (induction a) auto

interpretation pairs: group_resources pair_resources pair_valid
  by unfold_locales (auto simp: pair_resources_def pair_valid_def cut_at_free cut_at_append split: if_splits)

lemma parse_sizes_nonneg:
  assumes "parse_sizes G cs acc = Inr m" and "\<And>r n. map_of acc r = Some n \<Longrightarrow> 0 \<le> n \<and> in_int64 n"
  shows "map_of m r = Some n \<Longrightarrow> 0 \<le> n \<and> in_int64 n"
  using assms
proof (induction cs arbitrary: acc)
  case Nil
  then show ?case by simp
next
  case (Cons c cs)
  let ?t = "Split CHR ''#'' c"
  from Cons.prems(2) obtain sz where sz: "Atoi (?t ! 1) = Some sz" "\<not> sz < 0"
      and rest: "parse_sizes G cs (AList.update (ParseGroupResource G (?t ! 0)) sz acc) = Inr m"
    by (auto simp: Let_def split: if_splits option.splits)
  have "0 \<le> n' \<and> in_int64 n'"
    if "map_of (AList.update (ParseGroupResource G (?t ! 0)) sz acc) r' = Some n'" for r' n'
    using that Cons.prems(3) [of r' n'] Atoi_range [OF sz(1)] sz(2)
    by (cases "r' = ParseGroupResource G (?t ! 0)") simp_all
  with Cons.prems(1) rest show ?case by (rule Cons.IH)
qed

section \<open>The runtime configuration\<close>

definition legacy_v1 :: "string \<Rightarrow> bool" where
  "legacy_v1 key \<longleftrightarrow> key = ''v1'' \<or> HasPrefix key ''v1/'' \<or> key = ''api/v1'' \<or> HasPrefix key ''api/v1/''"

text \<open>
  One iteration of the loop and the loop. The entries are visited in an order Go does not fix;
  an entry put in during the loop (only \<^verbatim>\<open>/v1\<close>) changes nothing if it is visited.
\<close>

definition rewrite_entry :: "string \<times> string \<Rightarrow> (string \<times> string) list \<Rightarrow> (string \<times> string) list" where
  "rewrite_entry kv m =
     (let m1 = (if legacy_v1 (fst kv) then AList.update ''/v1'' (snd kv) (AList.delete (fst kv) m) else m)
      in if fst kv = ''api/legacy'' then AList.delete (fst kv) m1 else m1)"

fun rewrite_runtime_config :: "(string \<times> string) list \<Rightarrow> (string \<times> string) list \<Rightarrow> (string \<times> string) list" where
  "rewrite_runtime_config [] m = m"
| "rewrite_runtime_config (kv # kvs) m = rewrite_runtime_config kvs (rewrite_entry kv m)"

definition gone :: "string \<Rightarrow> bool" where
  "gone k \<longleftrightarrow> legacy_v1 k \<or> k = ''api/legacy''"

lemma legacy_v1_not_slash: "legacy_v1 k \<Longrightarrow> k \<noteq> ''/v1''"
  by (auto simp: legacy_v1_def HasPrefix_iff)

lemma legacy_v1_not_api_legacy: "legacy_v1 k \<Longrightarrow> k \<noteq> ''api/legacy''"
  by (auto simp: legacy_v1_def HasPrefix_iff)

lemma rewrite_entry_lookup:
  "map_of (rewrite_entry (k, v) m) =
     (if legacy_v1 k then (map_of m)(k := None, ''/v1'' \<mapsto> v)
      else if k = ''api/legacy'' then (map_of m)(k := None) else map_of m)"
  using legacy_v1_not_api_legacy [of k] by (auto simp: rewrite_entry_def Let_def)

text \<open>What is left under each key, in terms of the visited entries.\<close>

lemma rewrite_lookup:
  "map_of (rewrite_runtime_config kvs m) k =
     (if k = ''/v1''
      then (case filter (\<lambda>kv. legacy_v1 (fst kv)) kvs of [] \<Rightarrow> map_of m k | ls \<Rightarrow> Some (snd (last ls)))
      else if k \<in> fst ` set kvs \<and> gone k then None else map_of m k)"
proof (induction kvs arbitrary: m)
  case Nil
  then show ?case by simp
next
  case (Cons kv kvs)
  obtain a b where kv: "kv = (a, b)" by fastforce
  show ?case
    using Cons.IH [of "rewrite_entry kv m"] legacy_v1_not_slash [of a]
    by (auto simp: kv rewrite_entry_lookup gone_def split: list.splits)
qed

section \<open>Run options\<close>

record EmbeddedEtcd =
  Enabled :: bool
  Directory :: string
  PeerPort :: string
  ClientPort :: string
  WalSizeBytes :: int

definition NewEmbeddedEtcd :: EmbeddedEtcd where
  "NewEmbeddedEtcd = \<lparr>Enabled = False, Directory = ''.ocmconfig'', PeerPort = ''2380'',
     ClientPort = ''2379'', WalSizeBytes = 0\<rparr>"

definition EmbeddedEtcd_Validate :: "EmbeddedEtcd \<Rightarrow> string list" where
  "EmbeddedEtcd_Validate e =
     (if Enabled e
      then complain (PeerPort e = []) ''--embedded-etcd-peer-port must be specified'' @
           complain (ClientPort e = []) ''--embedded-etcd-client-port must be specified''
      else [])"

record etcd_transport =
  ServerList :: "string list"
  KeyFile :: string
  CertFile :: string
  TrustedCAFile :: string

text \<open>
  The options as far as this code reads or writes them; the names of nested fields are
  those of the leaves. The empty address is \<open>None\<close>, and a network is \<open>None\<close> when it is the zero
  value. The registry of admission plugins is the list of the names registered.
\<close>

record 'ip SecureServingOptions =
  BindAddress :: "'ip option"
  BindPort :: int
  Required :: bool
  PairName :: string
  CertDirectory :: string

definition NewSecureServingOptions :: "(string \<Rightarrow> 'ip option) \<Rightarrow> 'ip SecureServingOptions" where
  "NewSecureServingOptions ParseIPSloppy =
     \<lparr>BindAddress = ParseIPSloppy ''0.0.0.0'', BindPort = 6443, Required = True,
      PairName = ''apiserver'', CertDirectory = ''/var/run/kubernetes''\<rparr>"

record KubeletClientConfig =
  Port :: int
  ReadOnlyPort :: int
  PreferredAddressTypes :: "string list"
  HTTPTimeout :: duration

record ('c, 'h, 'ip, 'net, 'tok) ServerRunOptions =
  AdvertiseAddress :: "'ip option"
  ExternalHost :: string
  MaxRequestsInFlight :: int
  MaxMutatingRequestsInFlight :: int
  RequestTimeout :: duration
  ServiceClusterIPRanges :: string
  APIServerServiceIP :: "'ip option"
  PrimaryServiceClusterIPRange :: "'net option"
  SecondaryServiceClusterIPRange :: "'net option"
  Authentication :: "('c, 'h) BuiltInAuthenticationOptions"
  Authorization :: "BuiltInAuthorizationOptions option"
  ServiceAccountSigningKeyFile :: string
  ServerCertKeyFile :: string
  ServiceAccountIssuer :: "'tok option"
  ServiceAccountTokenMaxExpiration :: duration
  EnableWatchCache :: bool
  WatchCacheSizes :: "string list"
  RuntimeConfig :: "(string \<times> string) list"
  EtcdTransport :: etcd_transport
  Embedded :: "EmbeddedEtcd option"
  SecureServing :: "'ip SecureServingOptions"
  Admission :: "string list AdmissionOptions option"
  DefaultStorageMediaType :: string
  EnablePriorityAndFairness :: bool
  EnableAggregatorRouting :: bool
  AllowPrivileged :: bool
  EventTTL :: duration
  MaxConnectionBytesPerSec :: int
  EndpointReconcilerType :: string
  IdentityLeaseDurationSeconds :: int
  IdentityLeaseRenewIntervalSeconds :: int
  KubeletConfig :: KubeletClientConfig
  ClientKeyFile :: string

text \<open>The defaults of the libraries' option structs that \<open>NewServerRunOptions\<close> starts from.\<close>

record ('c, 'h, 'ip) option_defaults =
  d_AdvertiseAddress :: "'ip option"
  d_ExternalHost :: string
  d_MaxRequestsInFlight :: int
  d_MaxMutatingRequestsInFlight :: int
  d_RequestTimeout :: duration
  d_EnablePriorityAndFairness :: bool
  d_EnableWatchCache :: bool
  d_WatchCacheSizes :: "string list"
  d_EtcdTransport :: etcd_transport
  d_RuntimeConfig :: "(string \<times> string) list"
  d_Admission :: "string list GenericAdmissionOptions"
  d_ClientCert :: 'c
  d_RequestHeader :: 'h
  DefaultAuthWebhookRetryBackoff :: "Backoff option"
  LeaseEndpointReconcilerType :: string
  ParseIPSloppy :: "string \<Rightarrow> 'ip option"

definition NewServerRunOptions ::
  "authzmodes \<Rightarrow> ('c, 'h, 'ip) option_defaults \<Rightarrow> ('c, 'h, 'ip, 'net, 'tok) ServerRunOptions" where
  "NewServerRunOptions Z D =
     \<lparr>AdvertiseAddress = d_AdvertiseAddress D, ExternalHost = d_ExternalHost D,
      MaxRequestsInFlight = d_MaxRequestsInFlight D,
      MaxMutatingRequestsInFlight = d_MaxMutatingRequestsInFlight D, RequestTimeout = d_RequestTimeout D,
      ServiceClusterIPRanges = [], APIServerServiceIP = None, PrimaryServiceClusterIPRange = None,
      SecondaryServiceClusterIPRange = None,
      Authentication = WithAll (d_ClientCert D) (d_RequestHeader D) (DefaultAuthWebhookRetryBackoff D)
        NewBuiltInAuthenticationOptions,
      Authorization = Some (NewBuiltInAuthorizationOptions Z (DefaultAuthWebhookRetryBackoff D)),
      ServiceAccountSigningKeyFile = [], ServerCertKeyFile = [], ServiceAccountIssuer = None,
      ServiceAccountTokenMaxExpiration = 0, EnableWatchCache = d_EnableWatchCache D,
      WatchCacheSizes = d_WatchCacheSizes D, RuntimeConfig = d_RuntimeConfig D,
      EtcdTransport = d_EtcdTransport D, Embedded = Some NewEmbeddedEtcd,
      SecureServing = NewSecureServingOptions (ParseIPSloppy D),
      Admission = Some (NewAdmissionOptions List.insert (d_Admission D)),
      DefaultStorageMediaType = ''application/vnd.kubernetes.protobuf'',
      EnablePriorityAndFairness = d_EnablePriorityAndFairness D, EnableAggregatorRouting = False,
      AllowPrivileged = False, EventTTL = 1 * Hour, MaxConnectionBytesPerSec = 0,
      EndpointReconcilerType = LeaseEndpointReconcilerType D, IdentityLeaseDurationSeconds = 3600,
      IdentityLeaseRenewIntervalSeconds = 10,
      KubeletConfig = \<lparr>Port = 10250, ReadOnlyPort = 10255,
        PreferredAddressTypes = [''Hostname'', ''InternalDNS'', ''InternalIP'', ''ExternalDNS'', ''ExternalIP''],
        HTTPTimeout = 5 * Second\<rparr>,
      ClientKeyFile = []\<rparr>"

definition validateTokenRequest :: "('c, 'h, 'ip, 'net, 'tok) ServerRunOptions \<Rightarrow> string list outcome" where
  "validateTokenRequest s =
     (if ServiceAccountSigningKeyFile s = [] \<and> ServiceAccounts (Authentication s) = None
      then Panic ''invalid memory address or nil pointer dereference''
      else
        (let enableAttempted =
               ServiceAccountSigningKeyFile s \<noteq> [] \<or>
               (case ServiceAccounts (Authentication s) of
                  None \<Rightarrow> False
                | Some sa \<Rightarrow> length (Issuers sa) \<noteq> 0 \<and> Issuers sa ! 0 \<noteq> []) \<or>
               length (APIAudiences (Authentication s)) \<noteq> 0;
             enableSucceeded = (ServiceAccountIssuer s \<noteq> None)
         in Return
              (complain (\<not> enableAttempted)
                 ''--service-account-signing-key-file and --service-account-issuer are required flags'' @
               complain (enableAttempted \<and> \<not> enableSucceeded)
                 ''--service-account-signing-key-file, --service-account-issuer, and --api-audiences should be specified together'')))"

text \<open>
  \<open>Validate\<close> collects the errors of all parts; \<open>foreign\<close> holds those of the option structs of
  the generic API server (etcd, serving, audit, admission, API enablement, metrics).
\<close>

record foreign_errors =
  fe_Etcd :: "string list"
  fe_SecureServing :: "string list"
  fe_Audit :: "string list"
  fe_Admission :: "string list"
  fe_APIEnablement :: "string list"
  fe_Metrics :: "string list"

fun etcd_errors :: "EmbeddedEtcd option \<Rightarrow> string list outcome" where
  "etcd_errors None = Panic ''invalid memory address or nil pointer dereference''"
| "etcd_errors (Some e) = Return (EmbeddedEtcd_Validate e)"

definition ServerRunOptions_Validate ::
  "authzmodes \<Rightarrow> foreign_errors \<Rightarrow> ('c, 'h, 'ip, 'net, 'tok) ServerRunOptions \<Rightarrow> string list outcome" where
  "ServerRunOptions_Validate Z F s =
     bind_outcome (validateTokenRequest s) (\<lambda>token.
     bind_outcome (etcd_errors (Embedded s)) (\<lambda>embedded. Return
       (fe_Etcd F @ fe_SecureServing F @ authentication_Validate (Authentication s) @
        authorization_Validate Z (Authorization s) @ fe_Audit F @ fe_Admission F @
        fe_APIEnablement F @ token @ fe_Metrics F @ embedded)))"

section \<open>Service ranges\<close>

record ('ip, 'net, 'key, 'tok, 'r) complete_env =
  DefaultAdvertiseAddress :: "'ip option \<Rightarrow> error + 'ip option"
  ServiceIPRange :: "'net option \<Rightarrow> error + 'net \<times> 'ip"
  ParseCIDRSloppy :: "string \<Rightarrow> error + 'net"
  MaybeDefaultWithSelfSignedCerts :: "string \<Rightarrow> string list \<Rightarrow> 'ip list \<Rightarrow> string \<Rightarrow> error + string"
    \<comment> \<open>the last argument and the result: the key file of the serving certificate\<close>
  ip_String :: "'ip option \<Rightarrow> string"
  Hostname :: "error + string"
  IsValidServiceAccountKeyFile :: "string \<Rightarrow> bool"
  PrivateKeyFromFile :: "string \<Rightarrow> error + 'key"
  JWTTokenGenerator :: "string \<Rightarrow> 'key \<Rightarrow> error + 'tok"
  DefaultWatchCacheSizes :: "('r \<times> int) list"
  GroupResourceOps :: "'r group_resource_ops"

definition getServiceIPAndRanges ::
  "('ip, 'net, 'key, 'tok, 'r) complete_env \<Rightarrow> string \<Rightarrow> error + 'ip \<times> 'net \<times> 'net option" where
  "getServiceIPAndRanges E serviceClusterIPRanges =
     (let ranges = (if serviceClusterIPRanges \<noteq> [] then Split CHR '','' serviceClusterIPRanges else [])
      in if length ranges = 0
         then (case ServiceIPRange E None of
                 Inl err \<Rightarrow> Inl (Errorf ''error determining service IP ranges: %v'')
               | Inr (primary, ip) \<Rightarrow> Inr (ip, primary, None))
         else
           (case ParseCIDRSloppy E (ranges ! 0) of
              Inl err \<Rightarrow> Inl (Errorf ''service-cluster-ip-range[0] is not a valid cidr'')
            | Inr primaryCIDR \<Rightarrow>
                (case ServiceIPRange E (Some primaryCIDR) of
                   Inl err \<Rightarrow> Inl (Errorf ''error determining service IP ranges for primary service cidr: %v'')
                 | Inr (primary, ip) \<Rightarrow>
                     if length ranges > 1
                     then (case ParseCIDRSloppy E (ranges ! 1) of
                             Inl err \<Rightarrow> Inl (Errorf ''service-cluster-ip-range[1] is not an ip net'')
                           | Inr secondary \<Rightarrow> Inr (ip, primary, Some secondary))
                     else Inr (ip, primary, None))))"

section \<open>Completing the options\<close>

type_synonym ('c, 'h, 'ip, 'net, 'tok) stage =
  "('c, 'h, 'ip, 'net, 'tok) ServerRunOptions \<Rightarrow> (error + ('c, 'h, 'ip, 'net, 'tok) ServerRunOptions) outcome"

text \<open>Lines 492 to 503: the external host.\<close>

definition complete_host :: "('ip, 'net, 'key, 'tok, 'r) complete_env \<Rightarrow> ('c, 'h, 'ip, 'net, 'tok) stage" where
  "complete_host E s = Return
     (if length (ExternalHost s) = 0
      then if AdvertiseAddress s \<noteq> None
           then Inr (s\<lparr>ExternalHost := ip_String E (AdvertiseAddress s)\<rparr>)
           else (case Hostname E of
                   Inr hostname \<Rightarrow> Inr (s\<lparr>ExternalHost := hostname\<rparr>)
                 | Inl err \<Rightarrow> Inl (Errorf ''error finding host name: %v''))
      else Inr s)"

text \<open>Lines 512 to 521: the serving key verifies service account tokens if nothing else was given.\<close>

definition complete_keyfiles :: "('ip, 'net, 'key, 'tok, 'r) complete_env \<Rightarrow> ('c, 'h, 'ip, 'net, 'tok) stage" where
  "complete_keyfiles E s =
     (if ServiceAccountSigningKeyFile s = []
      then (case ServiceAccounts (Authentication s) of
              None \<Rightarrow> Panic ''invalid memory address or nil pointer dereference''
            | Some sa \<Rightarrow> Return (Inr
                (if length (KeyFiles sa) = 0 \<and> ServerCertKeyFile s \<noteq> [] \<and>
                    IsValidServiceAccountKeyFile E (ServerCertKeyFile s)
                 then s\<lparr>Authentication := (Authentication s)\<lparr>ServiceAccounts :=
                        Some (sa\<lparr>KeyFiles := [ServerCertKeyFile s]\<rparr>)\<rparr>\<rparr>
                 else s)))
      else Return (Inr s))"

definition expiration_out_of_bounds :: "duration \<Rightarrow> bool" where
  "expiration_out_of_bounds d \<longleftrightarrow> d \<noteq> 0 \<and> (d < Hour \<or> d > 2 ^ 32 * Second)"

text \<open>Lines 523 to 550: the token generator.\<close>

definition complete_issuer :: "('ip, 'net, 'key, 'tok, 'r) complete_env \<Rightarrow> ('c, 'h, 'ip, 'net, 'tok) stage" where
  "complete_issuer E s =
     (if ServiceAccountSigningKeyFile s = [] then Return (Inr s)
      else (case ServiceAccounts (Authentication s) of
              None \<Rightarrow> Panic ''invalid memory address or nil pointer dereference''
            | Some sa \<Rightarrow> Return
                (if length (Issuers sa) \<noteq> 0 \<and> Issuers sa ! 0 \<noteq> []
                 then (case PrivateKeyFromFile E (ServiceAccountSigningKeyFile s) of
                         Inl err \<Rightarrow> Inl (Errorf ''failed to parse service-account-issuer-key-file: %v'')
                       | Inr sk \<Rightarrow>
                           if expiration_out_of_bounds (MaxExpiration sa)
                           then Inl (Errorf ''the service-account-max-token-expiration must be between 1 hour and 2^32 seconds'')
                           else (case JWTTokenGenerator E (Issuers sa ! 0) sk of
                                   Inl err \<Rightarrow> Inl (Errorf ''failed to build token generator: %v'')
                                 | Inr tok \<Rightarrow> Inr (s\<lparr>ServiceAccountIssuer := Some tok,
                                     ServiceAccountTokenMaxExpiration := MaxExpiration sa\<rparr>)))
                 else Inr s)))"

text \<open>Lines 552 to 566: the user's sizes over the default ones; \<open>order\<close> is the order \<open>WriteWatchCacheSizes\<close> ranges in.\<close>

definition complete_watch_cache ::
  "('ip, 'net, 'key, 'tok, 'r) complete_env \<Rightarrow> (('r \<times> int) list \<Rightarrow> ('r \<times> int) list) \<Rightarrow>
   ('c, 'h, 'ip, 'net, 'tok) stage" where
  "complete_watch_cache E order s = Return
     (if EnableWatchCache s
      then (case ParseWatchCacheSizes (GroupResourceOps E) (WatchCacheSizes s) of
              Inl err \<Rightarrow> Inl err
            | Inr userSpecified \<Rightarrow>
                (case WriteWatchCacheSizes (GroupResourceOps E)
                        (order (AList.updates (map fst userSpecified) (map snd userSpecified)
                           (DefaultWatchCacheSizes E))) of
                   Inl err \<Rightarrow> Inl err
                 | Inr sizes \<Rightarrow> Inr (s\<lparr>WatchCacheSizes := sizes\<rparr>)))
      else Inr s)"

definition complete_runtime_config ::
  "((string \<times> string) list \<Rightarrow> (string \<times> string) list) \<Rightarrow> ('c, 'h, 'ip, 'net, 'tok) stage" where
  "complete_runtime_config order s =
     Return (Inr (s\<lparr>RuntimeConfig := rewrite_runtime_config (order (RuntimeConfig s)) (RuntimeConfig s)\<rparr>))"

definition complete_authorization :: "authzmodes \<Rightarrow> ('c, 'h, 'ip, 'net, 'tok) stage" where
  "complete_authorization Z s = Return (Inr
     (case ApplyAuthorization Z (Authorization s) (Some (Authentication s)) of
        None \<Rightarrow> s
      | Some a \<Rightarrow> s\<lparr>Authentication := a\<rparr>))"

text \<open>Lines 473 to 490: the advertised address, the service ranges and the serving certificate.\<close>

definition complete_network :: "('ip, 'net, 'key, 'tok, 'r) complete_env \<Rightarrow> ('c, 'h, 'ip, 'net, 'tok) stage" where
  "complete_network E s = Return
     (case DefaultAdvertiseAddress E (AdvertiseAddress s) of
        Inl err \<Rightarrow> Inl err
      | Inr addr \<Rightarrow>
          (case getServiceIPAndRanges E (ServiceClusterIPRanges s) of
             Inl err \<Rightarrow> Inl err
           | Inr (ip, primary, secondary) \<Rightarrow>
               (case MaybeDefaultWithSelfSignedCerts E (ip_String E addr)
                       [''kubernetes.default.svc'', ''kubernetes.default'', ''kubernetes''] [ip]
                       (ServerCertKeyFile s) of
                  Inl err \<Rightarrow> Inl (Errorf ''error creating self-signed certificates: %v'')
                | Inr keyFile \<Rightarrow> Inr (s\<lparr>AdvertiseAddress := addr, PrimaryServiceClusterIPRange := Some primary,
                    SecondaryServiceClusterIPRange := secondary, APIServerServiceIP := Some ip,
                    ServerCertKeyFile := keyFile\<rparr>))))"

definition Complete ::
  "authzmodes \<Rightarrow> ('ip, 'net, 'key, 'tok, 'r) complete_env \<Rightarrow> (('r \<times> int) list \<Rightarrow> ('r \<times> int) list) \<Rightarrow>
   ((string \<times> string) list \<Rightarrow> (string \<times> string) list) \<Rightarrow> ('c, 'h, 'ip, 'net, 'tok) stage" where
  "Complete Z E order_sizes order_config s =
     bind_call (complete_network E s) (\<lambda>s1.
     bind_call (complete_host E s1) (\<lambda>s2.
     bind_call (complete_authorization Z s2) (\<lambda>s3.
     bind_call (complete_keyfiles E s3) (\<lambda>s4.
     bind_call (complete_issuer E s4) (\<lambda>s5.
     bind_call (complete_watch_cache E order_sizes s5)
       (complete_runtime_config order_config))))))"

section \<open>Using the options\<close>

text \<open>
  The sum of the two limits is an \<open>int\<close> of 64 bits that wraps around. \<open>Inr\<close> holds the limit and
  the waiting time the flow controller is built with.
\<close>

definition int64 :: "int \<Rightarrow> int" where
  "int64 i = (i + 2 ^ 63) mod 2 ^ 64 - 2 ^ 63"

definition BuildPriorityAndFairness :: "('c, 'h, 'ip, 'net, 'tok) ServerRunOptions \<Rightarrow> error + int \<times> duration" where
  "BuildPriorityAndFairness s =
     (if int64 (MaxRequestsInFlight s + MaxMutatingRequestsInFlight s) \<le> 0
      then Inl (Errorf ''invalid configuration: MaxRequestsInFlight=%d and MaxMutatingRequestsInFlight=%d; they must add up to something positive'')
      else Inr (int64 (MaxRequestsInFlight s + MaxMutatingRequestsInFlight s),
             sgn (RequestTimeout s) * (\<bar>RequestTimeout s\<bar> div 4)))"

text \<open>Lines 241 to 253 of \<open>CreateKubeAPIServerConfig\<close>: the keys and the first issuer.\<close>

fun load_keys :: "(string \<Rightarrow> error + 'k list) \<Rightarrow> string list \<Rightarrow> error + 'k list" where
  "load_keys PublicKeysFromFile [] = Inr []"
| "load_keys PublicKeysFromFile (f # fs) =
     (case PublicKeysFromFile f of
        Inl err \<Rightarrow> Inl (Errorf ''failed to parse key file %q: %v'')
      | Inr keys \<Rightarrow>
          (case load_keys PublicKeysFromFile fs of Inl err \<Rightarrow> Inl err | Inr ks \<Rightarrow> Inr (keys @ ks)))"

record 'k account_config =
  ServiceAccountIssuerURL :: string
  ServiceAccountJWKSURI :: string
  ServiceAccountPublicKeys :: "'k list"

definition service_account_config ::
  "(string \<Rightarrow> error + 'k list) \<Rightarrow> ('c, 'h, 'ip, 'net, 'tok) ServerRunOptions \<Rightarrow> (error + 'k account_config) outcome" where
  "service_account_config PublicKeysFromFile s =
     (case ServiceAccounts (Authentication s) of
        None \<Rightarrow> Panic ''invalid memory address or nil pointer dereference''
      | Some sa \<Rightarrow>
          (case load_keys PublicKeysFromFile (KeyFiles sa) of
             Inl err \<Rightarrow> Return (Inl err)
           | Inr pubKeys \<Rightarrow>
               (case Issuers sa of
                  [] \<Rightarrow> Panic ''index out of range [0] with length 0''
                | issuer # _ \<Rightarrow> Return (Inr \<lparr>ServiceAccountIssuerURL = issuer,
                    ServiceAccountJWKSURI = JWKSURI sa, ServiceAccountPublicKeys = pubKeys\<rparr>))))"

text \<open>
  The start of \<open>Run\<close>, lines 432 to 444: the embedded etcd, if enabled, becomes the storage
  backend. \<open>etcd_Run\<close> gets the peer and the client port.
\<close>

definition run_embedded_etcd ::
  "(string \<Rightarrow> string \<Rightarrow> error + etcd_transport) \<Rightarrow> ('c, 'h, 'ip, 'net, 'tok) ServerRunOptions \<Rightarrow>
   error + ('c, 'h, 'ip, 'net, 'tok) ServerRunOptions" where
  "run_embedded_etcd etcd_Run s =
     (case Embedded s of
        None \<Rightarrow> Inr s
      | Some e \<Rightarrow>
          if Enabled e
          then (case etcd_Run (PeerPort e) (ClientPort e) of
                  Inl err \<Rightarrow> Inl err
                | Inr info \<Rightarrow> Inr (s\<lparr>EtcdTransport := info\<rparr>))
          else Inr s)"

section \<open>What the stages keep\<close>

text \<open>
  The service accounts an option set has after completion: the issuers are never touched, the
  key files only to fall back on the serving key.
\<close>

definition issuers_of :: "('c, 'h, 'ip, 'net, 'tok) ServerRunOptions \<Rightarrow> string list option" where
  "issuers_of s = map_option Issuers (ServiceAccounts (Authentication s))"

lemma network_keeps:
  "complete_network E s = Return (Inr s') \<Longrightarrow>
     Authentication s' = Authentication s \<and> Authorization s' = Authorization s"
  by (auto simp: complete_network_def split: sum.splits)

lemma host_keeps:
  "complete_host E s = Return (Inr s') \<Longrightarrow>
     Authentication s' = Authentication s \<and> Authorization s' = Authorization s"
  by (auto simp: complete_host_def split: if_splits sum.splits)

lemma authorization_stage:
  "complete_authorization Z s = Return (Inr s') \<Longrightarrow>
     issuers_of s' = issuers_of s \<and> ServiceAccounts (Authentication s') = ServiceAccounts (Authentication s) \<and>
     (\<forall>az. Authorization s = Some az \<longrightarrow> ModeAlwaysAllow Z \<in> set (Modes az) \<longrightarrow>
        Anonymous (Authentication s') \<noteq> Some True)"
  by (auto simp: complete_authorization_def ApplyAuthorization_def issuers_of_def
      split: option.splits if_splits)

lemma keyfiles_keeps:
  "complete_keyfiles E s = Return (Inr s') \<Longrightarrow>
     issuers_of s' = issuers_of s \<and> Anonymous (Authentication s') = Anonymous (Authentication s)"
  by (auto simp: complete_keyfiles_def issuers_of_def split: option.splits if_splits)

lemma issuer_keeps: "complete_issuer E s = Return (Inr s') \<Longrightarrow> Authentication s' = Authentication s"
  by (auto simp: complete_issuer_def split: option.splits if_splits sum.splits)

lemma watch_cache_keeps:
  "complete_watch_cache E ord s = Return (Inr s') \<Longrightarrow> Authentication s' = Authentication s"
  by (auto simp: complete_watch_cache_def split: if_splits sum.splits)

lemma runtime_config_keeps:
  "complete_runtime_config ord s = Return (Inr s') \<Longrightarrow> Authentication s' = Authentication s"
  by (auto simp: complete_runtime_config_def)

lemma Complete_stages:
  assumes "Complete Z E o1 o2 s = Return (Inr s')"
  obtains s1 s2 s3 s4 s5 s6 where "complete_network E s = Return (Inr s1)"
    and "complete_host E s1 = Return (Inr s2)" and "complete_authorization Z s2 = Return (Inr s3)"
    and "complete_keyfiles E s3 = Return (Inr s4)" and "complete_issuer E s4 = Return (Inr s5)"
    and "complete_watch_cache E o1 s5 = Return (Inr s6)" and "complete_runtime_config o2 s6 = Return (Inr s')"
  using assms unfolding Complete_def bind_call_Inr_iff by blast

lemma Complete_issuers:
  assumes "Complete Z E o1 o2 s = Return (Inr s')"
  shows "issuers_of s' = issuers_of s"
  using assms
  by (elim Complete_stages)
    (auto dest!: network_keeps host_keeps authorization_stage keyfiles_keeps issuer_keeps
      watch_cache_keeps runtime_config_keeps simp: issuers_of_def)

lemma Complete_anonymous:
  assumes "Complete Z E o1 o2 s = Return (Inr s')" and "Authorization s = Some az"
    and "ModeAlwaysAllow Z \<in> set (Modes az)"
  shows "Anonymous (Authentication s') \<noteq> Some True"
  using assms
  by (elim Complete_stages)
    (auto dest!: network_keeps host_keeps authorization_stage keyfiles_keeps issuer_keeps
      watch_cache_keeps runtime_config_keeps)

lemma validated_returns:
  assumes "ServerRunOptions_Validate Z F v = Return []" and "ServiceAccounts (Authentication v) = Some sa"
  shows "returns (service_account_config keys v)"
proof -
  from assms(1) have "authentication_Validate (Authentication v) = []"
    by (auto simp: ServerRunOptions_Validate_def bind_outcome_Return_iff)
  with assms(2) have "Issuers sa \<noteq> []" by (auto simp: authentication_Validate_def)
  with assms(2) show ?thesis by (auto simp: service_account_config_def split: sum.splits list.splits)
qed

section \<open>Sample options\<close>

definition sample_modes :: authzmodes where
  "sample_modes = \<lparr>ModeAlwaysAllow = ''AlwaysAllow'', ModeABAC = ''ABAC'', ModeWebhook = ''Webhook'',
     IsValidAuthorizationMode = (\<lambda>m. m \<in> set [''AlwaysAllow'', ''ABAC'', ''Webhook'', ''RBAC''])\<rparr>"

definition sample_env :: "(string, string, unit, string, string \<times> string) complete_env" where
  "sample_env = \<lparr>DefaultAdvertiseAddress = (\<lambda>a. Inr a), ServiceIPRange = (\<lambda>_. Inr (''10.0.0.0/24'', ''10.0.0.1'')),
     ParseCIDRSloppy = (\<lambda>s. Inr s), MaybeDefaultWithSelfSignedCerts = (\<lambda>_ _ _ _. Inr ''apiserver.key''),
     ip_String = (\<lambda>ip. case ip of None \<Rightarrow> ''<nil>'' | Some s \<Rightarrow> s), Hostname = Inr ''hub'',
     IsValidServiceAccountKeyFile = (\<lambda>_. True), PrivateKeyFromFile = (\<lambda>_. Inr ()),
     JWTTokenGenerator = (\<lambda>i _. Inr i), DefaultWatchCacheSizes = [(([], ''events''), 0)],
     GroupResourceOps = pair_resources\<rparr>"

text \<open>The default options, with a watch cache size and a runtime configuration given.\<close>

definition sample_defaults :: "(unit, unit, string) option_defaults" where
  "sample_defaults = \<lparr>d_AdvertiseAddress = None, d_ExternalHost = [], d_MaxRequestsInFlight = 400,
     d_MaxMutatingRequestsInFlight = 200, d_RequestTimeout = 60 * Second, d_EnablePriorityAndFairness = True,
     d_EnableWatchCache = True, d_WatchCacheSizes = [],
     d_EtcdTransport = \<lparr>ServerList = [], KeyFile = [], CertFile = [], TrustedCAFile = []\<rparr>,
     d_RuntimeConfig = [],
     d_Admission = \<lparr>Plugins = [''NamespaceLifecycle'', ''MutatingAdmissionWebhook'', ''ValidatingAdmissionWebhook''],
       RecommendedPluginOrder = [], DefaultOffPlugins = []\<rparr>,
     d_ClientCert = (), d_RequestHeader = (), DefaultAuthWebhookRetryBackoff = None,
     LeaseEndpointReconcilerType = ''lease'', ParseIPSloppy = Some\<rparr>"

definition default_options :: "(unit, unit, string, string, string) ServerRunOptions" where
  "default_options = (NewServerRunOptions sample_modes sample_defaults)
     \<lparr>WatchCacheSizes := [''pods#10''],
      RuntimeConfig := [(''api/v1'', ''true''), (''api/legacy'', ''false''), (''batch/v1'', ''true'')]\<rparr>"

lemmas default_option_defs = default_options_def NewServerRunOptions_def sample_defaults_def with_all_defs

lemma default_completes: "\<exists>s'. Complete sample_modes sample_env id id default_options = Return (Inr s')"
proof -
  have "case Complete sample_modes sample_env id id default_options of Return (Inr _) \<Rightarrow> True | _ \<Rightarrow> False"
    by code_simp
  then show ?thesis by (auto split: outcome.splits sum.splits)
qed

section \<open>Properties\<close>

text \<open>
  C35. Completing the options makes sure that the authorizer that allows everything never meets
  anonymous requests: with mode \<open>AlwaysAllow\<close> among the modes (it is the default), anonymous
  authentication is off afterwards, whatever the other options and library results are.
\<close>

theorem always_allow_excludes_anonymous:
  assumes "Complete Z E order_sizes order_config s = Return (Inr s')"
    and "Authorization s = Some az" and "ModeAlwaysAllow Z \<in> set (Modes az)"
  shows "Anonymous (Authentication s') \<noteq> Some True"
  using assms by (rule Complete_anonymous)

theorem always_allow_excludes_anonymous_witness:
  "Anonymous (Authentication default_options) = Some True \<and>
   (\<exists>s'. Complete sample_modes sample_env id id default_options = Return (Inr s') \<and>
      Anonymous (Authentication s') \<noteq> Some True)"
proof -
  obtain s' where s': "Complete sample_modes sample_env id id default_options = Return (Inr s')"
    using default_completes by blast
  have "Authorization default_options = Some (NewBuiltInAuthorizationOptions sample_modes None)"
    by (simp add: default_option_defs)
  from always_allow_excludes_anonymous [OF s' this] s' show ?thesis
    by (auto simp: NewBuiltInAuthorizationOptions_def default_option_defs)
qed

text \<open>
  Options without a service account issuer are completed without complaint, and then take the
  server down: configuring it fails on the key files or panics on the missing first issuer.
  Validation would reject them, and options it accepts never panic there.
\<close>

theorem missing_issuer_panics:
  assumes "Complete Z E order_sizes order_config s = Return (Inr s')" and "issuers_of s = Some []"
  shows "(\<forall>cfg. service_account_config keys s' \<noteq> Return (Inr cfg)) \<and>
    (\<forall>sa ks. ServiceAccounts (Authentication s') = Some sa \<and> load_keys keys (KeyFiles sa) = Inr ks \<longrightarrow>
       \<not> returns (service_account_config keys s')) \<and>
    authentication_Validate (Authentication s') \<noteq> [] \<and>
    (\<forall>v sa. ServerRunOptions_Validate Z F v = Return [] \<and> ServiceAccounts (Authentication v) = Some sa \<longrightarrow>
       returns (service_account_config keys v))"
proof -
  from Complete_issuers [OF assms(1)] assms(2) obtain sa where
    sa: "ServiceAccounts (Authentication s') = Some sa" and none: "Issuers sa = []"
    by (auto simp: issuers_of_def)
  from sa none have "(\<forall>cfg. service_account_config keys s' \<noteq> Return (Inr cfg)) \<and>
    (\<forall>sa ks. ServiceAccounts (Authentication s') = Some sa \<and> load_keys keys (KeyFiles sa) = Inr ks \<longrightarrow>
       \<not> returns (service_account_config keys s')) \<and>
    authentication_Validate (Authentication s') \<noteq> []"
    by (auto simp: service_account_config_def authentication_Validate_def split: sum.splits)
  with validated_returns show ?thesis by blast
qed

theorem missing_issuer_panics_witness:
  "\<exists>s'. Complete sample_modes sample_env id id default_options = Return (Inr s') \<and>
     \<not> returns (service_account_config (\<lambda>_. Inr [()]) s')"
proof -
  obtain s' where s': "Complete sample_modes sample_env id id default_options = Return (Inr s')"
    using default_completes by blast
  have none: "issuers_of default_options = Some []"
    by (simp add: issuers_of_def default_option_defs)
  from Complete_issuers [OF s'] none obtain sa where sa: "ServiceAccounts (Authentication s') = Some sa"
    by (auto simp: issuers_of_def)
  have "load_keys (\<lambda>_. Inr [()]) fs = Inr (map (\<lambda>_. ()) fs)" for fs
    by (induction fs) auto
  with missing_issuer_panics [OF s' none, of "\<lambda>_. Inr [()]"] sa s' show ?thesis by blast
qed

text \<open>
  C36. Watch cache sizes survive being written and parsed again: for valid resources and sizes that
  are not negative and fit an \<open>int\<close>, writing succeeds and parsing the result gives the same map,
  in whatever order the map was traversed.
\<close>

theorem watch_cache_round_trip:
  assumes "group_resources G valid" and "distinct (map fst m)"
    and "\<forall>(r, n)\<in>set m. valid r \<and> 0 \<le> n \<and> in_int64 n"
  shows "\<exists>cs m'. WriteWatchCacheSizes G m = Inr cs \<and> ParseWatchCacheSizes G cs = Inr m' \<and> map_of m' = map_of m"
proof -
  let ?cs = "map (\<lambda>(r, n). gr_String G r @ ''#'' @ Itoa n) m"
  have "WriteWatchCacheSizes G m = Inr ?cs"
    using assms(3) by (intro group_resources.write_success [OF assms(1)]) auto
  moreover obtain m' where "parse_sizes G ?cs [] = Inr m'" and "map_of m' = map_of [] ++ map_of (rev m)"
    using group_resources.parse_all_written [OF assms(1,3), of "[]"] by blast
  moreover have "map_of (rev m) = map_of m"
    using assms(2) by (simp add: map_of_inject_set rev_map [symmetric])
  ultimately show ?thesis by (auto simp: ParseWatchCacheSizes_def)
qed

theorem watch_cache_round_trip_witness:
  "\<exists>cs m'. WriteWatchCacheSizes pair_resources [((''apps'', ''deployments''), 100), (([], ''pods''), 0)] = Inr cs \<and>
     ParseWatchCacheSizes pair_resources cs = Inr m' \<and> map_of m' (''apps'', ''deployments'') = Some 100"
proof -
  have "\<forall>(r, n)\<in>set [((''apps'', ''deployments''), 100), (([], ''pods''), 0)]. pair_valid r \<and> 0 \<le> n \<and> in_int64 n"
    by (simp add: pair_valid_def in_int64_def)
  from watch_cache_round_trip [OF pairs.group_resources_axioms _ this] show ?thesis by auto
qed

text \<open>
  The runtime configuration loses its legacy spellings of the core group: no key \<^verbatim>\<open>v1\<close>, \<^verbatim>\<open>v1/...\<close>,
  \<^verbatim>\<open>api/v1\<close>, \<^verbatim>\<open>api/v1/...\<close> or \<^verbatim>\<open>api/legacy\<close> is left, every other key but \<^verbatim>\<open>/v1\<close> is as before, and
  \<^verbatim>\<open>/v1\<close> has the value of a legacy spelling if there was one, of the last one in the iteration
  order. If they disagree, the outcome depends on that order; if they agree, it does not.
\<close>

theorem runtime_config_rewritten:
  assumes order: "mset (order (RuntimeConfig s)) = mset (RuntimeConfig s)"
  shows "\<exists>s'. complete_runtime_config order s = Return (Inr s') \<and>
    (\<forall>k. map_of (RuntimeConfig s') k =
       (if k = ''/v1''
        then (case filter (\<lambda>kv. legacy_v1 (fst kv)) (order (RuntimeConfig s)) of
                [] \<Rightarrow> map_of (RuntimeConfig s) k
              | ls \<Rightarrow> Some (snd (last ls)))
        else if gone k then None else map_of (RuntimeConfig s) k)) \<and>
    (\<forall>k v. (k, v) \<in> set (RuntimeConfig s) \<and> legacy_v1 k \<and>
       (\<forall>(k', v')\<in>set (RuntimeConfig s). legacy_v1 k' \<longrightarrow> v' = v) \<longrightarrow>
       map_of (RuntimeConfig s') ''/v1'' = Some v)"
proof -
  let ?kvs = "order (RuntimeConfig s)" and ?m = "RuntimeConfig s"
  have same: "set ?kvs = set ?m" using order by (metis set_mset_mset)
  have look: "map_of (rewrite_runtime_config ?kvs ?m) k =
      (if k = ''/v1''
       then (case filter (\<lambda>kv. legacy_v1 (fst kv)) ?kvs of [] \<Rightarrow> map_of ?m k | ls \<Rightarrow> Some (snd (last ls)))
       else if gone k then None else map_of ?m k)" for k
    unfolding rewrite_lookup same
    by (auto simp: map_of_eq_None_iff)
  have agree: "map_of (rewrite_runtime_config ?kvs ?m) ''/v1'' = Some v"
    if kv: "(k, v) \<in> set ?m" "legacy_v1 k" and all: "\<forall>(k', v')\<in>set ?m. legacy_v1 k' \<longrightarrow> v' = v" for k v
  proof -
    let ?ls = "filter (\<lambda>kv. legacy_v1 (fst kv)) ?kvs"
    have ne: "?ls \<noteq> []" using kv same by (force simp: filter_empty_conv)
    then have "last ?ls \<in> set ?m" and "legacy_v1 (fst (last ?ls))"
      using last_in_set [OF ne] same by auto
    with all have "snd (last ?ls) = v" by (cases "last ?ls") auto
    with ne show ?thesis by (cases ?ls) (simp_all only: look list.case if_True refl simp_thms)
  qed
  show ?thesis
    using look agree by (simp add: complete_runtime_config_def) blast
qed

theorem runtime_config_rewritten_witness:
  "\<exists>s'. complete_runtime_config rev default_options = Return (Inr s') \<and>
     map_of (RuntimeConfig s') ''/v1'' = Some ''true'' \<and> map_of (RuntimeConfig s') ''api/v1'' = None"
proof -
  have leg: "legacy_v1 ''api/v1''" "\<not> legacy_v1 ''api/legacy''" "\<not> legacy_v1 ''batch/v1''" "gone ''api/v1''"
    by code_simp+
  have "mset (rev (RuntimeConfig default_options)) = mset (RuntimeConfig default_options)" by simp
  from runtime_config_rewritten [where order = rev and s = default_options, OF this] leg show ?thesis
    by (auto simp: default_options_def)
qed

end
