(* ===== verification/GenericConfig.thy ===== *)
theory GenericConfig
  imports ServerConfig
begin

text \<open>
  \<open>buildGenericConfig\<close> of \<^verbatim>\<open>src/server/apiserver/server.go\<close> with \<open>BuildAuthorizer\<close> and
  \<open>buildServiceResolver\<close>: how the options become the configuration that the three servers of the
  chain share, in which order the parts are applied and how each of them can fail.

  Values of the API server libraries that this code only passes on (informers, clients,
  authenticators, selectors, storage) are of the type \<open>'v\<close>. The methods of the libraries are the
  fields of \<open>build_env\<close>; a method \<open>ApplyTo\<close> has as result what it writes into the configuration.
  A pointer is an option; a pointer the code dereferences without a check is a panic when it is
  \<open>None\<close>.
\<close>

section \<open>Errors\<close>

fun bind_error :: "error + 'a \<Rightarrow> ('a \<Rightarrow> error + 'b) \<Rightarrow> error + 'b" where
  "bind_error (Inl e) f = Inl e"
| "bind_error (Inr x) f = f x"

fun wrap_error :: "string \<Rightarrow> error + 'a \<Rightarrow> error + 'a" where
  "wrap_error m (Inl e) = Inl (Errorf m)"
| "wrap_error m (Inr x) = Inr x"

lemma bind_error_Inr_iff: "bind_error r f = Inr y \<longleftrightarrow> (\<exists>x. r = Inr x \<and> f x = Inr y)"
  by (cases r) auto

lemma wrap_error_Inr_iff: "wrap_error m r = Inr y \<longleftrightarrow> r = Inr y"
  by (cases r) auto

abbreviation nil_dereference :: "'a outcome" where
  "nil_dereference \<equiv> Panic ''invalid memory address or nil pointer dereference''"

section \<open>Data\<close>

datatype feature = APIServerTracing | OpenAPIV3 | APIPriorityAndFairness | APIListChunking
  | StorageVersionAPI | APIServerIdentity

datatype egress_type = ControlPlane | Cluster

datatype scheme = LegacyScheme | ExtensionsScheme | AggregatorScheme

record client_config =
  lc_Host :: string
  ContentType :: string
  DisableCompression :: bool

record 'v OpenAPI =
  Title :: string
  SecurityDefinitions :: 'v

record 'v Transport =
  DialContext :: "'v option"
  InsecureSkipVerify :: bool

text \<open>A copy of the etcd options with what the servers of the chain set of its storage configuration.\<close>

record EtcdOptions =
  eo_EnableWatchCache :: bool
  eo_WatchCacheSizes :: "string list"
  eo_Transport :: etcd_transport
  eo_DefaultStorageMediaType :: string
  Paging :: bool
  Codec :: "scheme \<times> string list" \<comment> \<open>the versions \<open>LegacyCodec\<close> decodes, the preferred one first\<close>
  EncodeVersioner :: "scheme \<times> string"

datatype 'v rest_getter = StorageFactoryRestOptions 'v | SimpleRestOptionsFactory EtcdOptions

record 'v Config =
  PostStartHooks :: "(string \<times> 'v) list"
  DisabledPostStartHooks :: "string list"
  MergedResourceConfig :: 'v
  RESTOptionsGetter :: "'v rest_getter option"
  LoopbackClientConfig :: "client_config option"
  SecureServingInfo :: "'v option"
  EgressSelector :: "'v option"
  TracerProvider :: "'v option"
  OpenAPIConfig :: "'v OpenAPI option"
  OpenAPIV3Config :: "'v OpenAPI option"
  LongRunningFunc :: "(string list \<times> string list) option" \<comment> \<open>verbs and subresources\<close>
  KubeVersion :: "'v option"
  cfg_Audiences :: "string list"
  cfg_Authenticator :: "'v option"
  Authorizer :: "'v option"
  RuleResolver :: "'v option"
  AuditBackend :: "'v option"
  AdmissionControl :: "'v option"
  FlowControl :: "(int \<times> duration) option" \<comment> \<open>the limit and the waiting time\<close>
  SkipOpenAPIInstallation :: bool
  BuildHandlerChainFunc :: "'v option"
  OtherSettings :: 'v \<comment> \<open>what only the generic and the feature options write\<close>

datatype 'v ServiceResolver = EndpointServiceResolver 'v | ClusterIPServiceResolver 'v
  | LoopbackServiceResolver "'v ServiceResolver" url

record 'v StorageFactory =
  sf_APIResourceConfigSource :: 'v
  EgressLookup :: "'v option" \<comment> \<open>the selector whose \<open>Lookup\<close> it is\<close>
  sf_TracerProvider :: "'v option"

record 'v RequestHeaderInfo =
  rh_CAContentProvider :: "'v option"
  AllowedClientNames :: 'v
  ExtraHeaderPrefixes :: 'v
  GroupHeaders :: 'v
  UsernameHeaders :: 'v

record ('c, 'h, 'ip, 'net, 'tok, 'v) build_env =
  NewConfig :: "'v Config" \<comment> \<open>with the codecs of the legacy scheme\<close>
  DefaultAPIResourceConfigSource :: 'v
  FeatureEnabled :: "feature \<Rightarrow> bool"
  Generic_ApplyTo :: "('c, 'h, 'ip, 'net, 'tok) ServerRunOptions \<Rightarrow> 'v \<Rightarrow> error + 'v"
  SecureServing_ApplyTo :: "('c, 'h, 'ip, 'net, 'tok) ServerRunOptions \<Rightarrow> 'v option \<Rightarrow> client_config option \<Rightarrow>
    error + 'v option \<times> client_config option"
  Features_ApplyTo :: "'v \<Rightarrow> error + 'v"
  APIEnablement_ApplyTo :: "(string \<times> string) list \<Rightarrow> 'v \<Rightarrow> scheme \<Rightarrow> error + 'v"
  ResourceConfigOps :: "'v resource_config_ops"
  SchemeGroupVersion :: "api_package \<Rightarrow> group_version"
  EgressSelector_ApplyTo :: "error + 'v option"
  Traces_ApplyTo :: "'v option \<Rightarrow> error + 'v option"
  DefaultOpenAPIConfig :: "'v OpenAPI"
  DefaultOpenAPIV3Config :: "'v OpenAPI"
  version_Get :: 'v
  storage_Complete :: "'v \<Rightarrow> ('c, 'h, 'ip, 'net, 'tok) ServerRunOptions \<Rightarrow> error + 'v"
  storage_New :: "'v \<Rightarrow> error + 'v StorageFactory"
  ApplyWithStorageFactoryTo :: "('c, 'h, 'ip, 'net, 'tok) ServerRunOptions \<Rightarrow> 'v StorageFactory \<Rightarrow> error + 'v"
  NewForConfig :: "client_config \<Rightarrow> error + 'v"
  NewSharedInformerFactory :: "'v \<Rightarrow> duration \<Rightarrow> 'v"
  ClientCAProvider :: "'c \<Rightarrow> error + 'v option"
  RequestHeaderConversion :: "'h \<Rightarrow> error + 'v RequestHeaderInfo option"
  AuthenticationLibrary :: "'v \<Rightarrow> 'v \<Rightarrow> ('v, 'v RequestHeaderInfo, 'v option, 'v, 'v, 'v) authn_library"
    \<comment> \<open>with the client and the informers of the token getter\<close>
  Lookup_egress :: "'v \<Rightarrow> egress_type \<Rightarrow> error + 'v"
  authorizer_New :: "'v authorizer_Config \<Rightarrow> 'v option \<Rightarrow> error + 'v \<times> 'v"
  ModeRBAC :: string
  RBAC_PostStartHookName :: string
  Audit_ApplyTo :: "'v Config \<Rightarrow> error + 'v option"
  admission_New :: "'v \<Rightarrow> client_config option \<Rightarrow> 'v Transport \<Rightarrow> 'v option \<Rightarrow> 'v ServiceResolver \<Rightarrow> 'v option \<Rightarrow>
    error + 'v list \<times> 'v"
  GenericAdmission_ApplyTo :: "string list GenericAdmissionOptions \<Rightarrow> 'v Config \<Rightarrow> 'v \<Rightarrow> client_config option \<Rightarrow>
    'v list \<Rightarrow> error + 'v option"

section \<open>The stages\<close>

text \<open>Lines 274 to 294: the options of the generic API server.\<close>

definition apply_generic ::
  "('c, 'h, 'ip, 'net, 'tok, 'v) build_env \<Rightarrow> ('c, 'h, 'ip, 'net, 'tok) ServerRunOptions \<Rightarrow> 'v Config \<Rightarrow>
   error + 'v Config" where
  "apply_generic B s gc =
     bind_error (Generic_ApplyTo B s (OtherSettings gc)) (\<lambda>settings.
     bind_error (SecureServing_ApplyTo B s (SecureServingInfo gc) (LoopbackClientConfig gc)) (\<lambda>(info, loopback).
     bind_error (Features_ApplyTo B settings) (\<lambda>settings'.
     bind_error (APIEnablement_ApplyTo B (RuntimeConfig s)
         (APIResourceConfigSource (ResourceConfigOps B) (SchemeGroupVersion B)) LegacyScheme) (\<lambda>resources.
     bind_error (EgressSelector_ApplyTo B) (\<lambda>egress.
     bind_error
       (if FeatureEnabled B APIServerTracing then Traces_ApplyTo B egress else Inr (TracerProvider gc)) (\<lambda>tracer.
     Inr (gc\<lparr>OtherSettings := settings', SecureServingInfo := info, LoopbackClientConfig := loopback,
            MergedResourceConfig := resources, EgressSelector := egress, TracerProvider := tracer\<rparr>)))))))"

text \<open>Lines 295 to 310: what the API says of itself.\<close>

definition describe_api :: "('c, 'h, 'ip, 'net, 'tok, 'v) build_env \<Rightarrow> 'v Config \<Rightarrow> 'v Config" where
  "describe_api B gc =
     gc\<lparr>OpenAPIConfig := Some ((DefaultOpenAPIConfig B)\<lparr>Title := ''Kubernetes''\<rparr>),
        OpenAPIV3Config :=
          (if FeatureEnabled B OpenAPIV3 then Some ((DefaultOpenAPIV3Config B)\<lparr>Title := ''Kubernetes''\<rparr>)
           else OpenAPIV3Config gc),
        LongRunningFunc := Some ([''watch'', ''proxy''], [''attach'', ''exec'', ''proxy'', ''log'', ''portforward'']),
        KubeVersion := Some (version_Get B)\<rparr>"

text \<open>Lines 312 to 331: the storage.\<close>

definition apply_storage ::
  "('c, 'h, 'ip, 'net, 'tok, 'v) build_env \<Rightarrow> ('c, 'h, 'ip, 'net, 'tok) ServerRunOptions \<Rightarrow> 'v Config \<Rightarrow>
   error + 'v Config \<times> 'v StorageFactory" where
  "apply_storage B s gc =
     bind_error (storage_Complete B (MergedResourceConfig gc) s) (\<lambda>completed.
     bind_error (storage_New B completed) (\<lambda>storageFactory.
     (let sf1 = (if EgressSelector gc \<noteq> None then storageFactory\<lparr>EgressLookup := EgressSelector gc\<rparr>
                 else storageFactory);
          sf2 = (if FeatureEnabled B APIServerTracing \<and> TracerProvider gc \<noteq> None
                 then sf1\<lparr>sf_TracerProvider := TracerProvider gc\<rparr> else sf1)
      in bind_error (ApplyWithStorageFactoryTo B s sf2) (\<lambda>getter.
           Inr (gc\<lparr>RESTOptionsGetter := Some (StorageFactoryRestOptions getter)\<rparr>, sf2)))))"

text \<open>Lines 333 to 348: the client of the server for itself, and the informers on it.\<close>

definition loopback_client ::
  "('c, 'h, 'ip, 'net, 'tok, 'v) build_env \<Rightarrow> 'v Config \<Rightarrow> (error + 'v Config \<times> 'v \<times> 'v) outcome" where
  "loopback_client B gc =
     (case LoopbackClientConfig gc of
        None \<Rightarrow> nil_dereference
      | Some lc \<Rightarrow>
          (let kubeClientConfig =
                 lc\<lparr>ContentType := ''application/vnd.kubernetes.protobuf'', DisableCompression := True\<rparr>
           in Return
                (bind_error (wrap_error ''failed to create real external clientset: %v'' (NewForConfig B kubeClientConfig))
                  (\<lambda>client. Inr (gc\<lparr>LoopbackClientConfig := Some kubeClientConfig\<rparr>, client,
                     NewSharedInformerFactory B client (10 * Minute))))))"

text \<open>
  Lines 350 to 353. \<open>Authentication.ApplyTo\<close> gets the parts of the configuration it writes and
  the way to a dialer, if there is an egress selector.
\<close>

definition egress_lookup ::
  "('c, 'h, 'ip, 'net, 'tok, 'v) build_env \<Rightarrow> 'v option \<Rightarrow> egress_type \<Rightarrow> (error + 'v) option" where
  "egress_lookup B egressSelector network = map_option (\<lambda>e. Lookup_egress B e network) egressSelector"

definition authentication_env ::
  "('c, 'h, 'ip, 'net, 'tok, 'v) build_env \<Rightarrow> ('c, 'h, 'v, 'v RequestHeaderInfo) auth_env" where
  "authentication_env B = \<lparr>GetClientCAContentProvider = ClientCAProvider B,
     ToAuthenticationRequestHeaderConfig = RequestHeaderConversion B, CAContentProvider = rh_CAContentProvider\<rparr>"

definition secure :: "'v option \<Rightarrow> 'v OpenAPI option \<Rightarrow> 'v OpenAPI option" where
  "secure definitions config =
     (case definitions of None \<Rightarrow> config | Some sd \<Rightarrow> map_option (SecurityDefinitions_update (\<lambda>_. sd)) config)"

definition authentication_target :: "'v Config \<Rightarrow> ('v option, 'v, 'v) auth_target" where
  "authentication_target gc =
     \<lparr>serving = SecureServingInfo gc, ai_APIAudiences = cfg_Audiences gc,
      ai_Authenticator = cfg_Authenticator gc,
      openAPIConfig = map_option SecurityDefinitions (OpenAPIConfig gc),
      openAPIV3Config = map_option SecurityDefinitions (OpenAPIV3Config gc)\<rparr>"

definition apply_authentication ::
  "('c, 'h, 'ip, 'net, 'tok, 'v) build_env \<Rightarrow> ('c, 'h, 'ip, 'net, 'tok) ServerRunOptions \<Rightarrow> 'v \<Rightarrow> 'v \<Rightarrow> 'v Config \<Rightarrow>
   error + 'v Config" where
  "apply_authentication B s client informers gc =
     (case authentication_ApplyTo (authentication_env B) (AuthenticationLibrary B client informers)
             (Some (Authentication s)) (egress_lookup B (EgressSelector gc) ControlPlane)
             (authentication_target gc) of
        (Some err, t) \<Rightarrow> Inl err
      | (None, t) \<Rightarrow> Inr (gc\<lparr>SecureServingInfo := serving t, cfg_Audiences := ai_APIAudiences t,
          cfg_Authenticator := ai_Authenticator t, OpenAPIConfig := secure (openAPIConfig t) (OpenAPIConfig gc),
          OpenAPIV3Config := secure (openAPIV3Config t) (OpenAPIV3Config gc)\<rparr>))"

definition BuildAuthorizer ::
  "('c, 'h, 'ip, 'net, 'tok, 'v) build_env \<Rightarrow> ('c, 'h, 'ip, 'net, 'tok) ServerRunOptions \<Rightarrow> 'v option \<Rightarrow> 'v \<Rightarrow>
   (error + 'v \<times> 'v) outcome" where
  "BuildAuthorizer B s egressSelector versionedInformers =
     (case Authorization s of
        None \<Rightarrow> nil_dereference
      | Some az \<Rightarrow> Return
          (bind_error (egress_dialer (egress_lookup B egressSelector ControlPlane))
            (authorizer_New B (ToAuthorizationConfig az versionedInformers))))"

text \<open>Lines 355 to 362.\<close>

definition apply_authorization ::
  "('c, 'h, 'ip, 'net, 'tok, 'v) build_env \<Rightarrow> ('c, 'h, 'ip, 'net, 'tok) ServerRunOptions \<Rightarrow> 'v \<Rightarrow> 'v Config \<Rightarrow>
   (error + 'v Config) outcome" where
  "apply_authorization B s informers gc =
     bind_outcome (BuildAuthorizer B s (EgressSelector gc) informers) (\<lambda>r. Return
       (bind_error (wrap_error ''invalid authorization config: %v'' r) (\<lambda>(authorizer, rules).
          Inr (gc\<lparr>Authorizer := Some authorizer, RuleResolver := Some rules,
            DisabledPostStartHooks :=
              (if ModeRBAC B \<in> set (case Authorization s of None \<Rightarrow> [] | Some az \<Rightarrow> Modes az)
               then DisabledPostStartHooks gc
               else List.insert (RBAC_PostStartHookName B) (DisabledPostStartHooks gc))\<rparr>))))"

definition buildServiceResolver :: "bool \<Rightarrow> string \<Rightarrow> 'v \<Rightarrow> 'v ServiceResolver" where
  "buildServiceResolver enabledAggregatorRouting hostname informer =
     (let serviceResolver =
            (if enabledAggregatorRouting then EndpointServiceResolver informer
             else ClusterIPServiceResolver informer)
      in case url_Parse hostname of
           Inl err \<Rightarrow> serviceResolver
         | Inr localHost \<Rightarrow> LoopbackServiceResolver serviceResolver localHost)"

text \<open>\<open>AdmissionOptions.ApplyTo\<close> on a configuration; also called for the other two servers.\<close>

definition apply_admission ::
  "('c, 'h, 'ip, 'net, 'tok, 'v) build_env \<Rightarrow> ('c, 'h, 'ip, 'net, 'tok) ServerRunOptions \<Rightarrow> 'v \<Rightarrow> 'v list \<Rightarrow> 'v Config \<Rightarrow>
   error + 'v Config" where
  "apply_admission B s informers initializers =
     admission_ApplyTo
       (\<lambda>generic gc. bind_error (GenericAdmission_ApplyTo B generic gc informers (LoopbackClientConfig gc) initializers)
          (\<lambda>control. Inr (gc\<lparr>AdmissionControl := control\<rparr>)))
       (Admission s)"

record 'v built =
  genericConfig :: "'v Config"
  versionedInformers :: 'v
  serviceResolver :: "'v ServiceResolver"
  pluginInitializers :: "'v list"
  admissionPostStartHook :: 'v
  storageFactory :: "'v StorageFactory"

text \<open>Lines 364 to 395: auditing, admission and flow control; the resolver reads the client's host.\<close>

definition apply_audit_admission ::
  "('c, 'h, 'ip, 'net, 'tok, 'v) build_env \<Rightarrow> ('c, 'h, 'ip, 'net, 'tok) ServerRunOptions \<Rightarrow> 'v Transport \<Rightarrow> 'v \<Rightarrow>
   'v StorageFactory \<Rightarrow> 'v Config \<Rightarrow> (error + 'v built) outcome" where
  "apply_audit_admission B s proxyTransport informers sf gc =
     bind_call (Return (Audit_ApplyTo B gc)) (\<lambda>audit.
       (let gc1 = gc\<lparr>AuditBackend := audit\<rparr>
        in case LoopbackClientConfig gc1 of
             None \<Rightarrow> nil_dereference
           | Some lc \<Rightarrow> Return
               (let resolver = buildServiceResolver (EnableAggregatorRouting s) (lc_Host lc) informers
                in bind_error
                     (wrap_error ''failed to create admission plugin initializer: %v''
                       (admission_New B informers (LoopbackClientConfig gc1) proxyTransport (EgressSelector gc1)
                         resolver (TracerProvider gc1))) (\<lambda>(initializers, hook).
                   bind_error (wrap_error ''failed to initialize admission: %v''
                       (apply_admission B s informers initializers gc1)) (\<lambda>gc2.
                   bind_error
                     (if FeatureEnabled B APIPriorityAndFairness \<and> EnablePriorityAndFairness s
                      then map_sum id Some (BuildPriorityAndFairness s) else Inr (FlowControl gc2)) (\<lambda>flow.
                   Inr \<lparr>genericConfig = gc2\<lparr>FlowControl := flow\<rparr>, versionedInformers = informers,
                        serviceResolver = resolver, pluginInitializers = initializers,
                        admissionPostStartHook = hook, storageFactory = sf\<rparr>))))))"

definition buildGenericConfig ::
  "('c, 'h, 'ip, 'net, 'tok, 'v) build_env \<Rightarrow> ('c, 'h, 'ip, 'net, 'tok) ServerRunOptions \<Rightarrow> 'v Transport \<Rightarrow>
   (error + 'v built) outcome" where
  "buildGenericConfig B s proxyTransport =
     bind_call (Return (apply_generic B s
       ((NewConfig B)\<lparr>MergedResourceConfig := DefaultAPIResourceConfigSource B\<rparr>))) (\<lambda>gc1.
     bind_call (Return (apply_storage B s (describe_api B gc1))) (\<lambda>(gc2, sf).
     bind_call (loopback_client B gc2) (\<lambda>(gc3, client, informers).
     bind_call (Return (apply_authentication B s client informers gc3)) (\<lambda>gc4.
     bind_call (apply_authorization B s informers gc4) (\<lambda>gc5.
     apply_audit_admission B s proxyTransport informers sf gc5)))))"

section \<open>What the stages keep\<close>

lemma apply_generic_Inr:
  assumes "apply_generic B s gc = Inr gc'"
  obtains info loopback where
    "SecureServing_ApplyTo B s (SecureServingInfo gc) (LoopbackClientConfig gc) = Inr (info, loopback)"
    and "LoopbackClientConfig gc' = loopback" and "PostStartHooks gc' = PostStartHooks gc"
    and "DisabledPostStartHooks gc' = DisabledPostStartHooks gc" and "FlowControl gc' = FlowControl gc"
  using assms by (auto simp: apply_generic_def bind_error_Inr_iff)

lemma apply_storage_Inr:
  assumes "apply_storage B s gc = Inr (gc', sf)"
  shows "LoopbackClientConfig gc' = LoopbackClientConfig gc \<and> PostStartHooks gc' = PostStartHooks gc \<and>
    DisabledPostStartHooks gc' = DisabledPostStartHooks gc \<and> FlowControl gc' = FlowControl gc"
  using assms by (clarsimp simp: apply_storage_def bind_error_Inr_iff Let_def simp del: if_split)

lemma apply_storage_getter:
  assumes "apply_storage B s gc = Inr (gc', sf)"
  obtains getter completed sf0 where "ApplyWithStorageFactoryTo B s sf = Inr getter"
    and "RESTOptionsGetter gc' = Some (StorageFactoryRestOptions getter)"
    and "storage_Complete B (MergedResourceConfig gc) s = Inr completed" and "storage_New B completed = Inr sf0"
    and "sf_APIResourceConfigSource sf = sf_APIResourceConfigSource sf0"
  using assms
  by (clarsimp simp: apply_storage_def bind_error_Inr_iff Let_def simp del: if_split)

lemma describe_api_keeps [simp]:
  "LoopbackClientConfig (describe_api B gc) = LoopbackClientConfig gc"
  "PostStartHooks (describe_api B gc) = PostStartHooks gc"
  "DisabledPostStartHooks (describe_api B gc) = DisabledPostStartHooks gc"
  "FlowControl (describe_api B gc) = FlowControl gc"
  by (simp_all add: describe_api_def)

lemma loopback_client_Inr:
  assumes "loopback_client B gc = Return (Inr (gc', client, informers))"
  obtains lc where "LoopbackClientConfig gc = Some lc" and "gc' = gc\<lparr>LoopbackClientConfig := Some
      (lc\<lparr>ContentType := ''application/vnd.kubernetes.protobuf'', DisableCompression := True\<rparr>)\<rparr>"
  using assms
  by (auto simp: loopback_client_def bind_error_Inr_iff wrap_error_Inr_iff Let_def split: option.splits)

lemma apply_authentication_Inr:
  assumes "apply_authentication B s client informers gc = Inr gc'"
  shows "LoopbackClientConfig gc' = LoopbackClientConfig gc \<and> PostStartHooks gc' = PostStartHooks gc \<and>
    DisabledPostStartHooks gc' = DisabledPostStartHooks gc \<and> FlowControl gc' = FlowControl gc \<and>
    RESTOptionsGetter gc' = RESTOptionsGetter gc \<and> cfg_Audiences gc' = audiences (Authentication s)"
proof -
  obtain t where t: "authentication_ApplyTo (authentication_env B) (AuthenticationLibrary B client informers)
      (Some (Authentication s)) (egress_lookup B (EgressSelector gc) ControlPlane) (authentication_target gc) = (None, t)"
    and gc': "gc' = gc\<lparr>SecureServingInfo := serving t, cfg_Audiences := ai_APIAudiences t,
          cfg_Authenticator := ai_Authenticator t, OpenAPIConfig := secure (openAPIConfig t) (OpenAPIConfig gc),
          OpenAPIV3Config := secure (openAPIV3Config t) (OpenAPIV3Config gc)\<rparr>"
    using assms by (simp add: apply_authentication_def split: prod.splits option.splits)
  from authentication_ApplyTo_success(1) [OF t] gc' show ?thesis by simp
qed

lemma apply_authorization_Inr:
  assumes "apply_authorization B s informers gc = Return (Inr gc')"
  obtains az authorizer rules where "Authorization s = Some az"
    and "gc' = gc\<lparr>Authorizer := Some authorizer, RuleResolver := Some rules, DisabledPostStartHooks :=
      (if ModeRBAC B \<in> set (Modes az) then DisabledPostStartHooks gc
       else List.insert (RBAC_PostStartHookName B) (DisabledPostStartHooks gc))\<rparr>"
  using assms
  by (auto simp: apply_authorization_def BuildAuthorizer_def bind_error_Inr_iff wrap_error_Inr_iff
      split: option.splits)

lemma apply_admission_Inr:
  assumes "apply_admission B s informers initializers gc = Inr gc'"
  obtains control where "gc' = gc\<lparr>AdmissionControl := control\<rparr>"
proof (cases "Admission s")
  case None
  with assms have "gc' = gc\<lparr>AdmissionControl := AdmissionControl gc\<rparr>"
    by (simp add: apply_admission_def admission_ApplyTo_def)
  with that show ?thesis by blast
next
  case (Some a)
  with assms that show ?thesis
    by (auto simp: apply_admission_def admission_ApplyTo_def bind_error_Inr_iff)
qed

definition flow_control :: "('c, 'h, 'ip, 'net, 'tok, 'v) build_env \<Rightarrow> ('c, 'h, 'ip, 'net, 'tok) ServerRunOptions \<Rightarrow> bool" where
  "flow_control B s \<longleftrightarrow> FeatureEnabled B APIPriorityAndFairness \<and> EnablePriorityAndFairness s"

lemma apply_audit_admission_Inr:
  assumes "apply_audit_admission B s t informers sf gc = Return (Inr b)"
  obtains audit control lc flow where "LoopbackClientConfig gc = Some lc"
    and "genericConfig b = gc\<lparr>AuditBackend := audit, AdmissionControl := control, FlowControl := flow\<rparr>"
    and "serviceResolver b = buildServiceResolver (EnableAggregatorRouting s) (lc_Host lc) informers"
    and "versionedInformers b = informers" and "storageFactory b = sf"
    and "flow_control B s \<longrightarrow> (\<exists>limit. BuildPriorityAndFairness s = Inr limit \<and> flow = Some limit)"
    and "\<not> flow_control B s \<longrightarrow> flow = FlowControl gc"
proof -
  from assms obtain audit lc where lc: "LoopbackClientConfig gc = Some lc"
    and rest: "bind_error (wrap_error ''failed to create admission plugin initializer: %v''
        (admission_New B informers (Some lc) t (EgressSelector gc)
          (buildServiceResolver (EnableAggregatorRouting s) (lc_Host lc) informers) (TracerProvider gc)))
      (\<lambda>(initializers, hook). bind_error (wrap_error ''failed to initialize admission: %v''
          (apply_admission B s informers initializers (gc\<lparr>AuditBackend := audit\<rparr>))) (\<lambda>gc2.
        bind_error (if flow_control B s then map_sum id Some (BuildPriorityAndFairness s) else Inr (FlowControl gc2))
          (\<lambda>flow. Inr \<lparr>genericConfig = gc2\<lparr>FlowControl := flow\<rparr>, versionedInformers = informers,
             serviceResolver = buildServiceResolver (EnableAggregatorRouting s) (lc_Host lc) informers,
             pluginInitializers = initializers, admissionPostStartHook = hook, storageFactory = sf\<rparr>))) = Inr b"
    by (auto simp: apply_audit_admission_def bind_call_Inr_iff Let_def flow_control_def split: option.splits)
  then obtain initializers hook gc2 flow where
    gc2: "apply_admission B s informers initializers (gc\<lparr>AuditBackend := audit\<rparr>) = Inr gc2"
    and flow: "(if flow_control B s then map_sum id Some (BuildPriorityAndFairness s) else Inr (FlowControl gc2)) = Inr flow"
    and b: "b = \<lparr>genericConfig = gc2\<lparr>FlowControl := flow\<rparr>, versionedInformers = informers,
             serviceResolver = buildServiceResolver (EnableAggregatorRouting s) (lc_Host lc) informers,
             pluginInitializers = initializers, admissionPostStartHook = hook, storageFactory = sf\<rparr>"
    by (auto simp: bind_error_Inr_iff wrap_error_Inr_iff split: prod.splits)
  from gc2 obtain control where "gc2 = gc\<lparr>AuditBackend := audit, AdmissionControl := control\<rparr>"
    by (elim apply_admission_Inr) simp
  with lc b flow show ?thesis
    by (intro that [where audit = audit and control = control and lc = lc and flow = flow]) (auto split: if_splits sum.splits simp: map_sum_def)
qed

lemma buildGenericConfig_Inr:
  assumes "buildGenericConfig B s t = Return (Inr b)"
  obtains gc1 gc2 sf gc3 client informers gc4 gc5 where
    "apply_generic B s ((NewConfig B)\<lparr>MergedResourceConfig := DefaultAPIResourceConfigSource B\<rparr>) = Inr gc1"
    and "apply_storage B s (describe_api B gc1) = Inr (gc2, sf)"
    and "loopback_client B gc2 = Return (Inr (gc3, client, informers))"
    and "apply_authentication B s client informers gc3 = Inr gc4"
    and "apply_authorization B s informers gc4 = Return (Inr gc5)"
    and "apply_audit_admission B s t informers sf gc5 = Return (Inr b)"
  using assms by (auto simp: buildGenericConfig_def bind_call_Inr_iff)

text \<open>The storage a configuration hands to its server is made from the options it was built from.\<close>

lemma buildGenericConfig_storage:
  assumes "buildGenericConfig B s t = Return (Inr b)"
  shows "\<exists>resources completed sf getter. storage_Complete B resources s = Inr completed \<and>
    storage_New B completed = Inr sf \<and>
    sf_APIResourceConfigSource (storageFactory b) = sf_APIResourceConfigSource sf \<and>
    ApplyWithStorageFactoryTo B s (storageFactory b) = Inr getter \<and>
    RESTOptionsGetter (genericConfig b) = Some (StorageFactoryRestOptions getter)"
proof -
  from assms obtain gc1 gc2 sf gc3 client informers gc4 gc5 where
    2: "apply_storage B s (describe_api B gc1) = Inr (gc2, sf)"
    and 3: "loopback_client B gc2 = Return (Inr (gc3, client, informers))"
    and 4: "apply_authentication B s client informers gc3 = Inr gc4"
    and 5: "apply_authorization B s informers gc4 = Return (Inr gc5)"
    and 6: "apply_audit_admission B s t informers sf gc5 = Return (Inr b)"
    by (rule buildGenericConfig_Inr)
  have "RESTOptionsGetter (genericConfig b) = RESTOptionsGetter gc5" and sf: "storageFactory b = sf"
    using 6 by (auto elim: apply_audit_admission_Inr)
  moreover have "RESTOptionsGetter gc5 = RESTOptionsGetter gc4" using 5 by (auto elim: apply_authorization_Inr)
  moreover have "RESTOptionsGetter gc4 = RESTOptionsGetter gc3" using apply_authentication_Inr [OF 4] by simp
  moreover have "RESTOptionsGetter gc3 = RESTOptionsGetter gc2" using 3 by (auto elim: loopback_client_Inr)
  ultimately show ?thesis using apply_storage_getter [OF 2] by metis
qed


section \<open>Where the construction can panic\<close>

lemma bind_call_returns:
  assumes "returns m" and "\<And>x. m = Return (Inr x) \<Longrightarrow> returns (f x)"
  shows "returns (bind_call m f)"
proof (cases m)
  case (Return r)
  with assms(2) show ?thesis by (cases r) (auto simp: bind_call_def)
qed (use assms(1) in simp)

lemma loopback_client_returns: "returns (loopback_client B gc) \<longleftrightarrow> LoopbackClientConfig gc \<noteq> None"
  by (simp add: loopback_client_def Let_def split: option.splits)

lemma apply_authorization_returns: "returns (apply_authorization B s informers gc) \<longleftrightarrow> Authorization s \<noteq> None"
  by (simp add: apply_authorization_def BuildAuthorizer_def split: option.splits)

lemma apply_audit_admission_returns:
  assumes "LoopbackClientConfig gc \<noteq> None"
  shows "returns (apply_audit_admission B s t informers sf gc)"
  unfolding apply_audit_admission_def
  using assms by (intro bind_call_returns) (auto simp: Let_def split: option.splits)

lemma buildGenericConfig_returns:
  assumes serving: "\<forall>info. SecureServing_ApplyTo B s (SecureServingInfo (NewConfig B))
      (LoopbackClientConfig (NewConfig B)) \<noteq> Inr (info, None)"
    and authorization: "Authorization s \<noteq> None"
  shows "returns (buildGenericConfig B s t)"
proof -
  have client: "LoopbackClientConfig gc2 \<noteq> None"
    if "apply_generic B s ((NewConfig B)\<lparr>MergedResourceConfig := DefaultAPIResourceConfigSource B\<rparr>) = Inr gc1"
      and "apply_storage B s (describe_api B gc1) = Inr (gc2, sf)" for gc1 gc2 sf
    using that(1) apply_storage_Inr [OF that(2)] serving
    by (elim apply_generic_Inr) (cases "LoopbackClientConfig gc1"; simp)
  show ?thesis
    unfolding buildGenericConfig_def
  proof (intro bind_call_returns, goal_cases)
    case (3 gc1 r)
    then show ?case
      by (auto split: prod.splits intro!: bind_call_returns simp: loopback_client_returns client
          apply_authorization_returns authorization
          elim!: loopback_client_Inr apply_authorization_Inr dest!: apply_authentication_Inr
          intro!: apply_audit_admission_returns)
  qed simp_all
qed

section \<open>Sample libraries\<close>

text \<open>Libraries whose calls succeed; a serving port of 0 gives no client, as documented for the secure serving options.\<close>

definition sample_config :: "string Config" where
  "sample_config = \<lparr>PostStartHooks = [], DisabledPostStartHooks = [], MergedResourceConfig = ''default'',
     RESTOptionsGetter = None, LoopbackClientConfig = None, SecureServingInfo = None, EgressSelector = None,
     TracerProvider = None, OpenAPIConfig = None, OpenAPIV3Config = None, LongRunningFunc = None,
     KubeVersion = None, cfg_Audiences = [], cfg_Authenticator = None, Authorizer = None, RuleResolver = None,
     AuditBackend = None, AdmissionControl = None, FlowControl = None, SkipOpenAPIInstallation = False,
     BuildHandlerChainFunc = None, OtherSettings = ''settings''\<rparr>"

definition sample_build :: "(unit, unit, string, string, string, string) build_env" where
  "sample_build = \<lparr>NewConfig = sample_config, DefaultAPIResourceConfigSource = ''default'',
     FeatureEnabled = (\<lambda>f. f \<in> set [APIPriorityAndFairness, APIListChunking]),
     Generic_ApplyTo = (\<lambda>_ v. Inr v),
     SecureServing_ApplyTo = (\<lambda>s info lc.
       if BindPort (SecureServing s) \<le> 0 then Inr (info, lc)
       else Inr (Some ''serving'', Some \<lparr>lc_Host = ''https://127.0.0.1:6443'', ContentType = [], DisableCompression = False\<rparr>)),
     Features_ApplyTo = Inr, APIEnablement_ApplyTo = (\<lambda>_ v _. Inr v),
     ResourceConfigOps = \<lparr>NewResourceConfig = [], EnableVersions = (\<lambda>_ c. c), DisableVersions = (\<lambda>_ c. c),
       EnableResources = (\<lambda>_ c. c)\<rparr>,
     SchemeGroupVersion = sample_group_version, EgressSelector_ApplyTo = Inr None, Traces_ApplyTo = (\<lambda>_. Inr None),
     DefaultOpenAPIConfig = \<lparr>Title = [], SecurityDefinitions = []\<rparr>,
     DefaultOpenAPIV3Config = \<lparr>Title = [], SecurityDefinitions = []\<rparr>, version_Get = ''v1.24'',
     storage_Complete = (\<lambda>v _. Inr v),
     storage_New = (\<lambda>v. Inr \<lparr>sf_APIResourceConfigSource = v, EgressLookup = None, sf_TracerProvider = None\<rparr>),
     ApplyWithStorageFactoryTo = (\<lambda>_ _. Inr ''storage''), NewForConfig = (\<lambda>lc. Inr ''client''),
     NewSharedInformerFactory = (\<lambda>_ _. ''informers''), ClientCAProvider = (\<lambda>_. Inr None),
     RequestHeaderConversion = (\<lambda>_. Inr None),
     AuthenticationLibrary = (\<lambda>_ _. \<lparr>ApplyClientCert = (\<lambda>_ i. (None, i)),
       NewAuthenticator = (\<lambda>_ _. (Some ''authenticator'', ''definitions'', None))\<rparr>),
     Lookup_egress = (\<lambda>_ _. Inr ''dialer''), authorizer_New = (\<lambda>_ _. Inr (''authorizer'', ''rules'')),
     ModeRBAC = ''RBAC'', RBAC_PostStartHookName = ''rbac/bootstrap-roles'', Audit_ApplyTo = (\<lambda>_. Inr None),
     admission_New = (\<lambda>_ _ _ _ _ _. Inr ([''initializer''], ''admission hook'')),
     GenericAdmission_ApplyTo = (\<lambda>_ _ _ _ _. Inr (Some ''admission''))\<rparr>"

section \<open>Properties\<close>





text \<open>
  Where building the configuration can take the process down. With authorization options present
  and serving options that yield a client for the server itself it returns a configuration or an
  error, whatever else fails. If the serving options yield none, without an error, as they do for
  port 0, and the storage can be configured, it panics.
\<close>

theorem generic_config_panics:
  "((\<forall>info. SecureServing_ApplyTo B s (SecureServingInfo (NewConfig B)) (LoopbackClientConfig (NewConfig B))
        \<noteq> Inr (info, None)) \<and> Authorization s \<noteq> None \<longrightarrow> returns (buildGenericConfig B s t)) \<and>
   (\<forall>info gc1 gc2 sf. SecureServing_ApplyTo B s (SecureServingInfo (NewConfig B)) (LoopbackClientConfig (NewConfig B))
        = Inr (info, None) \<and>
      apply_generic B s ((NewConfig B)\<lparr>MergedResourceConfig := DefaultAPIResourceConfigSource B\<rparr>) = Inr gc1 \<and>
      apply_storage B s (describe_api B gc1) = Inr (gc2, sf) \<longrightarrow> \<not> returns (buildGenericConfig B s t))"
proof (intro conjI allI impI)
  fix info gc1 gc2 sf
  assume a: "SecureServing_ApplyTo B s (SecureServingInfo (NewConfig B)) (LoopbackClientConfig (NewConfig B))
        = Inr (info, None) \<and>
      apply_generic B s ((NewConfig B)\<lparr>MergedResourceConfig := DefaultAPIResourceConfigSource B\<rparr>) = Inr gc1 \<and>
      apply_storage B s (describe_api B gc1) = Inr (gc2, sf)"
  then have "LoopbackClientConfig gc1 = None" by (auto elim!: apply_generic_Inr)
  with a apply_storage_Inr [of B s "describe_api B gc1" gc2 sf] have "LoopbackClientConfig gc2 = None" by simp
  with a show "\<not> returns (buildGenericConfig B s t)" by (simp add: buildGenericConfig_def loopback_client_def)
qed (use buildGenericConfig_returns in blast)

theorem generic_config_panics_witness:
  "\<not> returns (buildGenericConfig sample_build (default_options\<lparr>SecureServing := (SecureServing default_options)\<lparr>BindPort := 0\<rparr>\<rparr>)
     \<lparr>DialContext = None, InsecureSkipVerify = True\<rparr>)"
proof -
  let ?s = "default_options\<lparr>SecureServing := (SecureServing default_options)\<lparr>BindPort := 0\<rparr>\<rparr>"
  have serving: "SecureServing_ApplyTo sample_build ?s (SecureServingInfo (NewConfig sample_build))
      (LoopbackClientConfig (NewConfig sample_build)) = Inr (None, None)"
    by (simp add: sample_build_def sample_config_def)
  have "\<exists>gc1. apply_generic sample_build ?s ((NewConfig sample_build)\<lparr>MergedResourceConfig :=
      DefaultAPIResourceConfigSource sample_build\<rparr>) = Inr gc1"
    by (simp add: apply_generic_def sample_build_def sample_config_def)
  moreover have "\<exists>gc2 sf. apply_storage sample_build ?s gc = Inr (gc2, sf)" for gc
    by (simp add: apply_storage_def sample_build_def)
  ultimately show ?thesis using generic_config_panics [of sample_build ?s] serving by blast
qed

end
