(* ===== verification/Flags.thy ===== *)
theory Flags
  imports ServerConfig KubeControllerOptions
begin

text \<open>
  The command line flags of the server, the methods \<open>AddFlags\<close> of \<^verbatim>\<open>authentication.go\<close>,
  \<^verbatim>\<open>authorization.go\<close>, \<^verbatim>\<open>admission.go\<close>, \<^verbatim>\<open>embeddedetcd.go\<close> and \<^verbatim>\<open>options.go\<close> under
  \<^verbatim>\<open>src/server/apiserver/options/\<close>.

  Defining a flag on a variable assigns the default to the variable. A definition is therefore the
  name of the flag and what it does to the options; for most flags the default is the value the
  variable has. The flags of the option structs of the libraries are the fields of
  \<open>library_flags\<close>. Parsing the command line is left to the library. The last section has the flags
  of the kube controllers, \<^verbatim>\<open>src/server/controllers/kubecontroller/options\<close>, which no command defines.
\<close>

type_synonym 'o flag = "string \<times> ('o \<Rightarrow> 'o)"

definition current :: "string list \<Rightarrow> 'o flag list" where
  "current ns = map (\<lambda>n. (n, id)) ns"

definition flag_names :: "'o flag list \<Rightarrow> string list" where
  "flag_names flags = map fst flags"

definition flag_defaults :: "'o flag list \<Rightarrow> 'o \<Rightarrow> 'o" where
  "flag_defaults flags = fold snd flags"

definition on_part :: "(('p \<Rightarrow> 'p) \<Rightarrow> 'o \<Rightarrow> 'o) \<Rightarrow> 'p flag list \<Rightarrow> 'o flag list" where
  "on_part update flags = map (\<lambda>(n, f). (n, update f)) flags"

definition when_set :: "'p option \<Rightarrow> 'o flag list \<Rightarrow> 'o flag list" where
  "when_set p flags = (case p of None \<Rightarrow> [] | Some _ \<Rightarrow> flags)"

section \<open>The parts\<close>

definition oidc_flags :: "OIDCAuthenticationOptions flag list" where
  "oidc_flags =
     current [''oidc-issuer-url'', ''oidc-client-id'', ''oidc-ca-file''] @
     [(''oidc-username-claim'', UsernameClaim_update (\<lambda>_. ''sub'')),
      (''oidc-username-prefix'', UsernamePrefix_update (\<lambda>_. [])),
      (''oidc-groups-claim'', GroupsClaim_update (\<lambda>_. [])),
      (''oidc-groups-prefix'', GroupsPrefix_update (\<lambda>_. [])),
      (''oidc-signing-algs'', SigningAlgs_update (\<lambda>_. [''RS256'']))] @
     current [''oidc-required-claim'']"

definition authentication_AddFlags ::
  "('c, 'h) BuiltInAuthenticationOptions flag list \<Rightarrow> ('c, 'h) BuiltInAuthenticationOptions flag list \<Rightarrow>
   ('c, 'h) BuiltInAuthenticationOptions \<Rightarrow> ('c, 'h) BuiltInAuthenticationOptions flag list" where
  "authentication_AddFlags clientCert_flags requestHeader_flags opt =
     current [''api-audiences''] @
     when_set (Anonymous opt) (current [''anonymous-auth'']) @
     when_set (BootstrapToken opt) (current [''enable-bootstrap-token-auth'']) @
     when_set (ClientCert opt) clientCert_flags @
     when_set (OIDC opt) (on_part (\<lambda>f. OIDC_update (map_option f)) oidc_flags) @
     when_set (RequestHeader opt) requestHeader_flags @
     when_set (ServiceAccounts opt)
       (current [''service-account-key-file'', ''service-account-lookup'', ''service-account-issuer'',
          ''service-account-jwks-uri'', ''service-account-api-audiences'', ''service-account-max-token-expiration'',
          ''service-account-extend-token-expiration'']) @
     when_set (TokenFile opt) (current [''token-auth-file'']) @
     when_set (WebHook opt)
       (current [''authentication-token-webhook-config-file'', ''authentication-token-webhook-version'',
          ''authentication-token-webhook-cache-ttl''])"

definition authorization_AddFlags :: "BuiltInAuthorizationOptions flag list" where
  "authorization_AddFlags =
     current [''authorization-mode'', ''authorization-policy-file'', ''authorization-webhook-config-file'',
       ''authorization-webhook-version'', ''authorization-webhook-cache-authorized-ttl'',
       ''authorization-webhook-cache-unauthorized-ttl'']"

definition etcd_AddFlags :: "EmbeddedEtcd flag list" where
  "etcd_AddFlags =
     [(''enable-embedded-etcd'', Enabled_update (\<lambda>_. False))] @
     current [''embedded-etcd-directory'', ''embedded-etcd-peer-port'', ''embedded-etcd-client-port'',
       ''embedded-etcd-wal-size-bytes'']"

section \<open>The server\<close>

record ('c, 'h, 'ip, 'net, 'tok) library_flags =
  SecureServing_flags :: "('c, 'h, 'ip, 'net, 'tok) ServerRunOptions flag list"
  Etcd_flags :: "('c, 'h, 'ip, 'net, 'tok) ServerRunOptions flag list"
  Admission_flags :: "('c, 'h, 'ip, 'net, 'tok) ServerRunOptions flag list"
  Universal_flags :: "('c, 'h, 'ip, 'net, 'tok) ServerRunOptions flag list"
  ClientCert_flags :: "('c, 'h) BuiltInAuthenticationOptions flag list"
  RequestHeader_flags :: "('c, 'h) BuiltInAuthenticationOptions flag list"

text \<open>The pointers to the authorization, admission and etcd options are dereferenced.\<close>

definition server_AddFlags ::
  "('c, 'h, 'ip, 'net, 'tok) library_flags \<Rightarrow> ('c, 'h, 'ip, 'net, 'tok) ServerRunOptions \<Rightarrow>
   ('c, 'h, 'ip, 'net, 'tok) ServerRunOptions flag list outcome" where
  "server_AddFlags L e =
     (if Authorization e = None \<or> Admission e = None \<or> Embedded e = None
      then Panic ''invalid memory address or nil pointer dereference''
      else Return
        (SecureServing_flags L @ Etcd_flags L @
         on_part Authentication_update
           (authentication_AddFlags (ClientCert_flags L) (RequestHeader_flags L) (Authentication e)) @
         on_part (\<lambda>f. Authorization_update (map_option f)) authorization_AddFlags @
         Admission_flags L @ Universal_flags L @
         on_part (\<lambda>f. Embedded_update (map_option f)) etcd_AddFlags @
         current [''client-key-file'', ''service-account-signing-key-file'', ''service-cluster-ip-range'']))"

section \<open>The kube controllers\<close>

text \<open>A nil receiver defines no flags; every default is the current value.\<close>

definition csr_AddFlags :: "CSRSigningControllerConfiguration option \<Rightarrow> CSRSigningControllerConfiguration flag list" where
  "csr_AddFlags opt = when_set opt (current
     [''cluster-signing-cert-file'', ''cluster-signing-key-file'',
      ''cluster-signing-kubelet-serving-cert-file'', ''cluster-signing-kubelet-serving-key-file'',
      ''cluster-signing-kubelet-client-cert-file'', ''cluster-signing-kubelet-client-key-file'',
      ''cluster-signing-kube-apiserver-client-cert-file'', ''cluster-signing-kube-apiserver-client-key-file'',
      ''cluster-signing-legacy-unknown-cert-file'', ''cluster-signing-legacy-unknown-key-file'',
      ''cluster-signing-duration''])"

definition gc_AddFlags :: "GarbageCollectorControllerConfiguration option \<Rightarrow> GarbageCollectorControllerConfiguration flag list" where
  "gc_AddFlags opt = when_set opt (current [''concurrent-gc-syncs'', ''enable-garbage-collector''])"

definition namespace_AddFlags :: "NamespaceControllerConfiguration option \<Rightarrow> NamespaceControllerConfiguration flag list" where
  "namespace_AddFlags opt = when_set opt (current [''namespace-sync-period'', ''concurrent-namespace-syncs''])"

text \<open>The names by section.\<close>

definition kube_Flags ::
  "CSRSigningControllerConfiguration option \<Rightarrow> GarbageCollectorControllerConfiguration option \<Rightarrow>
   NamespaceControllerConfiguration option \<Rightarrow> (string \<times> string list) list" where
  "kube_Flags csr gc ns =
     [(''csrsigning controller'', flag_names (csr_AddFlags csr)),
      (''garbagecollector controller'', flag_names (gc_AddFlags gc)),
      (''namespace controller'', flag_names (namespace_AddFlags ns))]"

section \<open>Lemmas\<close>

lemma when_set_Some: "p \<noteq> None \<Longrightarrow> when_set p flags = flags"
  by (auto simp: when_set_def)

lemma flag_names_simps [simp]:
  "flag_names (current ns) = ns" "flag_names (fs @ gs) = flag_names fs @ flag_names gs"
  "flag_names (on_part update fs) = flag_names fs" "flag_names [] = []"
  "flag_names ((n, f) # fs) = n # flag_names fs"
  by (simp_all add: flag_names_def current_def on_part_def comp_def split_beta)

lemma flag_defaults_simps [simp]:
  "flag_defaults [] = id" "flag_defaults ((n, f) # fs) = flag_defaults fs \<circ> f"
  "flag_defaults (fs @ gs) = flag_defaults gs \<circ> flag_defaults fs"
  by (simp_all add: flag_defaults_def)

lemma flag_defaults_current [simp]: "flag_defaults (current ns) = id"
  by (induction ns) (auto simp: flag_defaults_def current_def)

lemma on_part_simps:
  "on_part update [] = []" "on_part update ((n, f) # fs) = (n, update f) # on_part update fs"
  by (simp_all add: on_part_def)

lemma flag_defaults_on_part:
  assumes "\<And>x. update id x = x" and "\<And>f g x. update f (update g x) = update (f \<circ> g) x"
  shows "flag_defaults (on_part update fs) x = update (flag_defaults fs) x"
proof (induction fs arbitrary: x)
  case Nil
  then show ?case by (simp only: on_part_simps flag_defaults_simps(1) assms(1)) (rule id_apply)
next
  case (Cons a fs)
  obtain n f where "a = (n, f)" by (cases a)
  then have "flag_defaults (on_part update (a # fs)) x = flag_defaults (on_part update fs) (update f x)"
    by (simp only: on_part_simps flag_defaults_simps(2) o_apply)
  also have "\<dots> = update (flag_defaults fs \<circ> f) x" by (simp only: Cons.IH assms(2))
  finally show ?case using \<open>a = (n, f)\<close> by (simp only: flag_defaults_simps(2))
qed

lemma flag_defaults_id: "(\<And>f. f \<in> set fs \<Longrightarrow> snd f = id) \<Longrightarrow> flag_defaults fs = id"
  by (induction fs) (auto simp: flag_defaults_def)

lemma on_part_laws:
  fixes s :: "('c, 'h, 'ip, 'net, 'tok) ServerRunOptions" and a :: "('c, 'h) BuiltInAuthenticationOptions"
  shows "flag_defaults (on_part Authentication_update fs) s = Authentication_update (flag_defaults fs) s"
    "flag_defaults (on_part (\<lambda>f. Authorization_update (map_option f)) gs) s =
       Authorization_update (map_option (flag_defaults gs)) s"
    "flag_defaults (on_part (\<lambda>f. Embedded_update (map_option f)) hs) s = Embedded_update (map_option (flag_defaults hs)) s"
    "flag_defaults (on_part (\<lambda>f. OIDC_update (map_option f)) os) a = OIDC_update (map_option (flag_defaults os)) a"
  by (rule flag_defaults_on_part; simp add: option.map_comp comp_def option.map_id0 option.map_ident)+

lemma default_presence:
  "Anonymous (Authentication (NewServerRunOptions Z D)) = Some True"
  "BootstrapToken (Authentication (NewServerRunOptions Z D)) = Some False"
  "ClientCert (Authentication (NewServerRunOptions Z D)) = Some (d_ClientCert D)"
  "OIDC (Authentication (NewServerRunOptions Z D)) = Some zero_OIDC"
  "RequestHeader (Authentication (NewServerRunOptions Z D)) = Some (d_RequestHeader D)"
  "ServiceAccounts (Authentication (NewServerRunOptions Z D)) \<noteq> None"
  "TokenFile (Authentication (NewServerRunOptions Z D)) = Some []"
  "WebHook (Authentication (NewServerRunOptions Z D)) \<noteq> None"
  "Authorization (NewServerRunOptions Z D) \<noteq> None" "Admission (NewServerRunOptions Z D) \<noteq> None"
  "Embedded (NewServerRunOptions Z D) = Some NewEmbeddedEtcd"
  by (simp_all add: NewServerRunOptions_def with_all_defs)

lemma part_defaults:
  "flag_defaults authorization_AddFlags = id"
  "flag_defaults etcd_AddFlags = Enabled_update (\<lambda>_. False)"
  "flag_defaults oidc_flags d = d\<lparr>UsernameClaim := ''sub'', UsernamePrefix := [], GroupsClaim := [], GroupsPrefix := [],
     SigningAlgs := [''RS256'']\<rparr>"
  by (simp_all add: authorization_AddFlags_def etcd_AddFlags_def oidc_flags_def)

lemma Authentication_update_value: "Authentication_update (flag_defaults fs) s = s\<lparr>Authentication := flag_defaults fs (Authentication s)\<rparr>"
  by (cases s) simp

lemma OIDC_update_value: "OIDC a = Some d \<Longrightarrow> OIDC_update (map_option f) a = a\<lparr>OIDC := Some (f d)\<rparr>"
  by (cases a) simp

lemma Embedded_update_same: "Embedded s = Some e \<Longrightarrow> f e = e \<Longrightarrow> Embedded_update (map_option f) s = s"
  by (cases s) simp

lemma Authorization_update_id: "Authorization_update (map_option id) s = s"
  by (cases s) (simp add: option.map_id0)

lemma authentication_flag_defaults:
  assumes "flag_defaults cc = id" and "flag_defaults rh = id" and "s = NewServerRunOptions Z D"
  shows "flag_defaults (authentication_AddFlags cc rh (Authentication s)) (Authentication s) =
    (Authentication s)\<lparr>OIDC := Some (zero_OIDC\<lparr>UsernameClaim := ''sub'', SigningAlgs := [''RS256'']\<rparr>)\<rparr>"
proof -
  have "OIDC (Authentication s) = Some zero_OIDC" by (simp add: assms(3) default_presence)
  moreover have "flag_defaults oidc_flags zero_OIDC = zero_OIDC\<lparr>UsernameClaim := ''sub'', SigningAlgs := [''RS256'']\<rparr>"
    by (simp add: part_defaults) (simp add: zero_OIDC_def)
  ultimately have "OIDC_update (map_option (flag_defaults oidc_flags)) (Authentication s) =
      (Authentication s)\<lparr>OIDC := Some (zero_OIDC\<lparr>UsernameClaim := ''sub'', SigningAlgs := [''RS256'']\<rparr>)\<rparr>"
    by (simp add: OIDC_update_value)
  then show ?thesis
    by (simp add: authentication_AddFlags_def default_presence when_set_Some assms on_part_laws)
qed

text \<open>The flags the repository defines itself, in the order of their definition.\<close>

definition own_flags :: "string list" where
  "own_flags =
     [''api-audiences'', ''anonymous-auth'', ''enable-bootstrap-token-auth'', ''oidc-issuer-url'', ''oidc-client-id'',
      ''oidc-ca-file'', ''oidc-username-claim'', ''oidc-username-prefix'', ''oidc-groups-claim'', ''oidc-groups-prefix'',
      ''oidc-signing-algs'', ''oidc-required-claim'', ''service-account-key-file'', ''service-account-lookup'',
      ''service-account-issuer'', ''service-account-jwks-uri'', ''service-account-api-audiences'',
      ''service-account-max-token-expiration'', ''service-account-extend-token-expiration'', ''token-auth-file'',
      ''authentication-token-webhook-config-file'', ''authentication-token-webhook-version'',
      ''authentication-token-webhook-cache-ttl'', ''authorization-mode'', ''authorization-policy-file'',
      ''authorization-webhook-config-file'', ''authorization-webhook-version'',
      ''authorization-webhook-cache-authorized-ttl'', ''authorization-webhook-cache-unauthorized-ttl'',
      ''enable-embedded-etcd'', ''embedded-etcd-directory'', ''embedded-etcd-peer-port'', ''embedded-etcd-client-port'',
      ''embedded-etcd-wal-size-bytes'', ''client-key-file'', ''service-account-signing-key-file'',
      ''service-cluster-ip-range'']"

lemma distinct_own_flags: "distinct own_flags"
  by code_simp

definition foreign_names :: "('c, 'h, 'ip, 'net, 'tok) library_flags \<Rightarrow> string list" where
  "foreign_names L = flag_names (SecureServing_flags L) @ flag_names (Etcd_flags L) @ flag_names (ClientCert_flags L) @
     flag_names (RequestHeader_flags L) @ flag_names (Admission_flags L) @ flag_names (Universal_flags L)"

definition keep_defaults :: "('c, 'h, 'ip, 'net, 'tok) library_flags \<Rightarrow> bool" where
  "keep_defaults L \<longleftrightarrow>
     flag_defaults (SecureServing_flags L) = id \<and> flag_defaults (Etcd_flags L) = id \<and>
     flag_defaults (ClientCert_flags L) = id \<and> flag_defaults (RequestHeader_flags L) = id \<and>
     flag_defaults (Admission_flags L) = id \<and> flag_defaults (Universal_flags L) = id"

lemma default_flags_applied:
  assumes flags: "server_AddFlags L s = Return flags" and "keep_defaults L" and s: "s = NewServerRunOptions Z D"
  shows "flag_defaults flags s = s\<lparr>Authentication := (Authentication s)
      \<lparr>OIDC := Some (zero_OIDC\<lparr>UsernameClaim := ''sub'', SigningAlgs := [''RS256'']\<rparr>)\<rparr>\<rparr>"
proof -
  have "Enabled_update (\<lambda>_. False) NewEmbeddedEtcd = NewEmbeddedEtcd" by (simp add: NewEmbeddedEtcd_def)
  moreover have "Embedded s = Some NewEmbeddedEtcd" by (simp add: s default_presence)
  moreover have "flags = SecureServing_flags L @ Etcd_flags L @
         on_part Authentication_update
           (authentication_AddFlags (ClientCert_flags L) (RequestHeader_flags L) (Authentication s)) @
         on_part (\<lambda>f. Authorization_update (map_option f)) authorization_AddFlags @
         Admission_flags L @ Universal_flags L @
         on_part (\<lambda>f. Embedded_update (map_option f)) etcd_AddFlags @
         current [''client-key-file'', ''service-account-signing-key-file'', ''service-cluster-ip-range'']"
    using flags by (auto simp: server_AddFlags_def split: if_splits)
  ultimately show "flag_defaults flags s = s\<lparr>Authentication := (Authentication s)
        \<lparr>OIDC := Some (zero_OIDC\<lparr>UsernameClaim := ''sub'', SigningAlgs := [''RS256'']\<rparr>)\<rparr>\<rparr>"
    using assms(2) authentication_flag_defaults [OF _ _ s, of "ClientCert_flags L" "RequestHeader_flags L"]
    by (simp add: keep_defaults_def on_part_laws part_defaults Authorization_update_id Authentication_update_value
        Embedded_update_same)
qed

section \<open>Properties\<close>

text \<open>
  C38. Defining the command line flags on the default options goes through: no name is defined twice,
  as long as the libraries name their flags differently from each other and from the 37 of the
  repository. If the libraries' flags keep the defaults, the options are the default options after
  that, except that OIDC takes the user name from the claim sub and accepts the algorithm RS256.
\<close>

theorem command_line_flags:
  assumes "distinct (foreign_names L @ own_flags)" and "keep_defaults L" and s: "s = NewServerRunOptions Z D"
  shows "\<exists>flags. server_AddFlags L s = Return flags \<and> distinct (flag_names flags) \<and>
    set (flag_names flags) = set (foreign_names L @ own_flags) \<and>
    flag_defaults flags s =
      s\<lparr>Authentication := (Authentication s)
        \<lparr>OIDC := Some (zero_OIDC\<lparr>UsernameClaim := ''sub'', SigningAlgs := [''RS256'']\<rparr>)\<rparr>\<rparr>"
proof -
  obtain flags where flags: "server_AddFlags L s = Return flags"
    by (simp add: server_AddFlags_def default_presence s)
  then have names: "mset (flag_names flags) = mset (foreign_names L @ own_flags)"
    by (auto simp: server_AddFlags_def default_presence when_set_Some foreign_names_def own_flags_def s
        authentication_AddFlags_def oidc_flags_def authorization_AddFlags_def etcd_AddFlags_def)
  from default_flags_applied [OF flags assms(2) s] flags names assms(1) show ?thesis
    by (metis mset_eq_imp_distinct_iff mset_eq_setD)
qed

theorem command_line_flags_witness:
  "\<exists>flags. server_AddFlags \<lparr>SecureServing_flags = current [''secure-port''], Etcd_flags = current [''etcd-servers''],
       Admission_flags = [], Universal_flags = [], ClientCert_flags = current [''client-ca-file''],
       RequestHeader_flags = []\<rparr> default_options = Return flags \<and>
     ''client-ca-file'' \<in> set (flag_names flags) \<and> ''runtime-config'' \<notin> set (flag_names flags)"
proof -
  let ?L = "\<lparr>SecureServing_flags = current [''secure-port''], Etcd_flags = current [''etcd-servers''],
       Admission_flags = [], Universal_flags = [], ClientCert_flags = current [''client-ca-file''],
       RequestHeader_flags = []\<rparr> :: (unit, unit, string, string, string) library_flags"
  have names: "foreign_names ?L = [''secure-port'', ''etcd-servers'', ''client-ca-file'']" by (simp add: foreign_names_def)
  have "distinct (foreign_names ?L @ own_flags)" unfolding names by code_simp
  moreover have "keep_defaults ?L" by (simp add: keep_defaults_def)
  ultimately obtain flags where
    "server_AddFlags ?L (NewServerRunOptions sample_modes sample_defaults) = Return flags"
    "set (flag_names flags) = set (foreign_names ?L @ own_flags)"
    using command_line_flags [of ?L "NewServerRunOptions sample_modes sample_defaults"] by blast
  moreover have "server_AddFlags ?L default_options = server_AddFlags ?L (NewServerRunOptions sample_modes sample_defaults)"
    by (simp add: server_AddFlags_def default_options_def)
  ultimately show ?thesis by (simp add: names own_flags_def)
qed

end
