(* ===== verification/Aggregator.thy ===== *)
theory Aggregator
  imports GoStrings GenericController
begin

text \<open>
  The aggregation layer, \<^verbatim>\<open>src/server/apiserver/aggregator.go\<close>: which API services are
  registered for the paths the delegate server lists, the health check that waits for them,
  and the post-start hooks with which the aggregator starts the other controllers. The
  predicate \<open>IsAPIServiceConditionTrue\<close> of the aggregator library and the outcome of its
  constructors are arguments.
\<close>

section \<open>API services\<close>

record priority =
  pr_group :: int
  pr_version :: int

text \<open>A service as far as this code builds and reads it; \<open>as_conditions\<close> holds its status.\<close>

record APIService =
  as_Name :: string
  as_Group :: string
  as_Version :: string
  GroupPriorityMinimum :: int
  VersionPriority :: int
  as_conditions :: "(string \<times> string) list"

definition apiVersionPriorities :: "((string \<times> string) \<times> priority) list" where
  "apiVersionPriorities = map (\<lambda>(g, v, p, q). ((g, v), \<lparr>pr_group = p, pr_version = q\<rparr>))
     [('''', ''v1'', 18000, 1),
      (''events.k8s.io'', ''v1'', 17750, 15),
      (''events.k8s.io'', ''v1beta1'', 17750, 5),
      (''authentication.k8s.io'', ''v1'', 17700, 15),
      (''authorization.k8s.io'', ''v1'', 17600, 15),
      (''certificates.k8s.io'', ''v1'', 17300, 15),
      (''rbac.authorization.k8s.io'', ''v1'', 17000, 15),
      (''apiextensions.k8s.io'', ''v1'', 16700, 15),
      (''admissionregistration.k8s.io'', ''v1'', 16700, 15),
      (''coordination.k8s.io'', ''v1'', 16500, 15),
      (''discovery.k8s.io'', ''v1'', 16200, 15),
      (''discovery.k8s.io'', ''v1beta1'', 16200, 12),
      (''flowcontrol.apiserver.k8s.io'', ''v1beta2'', 16100, 15),
      (''flowcontrol.apiserver.k8s.io'', ''v1beta1'', 16100, 12),
      (''flowcontrol.apiserver.k8s.io'', ''v1alpha1'', 16100, 9),
      (''internal.apiserver.k8s.io'', ''v1alpha1'', 16000, 9)]"

definition makeAPIService :: "string \<times> string \<Rightarrow> APIService option" where
  "makeAPIService gv =
     (case map_of apiVersionPriorities gv of
        None \<Rightarrow> None
      | Some apiServicePriority \<Rightarrow>
          Some \<lparr>as_Name = snd gv @ ''.'' @ fst gv, as_Group = fst gv, as_Version = snd gv,
                GroupPriorityMinimum = pr_group apiServicePriority,
                VersionPriority = pr_version apiServicePriority, as_conditions = []\<rparr>)"

text \<open>
  The loop over \<open>ListedPaths()\<close>. The first list of the result is what was passed to
  \<open>AddAPIServiceToSyncOnStart\<close>, in order, the second the slice that is returned. For
  \<^verbatim>\<open>/api/v1\<close> the code does not look whether there is a service, hence the option.
\<close>

fun apiServicesToRegister :: "string list \<Rightarrow> APIService option list \<times> APIService option list" where
  "apiServicesToRegister [] = ([], [])"
| "apiServicesToRegister (path # paths) =
     (let (reg, apiServices) = apiServicesToRegister paths
      in if path = ''/api/v1''
         then (let s = makeAPIService ('''', ''v1'') in (s # reg, s # apiServices))
         else if \<not> HasPrefix path ''/apis/'' then (reg, apiServices)
         else (let tokens = Split CHR ''/'' path
               in if length tokens \<noteq> 4 then (reg, apiServices)
                  else (case makeAPIService (tokens ! 2, tokens ! 3) of
                          None \<Rightarrow> (reg, apiServices)
                        | Some s \<Rightarrow> (Some s # reg, Some s # apiServices))))"

section \<open>The health check\<close>

text \<open>
  The state of \<open>makeAPIServiceAvailableHealthCheck\<close> is the set of pending names (under a lock,
  so that events and checks are atomic). An informer event carries an object that is asserted
  to be an \<open>APIService\<close>.
\<close>

type_synonym pending_names = "string list"

fun initial_pending :: "APIService option list \<Rightarrow> pending_names outcome" where
  "initial_pending [] = Return []"
| "initial_pending (None # ss) = Panic ''invalid memory address or nil pointer dereference''"
| "initial_pending (Some s # ss) =
     bind_outcome (initial_pending ss) (\<lambda>p. Return (List.insert (as_Name s) p))"

definition handleAPIServiceChange ::
  "(APIService \<Rightarrow> string \<Rightarrow> bool) \<Rightarrow> APIService \<Rightarrow> pending_names \<Rightarrow> pending_names" where
  "handleAPIServiceChange IsConditionTrue service p =
     (if as_Name service \<notin> set p then p
      else if IsConditionTrue service ''Available'' then removeAll (as_Name service) p else p)"

datatype api_event =
    ServiceAdded APIService
  | ServiceUpdated APIService APIService
  | OtherObject string \<comment> \<open>an object of another type\<close>

fun on_api_event ::
  "(APIService \<Rightarrow> string \<Rightarrow> bool) \<Rightarrow> api_event \<Rightarrow> pending_names \<Rightarrow> pending_names outcome" where
  "on_api_event avail (ServiceAdded s) p = Return (handleAPIServiceChange avail s p)"
| "on_api_event avail (ServiceUpdated old s) p = Return (handleAPIServiceChange avail s p)"
| "on_api_event avail (OtherObject t) p = Panic ''interface conversion: interface {} is not *v1.APIService''"

definition health_check :: "pending_names \<Rightarrow> error option" where
  "health_check p = (if length p > 0 then Some (Errorf ''missing APIService'') else None)"

fun run_events ::
  "(APIService \<Rightarrow> string \<Rightarrow> bool) \<Rightarrow> api_event list \<Rightarrow> pending_names \<Rightarrow> pending_names outcome" where
  "run_events avail [] p = Return p"
| "run_events avail (e # es) p = bind_outcome (on_api_event avail e p) (run_events avail es)"

section \<open>Post-start hooks\<close>

text \<open>
  What a hook starts. The dynamic client is \<open>None\<close> when \<open>dynamic.NewForConfig\<close> failed: the code
  logs that error and goes on with a nil client.
\<close>

datatype 'c hook =
    Autoregistration "APIService option list"
  | KubeController string string \<comment> \<open>client certificate and key\<close>
  | GlobalHubCRDs "'c option"
  | GlobalHubControllers "'c option"

definition hook_name :: "'c hook \<Rightarrow> string" where
  "hook_name h = (case h of
     Autoregistration _ \<Rightarrow> ''kube-apiserver-autoregistration''
   | KubeController _ _ \<Rightarrow> ''kube-controller''
   | GlobalHubCRDs _ \<Rightarrow> ''global-hub-crds''
   | GlobalHubControllers _ \<Rightarrow> ''global-hub-controllers'')"

record 'c aggregator =
  hooks :: "'c hook list" \<comment> \<open>in the order of registration\<close>
  boot_check :: "pending_names option"

text \<open>
  The library calls \<open>createAggregatorServer\<close> depends on: the constructors, whether a hook or a
  check is accepted (a name registered twice is not, for one), and the dynamic client.
\<close>

record 'c aggregator_env =
  NewWithDelegate :: "error option"
  RegistrationClient :: "error option"
  AddHook :: "string \<Rightarrow> error option"
  AddBootCheck :: "error option"
  NewDynamic :: "error + 'c"

fun add_hook :: "'c aggregator_env \<Rightarrow> 'c hook \<Rightarrow> (error + 'c aggregator) \<Rightarrow> (error + 'c aggregator)" where
  "add_hook E h (Inl err) = Inl err"
| "add_hook E h (Inr a) =
     (case AddHook E (hook_name h) of Some err \<Rightarrow> Inl err | None \<Rightarrow> Inr (a\<lparr>hooks := hooks a @ [h]\<rparr>))"

fun add_boot_check :: "'c aggregator_env \<Rightarrow> pending_names \<Rightarrow> (error + 'c aggregator) \<Rightarrow> (error + 'c aggregator)" where
  "add_boot_check E p (Inl err) = Inl err"
| "add_boot_check E p (Inr a) =
     (case AddBootCheck E of Some err \<Rightarrow> Inl err | None \<Rightarrow> Inr (a\<lparr>boot_check := Some p\<rparr>))"

definition nil_on_error :: "error + 'c \<Rightarrow> 'c option" where
  "nil_on_error r = (case r of Inl err \<Rightarrow> None | Inr c \<Rightarrow> Some c)"

definition createAggregatorServer ::
  "'c aggregator_env \<Rightarrow> string list \<Rightarrow> string \<Rightarrow> string \<Rightarrow> (error + 'c aggregator) outcome" where
  "createAggregatorServer E listedPaths clientCert clientKey =
     (case NewWithDelegate E of
        Some err \<Rightarrow> Return (Inl err)
      | None \<Rightarrow>
          (case RegistrationClient E of
             Some err \<Rightarrow> Return (Inl err)
           | None \<Rightarrow>
               (let apiServices = snd (apiServicesToRegister listedPaths);
                    server = add_hook E (Autoregistration apiServices) (Inr \<lparr>hooks = [], boot_check = None\<rparr>)
                in case server of
                     Inl err \<Rightarrow> Return (Inl err)
                   | Inr _ \<Rightarrow>
                       bind_outcome (initial_pending apiServices) (\<lambda>p.
                         Return
                           (add_hook E (GlobalHubControllers (nil_on_error (NewDynamic E)))
                             (add_hook E (GlobalHubCRDs (nil_on_error (NewDynamic E)))
                               (add_hook E (KubeController clientCert clientKey)
                                 (add_boot_check E p server))))))))"

section \<open>Which services are registered\<close>

text \<open>The paths that stand for a group-version.\<close>

definition path_of :: "string \<times> string \<Rightarrow> string \<Rightarrow> bool" where
  "path_of gv p \<longleftrightarrow>
     gv = ('''', ''v1'') \<and> p = ''/api/v1'' \<or> p = ''/apis/'' @ fst gv @ ''/'' @ snd gv"

lemma makeAPIService_Some_iff:
  "makeAPIService gv = Some s \<longleftrightarrow>
     (\<exists>pr. map_of apiVersionPriorities gv = Some pr \<and>
        s = \<lparr>as_Name = snd gv @ ''.'' @ fst gv, as_Group = fst gv, as_Version = snd gv,
             GroupPriorityMinimum = pr_group pr, VersionPriority = pr_version pr, as_conditions = []\<rparr>)"
  by (auto simp: makeAPIService_def split: option.splits)

lemma makeAPIService_core: "makeAPIService ('''', ''v1'') \<noteq> None"
  by (simp add: makeAPIService_def apiVersionPriorities_def)

lemma priorities_slash_free:
  assumes "map_of apiVersionPriorities gv = Some pr"
  shows "CHR ''/'' \<notin> set (fst gv) \<and> CHR ''/'' \<notin> set (snd gv)"
proof -
  have "list_all (\<lambda>((g, v), _). CHR ''/'' \<notin> set g \<and> CHR ''/'' \<notin> set v) apiVersionPriorities"
    by (simp add: apiVersionPriorities_def)
  with map_of_SomeD [OF assms] show ?thesis by (cases gv) (auto simp: list_all_iff)
qed

lemma split_apis_path:
  "HasPrefix p ''/apis/'' \<and> length (Split CHR ''/'' p) = 4 \<and>
     Split CHR ''/'' p ! 2 = g \<and> Split CHR ''/'' p ! 3 = v \<longleftrightarrow>
   p = ''/apis/'' @ g @ ''/'' @ v \<and> CHR ''/'' \<notin> set g \<and> CHR ''/'' \<notin> set v"
  (is "?split \<longleftrightarrow> ?path")
proof
  assume ?split
  then obtain r where p: "p = ''/apis/'' @ r" by (auto simp: HasPrefix_iff)
  have head: "Split CHR ''/'' p = [] # ''apis'' # Split CHR ''/'' r" by (simp add: p)
  with \<open>?split\<close> have r: "Split CHR ''/'' r = [g, v]"
    by (auto simp: numeral_eq_Suc length_Suc_conv)
  then show ?path by (simp add: p Split_eq_iff)
next
  assume ?path
  then show ?split
    by (simp add: HasPrefix_def Split_append [of _ g, simplified] Split_free)
qed

lemma apiServicesToRegister_same: "fst (apiServicesToRegister ps) = snd (apiServicesToRegister ps)"
  by (induction ps) (auto simp: Let_def split: prod.splits option.splits)

lemma registered_Cons:
  "Some s \<in> set (snd (apiServicesToRegister (p # ps))) \<longleftrightarrow>
     (\<exists>gv. path_of gv p \<and> makeAPIService gv = Some s) \<or> Some s \<in> set (snd (apiServicesToRegister ps))"
proof (cases "p = ''/api/v1''")
  case True
  then have "path_of gv p \<longleftrightarrow> gv = ('''', ''v1'')" for gv by (auto simp: path_of_def)
  then have "(\<exists>gv. path_of gv p \<and> makeAPIService gv = Some s) \<longleftrightarrow>
      makeAPIService ('''', ''v1'') = Some s" by simp
  moreover have "snd (apiServicesToRegister (p # ps)) =
      makeAPIService ('''', ''v1'') # snd (apiServicesToRegister ps)"
    using True by (simp add: Let_def case_prod_beta)
  ultimately show ?thesis by (simp only: list.set insert_iff) (simp add: eq_commute)
next
  case False
  have "path_of (g, v) p \<and> makeAPIService (g, v) = Some s \<longleftrightarrow>
      (HasPrefix p ''/apis/'' \<and> length (Split CHR ''/'' p) = 4 \<and>
      Split CHR ''/'' p ! 2 = g \<and> Split CHR ''/'' p ! 3 = v) \<and> makeAPIService (g, v) = Some s" for g v
  proof (cases "makeAPIService (g, v) = Some s")
    case True
    then obtain pr where "map_of apiVersionPriorities (g, v) = Some pr"
      by (auto simp only: makeAPIService_Some_iff)
    from priorities_slash_free [OF this] have "CHR ''/'' \<notin> set g \<and> CHR ''/'' \<notin> set v"
      by simp
    with False have "path_of (g, v) p \<longleftrightarrow>
        p = ''/apis/'' @ g @ ''/'' @ v \<and> CHR ''/'' \<notin> set g \<and> CHR ''/'' \<notin> set v"
      by (simp add: path_of_def)
    then show ?thesis by (simp only: split_apis_path)
  qed simp
  then have "(\<exists>gv. path_of gv p \<and> makeAPIService gv = Some s) \<longleftrightarrow>
      HasPrefix p ''/apis/'' \<and> length (Split CHR ''/'' p) = 4 \<and>
      makeAPIService (Split CHR ''/'' p ! 2, Split CHR ''/'' p ! 3) = Some s"
    by (simp only: split_paired_Ex) blast
  moreover have "Some s \<in> set (snd (apiServicesToRegister (p # ps))) \<longleftrightarrow>
      HasPrefix p ''/apis/'' \<and> length (Split CHR ''/'' p) = 4 \<and>
      makeAPIService (Split CHR ''/'' p ! 2, Split CHR ''/'' p ! 3) = Some s \<or>
      Some s \<in> set (snd (apiServicesToRegister ps))"
    using False by (auto simp: Let_def case_prod_beta split: option.splits)
  ultimately show ?thesis by blast
qed

lemma registered_no_nil: "None \<notin> set (snd (apiServicesToRegister ps))"
  using makeAPIService_core
  by (induction ps) (auto simp: Let_def split: prod.splits option.splits)

lemma registered_iff:
  "Some s \<in> set (snd (apiServicesToRegister ps)) \<longleftrightarrow>
     (\<exists>p\<in>set ps. \<exists>gv. path_of gv p \<and> makeAPIService gv = Some s)"
  by (induction ps) (simp, simp only: registered_Cons list.set, blast)

section \<open>When the health check passes\<close>

lemma initial_pending_names:
  "None \<notin> set ss \<Longrightarrow>
     \<exists>p. initial_pending ss = Return p \<and> set p = as_Name ` {s. Some s \<in> set ss}"
proof (induction ss)
  case Nil
  then show ?case by simp
next
  case (Cons s ss)
  then show ?case by (cases s) auto
qed

text \<open>The name an event reports as available.\<close>

fun reports_available :: "(APIService \<Rightarrow> string \<Rightarrow> bool) \<Rightarrow> string \<Rightarrow> api_event \<Rightarrow> bool" where
  "reports_available avail n (ServiceAdded s) \<longleftrightarrow> as_Name s = n \<and> avail s ''Available''"
| "reports_available avail n (ServiceUpdated old s) \<longleftrightarrow> as_Name s = n \<and> avail s ''Available''"
| "reports_available avail n (OtherObject t) \<longleftrightarrow> False"

lemma on_api_event_pending:
  "on_api_event avail e p = Return p' \<Longrightarrow> set p' = {n \<in> set p. \<not> reports_available avail n e}"
  by (cases e) (auto simp: handleAPIServiceChange_def split: if_splits)

lemma run_events_pending:
  "run_events avail es p = Return p' \<Longrightarrow>
     set p' = {n \<in> set p. \<forall>e\<in>set es. \<not> reports_available avail n e}"
proof (induction es arbitrary: p)
  case Nil
  then show ?case by simp
next
  case (Cons e es)
  then obtain q where "on_api_event avail e p = Return q" and "run_events avail es q = Return p'"
    by (auto simp: bind_outcome_Return_iff)
  with Cons.IH [of q] on_api_event_pending [of avail e p q] show ?case by auto
qed

lemma health_check_iff: "health_check p = None \<longleftrightarrow> set p = {}"
  by (simp add: health_check_def)

section \<open>Properties\<close>

text \<open>
  C34. A service is registered for synchronisation, and waited for, exactly if the delegate server
  lists a path of a group-version that has priorities, \<^verbatim>\<open>/api/v1\<close> or \<^verbatim>\<open>/apis/<group>/<version>\<close>;
  its name, group, version and priorities are those of the group-version. What is waited for is
  what is registered, and no nil service is among them.
\<close>

theorem registered_services_iff:
  "fst (apiServicesToRegister paths) = snd (apiServicesToRegister paths) \<and>
   None \<notin> set (snd (apiServicesToRegister paths)) \<and>
   (Some s \<in> set (snd (apiServicesToRegister paths)) \<longleftrightarrow>
     (\<exists>p gv pr. p \<in> set paths \<and> path_of gv p \<and> map_of apiVersionPriorities gv = Some pr \<and>
        s = \<lparr>as_Name = snd gv @ ''.'' @ fst gv, as_Group = fst gv, as_Version = snd gv,
             GroupPriorityMinimum = pr_group pr, VersionPriority = pr_version pr, as_conditions = []\<rparr>))"
  using apiServicesToRegister_same registered_no_nil
  by (auto simp: registered_iff makeAPIService_Some_iff)

text \<open>
  C33. The health check passes exactly when every registered service has been reported available by
  some event since the server started; a later event never makes it fail again.
\<close>

theorem healthy_iff_all_seen:
  assumes start: "initial_pending services = Return p0"
    and run: "run_events avail events p0 = Return p"
  shows "health_check p = None \<longleftrightarrow>
    (\<forall>s. Some s \<in> set services \<longrightarrow> (\<exists>e\<in>set events. reports_available avail (as_Name s) e))"
proof -
  have "None \<notin> set services"
    using start
  proof (induction services arbitrary: p0)
    case (Cons s ss)
    then show ?case by (cases s) (auto simp: bind_outcome_Return_iff)
  qed simp
  from initial_pending_names [OF this] start have "set p0 = as_Name ` {s. Some s \<in> set services}" by auto
  with run_events_pending [OF run] show ?thesis by (auto simp: health_check_iff)
qed

definition sample_available :: "APIService \<Rightarrow> string \<Rightarrow> bool" where
  "sample_available s t \<longleftrightarrow> map_of (as_conditions s) t = Some ''True''"

theorem healthy_iff_all_seen_witness:
  "let services = snd (apiServicesToRegister [''/api/v1'', ''/apis/events.k8s.io/v1'', ''/healthz'']);
       core = \<lparr>as_Name = ''v1.'', as_Group = [], as_Version = ''v1'', GroupPriorityMinimum = 18000,
         VersionPriority = 1, as_conditions = [(''Available'', ''True'')]\<rparr>
   in \<exists>p0 p. initial_pending services = Return p0 \<and>
        run_events sample_available [ServiceAdded core] p0 = Return p \<and> \<not> (health_check p = None)"
proof -
  let ?s = "snd (apiServicesToRegister [''/api/v1'', ''/apis/events.k8s.io/v1'', ''/healthz''])"
  let ?core = "\<lparr>as_Name = ''v1.'', as_Group = [], as_Version = ''v1'', GroupPriorityMinimum = 18000,
         VersionPriority = 1, as_conditions = [(''Available'', ''True'')]\<rparr>"
  obtain p0 where p0: "initial_pending ?s = Return p0"
    using initial_pending_names [OF registered_no_nil] by blast
  obtain p where p: "run_events sample_available [ServiceAdded ?core] p0 = Return p" by simp
  let ?ev = "\<lparr>as_Name = ''v1.events.k8s.io'', as_Group = ''events.k8s.io'', as_Version = ''v1'',
      GroupPriorityMinimum = 17750, VersionPriority = 15, as_conditions = []\<rparr>"
  have "Some ?ev \<in> set ?s" by code_simp
  moreover have "\<not> (\<exists>e\<in>set [ServiceAdded ?core]. reports_available sample_available (as_Name ?ev) e)"
    by simp
  ultimately have "health_check p \<noteq> None"
    using healthy_iff_all_seen [OF p0 p] by blast
  with p0 p show ?thesis by (auto simp: Let_def)
qed

lemma add_hook_Inr_iff:
  "add_hook E h r = Inr a \<longleftrightarrow>
     (\<exists>b. r = Inr b \<and> AddHook E (hook_name h) = None \<and> a = b\<lparr>hooks := hooks b @ [h]\<rparr>)"
  by (cases r) (auto split: option.splits)

lemma add_boot_check_Inr_iff:
  "add_boot_check E p r = Inr a \<longleftrightarrow> (\<exists>b. r = Inr b \<and> AddBootCheck E = None \<and> a = b\<lparr>boot_check := Some p\<rparr>)"
  by (cases r) (auto split: option.splits)

lemma initial_pending_registered: "\<exists>p. initial_pending (snd (apiServicesToRegister paths)) = Return p"
  using initial_pending_names [OF registered_no_nil] by blast

lemma createAggregatorServer_hooks:
  "returns (createAggregatorServer E paths cert key) \<and>
   (\<forall>a. createAggregatorServer E paths cert key = Return (Inr a) \<longrightarrow>
      (\<exists>p. initial_pending (snd (apiServicesToRegister paths)) = Return p \<and> boot_check a = Some p \<and>
        hooks a = [Autoregistration (snd (apiServicesToRegister paths)), KubeController cert key,
          GlobalHubCRDs (nil_on_error (NewDynamic E)), GlobalHubControllers (nil_on_error (NewDynamic E))]))"
proof -
  obtain p where p: "initial_pending (snd (apiServicesToRegister paths)) = Return p"
    using initial_pending_registered by blast
  show ?thesis
    by (auto simp: createAggregatorServer_def Let_def p add_hook_Inr_iff add_boot_check_Inr_iff
        simp del: add_hook.simps add_boot_check.simps split: option.splits sum.splits)
qed

text \<open>
  Creating the aggregator never panics. If it succeeds, the four hooks are registered in the
  order autoregistration, kube controllers, definitions, global hub controllers, and the boot
  check waits for the registered services. A failure to build the dynamic client is no failure
  of the creation: the last two hooks are then registered with a nil client.
\<close>

theorem aggregator_hooks:
  "returns (createAggregatorServer E paths cert key) \<and>
   (\<forall>a. createAggregatorServer E paths cert key = Return (Inr a) \<longrightarrow>
      (\<exists>p. initial_pending (snd (apiServicesToRegister paths)) = Return p \<and> boot_check a = Some p \<and>
        hooks a = [Autoregistration (snd (apiServicesToRegister paths)), KubeController cert key,
          GlobalHubCRDs (nil_on_error (NewDynamic E)), GlobalHubControllers (nil_on_error (NewDynamic E))]))"
  by (rule createAggregatorServer_hooks)

theorem aggregator_hooks_witness:
  "\<exists>a. createAggregatorServer \<lparr>NewWithDelegate = None, RegistrationClient = None, AddHook = (\<lambda>_. None),
       AddBootCheck = None, NewDynamic = Inl (Errorf ''no client'') :: error + unit\<rparr> [''/api/v1''] ''ca'' ''key'' =
       Return (Inr a) \<and> map hook_name (hooks a) =
        [''kube-apiserver-autoregistration'', ''kube-controller'', ''global-hub-crds'', ''global-hub-controllers''] \<and>
     hooks a ! 2 = GlobalHubCRDs None"
proof -
  let ?E = "\<lparr>NewWithDelegate = None, RegistrationClient = None, AddHook = (\<lambda>_. None),
       AddBootCheck = None, NewDynamic = Inl (Errorf ''no client'') :: error + unit\<rparr>"
  have "case createAggregatorServer ?E [''/api/v1''] ''ca'' ''key'' of Return (Inr a) \<Rightarrow> True | _ \<Rightarrow> False"
    by code_simp
  then obtain a where a: "createAggregatorServer ?E [''/api/v1''] ''ca'' ''key'' = Return (Inr a)"
    by (auto split: outcome.splits sum.splits)
  with aggregator_hooks [of ?E "[''/api/v1'']" "''ca''" "''key''"]
  show ?thesis by (auto simp: hook_name_def nil_on_error_def simp del: apiServicesToRegister.simps)
qed

end
