(* ===== verification/EtcdServer.thy ===== *)
theory EtcdServer
  imports GoStrings
begin

text \<open>
  The embedded etcd server, \<^verbatim>\<open>src/server/etcd/embedded.go\<close>: the certificates it generates, where
  it writes them, and the configuration and client information of the server. Keys \<open>'k\<close> are
  opaque. What the environment decides is in the record \<open>etcd_env\<close>: random numbers and keys,
  failures of the file system and of the cryptographic library, and how the server comes up.

  The file system is the set of directories and the files written; a file can only be written
  into a directory that exists.
\<close>

section \<open>Files\<close>

record Certificate =
  SerialNumber :: int
  NotAfter :: int \<comment> \<open>seconds after \<open>NotBefore\<close>\<close>
  Organization :: "string list"
  CommonName :: string
  IsCA :: bool
  SubjectKeyId :: "nat list"
  DNSNames :: "string list"
  KeyUsage :: "string list"
  ExtKeyUsage :: "string list"
  BasicConstraintsValid :: bool

text \<open>The contents: a private key, or a certificate for a public key signed with a private key.\<close>

datatype 'k pem = KeyPEM 'k | CertPEM Certificate Certificate 'k 'k
  \<comment> \<open>template, parent, subject's key, signing key\<close>

record 'k file_system =
  dirs :: "string list"
  files :: "(string \<times> 'k pem) list"

record 'k etcd_env =
  RandInt :: "error + int" \<comment> \<open>\<open>rand.Int\<close> below \<open>2^128\<close>\<close>
  GenerateKey :: "nat \<Rightarrow> error + 'k" \<comment> \<open>the n-th generated key\<close>
  CreateCertificate :: "Certificate \<Rightarrow> error option"
  MarshalECPrivateKey :: "'k \<Rightarrow> error option"
  MkdirAll :: "string \<Rightarrow> error option"
  WriteFile :: "string \<Rightarrow> error option"

text \<open>\<open>filepath.Join\<close> on clean paths and \<open>filepath.Dir\<close> of what it returns.\<close>

definition path_join :: "string \<Rightarrow> string \<Rightarrow> string" where
  "path_join d f = d @ ''/'' @ f"

definition path_dir :: "string \<Rightarrow> string" where
  "path_dir p = rev (tl (dropWhile (\<lambda>c. c \<noteq> CHR ''/'') (rev p)))"

definition no_such_directory :: error where
  "no_such_directory = Errorf ''no such file or directory''"

definition write_file :: "'k etcd_env \<Rightarrow> string \<Rightarrow> 'k pem \<Rightarrow> 'k file_system \<Rightarrow> error option \<times> 'k file_system" where
  "write_file E path c fs =
     (if path_dir path \<notin> set (dirs fs) then (Some no_such_directory, fs)
      else (case WriteFile E path of
              Some err \<Rightarrow> (Some err, fs)
            | None \<Rightarrow> (None, fs\<lparr>files := AList.update path c (files fs)\<rparr>)))"

definition certToFile ::
  "'k etcd_env \<Rightarrow> Certificate \<Rightarrow> Certificate \<Rightarrow> 'k \<Rightarrow> 'k \<Rightarrow> string \<Rightarrow> 'k file_system \<Rightarrow> error option \<times> 'k file_system" where
  "certToFile E template parent publicKey privateKey path fs =
     (case CreateCertificate E template of
        Some err \<Rightarrow> (Some err, fs)
      | None \<Rightarrow> write_file E path (CertPEM template parent publicKey privateKey) fs)"

definition ecPrivateKeyToFile ::
  "'k etcd_env \<Rightarrow> 'k \<Rightarrow> string \<Rightarrow> 'k file_system \<Rightarrow> error option \<times> 'k file_system" where
  "ecPrivateKeyToFile E key path fs =
     (case MarshalECPrivateKey E key of
        Some err \<Rightarrow> (Some err, fs)
      | None \<Rightarrow>
          (case MkdirAll E (path_dir path) of
             Some err \<Rightarrow> (Some err, fs)
           | None \<Rightarrow> write_file E path (KeyPEM key) (fs\<lparr>dirs := List.insert (path_dir path) (dirs fs)\<rparr>)))"

section \<open>The certificates\<close>

definition ten_years :: int where
  "ten_years = 10 * 365 * 24 * 3600"

definition caTemplate :: "int \<Rightarrow> Certificate" where
  "caTemplate serialNumber =
     \<lparr>SerialNumber = serialNumber, NotAfter = ten_years, Organization = [''etcd''], CommonName = [],
      IsCA = True, SubjectKeyId = [], DNSNames = [], KeyUsage = [''DigitalSignature'', ''CertSign''],
      ExtKeyUsage = [''ClientAuth'', ''ServerAuth''], BasicConstraintsValid = True\<rparr>"

definition serverTemplate :: "int \<Rightarrow> string list \<Rightarrow> Certificate" where
  "serverTemplate serialNumber hosts =
     \<lparr>SerialNumber = serialNumber + 1, NotAfter = ten_years, Organization = [''etcd''], CommonName = [],
      IsCA = False, SubjectKeyId = [1, 2, 3, 4, 6], DNSNames = hosts,
      KeyUsage = [''KeyEncipherment'', ''DigitalSignature''],
      ExtKeyUsage = [''ClientAuth'', ''ServerAuth''], BasicConstraintsValid = True\<rparr>"

definition clientTemplate :: "int \<Rightarrow> Certificate" where
  "clientTemplate serialNumber =
     \<lparr>SerialNumber = serialNumber + 2, NotAfter = ten_years, Organization = [''etcd''],
      CommonName = ''etcd-client'', IsCA = False, SubjectKeyId = [], DNSNames = [],
      KeyUsage = [''DigitalSignature''], ExtKeyUsage = [''ClientAuth''], BasicConstraintsValid = True\<rparr>"

text \<open>\<open>if err := step; err != nil { return err }\<close>, step after step.\<close>

fun in_sequence :: "('s \<Rightarrow> error option \<times> 's) list \<Rightarrow> 's \<Rightarrow> error option \<times> 's" where
  "in_sequence [] s = (None, s)"
| "in_sequence (f # fs) s =
     (case f s of (Some err, s') \<Rightarrow> (Some err, s') | (None, s') \<Rightarrow> in_sequence fs s')"

definition generateClientAndServerCerts ::
  "'k etcd_env \<Rightarrow> string list \<Rightarrow> string \<Rightarrow> 'k file_system \<Rightarrow> error option \<times> 'k file_system" where
  "generateClientAndServerCerts E hosts dir fs =
     (case RandInt E of Inl err \<Rightarrow> (Some err, fs) | Inr serialNumber \<Rightarrow>
     (case GenerateKey E 0 of Inl err \<Rightarrow> (Some err, fs) | Inr caKey \<Rightarrow>
     (case GenerateKey E 1 of Inl err \<Rightarrow> (Some err, fs) | Inr serverKey \<Rightarrow>
     (case GenerateKey E 2 of Inl err \<Rightarrow> (Some err, fs) | Inr clientKey \<Rightarrow>
       in_sequence
         [ecPrivateKeyToFile E caKey (path_join dir ''ca/key.pem''),
          certToFile E (caTemplate serialNumber) (caTemplate serialNumber) caKey caKey
            (path_join dir ''ca/cert.pem''),
          ecPrivateKeyToFile E serverKey (path_join dir ''peer/key.pem''),
          certToFile E (serverTemplate serialNumber hosts) (caTemplate serialNumber) serverKey caKey
            (path_join dir ''peer/cert.pem''),
          ecPrivateKeyToFile E clientKey (path_join dir ''client/key.pem''),
          certToFile E (clientTemplate serialNumber) (caTemplate serialNumber) clientKey caKey
            (path_join dir ''client/cert.pem'')] fs))))"

section \<open>The server\<close>

record TLSInfo =
  ServerName :: string
  tls_CertFile :: string
  tls_KeyFile :: string
  tls_TrustedCAFile :: string
  ClientCertAuth :: bool

record etcd_config =
  cfg_Dir :: string
  LPUrls :: "(string \<times> string) list" \<comment> \<open>scheme and host\<close>
  APUrls :: "(string \<times> string) list"
  LCUrls :: "(string \<times> string) list"
  ACUrls :: "(string \<times> string) list"
  PeerTLSInfo :: TLSInfo
  ClientTLSInfo :: TLSInfo
  UnsafeNoFsync :: bool

record ClientInfo =
  Endpoints :: "string list"
  ci_CertFile :: string
  ci_KeyFile :: string
  ci_TrustedCAFile :: string

datatype startup = Ready | TookTooLong | ServerError error

text \<open>
  The library calls of \<open>Run\<close>: preparing the directory, the environment variable that turns
  fsync off (already parsed), starting the server, the client's TLS configuration, and which of
  the three channels of the final \<open>select\<close> delivers.
\<close>

record etcd_library =
  TouchDirAll :: "string \<Rightarrow> error option"
  DisableFsync :: bool
  StartEtcd :: "etcd_config \<Rightarrow> error option"
  ClientConfig :: "TLSInfo \<Rightarrow> error option"
  Startup :: startup

definition server_dir :: string where
  "server_dir = ''/etc/etcd-server''"

definition secret_tls :: TLSInfo where
  "secret_tls = \<lparr>ServerName = ''localhost'',
     tls_CertFile = path_join (path_join server_dir ''secrets'') ''peer/cert.pem'',
     tls_KeyFile = path_join (path_join server_dir ''secrets'') ''peer/key.pem'',
     tls_TrustedCAFile = path_join (path_join server_dir ''secrets'') ''ca/cert.pem'',
     ClientCertAuth = True\<rparr>"

definition etcd_configuration :: "etcd_library \<Rightarrow> string \<Rightarrow> string \<Rightarrow> etcd_config" where
  "etcd_configuration L peerPort clientPort =
     \<lparr>cfg_Dir = server_dir,
      LPUrls = [(''https'', ''localhost:'' @ peerPort)], APUrls = [(''https'', ''localhost:'' @ peerPort)],
      LCUrls = [(''https'', ''localhost:'' @ clientPort)], ACUrls = [(''https'', ''localhost:'' @ clientPort)],
      PeerTLSInfo = secret_tls, ClientTLSInfo = secret_tls, UnsafeNoFsync = DisableFsync L\<rparr>"

definition etcd_Run ::
  "'k etcd_env \<Rightarrow> etcd_library \<Rightarrow> string \<Rightarrow> string \<Rightarrow> 'k file_system \<Rightarrow>
   (error + ClientInfo) \<times> 'k file_system" where
  "etcd_Run E L peerPort clientPort fs =
     (let cfg = etcd_configuration L peerPort clientPort
      in case TouchDirAll L (cfg_Dir cfg) of
           Some err \<Rightarrow> (Inl err, fs)
         | None \<Rightarrow>
             (case generateClientAndServerCerts E [''localhost''] (path_join (cfg_Dir cfg) ''secrets'')
                     (fs\<lparr>dirs := List.insert (cfg_Dir cfg) (dirs fs)\<rparr>) of
                (Some err, fs') \<Rightarrow> (Inl err, fs')
              | (None, fs') \<Rightarrow>
                  (case StartEtcd L cfg of
                     Some err \<Rightarrow> (Inl err, fs')
                   | None \<Rightarrow>
                       (case ClientConfig L (ClientTLSInfo cfg) of
                          Some err \<Rightarrow> (Inl err, fs')
                        | None \<Rightarrow>
                            (case Startup L of
                               Ready \<Rightarrow> (Inr \<lparr>
                                 Endpoints = [fst (ACUrls cfg ! 0) @ ''://'' @ snd (ACUrls cfg ! 0)],
                                 ci_CertFile = tls_CertFile (ClientTLSInfo cfg),
                                 ci_KeyFile = tls_KeyFile (ClientTLSInfo cfg),
                                 ci_TrustedCAFile = tls_TrustedCAFile (ClientTLSInfo cfg)\<rparr>, fs')
                             | TookTooLong \<Rightarrow> (Inl (Errorf ''server took too long to start''), fs')
                             | ServerError err \<Rightarrow> (Inl err, fs'))))))"

section \<open>What the generation leaves behind\<close>

lemma path_dir_join: "CHR ''/'' \<notin> set f \<Longrightarrow> path_dir (d @ CHR ''/'' # f) = d"
  by (simp add: path_dir_def) (subst dropWhile_append2, auto)

lemma secret_dirs:
  "path_dir (path_join d ''ca/key.pem'') = d @ ''/ca''" "path_dir (path_join d ''ca/cert.pem'') = d @ ''/ca''"
  "path_dir (path_join d ''peer/key.pem'') = d @ ''/peer''" "path_dir (path_join d ''peer/cert.pem'') = d @ ''/peer''"
  "path_dir (path_join d ''client/key.pem'') = d @ ''/client''" "path_dir (path_join d ''client/cert.pem'') = d @ ''/client''"
  using path_dir_join [of "''key.pem''" "d @ ''/ca''"] path_dir_join [of "''cert.pem''" "d @ ''/ca''"]
    path_dir_join [of "''key.pem''" "d @ ''/peer''"] path_dir_join [of "''cert.pem''" "d @ ''/peer''"]
    path_dir_join [of "''key.pem''" "d @ ''/client''"] path_dir_join [of "''cert.pem''" "d @ ''/client''"]
  by (simp_all add: path_join_def)

lemma key_written:
  "ecPrivateKeyToFile E key path fs = (None, fs') \<longleftrightarrow>
     MarshalECPrivateKey E key = None \<and> MkdirAll E (path_dir path) = None \<and> WriteFile E path = None \<and>
     fs' = fs\<lparr>dirs := List.insert (path_dir path) (dirs fs), files := AList.update path (KeyPEM key) (files fs)\<rparr>"
  by (auto simp: ecPrivateKeyToFile_def write_file_def split: option.splits)

lemma cert_written:
  "certToFile E t p pub priv path fs = (None, fs') \<longleftrightarrow>
     CreateCertificate E t = None \<and> path_dir path \<in> set (dirs fs) \<and> WriteFile E path = None \<and>
     fs' = fs\<lparr>files := AList.update path (CertPEM t p pub priv) (files fs)\<rparr>"
  by (auto simp: certToFile_def write_file_def split: option.splits if_splits)

lemma in_sequence_Cons_None:
  "in_sequence (f # fs) s = (None, t) \<longleftrightarrow> (\<exists>u. f s = (None, u) \<and> in_sequence fs u = (None, t))"
  by (auto split: prod.splits option.splits)

lemma generated_files:
  assumes "generateClientAndServerCerts E hosts dir fs = (None, fs')"
  shows "\<exists>n caKey serverKey clientKey. RandInt E = Inr n \<and> GenerateKey E 0 = Inr caKey \<and>
    GenerateKey E 1 = Inr serverKey \<and> GenerateKey E 2 = Inr clientKey \<and>
    map_of (files fs') = (map_of (files fs))
      (path_join dir ''ca/key.pem'' \<mapsto> KeyPEM caKey,
       path_join dir ''ca/cert.pem'' \<mapsto> CertPEM (caTemplate n) (caTemplate n) caKey caKey,
       path_join dir ''peer/key.pem'' \<mapsto> KeyPEM serverKey,
       path_join dir ''peer/cert.pem'' \<mapsto> CertPEM (serverTemplate n hosts) (caTemplate n) serverKey caKey,
       path_join dir ''client/key.pem'' \<mapsto> KeyPEM clientKey,
       path_join dir ''client/cert.pem'' \<mapsto> CertPEM (clientTemplate n) (caTemplate n) clientKey caKey)"
proof -
  from assms obtain n caKey serverKey clientKey where env: "RandInt E = Inr n" "GenerateKey E 0 = Inr caKey"
      "GenerateKey E 1 = Inr serverKey" "GenerateKey E 2 = Inr clientKey"
    by (auto simp: generateClientAndServerCerts_def split: sum.splits)
  with assms show ?thesis
    unfolding generateClientAndServerCerts_def
    by (simp add: in_sequence_Cons_None key_written cert_written del: in_sequence.simps(2))
      (auto simp: comp_def)
qed

lemma etcd_Run_chain:
  assumes run: "etcd_Run E L peerPort clientPort fs = (Inr info, fs')"
  shows "\<exists>ca server caKey serverKey.
    Endpoints info = [''https://localhost:'' @ clientPort] \<and>
    map_of (files fs') (ci_TrustedCAFile info) = Some (CertPEM ca ca caKey caKey) \<and> IsCA ca \<and>
    map_of (files fs') (ci_CertFile info) = Some (CertPEM server ca serverKey caKey) \<and> \<not> IsCA server \<and>
    DNSNames server = [''localhost''] \<and> set (ExtKeyUsage server) = {''ClientAuth'', ''ServerAuth''} \<and>
    SerialNumber server \<noteq> SerialNumber ca \<and>
    map_of (files fs') (ci_KeyFile info) = Some (KeyPEM serverKey)"
proof -
  let ?dir = "path_join server_dir ''secrets''"
  from run obtain fs0 where gen: "generateClientAndServerCerts E [''localhost''] ?dir fs0 = (None, fs')"
      and info: "info = \<lparr>Endpoints = [''https://localhost:'' @ clientPort],
        ci_CertFile = path_join ?dir ''peer/cert.pem'', ci_KeyFile = path_join ?dir ''peer/key.pem'',
        ci_TrustedCAFile = path_join ?dir ''ca/cert.pem''\<rparr>"
    by (auto simp: etcd_Run_def etcd_configuration_def secret_tls_def Let_def
        split: option.splits prod.splits startup.splits)
  from generated_files [OF gen] obtain n caKey serverKey clientKey where fs':
    "map_of (files fs') = (map_of (files fs0))
      (path_join ?dir ''ca/key.pem'' \<mapsto> KeyPEM caKey,
       path_join ?dir ''ca/cert.pem'' \<mapsto> CertPEM (caTemplate n) (caTemplate n) caKey caKey,
       path_join ?dir ''peer/key.pem'' \<mapsto> KeyPEM serverKey,
       path_join ?dir ''peer/cert.pem'' \<mapsto> CertPEM (serverTemplate n [''localhost'']) (caTemplate n) serverKey caKey,
       path_join ?dir ''client/key.pem'' \<mapsto> KeyPEM clientKey,
       path_join ?dir ''client/cert.pem'' \<mapsto> CertPEM (clientTemplate n) (caTemplate n) clientKey caKey)"
    by blast
  show ?thesis
    by (rule exI [of _ "caTemplate n"], rule exI [of _ "serverTemplate n [''localhost'']"],
        rule exI [of _ caKey], rule exI [of _ serverKey])
      (simp add: info fs' path_join_def caTemplate_def serverTemplate_def)
qed

section \<open>Properties\<close>

text \<open>
  C39. A running embedded etcd can be talked to: the files named in the client information exist,
  the trusted certificate is a certificate authority signed with its own key, the certificate is
  for \<^verbatim>\<open>localhost\<close>, for client and server authentication, issued by that authority, its key is in
  the key file, and the endpoint is the client port on \<^verbatim>\<open>localhost\<close>. The client presents the
  server's certificate; the one generated for it is not used.
\<close>

theorem etcd_client_files:
  assumes run: "etcd_Run E L peerPort clientPort fs = (Inr info, fs')"
  shows "\<exists>ca server caKey serverKey.
    Endpoints info = [''https://localhost:'' @ clientPort] \<and>
    map_of (files fs') (ci_TrustedCAFile info) = Some (CertPEM ca ca caKey caKey) \<and> IsCA ca \<and>
    map_of (files fs') (ci_CertFile info) = Some (CertPEM server ca serverKey caKey) \<and> \<not> IsCA server \<and>
    DNSNames server = [''localhost''] \<and> set (ExtKeyUsage server) = {''ClientAuth'', ''ServerAuth''} \<and>
    SerialNumber server \<noteq> SerialNumber ca \<and>
    map_of (files fs') (ci_KeyFile info) = Some (KeyPEM serverKey)"
  using run by (rule etcd_Run_chain)

theorem etcd_client_files_witness:
  "\<exists>info fs' c. etcd_Run \<lparr>RandInt = Inr 42, GenerateKey = (\<lambda>n. Inr n), CreateCertificate = (\<lambda>_. None),
       MarshalECPrivateKey = (\<lambda>_. None), MkdirAll = (\<lambda>_. None), WriteFile = (\<lambda>_. None)\<rparr>
       \<lparr>TouchDirAll = (\<lambda>_. None), DisableFsync = False, StartEtcd = (\<lambda>_. None), ClientConfig = (\<lambda>_. None),
        Startup = Ready\<rparr> ''2380'' ''2379'' \<lparr>dirs = [], files = []\<rparr> = (Inr info, fs') \<and>
     Endpoints info = [''https://localhost:2379''] \<and> map_of (files fs') (ci_CertFile info) = Some c"
proof -
  let ?E = "\<lparr>RandInt = Inr 42, GenerateKey = (\<lambda>n. Inr n), CreateCertificate = (\<lambda>_. None),
       MarshalECPrivateKey = (\<lambda>_. None), MkdirAll = (\<lambda>_. None), WriteFile = (\<lambda>_. None)\<rparr>"
  let ?L = "\<lparr>TouchDirAll = (\<lambda>_. None), DisableFsync = False, StartEtcd = (\<lambda>_. None), ClientConfig = (\<lambda>_. None),
        Startup = Ready\<rparr>"
  have "case etcd_Run ?E ?L ''2380'' ''2379'' \<lparr>dirs = [], files = []\<rparr> of (Inr _, _) \<Rightarrow> True | _ \<Rightarrow> False"
    by code_simp
  then obtain info fs' where run: "etcd_Run ?E ?L ''2380'' ''2379'' \<lparr>dirs = [], files = []\<rparr> = (Inr info, fs')"
    by (auto split: prod.splits sum.splits)
  from etcd_client_files [OF run] run show ?thesis by fastforce
qed

end
