(* ===== verification/ServerChain.thy ===== *)
theory ServerChain
  imports GenericConfig Flags Aggregator EtcdServer
begin

text \<open>
  The chain of API servers, \<^verbatim>\<open>src/server/apiserver/server.go\<close> (\<open>CreateKubeAPIServerConfig\<close>,
  \<open>CreateKubeAPIServer\<close>, \<open>CreateServerChain\<close>, \<open>Run\<close>), \<^verbatim>\<open>apiextensions.go\<close>, \<open>createAggregatorConfig\<close> of
  \<^verbatim>\<open>aggregator.go\<close> and \<^verbatim>\<open>src/cmd/server/main.go\<close>: the server for custom resource definitions answers
  what the Kubernetes server does not, that one what the aggregator does not, and the aggregator
  starts the controllers.

  The configurations of the outer servers are copies of the one \<open>buildGenericConfig\<close> made, with some
  fields replaced. Constructing the Kubernetes server completes its configuration in place, so
  \<open>controlplane_New\<close> has the changed configuration as a result. The constructors of the servers and
  the conversions of key files and certificates are the fields of \<open>chain_env\<close>.
\<close>

section \<open>Configurations\<close>

definition CreateProxyTransport :: "('v Transport \<Rightarrow> 'v Transport) \<Rightarrow> 'v Transport" where
  "CreateProxyTransport SetTransportDefaults =
     SetTransportDefaults \<lparr>DialContext = None, InsecureSkipVerify = True\<rparr>"

text \<open>The effects on the process of configuring the Kubernetes server.\<close>

datatype process_event =
    InitializeCapabilities bool int \<comment> \<open>privileged, bytes per second\<close>
  | ApplyMetrics
  | RegisterMetrics

record ('ip, 'tok, 'v) ExtraConfig =
  ec_APIResourceConfigSource :: 'v
  ec_StorageFactory :: "'v StorageFactory"
  ec_EventTTL :: duration
  EnableLogsSupport :: bool
  ProxyTransport :: "'v Transport"
  KubeletClient :: KubeletClientConfig
  KubeletLookup :: "'v option" \<comment> \<open>the selector whose \<open>Lookup\<close> the kubelet client uses\<close>
  ec_APIServerServiceIP :: "'ip option"
  APIServerServicePort :: int
  ec_EndpointReconcilerType :: string
  MasterCount :: int
  ec_ServiceAccountIssuer :: "'tok option"
  ServiceAccountMaxExpiration :: duration
  ec_ExtendExpiration :: bool
  VersionedInformers :: 'v
  LeaseDurationSeconds :: int
  LeaseRenewIntervalSeconds :: int
  ClientCAInfo :: "'v option"
  RequestHeaderClientInfo :: "'v RequestHeaderInfo option" \<comment> \<open>the five \<open>RequestHeader*\<close> fields\<close>
  AccountConfig :: "'v account_config option"

record ('ip, 'tok, 'v) ControlPlaneConfig =
  KubeGenericConfig :: "'v Config"
  KubeExtraConfig :: "('ip, 'tok, 'v) ExtraConfig"

record 'v ExtensionsConfig =
  ext_GenericConfig :: "'v Config"
  ext_SharedInformerFactory :: 'v
  CRDRESTOptionsGetter :: EtcdOptions
  ext_MasterCount :: int
  AuthResolverWrapper :: "'v Transport \<times> 'v option \<times> client_config option \<times> 'v option"
  ext_ServiceResolver :: "'v ServiceResolver"

record 'v AggregatorConfig =
  agg_GenericConfig :: "'v Config"
  agg_SharedInformerFactory :: 'v
  agg_ServiceResolver :: "'v ServiceResolver"
  agg_ProxyTransport :: "'v Transport"

record ('c, 'ip, 'tok, 'v) chain_env =
  SetTransportDefaults :: "'v Transport \<Rightarrow> 'v Transport"
  AddPostStartHook :: "string \<Rightarrow> 'v \<Rightarrow> (string \<times> 'v) list \<Rightarrow> error + (string \<times> 'v) list"
  PublicKeysFromFile :: "string \<Rightarrow> error + 'v list"
  ExtensionsDefaultResources :: 'v
  AggregatorDefaultResources :: 'v
  StorageVersionHandlerChain :: 'v \<comment> \<open>\<open>BuildHandlerChainWithStorageVersionPrecondition\<close>\<close>
  EmptyDelegate :: 'v \<comment> \<open>with the handler that answers \<open>not found\<close>\<close>
  extensions_New :: "'v ExtensionsConfig \<Rightarrow> 'v \<Rightarrow> error + 'v \<times> 'v" \<comment> \<open>the server and its informers\<close>
  controlplane_New :: "('ip, 'tok, 'v) ControlPlaneConfig \<Rightarrow> 'v \<Rightarrow> (error + 'v) \<times> 'v Config"
  AggregatorLibrary :: "'v AggregatorConfig \<Rightarrow> 'v \<Rightarrow> 'v \<Rightarrow> 'v aggregator_env"
  ListedPaths :: "'v \<Rightarrow> string list"
  ClientCA :: "'c \<Rightarrow> string"
  PrepareRun :: "'v aggregator \<Rightarrow> error + 'v"
  prepared_Run :: "'v \<Rightarrow> error option"

section \<open>The Kubernetes server\<close>

text \<open>
  Lines 176 to 202: the configuration before the certificates are loaded. The service accounts are
  dereferenced without a check.
\<close>

definition extra_config ::
  "('c, 'h, 'ip, 'net, 'tok) ServerRunOptions \<Rightarrow> ServiceAccountAuthenticationOptions \<Rightarrow> 'v Transport \<Rightarrow> 'v built \<Rightarrow>
   ('ip, 'tok, 'v) ExtraConfig" where
  "extra_config s sa proxyTransport b =
     \<lparr>ec_APIResourceConfigSource = sf_APIResourceConfigSource (storageFactory b),
      ec_StorageFactory = storageFactory b, ec_EventTTL = EventTTL s, EnableLogsSupport = True,
      ProxyTransport = proxyTransport, KubeletClient = KubeletConfig s, KubeletLookup = None,
      ec_APIServerServiceIP = APIServerServiceIP s, APIServerServicePort = 443,
      ec_EndpointReconcilerType = EndpointReconcilerType s, MasterCount = 1,
      ec_ServiceAccountIssuer = ServiceAccountIssuer s,
      ServiceAccountMaxExpiration = ServiceAccountTokenMaxExpiration s,
      ec_ExtendExpiration = ExtendExpiration sa, VersionedInformers = versionedInformers b,
      LeaseDurationSeconds = IdentityLeaseDurationSeconds s,
      LeaseRenewIntervalSeconds = IdentityLeaseRenewIntervalSeconds s, ClientCAInfo = None,
      RequestHeaderClientInfo = None, AccountConfig = None\<rparr>"

text \<open>Lines 204 to 220. The methods of the two option structs dereference their receivers.\<close>

definition cluster_authentication ::
  "('c, 'h, 'ip, 'net, 'tok, 'v) build_env \<Rightarrow> ('c, 'h, 'ip, 'net, 'tok) ServerRunOptions \<Rightarrow> ('ip, 'tok, 'v) ExtraConfig \<Rightarrow>
   (error + ('ip, 'tok, 'v) ExtraConfig) outcome" where
  "cluster_authentication B s ec =
     (case ClientCert (Authentication s) of
        None \<Rightarrow> nil_dereference
      | Some clientCert \<Rightarrow>
          bind_call (Return (ClientCAProvider B clientCert)) (\<lambda>clientCA.
            (case RequestHeader (Authentication s) of
               None \<Rightarrow> nil_dereference
             | Some requestHeader \<Rightarrow>
                 bind_call (Return (RequestHeaderConversion B requestHeader)) (\<lambda>requestHeaderConfig.
                   Return (Inr (ec\<lparr>ClientCAInfo := clientCA, RequestHeaderClientInfo := requestHeaderConfig\<rparr>))))))"

text \<open>Lines 226 to 239: with an egress selector, the kubelet and the proxy use its dialers.\<close>

definition use_egress ::
  "('c, 'h, 'ip, 'net, 'tok, 'v) build_env \<Rightarrow> 'v Config \<Rightarrow> 'v Transport \<Rightarrow> ('ip, 'tok, 'v) ExtraConfig \<Rightarrow>
   error + ('ip, 'tok, 'v) ExtraConfig" where
  "use_egress B gc proxyTransport ec =
     (case EgressSelector gc of
        None \<Rightarrow> Inr ec
      | Some selector \<Rightarrow>
          bind_error (Lookup_egress B selector Cluster) (\<lambda>dialer.
            Inr (ec\<lparr>KubeletLookup := Some selector,
                    ProxyTransport := proxyTransport\<lparr>DialContext := Some dialer\<rparr>\<rparr>)))"

definition kube_config_of ::
  "('c, 'h, 'ip, 'net, 'tok, 'v) build_env \<Rightarrow> ('c, 'ip, 'tok, 'v) chain_env \<Rightarrow>
   ('c, 'h, 'ip, 'net, 'tok) ServerRunOptions \<Rightarrow> 'v Transport \<Rightarrow> 'v built \<Rightarrow>
   (error + ('ip, 'tok, 'v) ControlPlaneConfig \<times> 'v ServiceResolver \<times> 'v list) outcome" where
  "kube_config_of B C s proxyTransport b =
     (case ServiceAccounts (Authentication s) of
        None \<Rightarrow> nil_dereference
      | Some sa \<Rightarrow>
          bind_call (cluster_authentication B s (extra_config s sa proxyTransport b)) (\<lambda>ec1.
          bind_call (Return (AddPostStartHook C ''start-kube-apiserver-admission-initializer''
              (admissionPostStartHook b) (PostStartHooks (genericConfig b)))) (\<lambda>startHooks.
          (let gc = (genericConfig b)\<lparr>PostStartHooks := startHooks\<rparr>
           in bind_call (Return (use_egress B gc proxyTransport ec1)) (\<lambda>ec2.
              bind_call (service_account_config (PublicKeysFromFile C) s) (\<lambda>account.
              Return (Inr
                (\<lparr>KubeGenericConfig = gc, KubeExtraConfig = ec2\<lparr>AccountConfig := Some account\<rparr>\<rparr>,
                 serviceResolver b, pluginInitializers b))))))))"

definition CreateKubeAPIServerConfig ::
  "('c, 'h, 'ip, 'net, 'tok, 'v) build_env \<Rightarrow> ('c, 'ip, 'tok, 'v) chain_env \<Rightarrow>
   ('c, 'h, 'ip, 'net, 'tok) ServerRunOptions \<Rightarrow>
   process_event list \<times> (error + ('ip, 'tok, 'v) ControlPlaneConfig \<times> 'v ServiceResolver \<times> 'v list) outcome" where
  "CreateKubeAPIServerConfig B C s =
     (let proxyTransport = CreateProxyTransport (SetTransportDefaults C)
      in case buildGenericConfig B s proxyTransport of
           Panic p \<Rightarrow> ([], Panic p)
         | Return (Inl err) \<Rightarrow> ([], Return (Inl err))
         | Return (Inr b) \<Rightarrow>
             ([InitializeCapabilities (AllowPrivileged s) (MaxConnectionBytesPerSec s), ApplyMetrics, RegisterMetrics],
              kube_config_of B C s proxyTransport b))"

definition CreateKubeAPIServer ::
  "('c, 'ip, 'tok, 'v) chain_env \<Rightarrow> ('ip, 'tok, 'v) ControlPlaneConfig \<Rightarrow> 'v \<Rightarrow>
   error + 'v \<times> ('ip, 'tok, 'v) ControlPlaneConfig" where
  "CreateKubeAPIServer C kubeAPIServerConfig delegateAPIServer =
     (case controlplane_New C kubeAPIServerConfig delegateAPIServer of
        (Inl err, gc) \<Rightarrow> Inl err
      | (Inr server, gc) \<Rightarrow> Inr (server, kubeAPIServerConfig\<lparr>KubeGenericConfig := gc\<rparr>))"

section \<open>The servers for definitions and for aggregation\<close>

text \<open>The copy of the etcd options that a server of the chain stores its own resources with.\<close>

definition copy_etcd_options ::
  "('c, 'h, 'ip, 'net, 'tok, 'v) build_env \<Rightarrow> ('c, 'h, 'ip, 'net, 'tok) ServerRunOptions \<Rightarrow> scheme \<Rightarrow> string list \<Rightarrow> string \<Rightarrow>
   EtcdOptions" where
  "copy_etcd_options B s codecs decodable encoded =
     \<lparr>eo_EnableWatchCache = EnableWatchCache s, eo_WatchCacheSizes = WatchCacheSizes s,
      eo_Transport = EtcdTransport s, eo_DefaultStorageMediaType = DefaultStorageMediaType s,
      Paging = FeatureEnabled B APIListChunking, Codec = (codecs, decodable), EncodeVersioner = (codecs, encoded)\<rparr>"

definition createAPIExtensionsConfig ::
  "('c, 'h, 'ip, 'net, 'tok, 'v) build_env \<Rightarrow> ('c, 'ip, 'tok, 'v) chain_env \<Rightarrow> 'v Config \<Rightarrow> 'v \<Rightarrow> 'v list \<Rightarrow>
   ('c, 'h, 'ip, 'net, 'tok) ServerRunOptions \<Rightarrow> int \<Rightarrow> 'v ServiceResolver \<Rightarrow>
   'v Transport \<times> 'v option \<times> client_config option \<times> 'v option \<Rightarrow> error + 'v ExtensionsConfig" where
  "createAPIExtensionsConfig B C kubeAPIServerConfig externalInformers initializers commandOptions masterCount
       resolver authResolverWrapper =
     (let gc = kubeAPIServerConfig\<lparr>PostStartHooks := [], RESTOptionsGetter := None\<rparr>
      in bind_error (apply_admission B commandOptions externalInformers initializers gc) (\<lambda>gc1.
         (let etcdOptions = copy_etcd_options B commandOptions ExtensionsScheme [''v1beta1'', ''v1''] ''v1beta1'';
              gc2 = gc1\<lparr>RESTOptionsGetter := Some (SimpleRestOptionsFactory etcdOptions)\<rparr>
          in bind_error (APIEnablement_ApplyTo B (RuntimeConfig commandOptions) (ExtensionsDefaultResources C) ExtensionsScheme)
               (\<lambda>resources.
             Inr \<lparr>ext_GenericConfig = gc2\<lparr>MergedResourceConfig := resources, PostStartHooks := []\<rparr>,
                  ext_SharedInformerFactory = externalInformers, CRDRESTOptionsGetter = etcdOptions,
                  ext_MasterCount = masterCount, AuthResolverWrapper = authResolverWrapper,
                  ext_ServiceResolver = resolver\<rparr>))))"

definition createAggregatorConfig ::
  "('c, 'h, 'ip, 'net, 'tok, 'v) build_env \<Rightarrow> ('c, 'ip, 'tok, 'v) chain_env \<Rightarrow> 'v Config \<Rightarrow>
   ('c, 'h, 'ip, 'net, 'tok) ServerRunOptions \<Rightarrow> 'v \<Rightarrow> 'v ServiceResolver \<Rightarrow> 'v Transport \<Rightarrow> 'v list \<Rightarrow>
   error + 'v AggregatorConfig" where
  "createAggregatorConfig B C kubeAPIServerConfig commandOptions externalInformers resolver proxyTransport initializers =
     (let gc = kubeAPIServerConfig\<lparr>PostStartHooks := [], RESTOptionsGetter := None, SkipOpenAPIInstallation := True\<rparr>;
          gc1 = (if FeatureEnabled B StorageVersionAPI \<and> FeatureEnabled B APIServerIdentity
                 then gc\<lparr>BuildHandlerChainFunc := Some (StorageVersionHandlerChain C)\<rparr> else gc)
      in bind_error (apply_admission B commandOptions externalInformers initializers gc1) (\<lambda>gc2.
         (let etcdOptions = copy_etcd_options B commandOptions AggregatorScheme [''v1'', ''v1beta1''] ''v1'';
              gc3 = gc2\<lparr>RESTOptionsGetter := Some (SimpleRestOptionsFactory etcdOptions)\<rparr>
          in bind_error (APIEnablement_ApplyTo B (RuntimeConfig commandOptions) (AggregatorDefaultResources C) AggregatorScheme)
               (\<lambda>resources.
             Inr \<lparr>agg_GenericConfig = gc3\<lparr>MergedResourceConfig := resources, PostStartHooks := []\<rparr>,
                  agg_SharedInformerFactory = externalInformers, agg_ServiceResolver = resolver,
                  agg_ProxyTransport = proxyTransport\<rparr>))))"

definition createAPIExtensionsServer ::
  "('c, 'ip, 'tok, 'v) chain_env \<Rightarrow> 'v ExtensionsConfig \<Rightarrow> 'v \<Rightarrow> error + 'v \<times> 'v" where
  "createAPIExtensionsServer C apiextensionsConfig delegateAPIServer =
     extensions_New C apiextensionsConfig delegateAPIServer"

section \<open>The chain\<close>

text \<open>
  The three servers after the first is configured. The client certificate authority is read
  through the pointer to the client certificate options.
\<close>

definition chain_of ::
  "('c, 'h, 'ip, 'net, 'tok, 'v) build_env \<Rightarrow> ('c, 'ip, 'tok, 'v) chain_env \<Rightarrow>
   ('c, 'h, 'ip, 'net, 'tok) ServerRunOptions \<Rightarrow> ('ip, 'tok, 'v) ControlPlaneConfig \<Rightarrow> 'v ServiceResolver \<Rightarrow> 'v list \<Rightarrow>
   (error + 'v aggregator) outcome" where
  "chain_of B C s kube resolver initializers =
     (let gc = KubeGenericConfig kube; ec = KubeExtraConfig kube
      in bind_call (Return (createAPIExtensionsConfig B C gc (VersionedInformers ec) initializers s 1 resolver
             (ProxyTransport ec, EgressSelector gc, LoopbackClientConfig gc, TracerProvider gc))) (\<lambda>apiExtensionsConfig.
         bind_call (Return (createAPIExtensionsServer C apiExtensionsConfig (EmptyDelegate C)))
           (\<lambda>(apiExtensionsServer, informers).
         bind_call (Return (CreateKubeAPIServer C kube apiExtensionsServer)) (\<lambda>(kubeAPIServer, kube').
         bind_call (Return (createAggregatorConfig B C (KubeGenericConfig kube') s
             (VersionedInformers ec) resolver (ProxyTransport ec) initializers)) (\<lambda>aggregatorConfig.
         (case ClientCert (Authentication s) of
            None \<Rightarrow> nil_dereference
          | Some clientCert \<Rightarrow>
              createAggregatorServer (AggregatorLibrary C aggregatorConfig kubeAPIServer informers)
                (ListedPaths C kubeAPIServer) (ClientCA C clientCert) (ClientKeyFile s)))))))"

definition CreateServerChain ::
  "('c, 'h, 'ip, 'net, 'tok, 'v) build_env \<Rightarrow> ('c, 'ip, 'tok, 'v) chain_env \<Rightarrow>
   ('c, 'h, 'ip, 'net, 'tok) ServerRunOptions \<Rightarrow> process_event list \<times> (error + 'v aggregator) outcome" where
  "CreateServerChain B C s =
     (case CreateKubeAPIServerConfig B C s of
        (events, r) \<Rightarrow>
          (events, bind_call r (\<lambda>(kube, resolver, initializers). chain_of B C s kube resolver initializers)))"

section \<open>Running the server\<close>

definition transport_of :: "ClientInfo \<Rightarrow> etcd_transport" where
  "transport_of info = \<lparr>ServerList = Endpoints info, KeyFile = ci_KeyFile info, CertFile = ci_CertFile info,
     TrustedCAFile = ci_TrustedCAFile info\<rparr>"

definition start_etcd ::
  "'k etcd_env \<Rightarrow> etcd_library \<Rightarrow> 'k file_system \<Rightarrow> string \<Rightarrow> string \<Rightarrow> error + etcd_transport" where
  "start_etcd Etcd_E Etcd_L fs peerPort clientPort =
     map_sum id transport_of (fst (etcd_Run Etcd_E Etcd_L peerPort clientPort fs))"

text \<open>
  \<open>Run\<close>: the embedded etcd on the file system \<open>fs\<close>, the serving certificate, the chain, and the
  prepared server, which blocks until the context is done.
\<close>

definition server_Run ::
  "('ip, 'net, 'key, 'tok, 'r) complete_env \<Rightarrow> 'ip \<Rightarrow> ('c, 'h, 'ip, 'net, 'tok, 'v) build_env \<Rightarrow>
   ('c, 'ip, 'tok, 'v) chain_env \<Rightarrow> 'k etcd_env \<Rightarrow> etcd_library \<Rightarrow> 'k file_system \<Rightarrow>
   ('c, 'h, 'ip, 'net, 'tok) ServerRunOptions \<Rightarrow> process_event list \<times> error option outcome" where
  "server_Run E localhost B C Etcd_E Etcd_L fs c =
     (case run_embedded_etcd (start_etcd Etcd_E Etcd_L fs) c of
        Inl err \<Rightarrow> ([], Return (Some err))
      | Inr c1 \<Rightarrow>
          (case MaybeDefaultWithSelfSignedCerts E ''localhost'' [] [localhost] (ServerCertKeyFile c1) of
             Inl err \<Rightarrow> ([], Return (Some (Errorf ''error creating self-signed certificates: %v'')))
           | Inr keyFile \<Rightarrow>
               (case CreateServerChain B C (c1\<lparr>ServerCertKeyFile := keyFile\<rparr>) of
                  (events, Panic p) \<Rightarrow> (events, Panic p)
                | (events, Return (Inl err)) \<Rightarrow> (events, Return (Some err))
                | (events, Return (Inr server)) \<Rightarrow>
                    (events, Return
                       (case PrepareRun C server of
                          Inl err \<Rightarrow> Some err
                        | Inr prepared \<Rightarrow> prepared_Run C prepared)))))"

text \<open>
  \<open>main\<close>: the flags are defined on the default options and the command line is parsed (\<open>parse\<close> gets
  the names defined and the options); the options are completed and run, without being validated.
  \<open>klog.Fatal\<close> ends the process with the error.
\<close>

datatype process_end = Fatal error | Finished

definition server_main ::
  "authzmodes \<Rightarrow> ('c, 'h, 'ip) option_defaults \<Rightarrow> ('c, 'h, 'ip, 'net, 'tok) library_flags \<Rightarrow>
   (string list \<Rightarrow> ('c, 'h, 'ip, 'net, 'tok) ServerRunOptions \<Rightarrow> ('c, 'h, 'ip, 'net, 'tok) ServerRunOptions outcome) \<Rightarrow>
   ('ip, 'net, 'key, 'tok, 'r) complete_env \<Rightarrow> (('r \<times> int) list \<Rightarrow> ('r \<times> int) list) \<Rightarrow>
   ((string \<times> string) list \<Rightarrow> (string \<times> string) list) \<Rightarrow>
   (('c, 'h, 'ip, 'net, 'tok) ServerRunOptions \<Rightarrow> process_event list \<times> error option outcome) \<Rightarrow>
   process_event list \<times> process_end outcome" where
  "server_main Z D L parse E order_sizes order_config run =
     (let s = NewServerRunOptions Z D
      in case bind_outcome (server_AddFlags L s) (\<lambda>flags. parse (flag_names flags) (flag_defaults flags s)) of
           Panic p \<Rightarrow> ([], Panic p)
         | Return s' \<Rightarrow>
             (case Complete Z E order_sizes order_config s' of
                Panic p \<Rightarrow> ([], Panic p)
              | Return (Inl err) \<Rightarrow> ([], Return (Fatal err))
              | Return (Inr completedOptions) \<Rightarrow>
                  (case run completedOptions of
                     (events, r) \<Rightarrow>
                       (events, bind_outcome r (\<lambda>err. Return (case err of Some e \<Rightarrow> Fatal e | None \<Rightarrow> Finished))))))"

section \<open>Taking the chain apart\<close>

lemma kube_config_of_Inr:
  assumes "kube_config_of B C s t b = Return (Inr (kube, resolver, initializers))"
  shows "resolver = serviceResolver b \<and> initializers = pluginInitializers b \<and>
    (\<exists>startHooks. AddPostStartHook C ''start-kube-apiserver-admission-initializer'' (admissionPostStartHook b)
        (PostStartHooks (genericConfig b)) = Inr startHooks \<and>
      KubeGenericConfig kube = (genericConfig b)\<lparr>PostStartHooks := startHooks\<rparr>) \<and>
    (\<exists>account. service_account_config (PublicKeysFromFile C) s = Return (Inr account) \<and>
      AccountConfig (KubeExtraConfig kube) = Some account)"
  using assms by (auto simp: kube_config_of_def bind_call_Inr_iff Let_def split: option.splits)

lemma CreateKubeAPIServerConfig_Inr:
  assumes "CreateKubeAPIServerConfig B C s = (events, Return (Inr (kube, resolver, initializers)))"
  obtains b where "buildGenericConfig B s (CreateProxyTransport (SetTransportDefaults C)) = Return (Inr b)"
    and "kube_config_of B C s (CreateProxyTransport (SetTransportDefaults C)) b = Return (Inr (kube, resolver, initializers))"
    and "events = [InitializeCapabilities (AllowPrivileged s) (MaxConnectionBytesPerSec s), ApplyMetrics, RegisterMetrics]"
  using assms by (auto simp: CreateKubeAPIServerConfig_def Let_def split: outcome.splits sum.splits)

text \<open>
  A configuration that is derived from another for a server further out: it has no hooks of its
  own to run twice, talks to the server and authenticates and authorizes like the other, and stores
  in the same etcd, in a version its codec decodes.
\<close>

definition derived_config ::
  "('c, 'h, 'ip, 'net, 'tok) ServerRunOptions \<Rightarrow> 'v Config \<Rightarrow> 'v Config \<Rightarrow> bool" where
  "derived_config s gc gc' \<longleftrightarrow>
     PostStartHooks gc' = [] \<and> DisabledPostStartHooks gc' = DisabledPostStartHooks gc \<and>
     LoopbackClientConfig gc' = LoopbackClientConfig gc \<and> SecureServingInfo gc' = SecureServingInfo gc \<and>
     cfg_Authenticator gc' = cfg_Authenticator gc \<and> cfg_Audiences gc' = cfg_Audiences gc \<and>
     Authorizer gc' = Authorizer gc \<and> FlowControl gc' = FlowControl gc \<and>
     (\<exists>etcd. RESTOptionsGetter gc' = Some (SimpleRestOptionsFactory etcd) \<and>
        eo_Transport etcd = EtcdTransport s \<and> eo_WatchCacheSizes etcd = WatchCacheSizes s \<and>
        fst (EncodeVersioner etcd) = fst (Codec etcd) \<and> snd (EncodeVersioner etcd) \<in> set (snd (Codec etcd)))"

lemma apply_admission_keeps:
  assumes "apply_admission B s informers initializers gc = Inr gc'"
  shows "\<exists>control. gc' = gc\<lparr>AdmissionControl := control\<rparr>"
  using assms by (elim apply_admission_Inr) blast

lemma createAPIExtensionsConfig_derived:
  assumes "createAPIExtensionsConfig B C gc informers initializers s n resolver wrapper = Inr ext"
  shows "derived_config s gc (ext_GenericConfig ext)"
  using assms
  by (auto simp: createAPIExtensionsConfig_def Let_def bind_error_Inr_iff derived_config_def copy_etcd_options_def
      dest!: apply_admission_keeps)

lemma createAggregatorConfig_derived:
  assumes "createAggregatorConfig B C gc s informers resolver t initializers = Inr agg"
  shows "derived_config s gc (agg_GenericConfig agg) \<and> SkipOpenAPIInstallation (agg_GenericConfig agg)"
  using assms
  by (auto simp: createAggregatorConfig_def Let_def bind_error_Inr_iff derived_config_def copy_etcd_options_def
      dest!: apply_admission_keeps)

lemma chain_of_Inr:
  assumes "chain_of B C s kube resolver initializers = Return (Inr a)"
  obtains ext extServer informers kubeServer gc' agg clientCert where
    "derived_config s (KubeGenericConfig kube) (ext_GenericConfig ext)"
    and "extensions_New C ext (EmptyDelegate C) = Inr (extServer, informers)"
    and "controlplane_New C kube extServer = (Inr kubeServer, gc')"
    and "derived_config s gc' (agg_GenericConfig agg)" and "SkipOpenAPIInstallation (agg_GenericConfig agg)"
    and "ClientCert (Authentication s) = Some clientCert"
    and "createAggregatorServer (AggregatorLibrary C agg kubeServer informers) (ListedPaths C kubeServer)
      (ClientCA C clientCert) (ClientKeyFile s) = Return (Inr a)"
  using assms
  by (force simp: chain_of_def bind_call_Inr_iff Let_def createAPIExtensionsServer_def CreateKubeAPIServer_def
      split: option.splits prod.splits sum.splits
      dest!: createAPIExtensionsConfig_derived createAggregatorConfig_derived)

lemma CreateServerChain_Inr:
  assumes "CreateServerChain B C s = (events, Return (Inr a))"
  obtains kube resolver initializers where
    "CreateKubeAPIServerConfig B C s = (events, Return (Inr (kube, resolver, initializers)))"
    and "chain_of B C s kube resolver initializers = Return (Inr a)"
  using assms by (auto simp: CreateServerChain_def bind_call_Inr_iff split: prod.splits)

text \<open>A server that stops regularly had its chain created on the options the embedded etcd left.\<close>

lemma server_Run_finished:
  assumes "server_Run E localhost B C Etcd_E Etcd_L fs c = (events, Return None)"
  obtains c1 keyFile a where "run_embedded_etcd (start_etcd Etcd_E Etcd_L fs) c = Inr c1"
    and "CreateServerChain B C (c1\<lparr>ServerCertKeyFile := keyFile\<rparr>) = (events, Return (Inr a))"
proof -
  have "server_Run E localhost B C Etcd_E Etcd_L fs c = (events, Return None) \<Longrightarrow>
    \<exists>c1 keyFile a. run_embedded_etcd (start_etcd Etcd_E Etcd_L fs) c = Inr c1 \<and>
      CreateServerChain B C (c1\<lparr>ServerCertKeyFile := keyFile\<rparr>) = (events, Return (Inr a))"
    by (simp add: server_Run_def split: sum.splits outcome.splits prod.splits) blast
  with assms that show ?thesis by blast
qed

text \<open>
  A run with effects on the process got as far as a generic configuration: the etcd was started and
  the certificates found before.
\<close>

lemma server_Run_configured:
  assumes "server_Run E localhost B C Etcd_E Etcd_L fs c = (events, r)" and "events \<noteq> []"
  obtains c1 keyFile chain where "run_embedded_etcd (start_etcd Etcd_E Etcd_L fs) c = Inr c1"
    and "CreateServerChain B C (c1\<lparr>ServerCertKeyFile := keyFile\<rparr>) = (events, chain)"
proof -
  from assms obtain c1 where c1: "run_embedded_etcd (start_etcd Etcd_E Etcd_L fs) c = Inr c1"
    by (auto simp: server_Run_def split: sum.splits)
  with assms obtain keyFile where
    "MaybeDefaultWithSelfSignedCerts E ''localhost'' [] [localhost] (ServerCertKeyFile c1) = Inr keyFile"
    by (auto simp: server_Run_def split: sum.splits)
  with assms(1) c1 have "fst (CreateServerChain B C (c1\<lparr>ServerCertKeyFile := keyFile\<rparr>)) = events"
    by (auto simp: server_Run_def split: outcome.splits sum.splits prod.splits)
  with c1 that show ?thesis by (metis prod.collapse)
qed

lemma CreateServerChain_events:
  assumes "CreateServerChain B C s = (events, chain)" and "events \<noteq> []"
  shows "\<exists>b. buildGenericConfig B s (CreateProxyTransport (SetTransportDefaults C)) = Return (Inr b)"
  using assms
  by (auto simp: CreateServerChain_def CreateKubeAPIServerConfig_def Let_def
      split: outcome.splits sum.splits prod.splits)

text \<open>What the servers of a chain store with: the Kubernetes server with the factory's getter.\<close>

lemma chain_storage:
  assumes "CreateServerChain B C s = (events, Return (Inr a))"
    and b: "buildGenericConfig B s (CreateProxyTransport (SetTransportDefaults C)) = Return (Inr b)"
  shows "\<exists>kube ext extServer informers kubeServer gc' agg ca key etcd1 etcd2.
    RESTOptionsGetter (KubeGenericConfig kube) = RESTOptionsGetter (genericConfig b) \<and>
    extensions_New C ext (EmptyDelegate C) = Inr (extServer, informers) \<and>
    RESTOptionsGetter (ext_GenericConfig ext) = Some (SimpleRestOptionsFactory etcd1) \<and>
    eo_Transport etcd1 = EtcdTransport s \<and>
    controlplane_New C kube extServer = (Inr kubeServer, gc') \<and>
    createAggregatorServer (AggregatorLibrary C agg kubeServer informers) (ListedPaths C kubeServer) ca key = Return (Inr a) \<and>
    RESTOptionsGetter (agg_GenericConfig agg) = Some (SimpleRestOptionsFactory etcd2) \<and>
    eo_Transport etcd2 = EtcdTransport s"
proof -
  from assms(1) obtain kube resolver initializers where
    "CreateKubeAPIServerConfig B C s = (events, Return (Inr (kube, resolver, initializers)))"
    and chain: "chain_of B C s kube resolver initializers = Return (Inr a)"
    by (rule CreateServerChain_Inr)
  then have "kube_config_of B C s (CreateProxyTransport (SetTransportDefaults C)) b = Return (Inr (kube, resolver, initializers))"
    using b by (elim CreateKubeAPIServerConfig_Inr) simp
  from kube_config_of_Inr [OF this] have "RESTOptionsGetter (KubeGenericConfig kube) = RESTOptionsGetter (genericConfig b)"
    by auto
  moreover from chain obtain ext extServer informers kubeServer gc' agg clientCert where
    "derived_config s (KubeGenericConfig kube) (ext_GenericConfig ext)"
    and "extensions_New C ext (EmptyDelegate C) = Inr (extServer, informers)"
    and "controlplane_New C kube extServer = (Inr kubeServer, gc')"
    and "derived_config s gc' (agg_GenericConfig agg)"
    and "createAggregatorServer (AggregatorLibrary C agg kubeServer informers) (ListedPaths C kubeServer)
      (ClientCA C clientCert) (ClientKeyFile s) = Return (Inr a)"
    by (rule chain_of_Inr)
  moreover from this(1,4) obtain etcd1 etcd2 where
    "RESTOptionsGetter (ext_GenericConfig ext) = Some (SimpleRestOptionsFactory etcd1)"
    and "RESTOptionsGetter (agg_GenericConfig agg) = Some (SimpleRestOptionsFactory etcd2)"
    and "eo_Transport etcd1 = EtcdTransport s" and "eo_Transport etcd2 = EtcdTransport s"
    by (auto simp: derived_config_def)
  ultimately show ?thesis by blast
qed

lemma map_of_key: "map_of m k = Some v \<Longrightarrow> k \<in> fst ` set m"
  by (force dest: map_of_SomeD)

lemma run_embedded_etcd_Inr:
  assumes "run_embedded_etcd f c = Inr c1"
  shows "c1 = c \<or> (\<exists>t. c1 = c\<lparr>EtcdTransport := t\<rparr>)"
  using assms by (auto simp: run_embedded_etcd_def split: option.splits if_splits sum.splits)

section \<open>Where the chain can panic\<close>

lemma cluster_authentication_returns:
  assumes "ClientCert (Authentication s) \<noteq> None" and "RequestHeader (Authentication s) \<noteq> None"
  shows "returns (cluster_authentication B s ec)"
  using assms by (auto simp: cluster_authentication_def intro!: bind_call_returns)

lemma kube_config_of_returns:
  assumes "ClientCert (Authentication s) \<noteq> None" and "RequestHeader (Authentication s) \<noteq> None"
    and "returns (service_account_config (PublicKeysFromFile C) s)" and "ServiceAccounts (Authentication s) \<noteq> None"
  shows "returns (kube_config_of B C s t b)"
  using assms
  by (auto simp: kube_config_of_def Let_def intro!: bind_call_returns cluster_authentication_returns)

lemma chain_of_returns:
  assumes "ClientCert (Authentication s) \<noteq> None"
  shows "returns (chain_of B C s kube resolver initializers)"
  using assms
  by (auto simp: chain_of_def Let_def intro!: bind_call_returns createAggregatorServer_hooks [THEN conjunct1]
      split: prod.splits)

lemma CreateKubeAPIServerConfig_returns:
  assumes "returns (buildGenericConfig B s (CreateProxyTransport (SetTransportDefaults C)))"
    and "\<And>b. returns (kube_config_of B C s (CreateProxyTransport (SetTransportDefaults C)) b)"
  shows "returns (snd (CreateKubeAPIServerConfig B C s))"
  using assms by (auto simp: CreateKubeAPIServerConfig_def Let_def split: outcome.splits sum.splits)

lemma CreateServerChain_returns:
  assumes "returns (snd (CreateKubeAPIServerConfig B C s))" and "ClientCert (Authentication s) \<noteq> None"
  shows "returns (snd (CreateServerChain B C s))"
  using assms
  by (auto simp: CreateServerChain_def split: prod.splits intro!: bind_call_returns chain_of_returns)

section \<open>Sample libraries\<close>

definition sample_chain :: "(unit, string, string, string) chain_env" where
  "sample_chain = \<lparr>SetTransportDefaults = id,
     AddPostStartHook = (\<lambda>name hook started. if name \<in> set (map fst started) then Inl (Errorf ''registered twice'')
       else Inr (started @ [(name, hook)])),
     PublicKeysFromFile = (\<lambda>f. Inr [f]), ExtensionsDefaultResources = ''extensions'',
     AggregatorDefaultResources = ''aggregator'', StorageVersionHandlerChain = ''handler chain'',
     EmptyDelegate = ''not found'', extensions_New = (\<lambda>_ d. Inr (''extensions, '' @ d, ''informers'')),
     controlplane_New = (\<lambda>kube d. (Inr (''kube-apiserver, '' @ d), KubeGenericConfig kube)),
     AggregatorLibrary = (\<lambda>_ _ _. \<lparr>NewWithDelegate = None, RegistrationClient = None, AddHook = (\<lambda>_. None),
       AddBootCheck = None, NewDynamic = Inr ''dynamic client''\<rparr>),
     ListedPaths = (\<lambda>_. [''/api/v1'']), ClientCA = (\<lambda>_. ''client-ca.crt''),
     PrepareRun = (\<lambda>_. Inr ''prepared''), prepared_Run = (\<lambda>_. None)\<rparr>"

text \<open>Options that are valid: a signing key, an issuer and a key file are given.\<close>

definition sample_accounts :: ServiceAccountAuthenticationOptions where
  "sample_accounts = \<lparr>KeyFiles = [''sa.pub''], Lookup = True, Issuers = [''https://hub.example''], JWKSURI = [],
     MaxExpiration = 0, ExtendExpiration = True\<rparr>"

definition sample_options :: "(unit, unit, string, string, string) ServerRunOptions" where
  "sample_options = default_options\<lparr>
     Authentication := (Authentication default_options)\<lparr>ServiceAccounts := Some sample_accounts\<rparr>,
     ServiceAccountSigningKeyFile := ''sa.key'', ServiceAccountIssuer := Some ''token generator'',
     ClientKeyFile := ''client-ca.key''\<rparr>"

lemma sample_chain_created:
  "\<exists>events a. CreateServerChain sample_build sample_chain sample_options = (events, Return (Inr a))"
proof -
  have "case snd (CreateServerChain sample_build sample_chain sample_options) of Return (Inr a) \<Rightarrow> True | _ \<Rightarrow> False"
    by code_simp
  then obtain a where "snd (CreateServerChain sample_build sample_chain sample_options) = Return (Inr a)"
    by (simp split: outcome.splits sum.splits)
  then show ?thesis by (metis prod.collapse)
qed

section \<open>Properties\<close>

text \<open>
  C27. The servers of a chain that is created fit together. The hook that starts the admission
  plugins is added to the configuration of the Kubernetes server only; the configurations of the
  server for definitions and of the aggregator are derived from it (no hooks of their own, same
  client, same authentication and authorization, same etcd); each server delegates to the one
  before; and the aggregator's four hooks are in order, the kube controllers signing with the
  client certificate authority and the client key file of the options.
\<close>

theorem chain_configurations:
  assumes "CreateServerChain B C s = (events, Return (Inr a))"
  shows "\<exists>b kube startHooks ext extServer informers kubeServer gc' agg clientCert.
    buildGenericConfig B s (CreateProxyTransport (SetTransportDefaults C)) = Return (Inr b) \<and>
    AddPostStartHook C ''start-kube-apiserver-admission-initializer'' (admissionPostStartHook b)
      (PostStartHooks (genericConfig b)) = Inr startHooks \<and>
    KubeGenericConfig kube = (genericConfig b)\<lparr>PostStartHooks := startHooks\<rparr> \<and>
    derived_config s (KubeGenericConfig kube) (ext_GenericConfig ext) \<and>
    extensions_New C ext (EmptyDelegate C) = Inr (extServer, informers) \<and>
    controlplane_New C kube extServer = (Inr kubeServer, gc') \<and>
    derived_config s gc' (agg_GenericConfig agg) \<and> SkipOpenAPIInstallation (agg_GenericConfig agg) \<and>
    ClientCert (Authentication s) = Some clientCert \<and>
    hooks a = [Autoregistration (snd (apiServicesToRegister (ListedPaths C kubeServer))),
      KubeController (ClientCA C clientCert) (ClientKeyFile s),
      GlobalHubCRDs (nil_on_error (NewDynamic (AggregatorLibrary C agg kubeServer informers))),
      GlobalHubControllers (nil_on_error (NewDynamic (AggregatorLibrary C agg kubeServer informers)))]"
proof -
  from assms obtain kube resolver initializers where
    "CreateKubeAPIServerConfig B C s = (events, Return (Inr (kube, resolver, initializers)))"
    and chain: "chain_of B C s kube resolver initializers = Return (Inr a)"
    by (rule CreateServerChain_Inr)
  then obtain b where b: "buildGenericConfig B s (CreateProxyTransport (SetTransportDefaults C)) = Return (Inr b)"
    and "kube_config_of B C s (CreateProxyTransport (SetTransportDefaults C)) b = Return (Inr (kube, resolver, initializers))"
    by (elim CreateKubeAPIServerConfig_Inr)
  from kube_config_of_Inr [OF this(2)] obtain startHooks where
    "AddPostStartHook C ''start-kube-apiserver-admission-initializer'' (admissionPostStartHook b)
      (PostStartHooks (genericConfig b)) = Inr startHooks"
    and "KubeGenericConfig kube = (genericConfig b)\<lparr>PostStartHooks := startHooks\<rparr>" by blast
  moreover from chain obtain ext extServer informers kubeServer gc' agg clientCert where
    "derived_config s (KubeGenericConfig kube) (ext_GenericConfig ext)"
    and "extensions_New C ext (EmptyDelegate C) = Inr (extServer, informers)"
    and "controlplane_New C kube extServer = (Inr kubeServer, gc')"
    and "derived_config s gc' (agg_GenericConfig agg)" and "SkipOpenAPIInstallation (agg_GenericConfig agg)"
    and "ClientCert (Authentication s) = Some clientCert"
    and "createAggregatorServer (AggregatorLibrary C agg kubeServer informers) (ListedPaths C kubeServer)
      (ClientCA C clientCert) (ClientKeyFile s) = Return (Inr a)"
    by (rule chain_of_Inr)
  moreover from this(7) have "hooks a = [Autoregistration (snd (apiServicesToRegister (ListedPaths C kubeServer))),
      KubeController (ClientCA C clientCert) (ClientKeyFile s),
      GlobalHubCRDs (nil_on_error (NewDynamic (AggregatorLibrary C agg kubeServer informers))),
      GlobalHubControllers (nil_on_error (NewDynamic (AggregatorLibrary C agg kubeServer informers)))]"
    using createAggregatorServer_hooks by blast
  ultimately show ?thesis using b by blast
qed

theorem chain_configurations_witness:
  "\<exists>events a. CreateServerChain sample_build sample_chain sample_options = (events, Return (Inr a)) \<and>
     KubeController ''client-ca.crt'' ''client-ca.key'' \<in> set (hooks a)"
proof -
  obtain events a where a: "CreateServerChain sample_build sample_chain sample_options = (events, Return (Inr a))"
    using sample_chain_created by blast
  have ca: "ClientCA sample_chain cc = ''client-ca.crt''" for cc by (simp add: sample_chain_def)
  have key: "ClientKeyFile sample_options = ''client-ca.key''" by (simp add: sample_options_def)
  from chain_configurations [OF a, unfolded ca key] a show ?thesis
    by (elim exE conjE) (intro exI [of _ events] exI [of _ a], simp)
qed

text \<open>
  C28. Options that the validation accepts do not bring the process down while the servers are
  created, provided the parts the code dereferences are present, as they are in the defaults, and
  the serving options yield a client for the server itself: the chain or an error is returned,
  whatever the libraries answer.
\<close>

theorem validated_chain_returns:
  assumes "ServerRunOptions_Validate Z F s = Return []"
    and "ServiceAccounts (Authentication s) \<noteq> None" and "ClientCert (Authentication s) \<noteq> None"
    and "RequestHeader (Authentication s) \<noteq> None" and "Authorization s \<noteq> None"
    and "\<forall>info. SecureServing_ApplyTo B s (SecureServingInfo (NewConfig B)) (LoopbackClientConfig (NewConfig B))
      \<noteq> Inr (info, None)"
  shows "returns (snd (CreateServerChain B C s))"
proof -
  from assms(1,2) have "returns (service_account_config (PublicKeysFromFile C) s)"
    using validated_returns by blast
  with assms have "returns (snd (CreateKubeAPIServerConfig B C s))"
    by (intro CreateKubeAPIServerConfig_returns buildGenericConfig_returns kube_config_of_returns)
  then show ?thesis using assms(3) by (rule CreateServerChain_returns)
qed

theorem validated_chain_returns_witness:
  "returns (snd (CreateServerChain sample_build sample_chain sample_options))"
proof (rule validated_chain_returns [where Z = sample_modes and F = "\<lparr>fe_Etcd = [], fe_SecureServing = [],
      fe_Audit = [], fe_Admission = [], fe_APIEnablement = [], fe_Metrics = []\<rparr>"])
  have "case ServerRunOptions_Validate sample_modes \<lparr>fe_Etcd = [], fe_SecureServing = [],
      fe_Audit = [], fe_Admission = [], fe_APIEnablement = [], fe_Metrics = []\<rparr> sample_options of
      Return [] \<Rightarrow> True | _ \<Rightarrow> False" by code_simp
  then show "ServerRunOptions_Validate sample_modes \<lparr>fe_Etcd = [], fe_SecureServing = [],
      fe_Audit = [], fe_Admission = [], fe_APIEnablement = [], fe_Metrics = []\<rparr> sample_options = Return []"
    by (simp split: outcome.splits list.splits)
  show "\<forall>info. SecureServing_ApplyTo sample_build sample_options (SecureServingInfo (NewConfig sample_build))
      (LoopbackClientConfig (NewConfig sample_build)) \<noteq> Inr (info, None)"
    by (simp add: sample_build_def sample_options_def default_option_defs NewSecureServingOptions_def)
qed (simp_all add: sample_options_def default_option_defs)

text \<open>
  C29. Nothing is served from a command line that names no service account issuer: \<open>main\<close> defines the
  flags, does not validate the options, completes them, and then ends with an error or a panic,
  never by a regular stop of the server, whatever the other flags and the libraries are.
\<close>

theorem main_without_issuer_fails:
  assumes "keep_defaults L" and "\<forall>names s s'. parse names s = Return s' \<longrightarrow> issuers_of s' = issuers_of s"
  shows "snd (server_main Z D L parse E order_sizes order_config (server_Run E localhost B C Etcd_E Etcd_L fs)) \<noteq> Return Finished"
proof
  let ?s = "NewServerRunOptions Z D"
  assume "snd (server_main Z D L parse E order_sizes order_config (server_Run E localhost B C Etcd_E Etcd_L fs)) = Return Finished"
  then obtain flags s' c events where flags: "server_AddFlags L ?s = Return flags"
    and "parse (flag_names flags) (flag_defaults flags ?s) = Return s'"
    and c: "Complete Z E order_sizes order_config s' = Return (Inr c)"
    and run: "server_Run E localhost B C Etcd_E Etcd_L fs c = (events, Return None)"
    by (auto simp: server_main_def Let_def bind_outcome_Return_iff split: outcome.splits sum.splits prod.splits option.splits)
  with assms(2) default_flags_applied [OF flags assms(1) refl] have s': "issuers_of s' = Some []"
    by (simp add: issuers_of_def) (simp add: NewServerRunOptions_def with_all_defs)
  from run obtain c1 keyFile a where c1: "run_embedded_etcd (start_etcd Etcd_E Etcd_L fs) c = Inr c1"
    and chain: "CreateServerChain B C (c1\<lparr>ServerCertKeyFile := keyFile\<rparr>) = (events, Return (Inr a))"
    by (rule server_Run_finished)
  let ?c = "c1\<lparr>ServerCertKeyFile := keyFile\<rparr>"
  from run_embedded_etcd_Inr [OF c1] have "issuers_of ?c = issuers_of c" by (auto simp: issuers_of_def)
  with Complete_issuers [OF c] s' have none: "issuers_of ?c = Some []" by simp
  from chain obtain account where "service_account_config (PublicKeysFromFile C) ?c = Return (Inr account)"
    by (elim CreateServerChain_Inr CreateKubeAPIServerConfig_Inr) (blast dest: kube_config_of_Inr)
  with none show False by (auto simp: service_account_config_def issuers_of_def split: option.splits sum.splits)
qed

theorem main_without_issuer_fails_witness:
  "snd (server_main sample_modes sample_defaults
     \<lparr>SecureServing_flags = [], Etcd_flags = [], Admission_flags = [], Universal_flags = [], ClientCert_flags = [],
      RequestHeader_flags = []\<rparr> (\<lambda>_ s. Return s) sample_env id id
     (server_Run sample_env ''127.0.0.1'' sample_build sample_chain
       (\<lparr>RandInt = Inr 42, GenerateKey = (\<lambda>n. Inr n), CreateCertificate = (\<lambda>_. None),
         MarshalECPrivateKey = (\<lambda>_. None), MkdirAll = (\<lambda>_. None), WriteFile = (\<lambda>_. None)\<rparr> :: nat etcd_env)
       \<lparr>TouchDirAll = (\<lambda>_. None), DisableFsync = False, StartEtcd = (\<lambda>_. None), ClientConfig = (\<lambda>_. None), Startup = Ready\<rparr>
       \<lparr>dirs = [], files = []\<rparr>)) \<noteq> Return Finished"
  by (rule main_without_issuer_fails) (simp_all add: keep_defaults_def)

text \<open>
  C30. With the embedded etcd enabled, whatever the server stores, it stores there. As soon as the
  server was configured (the first effects on the process show it), however the run ended: the
  etcd had been started on the ports of the options; the options the servers are made from differ
  from the given ones in the etcd's transport (its endpoint on the client port, and the key,
  certificate and authority files it had written) and the serving certificate; the storage factory
  and the REST options of the generic configuration are made from these options. If the chain was
  created, the Kubernetes server stores through those REST options, and the servers for
  definitions and for aggregation have copies of the etcd options with that transport.
\<close>

theorem embedded_etcd_backs_servers:
  assumes run: "server_Run E localhost B C Etcd_E Etcd_L fs s = (events, r)" and configured: "events \<noteq> []"
    and enabled: "Embedded s = Some e" "Enabled e"
  shows "\<exists>info fs' t keyFile s' chain b resources completed sf getter.
    etcd_Run Etcd_E Etcd_L (PeerPort e) (ClientPort e) fs = (Inr info, fs') \<and>
    {ci_CertFile info, ci_KeyFile info, ci_TrustedCAFile info} \<subseteq> fst ` set (files fs') \<and>
    t = \<lparr>ServerList = [''https://localhost:'' @ ClientPort e], KeyFile = ci_KeyFile info,
      CertFile = ci_CertFile info, TrustedCAFile = ci_TrustedCAFile info\<rparr> \<and>
    s' = s\<lparr>EtcdTransport := t, ServerCertKeyFile := keyFile\<rparr> \<and> CreateServerChain B C s' = (events, chain) \<and>
    buildGenericConfig B s' (CreateProxyTransport (SetTransportDefaults C)) = Return (Inr b) \<and>
    storage_Complete B resources s' = Inr completed \<and> storage_New B completed = Inr sf \<and>
    sf_APIResourceConfigSource (storageFactory b) = sf_APIResourceConfigSource sf \<and>
    ApplyWithStorageFactoryTo B s' (storageFactory b) = Inr getter \<and>
    RESTOptionsGetter (genericConfig b) = Some (StorageFactoryRestOptions getter) \<and>
    (\<forall>a. chain = Return (Inr a) \<longrightarrow> (\<exists>kube ext extServer informers kubeServer gc' agg ca key etcd1 etcd2.
      RESTOptionsGetter (KubeGenericConfig kube) = Some (StorageFactoryRestOptions getter) \<and>
      extensions_New C ext (EmptyDelegate C) = Inr (extServer, informers) \<and>
      RESTOptionsGetter (ext_GenericConfig ext) = Some (SimpleRestOptionsFactory etcd1) \<and> eo_Transport etcd1 = t \<and>
      controlplane_New C kube extServer = (Inr kubeServer, gc') \<and>
      createAggregatorServer (AggregatorLibrary C agg kubeServer informers) (ListedPaths C kubeServer) ca key = Return (Inr a) \<and>
      RESTOptionsGetter (agg_GenericConfig agg) = Some (SimpleRestOptionsFactory etcd2) \<and> eo_Transport etcd2 = t))"
proof -
  from run configured obtain c1 keyFile chain where etcd_ran: "run_embedded_etcd (start_etcd Etcd_E Etcd_L fs) s = Inr c1"
    and chain: "CreateServerChain B C (c1\<lparr>ServerCertKeyFile := keyFile\<rparr>) = (events, chain)"
    by (rule server_Run_configured)
  from etcd_ran obtain info where "fst (etcd_Run Etcd_E Etcd_L (PeerPort e) (ClientPort e) fs) = Inr info"
    and c1: "c1 = s\<lparr>EtcdTransport := transport_of info\<rparr>"
    using enabled by (auto simp: run_embedded_etcd_def start_etcd_def map_sum_def split: sum.splits)
  then obtain fs' where etcd: "etcd_Run Etcd_E Etcd_L (PeerPort e) (ClientPort e) fs = (Inr info, fs')"
    by (cases "etcd_Run Etcd_E Etcd_L (PeerPort e) (ClientPort e) fs") simp
  have endpoints: "Endpoints info = [''https://localhost:'' @ ClientPort e]"
    and files: "{ci_CertFile info, ci_KeyFile info, ci_TrustedCAFile info} \<subseteq> fst ` set (files fs')"
    using etcd_Run_chain [OF etcd] by (auto dest: map_of_key)
  define s' where "s' = s\<lparr>EtcdTransport := transport_of info, ServerCertKeyFile := keyFile\<rparr>"
  have chain: "CreateServerChain B C s' = (events, chain)" using chain by (simp add: s'_def c1)
  have t: "EtcdTransport s' = transport_of info" by (simp add: s'_def)
  obtain b where b: "buildGenericConfig B s' (CreateProxyTransport (SetTransportDefaults C)) = Return (Inr b)"
    using CreateServerChain_events [OF chain configured] ..
  from buildGenericConfig_storage [OF b] obtain resources completed sf getter where
    storage: "storage_Complete B resources s' = Inr completed" "storage_New B completed = Inr sf"
      "sf_APIResourceConfigSource (storageFactory b) = sf_APIResourceConfigSource sf"
      "ApplyWithStorageFactoryTo B s' (storageFactory b) = Inr getter"
    and getter: "RESTOptionsGetter (genericConfig b) = Some (StorageFactoryRestOptions getter)"
    by blast
  have t_explicit: "transport_of info = \<lparr>ServerList = [''https://localhost:'' @ ClientPort e], KeyFile = ci_KeyFile info,
      CertFile = ci_CertFile info, TrustedCAFile = ci_TrustedCAFile info\<rparr>"
    by (simp add: transport_of_def endpoints)
  note servers = chain_storage [OF _ b, unfolded t getter]
  have created: "\<forall>a. chain = Return (Inr a) \<longrightarrow> (\<exists>kube ext extServer informers kubeServer gc' agg ca key etcd1 etcd2.
      RESTOptionsGetter (KubeGenericConfig kube) = Some (StorageFactoryRestOptions getter) \<and>
      extensions_New C ext (EmptyDelegate C) = Inr (extServer, informers) \<and>
      RESTOptionsGetter (ext_GenericConfig ext) = Some (SimpleRestOptionsFactory etcd1) \<and> eo_Transport etcd1 = transport_of info \<and>
      controlplane_New C kube extServer = (Inr kubeServer, gc') \<and>
      createAggregatorServer (AggregatorLibrary C agg kubeServer informers) (ListedPaths C kubeServer) ca key = Return (Inr a) \<and>
      RESTOptionsGetter (agg_GenericConfig agg) = Some (SimpleRestOptionsFactory etcd2) \<and> eo_Transport etcd2 = transport_of info)"
    using chain servers by simp
  show ?thesis
    by (intro exI [of _ info] exI [of _ fs'] exI [of _ "transport_of info"] exI [of _ keyFile] exI [of _ s']
        exI [of _ chain] exI [of _ b] exI [of _ resources] exI [of _ completed] exI [of _ sf] exI [of _ getter] conjI)
      (fact etcd files t_explicit s'_def chain b storage getter created)+
qed

definition sample_embedded :: "(unit, unit, string, string, string) ServerRunOptions" where
  "sample_embedded = sample_options\<lparr>Embedded := Some (NewEmbeddedEtcd\<lparr>Enabled := True\<rparr>)\<rparr>"

lemma sample_embedded_chain:
  "\<exists>a. snd (CreateServerChain sample_build sample_chain
      (sample_embedded\<lparr>EtcdTransport := t, ServerCertKeyFile := keyFile\<rparr>)) = Return (Inr a)"
proof -
  have "case snd (CreateServerChain sample_build sample_chain
      (sample_embedded\<lparr>EtcdTransport := t, ServerCertKeyFile := keyFile\<rparr>)) of Return (Inr a) \<Rightarrow> True | _ \<Rightarrow> False"
    by code_simp
  then show ?thesis by (simp split: outcome.splits sum.splits)
qed

theorem embedded_etcd_backs_servers_witness:
  "\<exists>kube ext d e gc getter etcd. RESTOptionsGetter (KubeGenericConfig kube) = Some (StorageFactoryRestOptions getter) \<and>
     extensions_New sample_chain ext (EmptyDelegate sample_chain) = Inr d \<and>
     controlplane_New sample_chain kube (fst d) = (Inr e, gc) \<and>
     RESTOptionsGetter (ext_GenericConfig ext) = Some (SimpleRestOptionsFactory etcd) \<and>
     ServerList (eo_Transport etcd) = [''https://localhost:2379'']"
proof -
  let ?E = "\<lparr>RandInt = Inr 42, GenerateKey = (\<lambda>n. Inr n), CreateCertificate = (\<lambda>_. None),
         MarshalECPrivateKey = (\<lambda>_. None), MkdirAll = (\<lambda>_. None), WriteFile = (\<lambda>_. None)\<rparr> :: nat etcd_env"
  let ?L = "\<lparr>TouchDirAll = (\<lambda>_. None), DisableFsync = False, StartEtcd = (\<lambda>_. None), ClientConfig = (\<lambda>_. None), Startup = Ready\<rparr>"
  let ?run = "server_Run sample_env ''127.0.0.1'' sample_build sample_chain ?E ?L \<lparr>dirs = [], files = []\<rparr> sample_embedded"
  obtain events r where run: "?run = (events, r)" by (cases ?run)
  have "fst ?run \<noteq> []" by code_simp
  with run have "events \<noteq> []" and "Embedded sample_embedded = Some (NewEmbeddedEtcd\<lparr>Enabled := True\<rparr>)"
    and "Enabled (NewEmbeddedEtcd\<lparr>Enabled := True\<rparr>)"
    by (simp_all only: fst_conv not_False_eq_True) (simp_all add: sample_embedded_def)
  from embedded_etcd_backs_servers [OF run this] obtain info :: ClientInfo and t keyFile s' chain getter where
    t: "t = \<lparr>ServerList = [''https://localhost:'' @ ClientPort (NewEmbeddedEtcd\<lparr>Enabled := True\<rparr>)],
      KeyFile = ci_KeyFile info, CertFile = ci_CertFile info, TrustedCAFile = ci_TrustedCAFile info\<rparr>"
    and s': "s' = sample_embedded\<lparr>EtcdTransport := t, ServerCertKeyFile := keyFile\<rparr>"
    and chain: "CreateServerChain sample_build sample_chain s' = (events, chain)"
    and servers: "\<forall>a. chain = Return (Inr a) \<longrightarrow> (\<exists>kube ext extServer informers kubeServer gc' agg ca key etcd1 etcd2.
      RESTOptionsGetter (KubeGenericConfig kube) = Some (StorageFactoryRestOptions getter) \<and>
      extensions_New sample_chain ext (EmptyDelegate sample_chain) = Inr (extServer, informers) \<and>
      RESTOptionsGetter (ext_GenericConfig ext) = Some (SimpleRestOptionsFactory etcd1) \<and> eo_Transport etcd1 = t \<and>
      controlplane_New sample_chain kube extServer = (Inr kubeServer, gc') \<and>
      createAggregatorServer (AggregatorLibrary sample_chain agg kubeServer informers) (ListedPaths sample_chain kubeServer)
        ca key = Return (Inr a) \<and>
      RESTOptionsGetter (agg_GenericConfig agg) = Some (SimpleRestOptionsFactory etcd2) \<and> eo_Transport etcd2 = t)"
    by (elim exE conjE) (rule that, assumption+)
  obtain a where a: "chain = Return (Inr a)"
    using sample_embedded_chain [of keyFile t] unfolding s' [symmetric] chain snd_conv ..
  have port: "ClientPort (NewEmbeddedEtcd\<lparr>Enabled := True\<rparr>) = ''2379''" by (simp add: NewEmbeddedEtcd_def)
  have "ServerList t = [''https://localhost:2379'']" unfolding t port by simp
  with servers [rule_format, OF a] show ?thesis by (elim exE conjE) force
qed

end
