(* ===== verification/Spec2Isabelle.thy ===== *)
theory Spec2Isabelle
  imports SyncSystem SyncerCommand DeepCopy ReportSystem GenericController KubeControllers ServerChain
begin

text \<open>
  A verification development for the multicluster global hub (\<^verbatim>\<open>hohapiserver\<close>), a Kubernetes API
  server that holds policies for a fleet of hubs, and its syncer, which runs next to every leaf
  hub. The syncer copies policies, placement rules and placement bindings from the global hub to
  the leaf hub and reports status back; controllers in the server label what is to be copied and
  aggregate the reports.

  \<^bold>\<open>The parts and where they are modelled.\<close>

  \<^item> \<open>Prelude\<close>, \<open>GoStrings\<close>, \<open>GoUrl\<close>: Go's conventions (errors as values, panics as \<open>outcome\<close>, maps as
    association lists) and what is used of \<open>strings\<close>, \<open>strconv\<close> and \<^verbatim>\<open>net/url\<close>.
  \<^item> \<open>Unstructured\<close>, \<open>ApiClient\<close>, \<open>Workqueue\<close>: the foreign interfaces. The accessors of
    unstructured objects, the dynamic client and the rate-limiting queue are records of
    functions that the model takes as arguments. Their documented behaviour is stated in the
    locales \<open>unstructured_accessors\<close>, \<open>semantic_equality\<close> and \<open>work_queue\<close>, each interpreted on
    an executable implementation (\<open>json_ops\<close>, \<open>list_queue_ops\<close>; \<open>mem_client\<close> is an in-memory
    server that records requests and injects faults). \<open>Workqueue\<close> also holds the worker loop both
    kinds of controllers share. \<open>VersionedServer\<close> states what the API server does with status
    updates while other clients write (the locale \<open>versioned_server\<close>, over the history of every
    object) and interprets it on a server whose other clients follow a script.
  \<^item> \<open>SyncerTypes\<close>, \<open>SpecSyncer\<close>, \<open>HubControlPlane\<close>, \<open>StatusSyncer\<close>, \<open>Syncer\<close>, \<open>SyncerCommand\<close>:
    \<^verbatim>\<open>src/syncer\<close>, \<^verbatim>\<open>src/apis\<close> and \<^verbatim>\<open>src/cmd/syncer\<close>. The record \<open>Controller\<close> is the struct of that name,
    its informer factory what it was made from; a handler, a round of a worker
    (\<open>processNextWorkItem\<close>) and \<open>process\<close> are functions on the queue and the world. \<open>SyncSystem\<close> makes
    a concurrent system of them, with the deletions an informer missed (tombstones) and the end of
    the process by a panic. \<open>DeepCopy\<close> has the generated copy functions
    of the API types on an explicit heap, where a slice is a window of an array.
  \<^item> \<open>ComplianceSummary\<close>, \<open>PolicyController\<close>, \<open>GenericController\<close>:
    \<^verbatim>\<open>src/server/controllers/globalhubcontroller\<close>. Reconcilers return the object as they leave it in
    the informer's cache, because they write through the cached pointer. \<open>ReportSystem\<close> splits the
    update of a policy into its calls to the server and interleaves any number of them with failing
    calls, lost answers and other clients; when the library's retry gives up is an argument.
  \<^item> \<open>Aggregator\<close>, \<open>AuthOptions\<close>, \<open>ApiDefaults\<close>, \<open>ServerConfig\<close>, \<open>Flags\<close>, \<open>EtcdServer\<close>:
    \<^verbatim>\<open>src/server/apiserver\<close> and \<^verbatim>\<open>src/server/etcd\<close>: API service registration and the health check, the
    options with their defaults, flags, validation and completion, the tables of enabled APIs and
    admission plugins, and the embedded etcd.
  \<^item> \<open>GenericConfig\<close>, \<open>ServerChain\<close>: how \<open>buildGenericConfig\<close> makes a configuration of the options
    (one definition per stage, in the order of the code), the configurations derived from it for
    the servers of \<^verbatim>\<open>apiextensions.go\<close> and \<^verbatim>\<open>aggregator.go\<close>, the chain of the three servers, \<open>Run\<close>, and
    \<open>main\<close> of \<^verbatim>\<open>src/cmd/server\<close>. The methods of the API server libraries are fields of the records
    \<open>build_env\<close> and \<open>chain_env\<close>; a method \<open>ApplyTo\<close> has what it writes as its result.
  \<^item> \<open>KubeControllerOptions\<close>, \<open>KubeControllers\<close>: \<^verbatim>\<open>src/server/controllers/kubecontroller\<close>, the
    options and the start of the Kubernetes controllers that run in the server. A start function
    returns the goroutines it launches; the constructors of the controllers are arguments.

  \<^bold>\<open>What is shown.\<close>

  \<^item> Spec synchronisation: no update of an eligible object is lost under any interleaving, but for
    missed deletions, whose tombstones end the process, and an idle syncer has synchronised
    everything it saw (\<open>SyncSystem\<close>, by rule induction over
    \<open>sync_step\<close>); what exactly is enqueued, applied, deleted and retried (\<open>Syncer\<close>, \<open>SpecSyncer\<close>).
  \<^item> Status: the content of a status update, the report on managed clusters, and the errors that
    are dropped (\<open>StatusSyncer\<close>).
  \<^item> Aggregation: the merge of reports refines the update of a table, its incremental totals are
    the sums of the counts in 32-bit arithmetic, and a successful reconcile adds exactly one merge
    of a report to the history of the stored policy, whatever other clients write in between and
    however many conflicts that causes (\<open>ComplianceSummary\<close>, \<open>PolicyController\<close>, in the locale
    \<open>policy_server\<close>). With several reporters at once, in any interleaving, no accepted report is
    lost and every reconcile ends after boundedly many calls if the library gives up at some point
    (\<open>ReportSystem\<close>, by rule induction over \<open>report_step\<close>).
  \<^item> Copies of API objects are equal to and separate from their originals (\<open>DeepCopy\<close>; the locale
    \<open>metadata_copy\<close> is the contract of the metadata's copy functions).
  \<^item> The generic controller: labelling, the fact that a failed reconcile is never retried and what
    follows for labels, and the installation of the definitions (\<open>GenericController\<close>; the locales
    \<open>label_controller\<close> and \<open>informer_store\<close> are the contracts of reconcilers and of the cache).
  \<^item> The server: registration and health of API services, exact characterisations of the option
    validation, the interplay of authorization mode and anonymous requests, round trips of the
    watch cache sizes, the certificates of the embedded etcd, which APIs and admission plugins are
    on by default, and that no flag is defined twice.
  \<^item> The start of the server: what holds of a configuration that is built, how the three servers of
    the chain depend on each other, that validated options never panic, that unvalidated ones may
    (\<open>main\<close> does not validate), and that an enabled embedded etcd is the storage of all three servers.
  \<^item> The Kubernetes controllers: which of them run, with which signing files and health checks,
    independently of the order in which Go visits the map of initializers.

  Where the code does not do what it means to (a nil dereference, a dropped error, an endless
  retry), the theorem says what it does.

  \<^bold>\<open>Fuel and iteration order.\<close> The worker loops run as long as items come, so \<open>startWorker\<close> and
  \<open>gc_startWorker\<close> take fuel. One unit is one round; \<open>worker_empties_queue\<close> and
  \<open>generic_worker_empties_queue\<close> show that one unit more than there are pending keys is enough to
  drain a queue, and \<open>status_deletions_retried_forever\<close> that no amount is enough in that case. All
  other recursion is structural; \<open>retry_steps 4\<close> and \<open>default_again\<close> are the five attempts of the
  library's default, used in witnesses only. Where Go ranges over a map, the order is the order of the
  association list or an explicit argument.

  \<^bold>\<open>What is not modelled.\<close> Logging and metrics; the parsing of the command line, which belongs to the
  flag library; time (resync periods, back-off); the shutdown of queues beyond the verdict of \<open>Get\<close>
  and the cancelling of contexts; the scheme registration in \<^verbatim>\<open>groupversion_info.go\<close> and the imports for
  side effects, which have no logic; the controllers and servers of Kubernetes themselves, which the
  models take as arguments.

  \<^bold>\<open>Plan.\<close> Next are an interleaving model of the status syncer, as there is one of the spec syncer, and
  the cancelling of contexts with the shutdown of the queues.
\<close>

end
